(* ===== verification/Prelude.thy ===== *)
theory Prelude
  imports Complex_Main "HOL-Library.Multiset"
begin

text \<open>
  The JavaScript runtime semantics that the analysis code relies on, written as plain HOL
  functions, and the generic lemmas on lists and numbers that the component theories share.
  \<^item> \<open>jsnum\<close>: a JavaScript number as an exact rational or \<open>NaN\<close>. Binary floating point
    is abstracted to exact rational arithmetic; infinities never arise on the paths modelled
    (every division in the code is guarded by a non-zero test).
  \<^item> \<open>to_fixed2\<close>: \<open>Number(x.toFixed(2))\<close> (ECMAScript Number.prototype.toFixed: round to
    the nearer multiple of 1/100, ties to the larger magnitude, values of magnitude at
    least \<open>10^21\<close> returned unchanged).
  \<^item> \<open>js_unique\<close>: \<open>[...new Set(xs)]\<close>, the first occurrences in order.
  \<^item> \<open>js_parseInt\<close>: \<open>parseInt(s, 10)\<close>, \<open>None\<close> for \<open>NaN\<close>.
  \<^item> \<open>js_sort\<close>: \<open>Array.prototype.sort\<close> with a comparator, stable (ECMAScript 2019), a
    comparator result of \<open>NaN\<close> read as \<open>+0\<close>.
  \<^item> \<open>js_max\<close>, \<open>js_min\<close>: \<open>Math.max(...xs)\<close>, \<open>Math.min(...xs)\<close> on non-empty arrays.
  \<^item> \<open>js_join\<close>: \<open>xs.join(sep)\<close>.
  \<^item> \<open>js_entries\<close>: the order of \<open>Object.entries\<close> on a plain object held as an association
    list in insertion order: array-index keys first, ascending, then the others.
\<close>

named_theorems gpa_simps "characteristic equations of the grade computations"

section \<open>Numbers\<close>

datatype jsnum = Num rat | NaN

fun js_add :: "jsnum \<Rightarrow> jsnum \<Rightarrow> jsnum" where
  "js_add (Num a) (Num b) = Num (a + b)"
| "js_add _ _ = NaN"

fun js_sub :: "jsnum \<Rightarrow> jsnum \<Rightarrow> jsnum" where
  "js_sub (Num a) (Num b) = Num (a - b)"
| "js_sub _ _ = NaN"

fun js_mul :: "jsnum \<Rightarrow> jsnum \<Rightarrow> jsnum" where
  "js_mul (Num a) (Num b) = Num (a * b)"
| "js_mul _ _ = NaN"

text \<open>Relational operators: every comparison with \<open>NaN\<close> is false.\<close>

fun js_gt :: "jsnum \<Rightarrow> jsnum \<Rightarrow> bool" where
  "js_gt (Num a) (Num b) = (b < a)"
| "js_gt _ _ = False"

fun js_ge :: "jsnum \<Rightarrow> jsnum \<Rightarrow> bool" where
  "js_ge (Num a) (Num b) = (b \<le> a)"
| "js_ge _ _ = False"

fun js_lt :: "jsnum \<Rightarrow> jsnum \<Rightarrow> bool" where
  "js_lt (Num a) (Num b) = (a < b)"
| "js_lt _ _ = False"

fun is_num :: "jsnum \<Rightarrow> bool" where
  "is_num (Num _) = True"
| "is_num NaN = False"

fun num_val :: "jsnum \<Rightarrow> rat" where
  "num_val (Num a) = a"
| "num_val NaN = 0"

text \<open>\<open>x || 0\<close> on a number: \<open>NaN\<close> and \<open>0\<close> are falsy and give \<open>0\<close>.\<close>

fun js_or0 :: "jsnum \<Rightarrow> jsnum" where
  "js_or0 (Num a) = Num a"
| "js_or0 NaN = Num 0"

section \<open>Rounding: \<open>Number(x.toFixed(2))\<close>\<close>

definition round2 :: "rat \<Rightarrow> rat" where
  "round2 x = of_int \<lfloor>x * 100 + 1 / 2\<rfloor> / 100"

definition to_fixed2 :: "rat \<Rightarrow> rat" where
  "to_fixed2 x =
     (if x < 0 then (if 10 ^ 21 \<le> - x then x else - round2 (- x))
      else if 10 ^ 21 \<le> x then x else round2 x)"

text \<open>\<open>formatTo2Decimals\<close> applied to a number value; \<open>NaN.toFixed(2)\<close> is \<open>"NaN"\<close>.\<close>

fun js_fixed2 :: "jsnum \<Rightarrow> jsnum" where
  "js_fixed2 (Num a) = Num (to_fixed2 a)"
| "js_fixed2 NaN = NaN"

section \<open>Arrays\<close>

text \<open>\<open>[...new Set(xs)]\<close>: the set keeps insertion order and ignores repeats.\<close>

fun js_unique_acc :: "'a list \<Rightarrow> 'a list \<Rightarrow> 'a list" where
  "js_unique_acc seen [] = rev seen"
| "js_unique_acc seen (x # xs) =
     (if x \<in> set seen then js_unique_acc seen xs else js_unique_acc (x # seen) xs)"

definition js_unique :: "'a list \<Rightarrow> 'a list" where
  "js_unique xs = js_unique_acc [] xs"

text \<open>
  \<open>Array.prototype.sort(cmp)\<close>: a stable sort in which \<open>x\<close> precedes \<open>y\<close> when
  \<open>cmp(x, y) \<le> 0\<close> and \<open>x\<close> came first. For a consistent comparator every stable sort
  gives this result; for an inconsistent one (a \<open>NaN\<close> key) ECMAScript leaves the order
  implementation-defined and the model fixes this one.
\<close>

fun cmp_le0 :: "jsnum \<Rightarrow> bool" where
  "cmp_le0 (Num v) = (v \<le> 0)"
| "cmp_le0 NaN = True"

fun js_insert :: "('a \<Rightarrow> 'a \<Rightarrow> jsnum) \<Rightarrow> 'a \<Rightarrow> 'a list \<Rightarrow> 'a list" where
  "js_insert cmp x [] = [x]"
| "js_insert cmp x (y # ys) =
     (if cmp_le0 (cmp x y) then x # y # ys else y # js_insert cmp x ys)"

fun js_sort :: "('a \<Rightarrow> 'a \<Rightarrow> jsnum) \<Rightarrow> 'a list \<Rightarrow> 'a list" where
  "js_sort cmp [] = []"
| "js_sort cmp (x # xs) = js_insert cmp x (js_sort cmp xs)"

text \<open>\<open>Math.max(...xs)\<close> and \<open>Math.min(...xs)\<close>: \<open>NaN\<close> if any argument is \<open>NaN\<close>.\<close>

definition js_max :: "jsnum list \<Rightarrow> jsnum" where
  "js_max xs = (if list_all is_num xs then Num (Max (set (map num_val xs))) else NaN)"

definition js_min :: "jsnum list \<Rightarrow> jsnum" where
  "js_min xs = (if list_all is_num xs then Num (Min (set (map num_val xs))) else NaN)"

fun js_sum :: "jsnum list \<Rightarrow> jsnum" where
  "js_sum [] = Num 0"
| "js_sum (x # xs) = js_add x (js_sum xs)"

fun js_join :: "string \<Rightarrow> string list \<Rightarrow> string" where
  "js_join sep [] = []"
| "js_join sep [x] = x"
| "js_join sep (x # y # zs) = x @ sep @ js_join sep (y # zs)"

section \<open>Strings: \<open>parseInt(s, 10)\<close>\<close>

definition js_space :: "char \<Rightarrow> bool" where
  "js_space c \<longleftrightarrow> c \<in> {CHR '' '', CHR 0x09, CHR 0x0A, CHR 0x0B, CHR 0x0C, CHR 0x0D}"

definition js_digit :: "char \<Rightarrow> bool" where
  "js_digit c \<longleftrightarrow> (48::nat) \<le> of_char c \<and> of_char c \<le> (57::nat)"

definition digit_val :: "char \<Rightarrow> nat" where
  "digit_val c = of_char c - (48::nat)"

definition digits_val :: "char list \<Rightarrow> nat" where
  "digits_val ds = foldl (\<lambda>n d. 10 * n + digit_val d) 0 ds"

definition parse_unsigned :: "char list \<Rightarrow> nat option" where
  "parse_unsigned s =
     (let ds = takeWhile js_digit s in if ds = [] then None else Some (digits_val ds))"

definition js_parseInt :: "string \<Rightarrow> int option" where
  "js_parseInt s =
     (case dropWhile js_space s of
        c # rest \<Rightarrow>
          (if c = CHR ''-'' then map_option (\<lambda>n. - int n) (parse_unsigned rest)
           else if c = CHR ''+'' then map_option int (parse_unsigned rest)
           else map_option int (parse_unsigned (c # rest)))
      | [] \<Rightarrow> None)"

text \<open>
  \<open>String(n)\<close> for an integer \<open>n\<close> (Number::toString, radix 10), which is also what a
  number-typed input shows as its value: the decimal digits, most significant first, with
  a leading minus sign for a negative value.
\<close>

definition digit_char :: "nat \<Rightarrow> char" where
  "digit_char d = char_of (48 + d)"

fun nat_str :: "nat \<Rightarrow> string" where
  "nat_str n = (if n < 10 then [digit_char n] else nat_str (n div 10) @ [digit_char (n mod 10)])"

definition int_str :: "int \<Rightarrow> string" where
  "int_str i = (if i < 0 then CHR ''-'' # nat_str (nat (- i)) else nat_str (nat i))"

text \<open>
  \<open>x.toFixed(f)\<close> as a string (ECMAScript Number.prototype.toFixed): the sign, then the
  integer \<open>n\<close> nearest to \<open>|x| * 10^f\<close> (ties to the larger \<open>n\<close>) printed with at least
  \<open>f + 1\<close> digits and a point before the last \<open>f\<close>. \<open>NaN\<close> prints as \<open>"NaN"\<close>. Magnitudes of
  \<open>10^21\<close> and more, which JavaScript prints in exponent notation, are printed the same way
  as the others: every \<open>toFixed\<close> of the program is applied to a grade point average or a
  percentage.
\<close>

definition fixed_digits :: "nat \<Rightarrow> nat \<Rightarrow> string" where
  "fixed_digits f n =
     (let m = nat_str n
      in if f = 0 then m
         else (let m' = replicate (f + 1 - length m) CHR ''0'' @ m; k = length m'
               in take (k - f) m' @ ''.'' @ drop (k - f) m'))"

definition fixed_round :: "nat \<Rightarrow> rat \<Rightarrow> nat" where
  "fixed_round f x = nat \<lfloor>x * 10 ^ f + 1 / 2\<rfloor>"

fun js_toFixed :: "nat \<Rightarrow> jsnum \<Rightarrow> string" where
  "js_toFixed f NaN = ''NaN''"
| "js_toFixed f (Num x) = (if x < 0 then ''-'' else []) @ fixed_digits f (fixed_round f \<bar>x\<bar>)"

text \<open>
  The value of a decimal numeral \<open>[-]digits[.digits]\<close>, the strings \<open>toFixed\<close> produces;
  \<open>Number(s)\<close> reads such a string as this value.
\<close>

definition decimal_value :: "string \<Rightarrow> rat option" where
  "decimal_value s =
     (let neg = (s \<noteq> [] \<and> hd s = CHR ''-'');
          t = (if neg then tl s else s);
          a = takeWhile js_digit t;
          r = dropWhile js_digit t;
          sg = (\<lambda>q. if neg then - q else q)
      in if a = [] then None
         else (case r of
                 [] \<Rightarrow> Some (sg (of_nat (digits_val a)))
               | c # b \<Rightarrow>
                   (if c = CHR ''.'' \<and> b \<noteq> [] \<and> list_all js_digit b
                    then Some (sg (of_nat (digits_val a) + of_nat (digits_val b) / 10 ^ length b))
                    else None)))"

section \<open>Plain objects as association lists\<close>

text \<open>
  A plain object keyed by strings, held as its own properties in insertion order.
  \<open>Object.entries\<close> lists the array-index keys (canonical decimals below \<open>2^32 - 1\<close>)
  first in ascending order, then the other keys in insertion order.
\<close>

definition array_index :: "string \<Rightarrow> bool" where
  "array_index k \<longleftrightarrow> k \<noteq> [] \<and> list_all js_digit k \<and> (k = ''0'' \<or> hd k \<noteq> CHR ''0'')
     \<and> digits_val k < 2 ^ 32 - 1"

definition js_entries :: "(string \<times> 'v) list \<Rightarrow> (string \<times> 'v) list" where
  "js_entries kvs =
     sort_key (\<lambda>kv. digits_val (fst kv)) (filter (\<lambda>kv. array_index (fst kv)) kvs)
     @ filter (\<lambda>kv. \<not> array_index (fst kv)) kvs"

text \<open>Own-property lookup and assignment.\<close>

definition obj_get :: "(string \<times> 'v) list \<Rightarrow> string \<Rightarrow> 'v option" where
  "obj_get kvs k = map_of kvs k"

fun obj_put :: "string \<Rightarrow> 'v \<Rightarrow> (string \<times> 'v) list \<Rightarrow> (string \<times> 'v) list" where
  "obj_put k v [] = [(k, v)]"
| "obj_put k v ((k', v') # kvs) =
     (if k = k' then (k, v) # kvs else (k', v') # obj_put k v kvs)"

text \<open>
  The property names a plain object inherits from \<open>Object.prototype\<close>: the \<open>in\<close>
  operator finds them on every plain object, and a read of one of them yields a function
  (or, for \<open>__proto__\<close>, the prototype object), never a number.
\<close>

definition object_prototype_keys :: "string list" where
  "object_prototype_keys =
     [''constructor'', ''__defineGetter__'', ''__defineSetter__'', ''hasOwnProperty'',
      ''__lookupGetter__'', ''__lookupSetter__'', ''isPrototypeOf'', ''propertyIsEnumerable'',
      ''toString'', ''valueOf'', ''__proto__'', ''toLocaleString'']"

text \<open>\<open>k in obj\<close> for a plain object: an own or an inherited property.\<close>

definition js_in :: "(string \<times> 'v) list \<Rightarrow> string \<Rightarrow> bool" where
  "js_in obj k \<longleftrightarrow> k \<in> set (map fst obj) \<or> k \<in> set object_prototype_keys"

text \<open>\<open>a / c\<close> for a divisor the code has checked to be non-zero.\<close>

fun js_quot :: "jsnum \<Rightarrow> rat \<Rightarrow> jsnum" where
  "js_quot (Num a) c = Num (a / c)"
| "js_quot NaN c = NaN"

section \<open>Lemmas\<close>

subsection \<open>Evaluation of rational rounding\<close>

lemma floor_numeral_div_rat [simp]:
  "\<lfloor>(numeral a :: rat) / numeral b\<rfloor> = numeral a div numeral b"
  by (metis floor_divide_of_int_eq of_int_numeral)

lemma round2_of_int [simp]: "round2 (of_int k) = of_int k"
proof -
  have "\<lfloor>(of_int k :: rat) * 100 + 1 / 2\<rfloor> = k * 100"
    by (intro floor_unique) simp_all
  then show ?thesis by (simp add: round2_def)
qed

lemma round2_numeral [simp]: "round2 (numeral n) = numeral n"
  using round2_of_int [of "numeral n"] by simp

lemma round2_zero [simp]: "round2 0 = 0"
  using round2_of_int [of 0] by simp

lemma round2_mono: "x \<le> y \<Longrightarrow> round2 x \<le> round2 y"
  unfolding round2_def by (simp add: divide_right_mono floor_mono)

lemma round2_error: "\<bar>round2 x - x\<bar> \<le> 1 / 200"
proof -
  let ?f = "\<lfloor>x * 100 + 1 / 2\<rfloor>"
  have lo: "of_int ?f \<le> x * 100 + 1 / 2" and hi: "x * 100 + 1 / 2 < of_int ?f + 1"
    by linarith+
  have eq: "round2 x - x = (of_int ?f - x * 100) / 100"
    by (simp add: round2_def field_simps)
  from lo hi have "\<bar>of_int ?f - x * 100\<bar> \<le> 1 / 2"
    unfolding abs_le_iff by linarith
  then show ?thesis by (simp add: eq)
qed

lemma to_fixed2_nonneg: "0 \<le> x \<Longrightarrow> to_fixed2 x = (if 10 ^ 21 \<le> x then x else round2 x)"
  by (simp add: to_fixed2_def)

lemma to_fixed2_bounds:
  assumes "0 \<le> x" "x \<le> 10"
  shows "0 \<le> to_fixed2 x \<and> to_fixed2 x \<le> 10"
proof -
  have "0 \<le> round2 x" using round2_mono [of 0 x] assms by simp
  moreover have "round2 x \<le> 10" using round2_mono [of x 10] assms by simp
  ultimately show ?thesis using assms by (simp add: to_fixed2_def)
qed

subsection \<open>Number operations\<close>

lemma js_add_Num_0 [simp]: "js_add (Num 0) x = x" "js_add x (Num 0) = x"
  by (cases x; simp)+

lemma js_add_NaN [simp]: "js_add NaN x = NaN" "js_add x NaN = NaN"
  by (cases x; simp)+

lemma js_add_assoc: "js_add (js_add a b) c = js_add a (js_add b c)"
  by (cases a; cases b; cases c) simp_all

lemma js_add_commute: "js_add a b = js_add b a"
  by (cases a; cases b) simp_all

lemma js_add_left_commute: "js_add a (js_add b c) = js_add b (js_add a c)"
  by (cases a; cases b; cases c) simp_all

lemmas js_add_ac = js_add_assoc js_add_commute js_add_left_commute

lemma js_add_Num_iff: "js_add a b = Num c \<longleftrightarrow> (\<exists>x y. a = Num x \<and> b = Num y \<and> c = x + y)"
  by (cases a; cases b) auto

lemma js_sum_append: "js_sum (xs @ ys) = js_add (js_sum xs) (js_sum ys)"
  by (induction xs) (simp_all add: js_add_assoc)

lemma js_sum_Num: "js_sum (map Num xs) = Num (sum_list xs)"
  by (induction xs) simp_all

lemma js_sum_mset: "mset xs = mset ys \<Longrightarrow> js_sum xs = js_sum ys"
proof (induction xs arbitrary: ys)
  case Nil
  then show ?case by simp
next
  case (Cons x xs)
  then have "x \<in> set ys" by (metis list.set_intros(1) set_mset_mset)
  then obtain us vs where ys: "ys = us @ x # vs" by (meson split_list)
  with Cons.prems have "mset xs = mset (us @ vs)" by simp
  then have "js_sum xs = js_sum (us @ vs)" by (rule Cons.IH)
  then show ?case
    by (simp add: ys js_sum_append js_add_ac)
qed

subsection \<open>Permutations\<close>

lemma sum_list_map_filter_perm:
  fixes f :: "'a \<Rightarrow> 'b::comm_monoid_add"
  assumes "mset xs = mset ys"
  shows "sum_list (map f (filter P xs)) = sum_list (map f (filter P ys))"
proof -
  from assms have "mset (map f (filter P xs)) = mset (map f (filter P ys))" by simp
  then show ?thesis by (metis sum_mset_sum_list)
qed

lemma list_ex_perm: "mset xs = mset ys \<Longrightarrow> list_ex P xs = list_ex P ys"
  by (simp add: list_ex_iff flip: set_mset_mset)

lemma filter_perm: "mset xs = mset ys \<Longrightarrow> mset (filter P xs) = mset (filter P ys)"
  by simp

subsection \<open>Deduplication\<close>

lemma set_js_unique_acc: "set (js_unique_acc seen xs) = set seen \<union> set xs"
  by (induction seen xs rule: js_unique_acc.induct) auto

lemma distinct_js_unique_acc: "distinct seen \<Longrightarrow> distinct (js_unique_acc seen xs)"
  by (induction seen xs rule: js_unique_acc.induct) auto

lemma set_js_unique [simp]: "set (js_unique xs) = set xs"
  by (simp add: js_unique_def set_js_unique_acc)

lemma distinct_js_unique [simp]: "distinct (js_unique xs)"
  by (simp add: js_unique_def distinct_js_unique_acc)

lemma length_js_unique: "length (js_unique xs) = card (set xs)"
  by (metis distinct_card distinct_js_unique set_js_unique)

subsection \<open>Sorting\<close>

text \<open>
  A comparator \<open>(a, b) \<Rightarrow> key b - key a\<close> on numeric keys sorts in descending order of the
  key, and the JavaScript sort is then the library's stable insertion sort on the negated key.
\<close>

lemma js_insert_desc:
  assumes "\<forall>y \<in> set (x # xs). f y = Num (k y)"
  shows "js_insert (\<lambda>a b. js_sub (f b) (f a)) x xs = insort_key (\<lambda>a. - k a) x xs"
  using assms by (induction xs) auto

lemma js_sort_desc:
  assumes "\<forall>y \<in> set xs. f y = Num (k y)"
  shows "js_sort (\<lambda>a b. js_sub (f b) (f a)) xs = sort_key (\<lambda>a. - k a) xs"
  using assms by (induction xs) (simp_all add: js_insert_desc)

lemma mset_js_insert: "mset (js_insert cmp x xs) = add_mset x (mset xs)"
  by (induction xs) auto

lemma mset_js_sort [simp]: "mset (js_sort cmp xs) = mset xs"
  by (induction xs) (simp_all add: mset_js_insert)

lemma set_js_sort [simp]: "set (js_sort cmp xs) = set xs"
  by (metis mset_js_sort set_mset_mset)

lemma length_js_sort [simp]: "length (js_sort cmp xs) = length xs"
  by (metis mset_js_sort size_mset)

subsection \<open>Printing and parsing integers\<close>

declare nat_str.simps [simp del]

lemma digit_char_digit: "d < 10 \<Longrightarrow> js_digit (digit_char d)"
  by (simp add: digit_char_def js_digit_def of_char_of)

lemma digit_val_digit_char: "d < 10 \<Longrightarrow> digit_val (digit_char d) = d"
  by (simp add: digit_char_def digit_val_def of_char_of)

lemma nat_str_digits: "list_all js_digit (nat_str n)"
  by (induction n rule: nat_str.induct) (simp add: nat_str.simps digit_char_digit)

lemma nat_str_not_Nil: "nat_str n \<noteq> []"
  by (simp add: nat_str.simps)

lemma digits_val_snoc: "digits_val (ds @ [d]) = 10 * digits_val ds + digit_val d"
  by (simp add: digits_val_def)

lemma digits_val_nat_str: "digits_val (nat_str n) = n"
  by (induction n rule: nat_str.induct)
     (simp add: nat_str.simps digits_val_snoc digit_val_digit_char digits_val_def)

lemma parse_unsigned_nat_str: "parse_unsigned (nat_str n) = Some n"
proof -
  have tw: "takeWhile js_digit (nat_str n) = nat_str n"
    using nat_str_digits by (simp add: list_all_iff)
  show ?thesis
    unfolding parse_unsigned_def Let_def tw
    by (simp add: digits_val_nat_str nat_str_not_Nil)
qed

lemma nat_str_Cons: "\<exists>c cs. nat_str n = c # cs \<and> js_digit c"
  using nat_str_digits [of n] nat_str_not_Nil [of n] by (cases "nat_str n") auto

lemma js_digit_not_sign: "js_digit c \<Longrightarrow> \<not> js_space c \<and> c \<noteq> CHR ''-'' \<and> c \<noteq> CHR ''+''"
  by (auto simp: js_digit_def js_space_def)

lemma js_parseInt_nat_str: "js_parseInt (nat_str n) = Some (int n)"
proof -
  obtain c cs where n: "nat_str n = c # cs" "js_digit c"
    using nat_str_Cons by blast
  then show ?thesis
    using parse_unsigned_nat_str [of n] js_digit_not_sign [OF n(2)]
    by (simp add: js_parseInt_def)
qed

lemma js_parseInt_int_str: "js_parseInt (int_str i) = Some i"
proof -
  obtain c cs where n: "nat_str (nat (- i)) = c # cs" "js_digit c"
    using nat_str_Cons by blast
  show ?thesis
  proof (cases "i < 0")
    case True
    then show ?thesis
      using parse_unsigned_nat_str [of "nat (- i)"]
      by (simp add: int_str_def js_parseInt_def js_space_def)
  next
    case False
    then show ?thesis
      using js_parseInt_nat_str [of "nat i"] by (simp add: int_str_def)
  qed
qed

subsection \<open>Fixed-point numerals\<close>

lemma digits_val_append:
  "digits_val (xs @ ys) = digits_val xs * 10 ^ length ys + digits_val ys"
proof (induction ys rule: rev_induct)
  case Nil
  then show ?case by (simp add: digits_val_def)
next
  case (snoc y ys)
  then show ?case
    by (simp add: digits_val_snoc [of "xs @ ys", simplified] digits_val_snoc algebra_simps)
qed

lemma digits_val_zeros: "digits_val (replicate j CHR ''0'') = 0"
  by (induction j) (simp_all add: digits_val_def digit_val_def)

lemma js_digit_zero: "js_digit CHR ''0''"
  by (simp add: js_digit_def)

lemma digits_val_split:
  assumes "f \<le> length m"
  shows "digits_val (take (length m - f) m) * 10 ^ f + digits_val (drop (length m - f) m) = digits_val m"
proof -
  have "length (drop (length m - f) m) = f" using assms by simp
  then show ?thesis
    using digits_val_append [of "take (length m - f) m" "drop (length m - f) m"] by simp
qed

lemma fixed_digits_split:
  assumes "0 < f"
  shows "\<exists>a b. fixed_digits f n = a @ ''.'' @ b \<and> a \<noteq> [] \<and> list_all js_digit a
           \<and> list_all js_digit b \<and> length b = f \<and> digits_val a * 10 ^ f + digits_val b = n"
proof -
  define m where "m = replicate (f + 1 - length (nat_str n)) CHR ''0'' @ nat_str n"
  have len: "f + 1 \<le> length m" by (simp add: m_def)
  have dig: "list_all js_digit m"
    using nat_str_digits [of n] by (auto simp: m_def js_digit_zero list_all_iff)
  have val: "digits_val m = n"
    by (simp add: m_def digits_val_append digits_val_zeros digits_val_nat_str)
  have fd: "fixed_digits f n = take (length m - f) m @ ''.'' @ drop (length m - f) m"
    using assms by (simp add: fixed_digits_def Let_def m_def)
  have "take (length m - f) m \<noteq> []" "length (drop (length m - f) m) = f"
    using len by auto
  moreover have "list_all js_digit (take (length m - f) m)" "list_all js_digit (drop (length m - f) m)"
    using dig by (auto simp: list_all_iff dest: in_set_takeD in_set_dropD)
  moreover have "digits_val (take (length m - f) m) * 10 ^ f + digits_val (drop (length m - f) m) = n"
    using digits_val_split [of f m] len val by simp
  ultimately show ?thesis using fd by blast
qed

lemma takeWhile_digits_point:
  "list_all js_digit a \<Longrightarrow> takeWhile js_digit (a @ CHR ''.'' # b) = a
     \<and> dropWhile js_digit (a @ CHR ''.'' # b) = CHR ''.'' # b"
  by (induction a) (simp_all add: js_digit_def)

lemma decimal_value_point:
  assumes "a \<noteq> []" "list_all js_digit a" "b \<noteq> []" "list_all js_digit b"
  shows "decimal_value (a @ ''.'' @ b) = Some (of_nat (digits_val a) + of_nat (digits_val b) / 10 ^ length b)"
    and "decimal_value (''-'' @ a @ ''.'' @ b) = Some (- (of_nat (digits_val a) + of_nat (digits_val b) / 10 ^ length b))"
proof -
  have "hd a \<noteq> CHR ''-''"
    using assms(1,2) js_digit_not_sign by (cases a) auto
  then show "decimal_value (a @ ''.'' @ b) = Some (of_nat (digits_val a) + of_nat (digits_val b) / 10 ^ length b)"
    using assms takeWhile_digits_point [OF assms(2), of b] by (simp add: decimal_value_def)
  show "decimal_value (''-'' @ a @ ''.'' @ b) = Some (- (of_nat (digits_val a) + of_nat (digits_val b) / 10 ^ length b))"
    using assms takeWhile_digits_point [OF assms(2), of b] by (simp add: decimal_value_def)
qed

lemma decimal_value_toFixed:
  assumes "0 < f"
  shows "decimal_value (js_toFixed f (Num x)) =
           Some ((if x < 0 then -1 else 1) * of_nat (fixed_round f \<bar>x\<bar>) / 10 ^ f)"
proof -
  obtain a b where ab: "fixed_digits f (fixed_round f \<bar>x\<bar>) = a @ ''.'' @ b" "a \<noteq> []"
    "list_all js_digit a" "list_all js_digit b" "length b = f"
    "digits_val a * 10 ^ f + digits_val b = fixed_round f \<bar>x\<bar>"
    using fixed_digits_split [OF assms] by blast
  have bne: "b \<noteq> []" using ab(5) assms by auto
  have "(of_nat (digits_val a) + of_nat (digits_val b) / 10 ^ f :: rat)
          = of_nat (digits_val a * 10 ^ f + digits_val b) / 10 ^ f"
    by (simp add: field_simps)
  then have v: "(of_nat (digits_val a) + of_nat (digits_val b) / 10 ^ length b :: rat)
          = of_nat (fixed_round f \<bar>x\<bar>) / 10 ^ f"
    using ab(5,6) by simp
  show ?thesis
    using decimal_value_point [OF ab(2,3) bne ab(4)] v ab(1) by simp
qed

lemma fixed_round_2: "0 \<le> x \<Longrightarrow> of_nat (fixed_round 2 x) / 100 = round2 x"
  by (simp add: fixed_round_def round2_def)

end
