(* ===== verification/GradeScale.thy ===== *)
theory GradeScale
  imports Prelude
begin

text \<open>
  The Grade Scale of \<^verbatim>\<open>src/src/utils/excel/types.ts\<close>: the object \<open>gradePointMap\<close> from
  letter grades to grade points, the colour table \<open>gradeColors\<close>, and the two ways the
  code reads them: the test \<open>record.GR in gradePointMap\<close> (\<open>grade_recognised\<close>) and the
  numeric value \<open>gradePointMap[record.GR]\<close> (\<open>grade_value\<close>). Because \<open>in\<close> also finds the
  members inherited from \<open>Object.prototype\<close>, a grade cell reading \<open>toString\<close> passes the
  test and has no numeric grade point.
\<close>

section \<open>Definitions\<close>

definition gradePointMap :: "(string \<times> rat) list" where
  "gradePointMap =
     [(''O'', 10), (''A+'', 9), (''A'', 8), (''B+'', 7), (''B'', 6), (''C'', 5), (''P'', 4), (''U'', 0)]"

definition gradeColors :: "(string \<times> string) list" where
  "gradeColors =
     [(''O'', ''#10b981''), (''A+'', ''#34d399''), (''A'', ''#6ee7b7''), (''B+'', ''#facc15''),
      (''B'', ''#fbbf24''), (''C'', ''#f97316''), (''P'', ''#ef4444''), (''U'', ''#dc2626'')]"

text \<open>\<open>record.GR in gradePointMap\<close>.\<close>

definition grade_recognised :: "string \<Rightarrow> bool" where
  "grade_recognised g \<longleftrightarrow> js_in gradePointMap g"

text \<open>
  \<open>gradePointMap[g]\<close> used as a number: the grade point of an own key; \<open>NaN\<close> for an
  inherited member (a function or object) and for \<open>undefined\<close>.
\<close>

definition grade_value :: "string \<Rightarrow> jsnum" where
  "grade_value g = (case map_of gradePointMap g of Some p \<Rightarrow> Num p | None \<Rightarrow> NaN)"

text \<open>
  \<open>getGradeColor\<close>: \<open>gradeColors[grade] || '#9ca3af'\<close>. \<open>None\<close> stands for the inherited
  member returned for a prototype name, which is truthy and not a colour string.
\<close>

definition getGradeColor :: "string \<Rightarrow> string option" where
  "getGradeColor g =
     (case map_of gradeColors g of
        Some c \<Rightarrow> Some c
      | None \<Rightarrow> (if g \<in> set object_prototype_keys then None else Some ''#9ca3af''))"

text \<open>The failing grade, compared by \<open>record.GR === 'U'\<close> throughout the code.\<close>

definition failing :: "string \<Rightarrow> bool" where
  "failing g \<longleftrightarrow> g = ''U''"

section \<open>Lemmas\<close>

lemma grade_keys_not_prototype: "map_of gradePointMap g = Some p \<Longrightarrow> g \<notin> set object_prototype_keys"
  by (auto simp: gradePointMap_def object_prototype_keys_def split: if_splits)

lemma grade_point_range: "map_of gradePointMap g = Some p \<Longrightarrow> 0 \<le> p \<and> p \<le> 10"
  by (auto simp: gradePointMap_def split: if_splits)

lemma grade_recognised_iff:
  "grade_recognised g \<longleftrightarrow> (\<exists>p. map_of gradePointMap g = Some p) \<or> g \<in> set object_prototype_keys"
  by (auto simp: grade_recognised_def js_in_def gradePointMap_def)

lemma grade_value_own [gpa_simps]: "map_of gradePointMap g = Some p \<Longrightarrow> grade_value g = Num p"
  by (simp add: grade_value_def)

lemma grade_value_prototype [gpa_simps]: "g \<in> set object_prototype_keys \<Longrightarrow> grade_value g = NaN"
proof -
  assume "g \<in> set object_prototype_keys"
  then have "map_of gradePointMap g = None"
    by (auto simp: object_prototype_keys_def gradePointMap_def)
  then show ?thesis by (simp add: grade_value_def)
qed

lemma failing_recognised: "failing g \<Longrightarrow> map_of gradePointMap g = Some 0"
  by (simp add: failing_def gradePointMap_def)

end
