(* ===== verification/Records.thy ===== *)
theory Records
  imports GradeScale
begin

text \<open>
  The data the analysis consumes: \<open>StudentRecord\<close> of \<^verbatim>\<open>src/src/utils/excel/types.ts\<close>
  (one grade row of an uploaded sheet, optional fields as \<open>option\<close>), \<open>SubjectCredit\<close> of
  \<^verbatim>\<open>src/src/pages/Dashboard.tsx\<close> (what the credit dialog assigns to a subject code), and
  the Record Normalizer: the step of \<open>analyzeData\<close> that copies a subject's credit,
  names and current-semester mark onto every row of that subject. The field
  \<open>isArrear\<close> keeps the source's name; a value \<open>true\<close> means that the user marked the
  subject as one of the current semester.
\<close>

section \<open>Definitions\<close>

record StudentRecord =
  CNo :: string
  SEM :: string
  REGNO :: string
  SCODE :: string
  GR :: string
  creditValue :: "rat option"
  subjectName :: "string option"
  facultyName :: "string option"
  fileSource :: "string option"
  isArrear :: "bool option"

text \<open>The calculation mode chosen on the dashboard (\<open>'sgpa' | 'cgpa'\<close>).\<close>

datatype calc_mode = SGPA_Mode | CGPA_Mode

record SubjectCredit =
  subjectCode :: string
  sc_creditValue :: int
  sc_subjectName :: "string option"
  sc_facultyName :: "string option"
  sc_isArrear :: "bool option"

text \<open>\<open>record.creditValue || 0\<close>.\<close>

definition credit_of :: "StudentRecord \<Rightarrow> rat" where
  "credit_of r = (case creditValue r of Some c \<Rightarrow> c | None \<Rightarrow> 0)"

text \<open>\<open>record.isArrear === true\<close>; its negation is \<open>!record.isArrear\<close>.\<close>

definition marked :: "StudentRecord \<Rightarrow> bool" where
  "marked r \<longleftrightarrow> isArrear r = Some True"

text \<open>\<open>record.fileSource || 'Unknown'\<close>: the empty string is falsy.\<close>

definition file_key :: "StudentRecord \<Rightarrow> string" where
  "file_key r = (case fileSource r of Some s \<Rightarrow> (if s = [] then ''Unknown'' else s) | None \<Rightarrow> ''Unknown'')"

text \<open>\<open>s || ''\<close> on an optional string.\<close>

definition str_or_empty :: "string option \<Rightarrow> string" where
  "str_or_empty s = (case s of Some x \<Rightarrow> x | None \<Rightarrow> [])"

text \<open>
  The mapping in \<open>analyzeData\<close> (Dashboard.tsx): the first credit entry for the row's
  subject code supplies credit, names and mark; a row whose subject has no entry gets
  credit 3, empty names and no mark.
\<close>

definition apply_credit :: "SubjectCredit list \<Rightarrow> StudentRecord \<Rightarrow> StudentRecord" where
  "apply_credit credits r =
     (case find (\<lambda>c. subjectCode c = SCODE r) credits of
        Some c \<Rightarrow> r\<lparr>creditValue := Some (of_int (sc_creditValue c)),
                    subjectName := Some (str_or_empty (sc_subjectName c)),
                    facultyName := Some (str_or_empty (sc_facultyName c)),
                    isArrear := Some (sc_isArrear c = Some True)\<rparr>
      | None \<Rightarrow> r\<lparr>creditValue := Some 3, subjectName := Some [], facultyName := Some [],
                  isArrear := Some False\<rparr>)"

text \<open>
  \<open>getUniqueDepartmentCodes\<close> (gradeUtils.ts lines 13-16, exported and unused): the distinct
  \<open>CNo\<close> values in first-seen order, without the empty (falsy) one.
\<close>

definition getUniqueDepartmentCodes :: "StudentRecord list \<Rightarrow> string list" where
  "getUniqueDepartmentCodes records = filter (\<lambda>code. code \<noteq> []) (js_unique (map CNo records))"

text \<open>A grade row as the dashboard hands it to the analysis, for concrete instances.\<close>

abbreviation row ::
  "string \<Rightarrow> string \<Rightarrow> string \<Rightarrow> rat \<Rightarrow> string \<Rightarrow> string \<Rightarrow> bool \<Rightarrow> StudentRecord" where
  "row regno scode gr credit file sem cur \<equiv>
     \<lparr>CNo = [], SEM = sem, REGNO = regno, SCODE = scode, GR = gr, creditValue = Some credit,
      subjectName = Some [], facultyName = Some [], fileSource = Some file, isArrear = Some cur\<rparr>"

section \<open>Lemmas\<close>

lemma apply_credit_keeps_row:
  "REGNO (apply_credit cs r) = REGNO r \<and> SCODE (apply_credit cs r) = SCODE r \<and>
   GR (apply_credit cs r) = GR r \<and> SEM (apply_credit cs r) = SEM r \<and>
   fileSource (apply_credit cs r) = fileSource r"
  by (simp add: apply_credit_def split: option.split)

lemma apply_credit_credit:
  "credit_of (apply_credit cs r) =
     (case find (\<lambda>c. subjectCode c = SCODE r) cs of Some c \<Rightarrow> of_int (sc_creditValue c) | None \<Rightarrow> 3)"
  by (simp add: apply_credit_def credit_of_def split: option.split)

lemma apply_credit_marked:
  "marked (apply_credit cs r) \<longleftrightarrow>
     (\<exists>c. find (\<lambda>c. subjectCode c = SCODE r) cs = Some c \<and> sc_isArrear c = Some True)"
  by (simp add: apply_credit_def marked_def split: option.split)

lemma getUniqueDepartmentCodes_spec:
  "distinct (getUniqueDepartmentCodes records)
   \<and> set (getUniqueDepartmentCodes records) = {CNo r | r. r \<in> set records \<and> CNo r \<noteq> []}"
  by (auto simp: getUniqueDepartmentCodes_def)

end
