(* ===== verification/Aggregator.thy ===== *)
theory Aggregator
  imports Records
begin

text \<open>
  The Per-Student Aggregator of \<^verbatim>\<open>src/src/utils/excel/gradeUtils.ts\<close>. Every GPA routine
  there runs the same \<open>forEach\<close> loop: for a row whose grade passes
  \<open>GR in gradePointMap\<close> it adds \<open>gradePoint * creditValue\<close> to a weighted sum and the
  credit to a credit total (\<open>grade_step\<close>, folded by \<open>grade_totals\<close>); the result is
  \<open>0\<close> for a zero credit total and the rounded quotient otherwise (\<open>gpa_of_totals\<close>).
  \<open>calculateSGPA\<close> runs it on one student's rows; \<open>calculateCGPA\<close> runs it per
  semester file on the rows chosen by \<open>semester_records\<close> and divides the summed totals.

  The reference specification \<open>spec_gpa\<close> is the weighted average of spec section 4.2
  over the recognised rows; \<open>calculateSGPA\<close> refines it whenever no grade of the
  student is an \<open>Object.prototype\<close> name, and is \<open>NaN\<close> otherwise.
\<close>

section \<open>Definitions\<close>

definition grade_step :: "jsnum \<times> rat \<Rightarrow> StudentRecord \<Rightarrow> jsnum \<times> rat" where
  "grade_step acc r =
     (if grade_recognised (GR r)
      then (js_add (fst acc) (js_mul (grade_value (GR r)) (Num (credit_of r))), snd acc + credit_of r)
      else acc)"

definition grade_totals :: "StudentRecord list \<Rightarrow> jsnum \<times> rat" where
  "grade_totals rs = foldl grade_step (Num 0, 0) rs"

text \<open>\<open>totalCredits === 0 ? 0 : formatTo2Decimals(weightedSum / totalCredits)\<close>.\<close>

definition gpa_of_totals :: "jsnum \<times> rat \<Rightarrow> jsnum" where
  "gpa_of_totals t = (if snd t = 0 then Num 0 else js_fixed2 (js_quot (fst t) (snd t)))"

definition calculateSGPA :: "StudentRecord list \<Rightarrow> string \<Rightarrow> jsnum" where
  "calculateSGPA records studentId =
     gpa_of_totals (grade_totals (filter (\<lambda>r. REGNO r = studentId) records))"

text \<open>
  The rows of one semester that count for a student in \<open>calculateCGPA\<close>: the student's
  rows marked current if there are any, otherwise the student's unmarked rows.
\<close>

definition semester_records :: "StudentRecord list \<Rightarrow> string \<Rightarrow> StudentRecord list" where
  "semester_records semesterRecords studentId =
     (let markedRecords = filter (\<lambda>r. REGNO r = studentId \<and> marked r) semesterRecords
      in if markedRecords \<noteq> [] then markedRecords
         else filter (\<lambda>r. REGNO r = studentId \<and> \<not> marked r) semesterRecords)"

definition cgpa_step :: "string \<Rightarrow> jsnum \<times> rat \<Rightarrow> string \<times> StudentRecord list \<Rightarrow> jsnum \<times> rat" where
  "cgpa_step studentId acc semester =
     (let t = grade_totals (semester_records (snd semester) studentId)
      in (js_add (fst acc) (fst t), snd acc + snd t))"

text \<open>
  \<open>fileGroups\<close> is the object from file name to rows, given as its entries in key order.
\<close>

definition calculateCGPA ::
  "StudentRecord list \<Rightarrow> string \<Rightarrow> (string \<times> StudentRecord list) list \<Rightarrow> jsnum" where
  "calculateCGPA records studentId fileGroups =
     (if length fileGroups \<le> 1 then calculateSGPA records studentId
      else gpa_of_totals (foldl (cgpa_step studentId) (Num 0, 0) fileGroups))"

definition hasArrears :: "StudentRecord list \<Rightarrow> string \<Rightarrow> bool" where
  "hasArrears records studentId =
     list_ex (\<lambda>r. GR r = ''U'') (filter (\<lambda>r. REGNO r = studentId) records)"

definition getSubjectsWithArrears :: "StudentRecord list \<Rightarrow> string \<Rightarrow> string" where
  "getSubjectsWithArrears records studentId =
     js_join '', '' (map SCODE (filter (\<lambda>r. REGNO r = studentId \<and> GR r = ''U'') records))"

text \<open>
  \<open>getCurrentSemesterSGPAData\<close>: one entry \<open>(id, sgpa)\<close> per student with an unmarked row,
  the SGPA over all of that student's rows, sorted by SGPA descending.
\<close>

definition getCurrentSemesterSGPAData :: "StudentRecord list \<Rightarrow> (string \<times> jsnum) list" where
  "getCurrentSemesterSGPAData currentSemesterRecords =
     (if currentSemesterRecords = [] then []
      else
        let nonArrearRecords = filter (\<lambda>r. \<not> marked r) currentSemesterRecords;
            studentIds = js_unique (map REGNO nonArrearRecords);
            sgpaData = map (\<lambda>i. (i, gpa_of_totals (grade_totals
                              (filter (\<lambda>r. REGNO r = i) currentSemesterRecords)))) studentIds
        in js_sort (\<lambda>a b. js_sub (snd b) (snd a)) sgpaData)"

subsection \<open>Reference specification\<close>

definition counted :: "StudentRecord \<Rightarrow> bool" where
  "counted r \<longleftrightarrow> grade_recognised (GR r)"

definition spec_points :: "StudentRecord list \<Rightarrow> rat" where
  "spec_points rs = sum_list (map (\<lambda>r. num_val (grade_value (GR r)) * credit_of r) (filter counted rs))"

definition spec_credits :: "StudentRecord list \<Rightarrow> rat" where
  "spec_credits rs = sum_list (map credit_of (filter counted rs))"

definition spec_gpa :: "StudentRecord list \<Rightarrow> rat" where
  "spec_gpa rs = (if spec_credits rs = 0 then 0 else to_fixed2 (spec_points rs / spec_credits rs))"

definition prototype_grade :: "StudentRecord list \<Rightarrow> bool" where
  "prototype_grade rs \<longleftrightarrow> list_ex (\<lambda>r. GR r \<in> set object_prototype_keys) rs"

section \<open>Lemmas\<close>

subsection \<open>The accumulation loop\<close>

lemma grade_step_value:
  "grade_step (w, t) r =
     (if counted r
      then (js_add w (if GR r \<in> set object_prototype_keys then NaN
                      else Num (num_val (grade_value (GR r)) * credit_of r)), t + credit_of r)
      else (w, t))"
proof (cases "counted r")
  case True
  then show ?thesis
  proof (cases "GR r \<in> set object_prototype_keys")
    case True
    then show ?thesis using \<open>counted r\<close> by (simp add: grade_step_def counted_def gpa_simps)
  next
    case False
    with \<open>counted r\<close> obtain p where "map_of gradePointMap (GR r) = Some p"
      by (auto simp: counted_def grade_recognised_iff)
    then show ?thesis using \<open>counted r\<close> False by (simp add: grade_step_def counted_def gpa_simps)
  qed
qed (simp add: grade_step_def counted_def)

lemma foldl_grade_step:
  "foldl grade_step (w, t) rs =
     (js_add w (if prototype_grade (filter counted rs) then NaN else Num (spec_points rs)),
      t + spec_credits rs)"
proof (induction rs arbitrary: w t)
  case Nil
  then show ?case by (simp add: prototype_grade_def spec_points_def spec_credits_def)
next
  case (Cons r rs)
  show ?case
    by (simp add: Cons.IH grade_step_value prototype_grade_def spec_points_def spec_credits_def
        js_add_ac)
qed

lemma grade_totals_eq [gpa_simps]:
  "grade_totals rs =
     (if prototype_grade (filter counted rs) then NaN else Num (spec_points rs), spec_credits rs)"
  by (simp add: grade_totals_def foldl_grade_step)

lemma grade_totals_append:
  "grade_totals (xs @ ys) =
     (js_add (fst (grade_totals xs)) (fst (grade_totals ys)), snd (grade_totals xs) + snd (grade_totals ys))"
  by (simp add: grade_totals_def foldl_grade_step prototype_grade_def spec_points_def
      spec_credits_def)

lemma gpa_of_totals_Num [gpa_simps]:
  "gpa_of_totals (Num s, c) = Num (if c = 0 then 0 else to_fixed2 (s / c))"
  by (simp add: gpa_of_totals_def)

lemma gpa_of_totals_NaN [gpa_simps]:
  "gpa_of_totals (NaN, c) = (if c = 0 then Num 0 else NaN)"
  by (simp add: gpa_of_totals_def)

lemma prototype_grade_counted: "prototype_grade (filter counted rs) = prototype_grade rs"
  by (auto simp: prototype_grade_def counted_def grade_recognised_iff list_ex_iff)

lemma gpa_of_grade_totals:
  "\<not> prototype_grade rs \<Longrightarrow> gpa_of_totals (grade_totals rs) = Num (spec_gpa rs)"
  by (simp add: gpa_simps prototype_grade_counted spec_gpa_def)

subsection \<open>Semesters\<close>

lemma foldl_cgpa_step:
  "foldl (cgpa_step sid) (w, t) gs =
     (js_add w (fst (grade_totals (concat (map (\<lambda>g. semester_records (snd g) sid) gs)))),
      t + snd (grade_totals (concat (map (\<lambda>g. semester_records (snd g) sid) gs))))"
proof (induction gs arbitrary: w t)
  case Nil
  then show ?case by (simp add: grade_totals_def)
next
  case (Cons g gs)
  then show ?case
    by (simp add: cgpa_step_def Let_def grade_totals_append js_add_ac)
qed

lemma semester_records_student: "r \<in> set (semester_records rs sid) \<Longrightarrow> REGNO r = sid"
  by (auto simp: semester_records_def Let_def split: if_splits)

lemma semester_records_subset: "set (semester_records rs sid) \<subseteq> set rs"
  by (auto simp: semester_records_def Let_def)

subsection \<open>Reference facts\<close>

lemma grade_totals_perm:
  assumes "mset xs = mset ys"
  shows "grade_totals xs = grade_totals ys"
proof -
  have "prototype_grade (filter counted xs) = prototype_grade (filter counted ys)"
    unfolding prototype_grade_def by (rule list_ex_perm) (simp add: assms)
  moreover have "spec_points xs = spec_points ys"
    unfolding spec_points_def by (rule sum_list_map_filter_perm [OF assms])
  moreover have "spec_credits xs = spec_credits ys"
    unfolding spec_credits_def by (rule sum_list_map_filter_perm [OF assms])
  ultimately show ?thesis by (simp only: grade_totals_eq)
qed

lemma counted_point_range:
  assumes "counted r" "GR r \<notin> set object_prototype_keys"
  shows "0 \<le> num_val (grade_value (GR r)) \<and> num_val (grade_value (GR r)) \<le> 10"
proof -
  from assms obtain p where "map_of gradePointMap (GR r) = Some p"
    by (auto simp: counted_def grade_recognised_iff)
  then show ?thesis by (simp add: gpa_simps grade_point_range)
qed

lemma spec_points_bounds:
  assumes "\<forall>r \<in> set rs. 0 \<le> credit_of r" "\<not> prototype_grade rs"
  shows "0 \<le> spec_points rs \<and> spec_points rs \<le> 10 * spec_credits rs"
  using assms
proof (induction rs)
  case Nil
  then show ?case by (simp add: spec_points_def spec_credits_def)
next
  case (Cons r rs)
  then have IH: "0 \<le> spec_points rs \<and> spec_points rs \<le> 10 * spec_credits rs"
    by (simp add: prototype_grade_def)
  show ?case
  proof (cases "counted r")
    case True
    let ?p = "num_val (grade_value (GR r))"
    from Cons.prems True have p: "0 \<le> ?p \<and> ?p \<le> 10"
      by (intro counted_point_range) (auto simp: prototype_grade_def)
    from Cons.prems have c: "0 \<le> credit_of r" by simp
    from p c have "0 \<le> ?p * credit_of r \<and> ?p * credit_of r \<le> 10 * credit_of r"
      by (simp add: mult_right_mono)
    with IH True show ?thesis by (simp add: spec_points_def spec_credits_def algebra_simps)
  next
    case False
    with IH show ?thesis by (simp add: spec_points_def spec_credits_def)
  qed
qed

lemma spec_credits_nonneg: "\<forall>r \<in> set rs. 0 \<le> credit_of r \<Longrightarrow> 0 \<le> spec_credits rs"
  by (induction rs) (auto simp: spec_credits_def)

lemma spec_gpa_bounds:
  assumes "\<forall>r \<in> set rs. 0 \<le> credit_of r" "\<not> prototype_grade rs"
  shows "0 \<le> spec_gpa rs \<and> spec_gpa rs \<le> 10"
proof (cases "spec_credits rs = 0")
  case False
  with spec_credits_nonneg [OF assms(1)] have pos: "0 < spec_credits rs" by simp
  from spec_points_bounds [OF assms] pos
  have "0 \<le> spec_points rs / spec_credits rs \<and> spec_points rs / spec_credits rs \<le> 10"
    by (simp add: pos_divide_le_eq)
  with False show ?thesis by (simp add: spec_gpa_def to_fixed2_bounds)
qed (simp add: spec_gpa_def)

subsection \<open>Properties of the per-student aggregator\<close>

text \<open>
  C1. \<open>calculateSGPA\<close> implements the weighted grade-point average of spec section 4.2:
  when none of the student's grades is an \<open>Object.prototype\<close> name, it returns the sum of
  grade point times credit over the student's recognised rows divided by their credits,
  rounded to two decimals, and 0 when those credits sum to 0.
\<close>

theorem calculateSGPA_refines_spec:
  assumes "\<not> prototype_grade (filter (\<lambda>r. REGNO r = sid) rs)"
  shows "calculateSGPA rs sid = Num (spec_gpa (filter (\<lambda>r. REGNO r = sid) rs))"
  using assms by (simp add: calculateSGPA_def gpa_of_grade_totals)

theorem calculateSGPA_refines_spec_witness:
  "\<not> prototype_grade (filter (\<lambda>r. REGNO r = ''S'') [row ''S'' ''CS1'' ''O'' 3 ''s4.xlsx'' ''4'' True])
   \<and> calculateSGPA [row ''S'' ''CS1'' ''O'' 3 ''s4.xlsx'' ''4'' True] ''S'' = Num 10"
proof -
  have h: "\<not> prototype_grade (filter (\<lambda>r. REGNO r = ''S'') [row ''S'' ''CS1'' ''O'' 3 ''s4.xlsx'' ''4'' True])"
    by (simp add: prototype_grade_def object_prototype_keys_def)
  show ?thesis
    using h calculateSGPA_refines_spec [OF h]
    by (simp add: spec_gpa_def spec_points_def spec_credits_def counted_def grade_recognised_def
        js_in_def gradePointMap_def grade_value_def credit_of_def to_fixed2_def)
qed

text \<open>
  A student whose recognised rows carry no credit gets SGPA exactly 0: never \<open>NaN\<close>
  and never a division fault, whatever the grades.
\<close>

theorem calculateSGPA_zero_credits:
  assumes "spec_credits (filter (\<lambda>r. REGNO r = sid) rs) = 0"
  shows "calculateSGPA rs sid = Num 0"
  using assms by (simp add: calculateSGPA_def grade_totals_eq gpa_of_totals_def)

theorem calculateSGPA_zero_credits_witness:
  "spec_credits (filter (\<lambda>r. REGNO r = ''S'') [row ''S'' ''CS1'' ''toString'' 0 ''s.xlsx'' ''1'' False]) = 0
   \<and> calculateSGPA [row ''S'' ''CS1'' ''toString'' 0 ''s.xlsx'' ''1'' False] ''S'' = Num 0"
proof -
  have h: "spec_credits (filter (\<lambda>r. REGNO r = ''S'') [row ''S'' ''CS1'' ''toString'' 0 ''s.xlsx'' ''1'' False]) = 0"
    by (simp add: spec_credits_def credit_of_def)
  show ?thesis using h calculateSGPA_zero_credits [OF h] by simp
qed

text \<open>
  \<open>calculateSGPA\<close> does not depend on the order of the rows: reordering the input
  (any permutation) gives the same SGPA, \<open>NaN\<close> included.
\<close>

theorem calculateSGPA_permutation:
  assumes "mset rs = mset rs'"
  shows "calculateSGPA rs sid = calculateSGPA rs' sid"
proof -
  have "grade_totals (filter (\<lambda>r. REGNO r = sid) rs) = grade_totals (filter (\<lambda>r. REGNO r = sid) rs')"
    using assms by (intro grade_totals_perm) simp
  then show ?thesis by (simp add: calculateSGPA_def)
qed

theorem calculateSGPA_permutation_witness:
  "mset [row ''S'' ''A1'' ''O'' 3 ''f'' ''1'' True, row ''S'' ''A2'' ''C'' 4 ''f'' ''1'' True]
     = mset [row ''S'' ''A2'' ''C'' 4 ''f'' ''1'' True, row ''S'' ''A1'' ''O'' 3 ''f'' ''1'' True]
   \<and> calculateSGPA [row ''S'' ''A1'' ''O'' 3 ''f'' ''1'' True, row ''S'' ''A2'' ''C'' 4 ''f'' ''1'' True] ''S''
     = calculateSGPA [row ''S'' ''A2'' ''C'' 4 ''f'' ''1'' True, row ''S'' ''A1'' ''O'' 3 ''f'' ''1'' True] ''S''"
proof -
  have h: "mset [row ''S'' ''A1'' ''O'' 3 ''f'' ''1'' True, row ''S'' ''A2'' ''C'' 4 ''f'' ''1'' True]
     = mset [row ''S'' ''A2'' ''C'' 4 ''f'' ''1'' True, row ''S'' ''A1'' ''O'' 3 ''f'' ''1'' True]"
    by (simp add: add_mset_commute)
  show ?thesis using h calculateSGPA_permutation [OF h] by blast
qed

text \<open>
  C4. The grade \<open>in\<close> test of the code also accepts the names \<open>Object.prototype\<close> gives
  every object: a student with such a grade (a cell reading \<open>toString\<close>) and a non-zero
  credit total gets SGPA \<open>NaN\<close>.
\<close>

theorem calculateSGPA_prototype_NaN:
  assumes "prototype_grade (filter (\<lambda>r. REGNO r = sid) rs)"
    and "spec_credits (filter (\<lambda>r. REGNO r = sid) rs) \<noteq> 0"
  shows "calculateSGPA rs sid = NaN"
proof -
  let ?rs = "filter (\<lambda>r. REGNO r = sid) rs"
  from assms(1) have p: "prototype_grade (filter counted ?rs)"
    by (simp only: prototype_grade_counted)
  have "grade_totals ?rs = (NaN, spec_credits ?rs)"
    by (simp only: grade_totals_eq p if_True)
  with assms(2) show ?thesis by (simp add: calculateSGPA_def gpa_of_totals_def)
qed

theorem calculateSGPA_prototype_NaN_witness:
  "prototype_grade (filter (\<lambda>r. REGNO r = ''S'') [row ''S'' ''CS1'' ''toString'' 3 ''s.xlsx'' ''1'' True])
   \<and> spec_credits (filter (\<lambda>r. REGNO r = ''S'') [row ''S'' ''CS1'' ''toString'' 3 ''s.xlsx'' ''1'' True]) \<noteq> 0
   \<and> calculateSGPA [row ''S'' ''CS1'' ''toString'' 3 ''s.xlsx'' ''1'' True] ''S'' = NaN"
proof -
  have h1: "prototype_grade (filter (\<lambda>r. REGNO r = ''S'') [row ''S'' ''CS1'' ''toString'' 3 ''s.xlsx'' ''1'' True])"
    by (simp add: prototype_grade_def object_prototype_keys_def)
  have h2: "spec_credits (filter (\<lambda>r. REGNO r = ''S'') [row ''S'' ''CS1'' ''toString'' 3 ''s.xlsx'' ''1'' True]) \<noteq> 0"
    by (simp add: spec_credits_def counted_def grade_recognised_def js_in_def
        object_prototype_keys_def credit_of_def)
  show ?thesis using h1 h2 calculateSGPA_prototype_NaN [OF h1 h2] by simp
qed

text \<open>
  C5. With non-negative credits (the credit dialog only admits 1 to 10) and no prototype
  grade, the SGPA is a number between 0 and 10.
\<close>

theorem calculateSGPA_bounds:
  assumes "\<forall>r \<in> set rs. 0 \<le> credit_of r"
    and "\<not> prototype_grade (filter (\<lambda>r. REGNO r = sid) rs)"
  shows "\<exists>g. calculateSGPA rs sid = Num g \<and> 0 \<le> g \<and> g \<le> 10"
proof -
  from assms(1) have "\<forall>r \<in> set (filter (\<lambda>r. REGNO r = sid) rs). 0 \<le> credit_of r" by simp
  from spec_gpa_bounds [OF this assms(2)] calculateSGPA_refines_spec [OF assms(2)]
  show ?thesis by blast
qed

theorem calculateSGPA_bounds_witness:
  "\<not> prototype_grade (filter (\<lambda>r. REGNO r = ''S'') [row ''S'' ''CS1'' ''B'' 4 ''f'' ''1'' True])
   \<and> (\<exists>g. calculateSGPA [row ''S'' ''CS1'' ''B'' 4 ''f'' ''1'' True] ''S'' = Num g \<and> 0 \<le> g \<and> g \<le> 10)"
proof -
  have h1: "\<forall>r \<in> set [row ''S'' ''CS1'' ''B'' 4 ''f'' ''1'' True]. 0 \<le> credit_of r"
    by (simp add: credit_of_def)
  have h2: "\<not> prototype_grade (filter (\<lambda>r. REGNO r = ''S'') [row ''S'' ''CS1'' ''B'' 4 ''f'' ''1'' True])"
    by (simp add: prototype_grade_def object_prototype_keys_def)
  show ?thesis using h1 h2 calculateSGPA_bounds [OF h1 h2] by blast
qed

text \<open>
  C6. With two or more semester files, \<open>calculateCGPA\<close> is one weighted average over the
  union of the rows selected in each semester (the student's marked rows of that file, or
  its unmarked rows when none is marked), not an average of per-semester SGPAs.
\<close>

theorem calculateCGPA_union:
  assumes "2 \<le> length fileGroups"
  shows "calculateCGPA records sid fileGroups =
           gpa_of_totals (grade_totals (concat (map (\<lambda>g. semester_records (snd g) sid) fileGroups)))"
  using assms by (simp add: calculateCGPA_def foldl_cgpa_step)

theorem calculateCGPA_union_witness:
  "2 \<le> length [(''s1.xlsx'', [row ''S'' ''A1'' ''O'' 1 ''s1.xlsx'' ''1'' False]),
                (''s2.xlsx'', [row ''S'' ''B1'' ''C'' 4 ''s2.xlsx'' ''2'' False])]
   \<and> calculateCGPA [] ''S'' [(''s1.xlsx'', [row ''S'' ''A1'' ''O'' 1 ''s1.xlsx'' ''1'' False]),
                (''s2.xlsx'', [row ''S'' ''B1'' ''C'' 4 ''s2.xlsx'' ''2'' False])] = Num 6"
proof -
  have h: "2 \<le> length [(''s1.xlsx'', [row ''S'' ''A1'' ''O'' 1 ''s1.xlsx'' ''1'' False]),
                (''s2.xlsx'', [row ''S'' ''B1'' ''C'' 4 ''s2.xlsx'' ''2'' False])]" by simp
  show ?thesis
    using h calculateCGPA_union [OF h, of "[]" "''S''"]
    by (simp add: semester_records_def marked_def grade_totals_eq prototype_grade_def
        object_prototype_keys_def spec_points_def spec_credits_def counted_def grade_recognised_def
        js_in_def gradePointMap_def grade_value_def credit_of_def gpa_of_totals_def to_fixed2_def)
qed

end
