(* ===== verification/TermResolver.thy ===== *)
theory TermResolver
  imports Aggregator
begin

text \<open>
  The Current-Term Resolver: the first part of \<open>analyzeResults\<close> in
  \<^verbatim>\<open>src/src/utils/excel/analyzer.ts\<close>. It restricts the rows to the assigned subjects,
  lists the files (\<open>filesProcessed\<close>, by \<open>fileSource || 'Unknown'\<close>), groups the rows
  by file (\<open>fileGroups\<close>, by \<open>fileSource === fileName\<close>), summarises each file
  (\<open>fileWiseAnalysis\<close>), picks the current semester file as the first file whose first
  row's \<open>SEM\<close> parses to the highest integer above \<open>-1\<close>, and selects the current-term
  rows: the marked rows of the current file if any row there is marked, its unmarked rows
  otherwise. The selection is made once for the whole file, not per student.
  Objects keyed by file name are association lists in insertion order; the uploader only
  admits names ending in \<open>.xls\<close>/\<open>.xlsx\<close>, so no name is an array index or
  \<open>__proto__\<close>.
\<close>

section \<open>Definitions\<close>

text \<open>Lines 8-10: \<open>assignedSubjects\<close> given and non-empty restricts the rows.\<close>

definition filter_assigned :: "StudentRecord list \<Rightarrow> string list option \<Rightarrow> StudentRecord list" where
  "filter_assigned records assignedSubjects =
     (case assignedSubjects of
        Some subs \<Rightarrow> (if subs \<noteq> [] then filter (\<lambda>r. SCODE r \<in> set subs) records else records)
      | None \<Rightarrow> records)"

definition filesProcessed :: "StudentRecord list \<Rightarrow> string list" where
  "filesProcessed records = js_unique (map file_key records)"

definition fileGroups :: "StudentRecord list \<Rightarrow> string list \<Rightarrow> (string \<times> StudentRecord list) list" where
  "fileGroups records files = map (\<lambda>f. (f, filter (\<lambda>r. fileSource r = Some f) records)) files"

text \<open>
  The current-term selection, written three times in analyzer.ts (lines 37-40, 137-143,
  230-237): the marked rows if there are any, the unmarked rows otherwise.
\<close>

definition current_selection :: "StudentRecord list \<Rightarrow> StudentRecord list" where
  "current_selection rs =
     (let markedRecords = filter marked rs
      in if markedRecords \<noteq> [] then markedRecords else filter (\<lambda>r. \<not> marked r) rs)"

record FileInfo =
  averageSGPA :: jsnum
  students :: nat
  semesterName :: "string option"

text \<open>Lines 26-56: one file's entry of \<open>fileWiseAnalysis\<close>.\<close>

definition file_analysis :: "StudentRecord list \<Rightarrow> FileInfo" where
  "file_analysis fileRecords =
     (let fileStudentIds = js_unique (map REGNO fileRecords);
          semName = (case fileRecords of [] \<Rightarrow> [] | r # _ \<Rightarrow> SEM r);
          recordsToUseForSGPA = current_selection fileRecords;
          totalSGPA = foldl (\<lambda>t sid. js_add t (calculateSGPA recordsToUseForSGPA sid)) (Num 0)
                        fileStudentIds;
          n = length fileStudentIds
      in \<lparr>averageSGPA = (if 0 < n then js_fixed2 (js_quot totalSGPA (of_nat n)) else Num 0),
          students = n,
          semesterName = (if semName = [] then None else Some semName)\<rparr>)"

definition fileWiseAnalysis :: "(string \<times> StudentRecord list) list \<Rightarrow> (string \<times> FileInfo) list" where
  "fileWiseAnalysis groups = map (\<lambda>g. (fst g, file_analysis (snd g))) groups"

text \<open>\<open>parseInt(fileRecords[0]?.SEM || '0', 10)\<close> for a non-empty group.\<close>

definition group_label :: "string \<times> StudentRecord list \<Rightarrow> int option" where
  "group_label g =
     (case snd g of [] \<Rightarrow> None | r # _ \<Rightarrow> js_parseInt (if SEM r = [] then ''0'' else SEM r))"

definition current_step :: "string \<times> int \<Rightarrow> string \<times> StudentRecord list \<Rightarrow> string \<times> int" where
  "current_step acc g =
     (case group_label g of
        Some v \<Rightarrow> (if snd acc < v then (fst g, v) else acc)
      | None \<Rightarrow> acc)"

text \<open>Lines 60-76; \<open>None\<close> is \<open>undefined\<close> (no file at all).\<close>

definition currentSemesterFile :: "(string \<times> StudentRecord list) list \<Rightarrow> string option" where
  "currentSemesterFile groups =
     (case groups of
        [] \<Rightarrow> None
      | g # _ \<Rightarrow> Some (fst (foldl current_step (fst g, -1) groups)))"

text \<open>Lines 130-132.\<close>

definition currentSemesterRecords :: "StudentRecord list \<Rightarrow> string option \<Rightarrow> StudentRecord list" where
  "currentSemesterRecords records csf =
     (case csf of Some f \<Rightarrow> filter (\<lambda>r. fileSource r = Some f) records | None \<Rightarrow> records)"

section \<open>Lemmas\<close>

subsection \<open>Files and groups\<close>

lemma distinct_filesProcessed: "distinct (filesProcessed records)"
  by (simp add: filesProcessed_def)

lemma set_filesProcessed: "set (filesProcessed records) = file_key ` set records"
  by (simp add: filesProcessed_def)

lemma file_key_nonempty: "file_key r \<noteq> []"
  by (simp add: file_key_def split: option.split)

lemma mset_concat_groups:
  "distinct fs \<Longrightarrow>
   mset (concat (map snd (fileGroups rs fs))) =
   mset (filter (\<lambda>r. \<exists>f \<in> set fs. fileSource r = Some f) rs)"
proof (induction fs)
  case Nil
  then show ?case by (simp add: fileGroups_def)
next
  case (Cons f fs)
  then have IH: "mset (concat (map snd (fileGroups rs fs))) =
      mset (filter (\<lambda>r. \<exists>f \<in> set fs. fileSource r = Some f) rs)" and nf: "f \<notin> set fs"
    by simp_all
  show ?case
  proof (rule multiset_eqI)
    fix x
    show "count (mset (concat (map snd (fileGroups rs (f # fs))))) x =
          count (mset (filter (\<lambda>r. \<exists>f \<in> set (f # fs). fileSource r = Some f) rs)) x"
      using IH nf by (auto simp: fileGroups_def)
  qed
qed

lemma file_key_source: "fileSource r = Some f \<Longrightarrow> f \<noteq> [] \<Longrightarrow> file_key r = f"
  by (simp add: file_key_def)

subsection \<open>The current semester file\<close>

lemma foldl_current_step_bound:
  "snd acc \<le> snd (foldl current_step acc gs) \<and>
   (\<forall>g \<in> set gs. \<forall>v. group_label g = Some v \<longrightarrow> v \<le> snd (foldl current_step acc gs))"
proof (induction gs arbitrary: acc)
  case Nil
  then show ?case by simp
next
  case (Cons g gs)
  from Cons.IH [of "current_step acc g"] show ?case
    by (auto simp: current_step_def split: option.splits if_splits)
qed

lemma foldl_current_step_source:
  "foldl current_step acc gs = acc \<or>
   (\<exists>h \<in> set gs. foldl current_step acc gs = (fst h, snd (foldl current_step acc gs))
      \<and> group_label h = Some (snd (foldl current_step acc gs)))"
proof (induction gs arbitrary: acc)
  case Nil
  then show ?case by simp
next
  case (Cons g gs)
  from Cons.IH [of "current_step acc g"] show ?case
    by (cases "group_label g") (auto simp: current_step_def split: if_splits)
qed

subsection \<open>Selection\<close>

lemma current_selection_subset: "set (current_selection rs) \<subseteq> set rs"
  by (auto simp: current_selection_def Let_def)

lemma current_selection_marked:
  "list_ex marked rs \<Longrightarrow> current_selection rs = filter marked rs"
  by (auto simp: current_selection_def Let_def filter_empty_conv list_ex_iff)

lemma current_selection_unmarked:
  "\<not> list_ex marked rs \<Longrightarrow> current_selection rs = rs"
  by (auto simp: current_selection_def Let_def filter_empty_conv list_ex_iff intro: filter_True)

subsection \<open>Properties of the resolver\<close>

text \<open>
  C7. When some file's first row carries a non-negative integer semester label, the
  current semester file is the name of a file whose label is the highest label of all
  files.
\<close>

theorem currentSemesterFile_highest:
  assumes "g \<in> set gs" "group_label g = Some v" "0 \<le> v"
  shows "\<exists>h \<in> set gs. currentSemesterFile gs = Some (fst h) \<and>
           (\<exists>w. group_label h = Some w \<and> (\<forall>g' \<in> set gs. \<forall>v'. group_label g' = Some v' \<longrightarrow> v' \<le> w))"
proof -
  obtain g0 gs' where gs: "gs = g0 # gs'" using assms(1) by (cases gs) auto
  let ?r = "foldl current_step (fst g0, -1) gs"
  from foldl_current_step_bound [of "(fst g0, -1)" gs]
  have all: "\<forall>g' \<in> set gs. \<forall>v'. group_label g' = Some v' \<longrightarrow> v' \<le> snd ?r" by blast
  with assms have "0 \<le> snd ?r" by fastforce
  then have "?r \<noteq> (fst g0, -1)" by auto
  with foldl_current_step_source [of "(fst g0, -1)" gs]
  obtain h where h: "h \<in> set gs" "?r = (fst h, snd ?r)" "group_label h = Some (snd ?r)" by blast
  have "currentSemesterFile gs = Some (fst h)"
    using h(2) by (simp add: currentSemesterFile_def gs) (metis fst_conv)
  with h(1,3) all show ?thesis by blast
qed

theorem currentSemesterFile_highest_witness:
  "group_label (''s3.xlsx'', [row ''S'' ''A'' ''O'' 3 ''s3.xlsx'' ''3'' False]) = Some 3
   \<and> currentSemesterFile [(''s4.xlsx'', [row ''S'' ''B'' ''A'' 3 ''s4.xlsx'' ''4'' False]),
             (''s3.xlsx'', [row ''S'' ''A'' ''O'' 3 ''s3.xlsx'' ''3'' False])] = Some ''s4.xlsx''"
proof -
  let ?g4 = "(''s4.xlsx'', [row ''S'' ''B'' ''A'' 3 ''s4.xlsx'' ''4'' False])"
  let ?g3 = "(''s3.xlsx'', [row ''S'' ''A'' ''O'' 3 ''s3.xlsx'' ''3'' False])"
  have h1: "?g3 \<in> set [?g4, ?g3]" by simp
  have h2: "group_label ?g3 = Some 3" by code_simp
  have l4: "group_label ?g4 = Some 4" by code_simp
  have h3: "(0::int) \<le> 3" by simp
  from currentSemesterFile_highest [OF h1 h2 h3] obtain h w where
    h: "h \<in> set [?g4, ?g3]" "currentSemesterFile [?g4, ?g3] = Some (fst h)" "group_label h = Some w"
    and mx: "\<forall>g' \<in> set [?g4, ?g3]. \<forall>v'. group_label g' = Some v' \<longrightarrow> v' \<le> w" by blast
  from mx l4 have "4 \<le> w" by auto
  with h(1,3) h2 have "h = ?g4" by auto
  with h(2) h2 show ?thesis by simp
qed

text \<open>
  The scenario of spec section 8: with two files labelled \<open>3\<close> and \<open>4\<close>, the file
  labelled \<open>4\<close> is the current semester file whichever order they were uploaded in.
\<close>

lemma currentSemesterFile_scenario:
  "currentSemesterFile [(''s3.xlsx'', [row ''S'' ''A'' ''O'' 3 ''s3.xlsx'' ''3'' False]),
                        (''s4.xlsx'', [row ''S'' ''B'' ''A'' 3 ''s4.xlsx'' ''4'' False])] = Some ''s4.xlsx''
   \<and> currentSemesterFile [(''s4.xlsx'', [row ''S'' ''B'' ''A'' 3 ''s4.xlsx'' ''4'' False]),
                        (''s3.xlsx'', [row ''S'' ''A'' ''O'' 3 ''s3.xlsx'' ''3'' False])] = Some ''s4.xlsx''"
  by code_simp

text \<open>
  A negative label never wins: with a first file whose label does not parse and a
  second file labelled \<open>-2\<close> (the only parsable label), the code keeps the first file,
  because the running maximum starts at \<open>-1\<close>. Spec section 4.3 says the highest parsed
  label wins.
\<close>

theorem currentSemesterFile_negative_label:
  "group_label (''a.xlsx'', [row ''S'' ''A'' ''O'' 3 ''a.xlsx'' ''Sem'' False]) = None
   \<and> group_label (''b.xlsx'', [row ''S'' ''B'' ''A'' 3 ''b.xlsx'' ''-2'' False]) = Some (-2)
   \<and> currentSemesterFile [(''a.xlsx'', [row ''S'' ''A'' ''O'' 3 ''a.xlsx'' ''Sem'' False]),
                          (''b.xlsx'', [row ''S'' ''B'' ''A'' 3 ''b.xlsx'' ''-2'' False])] = Some ''a.xlsx''"
  by code_simp

text \<open>
  C10. A row without \<open>fileSource\<close> makes \<open>Unknown\<close> one of the processed files, yet it
  belongs to no file group: the grouping compares the raw \<open>fileSource\<close> while the file
  list uses \<open>fileSource || 'Unknown'\<close>.
\<close>

theorem fileGroups_drop_unsourced:
  assumes "r \<in> set rs" "fileSource r = None"
  shows "''Unknown'' \<in> set (filesProcessed rs) \<and>
         (\<forall>g \<in> set (fileGroups rs (filesProcessed rs)). r \<notin> set (snd g))"
proof -
  have "file_key r = ''Unknown''" using assms(2) by (simp add: file_key_def)
  then have "''Unknown'' \<in> set (filesProcessed rs)" using assms(1) by (force simp: set_filesProcessed)
  moreover have "\<forall>g \<in> set (fileGroups rs (filesProcessed rs)). r \<notin> set (snd g)"
    using assms(2) by (auto simp: fileGroups_def)
  ultimately show ?thesis by blast
qed

theorem fileGroups_drop_unsourced_witness:
  "''Unknown'' \<in> set (filesProcessed [row ''S'' ''A'' ''O'' 3 ''a.xlsx'' ''1'' False\<lparr>fileSource := None\<rparr>])
   \<and> fileGroups [row ''S'' ''A'' ''O'' 3 ''a.xlsx'' ''1'' False\<lparr>fileSource := None\<rparr>]
       (filesProcessed [row ''S'' ''A'' ''O'' 3 ''a.xlsx'' ''1'' False\<lparr>fileSource := None\<rparr>]) = [(''Unknown'', [])]"
proof -
  let ?r = "row ''S'' ''A'' ''O'' 3 ''a.xlsx'' ''1'' False\<lparr>fileSource := None\<rparr>"
  have h1: "?r \<in> set [?r]" by simp
  have h2: "fileSource ?r = None" by simp
  have u: "''Unknown'' \<in> set (filesProcessed [?r])"
    using fileGroups_drop_unsourced [OF h1 h2] by (rule conjunct1)
  have "filesProcessed [?r] = [''Unknown'']"
    by (simp add: filesProcessed_def js_unique_def file_key_def)
  then show ?thesis using u by (simp add: fileGroups_def)
qed

text \<open>
  C11. The file groups partition exactly the rows that carry a non-empty \<open>fileSource\<close>:
  concatenated, they are a permutation of those rows, each row in one group.
\<close>

theorem fileGroups_partition:
  "mset (concat (map snd (fileGroups rs (filesProcessed rs)))) =
   mset (filter (\<lambda>r. \<exists>f. fileSource r = Some f \<and> f \<noteq> []) rs)"
proof -
  have "\<forall>r \<in> set rs. (\<exists>f \<in> set (filesProcessed rs). fileSource r = Some f) =
                      (\<exists>f. fileSource r = Some f \<and> f \<noteq> [])"
  proof
    fix r assume r: "r \<in> set rs"
    show "(\<exists>f \<in> set (filesProcessed rs). fileSource r = Some f) = (\<exists>f. fileSource r = Some f \<and> f \<noteq> [])"
    proof
      assume "\<exists>f \<in> set (filesProcessed rs). fileSource r = Some f"
      then show "\<exists>f. fileSource r = Some f \<and> f \<noteq> []"
        by (auto simp: set_filesProcessed file_key_nonempty)
    next
      assume "\<exists>f. fileSource r = Some f \<and> f \<noteq> []"
      then obtain f where f: "fileSource r = Some f" "f \<noteq> []" by blast
      then have "file_key r = f" by (rule file_key_source)
      with r f(1) show "\<exists>f \<in> set (filesProcessed rs). fileSource r = Some f"
        by (auto simp: set_filesProcessed)
    qed
  qed
  then have "filter (\<lambda>r. \<exists>f \<in> set (filesProcessed rs). fileSource r = Some f) rs =
             filter (\<lambda>r. \<exists>f. fileSource r = Some f \<and> f \<noteq> []) rs"
    by (intro filter_cong) auto
  then show ?thesis by (simp only: mset_concat_groups [OF distinct_filesProcessed])
qed

end
