(* ===== verification/Classification.thy ===== *)
theory Classification
  imports TermResolver
begin

text \<open>
  The Classification Engine: \<open>calculateSingleFileClassification\<close> and
  \<open>calculateMultipleFileClassification\<close> of \<^verbatim>\<open>src/src/utils/excel/analyzer.ts\<close>. Both
  start from zeroed counters (\<open>ClassificationData\<close> of types.ts), increment one counter per
  student by the threshold chain of the code (\<open>classify_step\<close>), then overwrite \<open>fail\<close>
  with the number of \<open>U\<close> rows and set the pass percentage over raw rows.
  The specification is \<open>classify\<close>, the six-way bucket of spec section 4.5; the lemmas show
  that each student counter of the result counts the students \<open>classify\<close> puts in that
  bucket, and that \<open>fail\<close> counts rows, not students.
\<close>

section \<open>Definitions\<close>

record ClassificationData =
  distinction :: nat
  firstClassWOA :: nat
  firstClassWA :: nat
  secondClassWOA :: nat
  secondClassWA :: nat
  fail :: nat
  totalStudents :: nat
  passPercentage :: rat

text \<open>The entries of \<open>studentSgpaDetails\<close>: \<open>{ id, sgpa, hasArrears }\<close>.\<close>

record SgpaDetail =
  sd_id :: string
  sd_sgpa :: jsnum
  sd_hasArrears :: bool

definition empty_classification :: "nat \<Rightarrow> ClassificationData" where
  "empty_classification n =
     \<lparr>distinction = 0, firstClassWOA = 0, firstClassWA = 0, secondClassWOA = 0,
      secondClassWA = 0, fail = 0, totalStudents = n, passPercentage = 0\<rparr>"

text \<open>The body of the \<open>forEach\<close> over students (lines 397-417 and 473-491).\<close>

definition classify_step :: "ClassificationData \<Rightarrow> bool \<Rightarrow> jsnum \<Rightarrow> ClassificationData" where
  "classify_step c arrears g =
     (if arrears then
        (if js_ge g (Num (13 / 2)) then c\<lparr>firstClassWA := Suc (firstClassWA c)\<rparr>
         else if js_ge g (Num 5) then c\<lparr>secondClassWA := Suc (secondClassWA c)\<rparr>
         else c\<lparr>fail := Suc (fail c)\<rparr>)
      else
        (if js_ge g (Num (17 / 2)) then c\<lparr>distinction := Suc (distinction c)\<rparr>
         else if js_ge g (Num (13 / 2)) then c\<lparr>firstClassWOA := Suc (firstClassWOA c)\<rparr>
         else c\<lparr>secondClassWOA := Suc (secondClassWOA c)\<rparr>))"

text \<open>Lines 419-430 and 494-505: \<open>fail\<close> and the pass percentage over raw rows.\<close>

definition finish_classification :: "StudentRecord list \<Rightarrow> ClassificationData \<Rightarrow> ClassificationData" where
  "finish_classification records c =
     (let totalGrades = length records;
          passGrades = length (filter (\<lambda>r. GR r \<noteq> ''U'') records)
      in c\<lparr>fail := length (filter (\<lambda>r. GR r = ''U'') records),
           passPercentage := (if 0 < totalGrades
                              then to_fixed2 (of_nat passGrades / of_nat totalGrades * 100) else 0)\<rparr>)"

definition calculateSingleFileClassification ::
  "StudentRecord list \<Rightarrow> SgpaDetail list \<Rightarrow> ClassificationData" where
  "calculateSingleFileClassification records studentSgpaDetails =
     finish_classification records
       (foldl (\<lambda>c s. classify_step c (sd_hasArrears s) (sd_sgpa s))
          (empty_classification (length studentSgpaDetails)) studentSgpaDetails)"

text \<open>
  \<open>calculateMultipleFileClassification\<close>: \<open>studentCGPAs\<close> of the optional
  \<open>cgpaAnalysis\<close> (only that field is read); a student without an entry has CGPA 0.
\<close>

definition student_cgpa :: "(string \<times> jsnum) list option \<Rightarrow> string \<Rightarrow> jsnum" where
  "student_cgpa cgpas sid =
     (case cgpas of
        Some l \<Rightarrow> (case find (\<lambda>s. fst s = sid) l of Some s \<Rightarrow> js_or0 (snd s) | None \<Rightarrow> Num 0)
      | None \<Rightarrow> Num 0)"

definition arrears_any_semester :: "(string \<times> StudentRecord list) list \<Rightarrow> string \<Rightarrow> bool" where
  "arrears_any_semester groups sid \<longleftrightarrow> list_ex (\<lambda>g. hasArrears (snd g) sid) groups"

definition calculateMultipleFileClassification ::
  "StudentRecord list \<Rightarrow> (string \<times> StudentRecord list) list \<Rightarrow> (string \<times> jsnum) list option
   \<Rightarrow> ClassificationData" where
  "calculateMultipleFileClassification records groups cgpas =
     (let studentIds = js_unique (map REGNO records)
      in finish_classification records
           (foldl (\<lambda>c sid. classify_step c (arrears_any_semester groups sid) (student_cgpa cgpas sid))
              (empty_classification (length studentIds)) studentIds))"

subsection \<open>Specification: the six buckets\<close>

datatype bucket = Distinction | FirstClassWOA | FirstClassWA | SecondClassWOA | SecondClassWA | Fail

definition classify :: "bool \<Rightarrow> jsnum \<Rightarrow> bucket" where
  "classify arrears g =
     (if arrears then
        (if js_ge g (Num (13 / 2)) then FirstClassWA else if js_ge g (Num 5) then SecondClassWA else Fail)
      else
        (if js_ge g (Num (17 / 2)) then Distinction
         else if js_ge g (Num (13 / 2)) then FirstClassWOA else SecondClassWOA))"

fun bucket_counter :: "bucket \<Rightarrow> ClassificationData \<Rightarrow> nat" where
  "bucket_counter Distinction c = distinction c"
| "bucket_counter FirstClassWOA c = firstClassWOA c"
| "bucket_counter FirstClassWA c = firstClassWA c"
| "bucket_counter SecondClassWOA c = secondClassWOA c"
| "bucket_counter SecondClassWA c = secondClassWA c"
| "bucket_counter Fail c = fail c"

section \<open>Lemmas\<close>

lemma classify_step_counter:
  "bucket_counter b (classify_step c a g) =
     (if classify a g = b then Suc (bucket_counter b c) else bucket_counter b c)"
  by (cases b) (simp_all add: classify_step_def classify_def)

lemma classify_step_total: "totalStudents (classify_step c a g) = totalStudents c"
  by (simp add: classify_step_def)

lemma foldl_classify_counter:
  "bucket_counter b (foldl (\<lambda>c x. classify_step c (arr x) (gp x)) c0 xs) =
     bucket_counter b c0 + length (filter (\<lambda>x. classify (arr x) (gp x) = b) xs)"
  by (induction xs arbitrary: c0) (simp_all add: classify_step_counter)

lemma foldl_classify_total:
  "totalStudents (foldl (\<lambda>c x. classify_step c (arr x) (gp x)) c0 xs) = totalStudents c0"
  by (induction xs arbitrary: c0) (simp_all add: classify_step_total)

lemma bucket_counter_empty [simp]: "bucket_counter b (empty_classification n) = 0"
  by (cases b) (simp_all add: empty_classification_def)

lemma bucket_counter_finish:
  "b \<noteq> Fail \<Longrightarrow> bucket_counter b (finish_classification rs c) = bucket_counter b c"
  by (cases b) (simp_all add: finish_classification_def Let_def)

lemma finish_classification_fields:
  "fail (finish_classification rs c) = length (filter (\<lambda>r. GR r = ''U'') rs)"
  "totalStudents (finish_classification rs c) = totalStudents c"
  by (simp_all add: finish_classification_def Let_def)


lemma single_counter:
  "b \<noteq> Fail \<Longrightarrow> bucket_counter b (calculateSingleFileClassification rs ds) =
     length (filter (\<lambda>s. classify (sd_hasArrears s) (sd_sgpa s) = b) ds)"
  by (simp add: calculateSingleFileClassification_def bucket_counter_finish foldl_classify_counter)

lemma multiple_counter:
  "b \<noteq> Fail \<Longrightarrow> bucket_counter b (calculateMultipleFileClassification rs gs cg) =
     length (filter (\<lambda>sid. classify (arrears_any_semester gs sid) (student_cgpa cg sid) = b)
       (js_unique (map REGNO rs)))"
  by (simp add: calculateMultipleFileClassification_def Let_def bucket_counter_finish
      foldl_classify_counter)

subsection \<open>Properties of the classification\<close>

text \<open>
  C12. \<open>calculateSingleFileClassification\<close> counts, in each of its five student buckets,
  exactly the students that the bucket rule of spec section 4.5 puts there (using their
  SGPA and arrear flag); its \<open>fail\<close> field is the number of \<open>U\<close> rows and its
  \<open>totalStudents\<close> the number of students.
\<close>

theorem calculateSingleFileClassification_counts:
  "distinction (calculateSingleFileClassification rs ds) =
     length (filter (\<lambda>s. classify (sd_hasArrears s) (sd_sgpa s) = Distinction) ds) \<and>
   firstClassWOA (calculateSingleFileClassification rs ds) =
     length (filter (\<lambda>s. classify (sd_hasArrears s) (sd_sgpa s) = FirstClassWOA) ds) \<and>
   firstClassWA (calculateSingleFileClassification rs ds) =
     length (filter (\<lambda>s. classify (sd_hasArrears s) (sd_sgpa s) = FirstClassWA) ds) \<and>
   secondClassWOA (calculateSingleFileClassification rs ds) =
     length (filter (\<lambda>s. classify (sd_hasArrears s) (sd_sgpa s) = SecondClassWOA) ds) \<and>
   secondClassWA (calculateSingleFileClassification rs ds) =
     length (filter (\<lambda>s. classify (sd_hasArrears s) (sd_sgpa s) = SecondClassWA) ds) \<and>
   fail (calculateSingleFileClassification rs ds) = length (filter (\<lambda>r. GR r = ''U'') rs) \<and>
   totalStudents (calculateSingleFileClassification rs ds) = length ds"
  using single_counter [of Distinction rs ds] single_counter [of FirstClassWOA rs ds]
    single_counter [of FirstClassWA rs ds] single_counter [of SecondClassWOA rs ds]
    single_counter [of SecondClassWA rs ds]
  by (simp add: calculateSingleFileClassification_def finish_classification_fields
      foldl_classify_total empty_classification_def)


text \<open>
  The \<open>fail\<close> column counts \<open>U\<close> rows, not students: one student with SGPA 7 and two
  arrears is counted once as First Class with arrears and twice as a fail, so the six
  columns sum to 3 for a cohort of 1.
\<close>

theorem classification_fail_counts_rows:
  "firstClassWA (calculateSingleFileClassification
      [row ''S'' ''A'' ''U'' 3 ''f'' ''1'' True, row ''S'' ''B'' ''U'' 3 ''f'' ''1'' True]
      [\<lparr>sd_id = ''S'', sd_sgpa = Num 7, sd_hasArrears = True\<rparr>]) = 1
   \<and> fail (calculateSingleFileClassification
      [row ''S'' ''A'' ''U'' 3 ''f'' ''1'' True, row ''S'' ''B'' ''U'' 3 ''f'' ''1'' True]
      [\<lparr>sd_id = ''S'', sd_sgpa = Num 7, sd_hasArrears = True\<rparr>]) = 2
   \<and> totalStudents (calculateSingleFileClassification
      [row ''S'' ''A'' ''U'' 3 ''f'' ''1'' True, row ''S'' ''B'' ''U'' 3 ''f'' ''1'' True]
      [\<lparr>sd_id = ''S'', sd_sgpa = Num 7, sd_hasArrears = True\<rparr>]) = 1"
  by (simp add: calculateSingleFileClassification_def finish_classification_def
      classify_step_def empty_classification_def)

text \<open>
  C15. The cumulative classification counts, per bucket, the distinct students whose CGPA
  (0 when the student has no positive CGPA entry) and arrears in any semester file fall in
  that bucket; \<open>totalStudents\<close> is the number of distinct students.
\<close>

theorem calculateMultipleFileClassification_counts:
  "distinction (calculateMultipleFileClassification rs gs cg) =
     length (filter (\<lambda>sid. classify (arrears_any_semester gs sid) (student_cgpa cg sid) = Distinction)
       (js_unique (map REGNO rs))) \<and>
   firstClassWOA (calculateMultipleFileClassification rs gs cg) =
     length (filter (\<lambda>sid. classify (arrears_any_semester gs sid) (student_cgpa cg sid) = FirstClassWOA)
       (js_unique (map REGNO rs))) \<and>
   firstClassWA (calculateMultipleFileClassification rs gs cg) =
     length (filter (\<lambda>sid. classify (arrears_any_semester gs sid) (student_cgpa cg sid) = FirstClassWA)
       (js_unique (map REGNO rs))) \<and>
   secondClassWOA (calculateMultipleFileClassification rs gs cg) =
     length (filter (\<lambda>sid. classify (arrears_any_semester gs sid) (student_cgpa cg sid) = SecondClassWOA)
       (js_unique (map REGNO rs))) \<and>
   secondClassWA (calculateMultipleFileClassification rs gs cg) =
     length (filter (\<lambda>sid. classify (arrears_any_semester gs sid) (student_cgpa cg sid) = SecondClassWA)
       (js_unique (map REGNO rs))) \<and>
   totalStudents (calculateMultipleFileClassification rs gs cg) = card (REGNO ` set rs)"
  using multiple_counter [of Distinction rs gs cg] multiple_counter [of FirstClassWOA rs gs cg]
    multiple_counter [of FirstClassWA rs gs cg] multiple_counter [of SecondClassWOA rs gs cg]
    multiple_counter [of SecondClassWA rs gs cg]
  by (simp add: calculateMultipleFileClassification_def Let_def finish_classification_fields
      foldl_classify_total empty_classification_def length_js_unique)

end
