(* ===== verification/CohortStats.thy ===== *)
theory CohortStats
  imports Classification
begin

text \<open>
  The Cohort Analyzer: the statistics \<open>analyzeResults\<close> computes in
  \<^verbatim>\<open>src/src/utils/excel/analyzer.ts\<close> lines 78-338, each as its own definition over the
  rows, the file groups and the current-term rows that \<open>TermResolver\<close> produces.
  \<^item> \<open>cgpa_analysis\<close> (lines 78-125): per-student CGPA, positive ones only, ranked
    descending, average/highest/lowest, top ten.
  \<^item> \<open>current_sgpa\<close>, \<open>sgpa_details\<close> (lines 149-194): the current-term SGPA of every
    student who has a selected row, computed over all of that student's rows in the current
    file with the guard \<open>creditValue > 0\<close>, then ranked by id with \<open>localeCompare\<close>
    (a parameter \<open>collate\<close>: the host's locale collation).
  \<^item> \<open>js_average\<close>, \<open>sgpa_stats\<close> (lines 196-210).
  \<^item> \<open>grade_histogram\<close> (lines 212-226): a plain object counted by
    \<open>(obj[g] || 0) + 1\<close>; an inherited member turns its entry into a string (\<open>HJunk\<close>).
  \<^item> \<open>subject_performance\<close> (lines 228-278), \<open>top_performers\<close> (280-293),
    \<open>needs_improvement\<close> (295-302), \<open>pass_fail\<close> (304-315),
    \<open>subject_grade_distribution\<close> (317-338).
\<close>

section \<open>Definitions\<close>

subsection \<open>Averages\<close>

text \<open>\<open>formatTo2Decimals(vals.reduce((s, v) => s + v, 0) / vals.length)\<close>, 0 when empty.\<close>

definition js_average :: "jsnum list \<Rightarrow> jsnum" where
  "js_average vals =
     (if vals \<noteq> [] then js_fixed2 (js_quot (foldl js_add (Num 0) vals) (of_nat (length vals)))
      else Num 0)"

subsection \<open>CGPA block\<close>

record CgpaAnalysis =
  studentCGPAs :: "(string \<times> jsnum) list"
  ca_averageCGPA :: jsnum
  ca_highestCGPA :: jsnum
  ca_lowestCGPA :: jsnum
  toppersList :: "(string \<times> jsnum) list"
  ca_currentSemesterFile :: "string option"

definition cgpa_analysis ::
  "StudentRecord list \<Rightarrow> (string \<times> StudentRecord list) list \<Rightarrow> string option \<Rightarrow> CgpaAnalysis option" where
  "cgpa_analysis records groups csf =
     (if 1 < length groups then
        let studentIds = js_unique (map REGNO records);
            positive = filter (\<lambda>s. js_gt (snd s) (Num 0))
                         (map (\<lambda>i. (i, calculateCGPA records i groups)) studentIds);
            ranked = js_sort (\<lambda>a b. js_sub (snd b) (snd a)) positive;
            valid = filter (\<lambda>v. js_gt v (Num 0)) (map snd ranked)
        in Some \<lparr>studentCGPAs = ranked,
                 ca_averageCGPA = js_average valid,
                 ca_highestCGPA = (if valid \<noteq> [] then js_fixed2 (js_max valid) else Num 0),
                 ca_lowestCGPA = (if valid \<noteq> [] then js_fixed2 (js_min valid) else Num 0),
                 toppersList = take 10 ranked,
                 ca_currentSemesterFile = csf\<rparr>
      else None)"

subsection \<open>Current-term SGPA list\<close>

text \<open>The loop of lines 170-180: only rows with \<open>creditValue > 0\<close> count.\<close>

definition sgpa_pos_step :: "jsnum \<times> rat \<Rightarrow> StudentRecord \<Rightarrow> jsnum \<times> rat" where
  "sgpa_pos_step acc r =
     (if grade_recognised (GR r) \<and> 0 < credit_of r
      then (js_add (fst acc) (js_mul (grade_value (GR r)) (Num (credit_of r))), snd acc + credit_of r)
      else acc)"

definition current_sgpa :: "StudentRecord list \<Rightarrow> jsnum" where
  "current_sgpa studentRecords =
     (let t = foldl sgpa_pos_step (Num 0, 0) studentRecords
      in if 0 < snd t then js_fixed2 (js_quot (fst t) (snd t)) else Num 0)"

text \<open>
  Lines 153-194: one entry per student with a selected row; the SGPA and the arrear flag
  come from all of the student's rows in the current file.
\<close>

definition sgpa_details ::
  "(string \<Rightarrow> string \<Rightarrow> int) \<Rightarrow> StudentRecord list \<Rightarrow> StudentRecord list \<Rightarrow> SgpaDetail list" where
  "sgpa_details collate currentRecords selected =
     js_sort (\<lambda>a b. Num (of_int (collate (sd_id a) (sd_id b))))
       (map (\<lambda>i. let studentRecords = filter (\<lambda>r. REGNO r = i) currentRecords
                 in \<lparr>sd_id = i, sd_sgpa = current_sgpa studentRecords,
                     sd_hasArrears = hasArrears studentRecords i\<rparr>)
          (js_unique (map REGNO selected)))"

record SgpaStats =
  st_averageCGPA :: jsnum
  st_highestSGPA :: jsnum
  st_lowestSGPA :: jsnum

text \<open>Lines 196-210: the average skips zero SGPAs, highest and lowest do not.\<close>

definition sgpa_stats :: "SgpaDetail list \<Rightarrow> SgpaStats" where
  "sgpa_stats details =
     \<lparr>st_averageCGPA = js_average (map sd_sgpa (filter (\<lambda>s. js_gt (sd_sgpa s) (Num 0)) details)),
      st_highestSGPA = (if details \<noteq> [] then js_fixed2 (js_max (map sd_sgpa details)) else Num 0),
      st_lowestSGPA = (if details \<noteq> [] then js_fixed2 (js_min (map sd_sgpa details)) else Num 0)\<rparr>"

subsection \<open>Histograms\<close>

text \<open>The value of a counter property: a count, or the string an inherited member became.\<close>

datatype hval = HCount nat | HJunk

text \<open>
  \<open>obj[g] = (obj[g] || 0) + 1\<close>: an own count is incremented; an absent key starts at 1
  unless it names an inherited member (a function, so \<open>+ 1\<close> concatenates strings);
  assigning a string to \<open>__proto__\<close> is ignored.
\<close>

definition hist_bump :: "(string \<times> hval) list \<Rightarrow> string \<Rightarrow> (string \<times> hval) list" where
  "hist_bump h g =
     (if g = ''__proto__'' then h
      else obj_put g (case obj_get h g of
                        Some (HCount n) \<Rightarrow> HCount (Suc n)
                      | Some HJunk \<Rightarrow> HJunk
                      | None \<Rightarrow> (if g \<in> set object_prototype_keys then HJunk else HCount 1)) h)"

definition hist_step :: "(string \<times> hval) list \<Rightarrow> StudentRecord \<Rightarrow> (string \<times> hval) list" where
  "hist_step h r = (if grade_recognised (GR r) then hist_bump h (GR r) else h)"

definition grade_histogram :: "StudentRecord list \<Rightarrow> (string \<times> hval) list" where
  "grade_histogram records = foldl hist_step [] records"

text \<open>\<open>Object.entries(...).map(([grade, count]) => ({name, count, fill}))\<close>.\<close>

definition histogram_data :: "(string \<times> hval) list \<Rightarrow> (string \<times> hval \<times> string option) list" where
  "histogram_data h = map (\<lambda>e. (fst e, snd e, getGradeColor (fst e))) (js_entries h)"

definition totalGrades :: "StudentRecord list \<Rightarrow> nat" where
  "totalGrades records = length (filter (\<lambda>r. grade_recognised (GR r)) records)"

subsection \<open>Subject performance\<close>

text \<open>Lines 230-237: the rows analysed per subject.\<close>

definition subject_rows :: "StudentRecord list \<Rightarrow> StudentRecord list \<Rightarrow> string option \<Rightarrow> StudentRecord list" where
  "subject_rows records currentRecords csf =
     (let markedRecords = filter marked currentRecords
      in if markedRecords \<noteq> [] then markedRecords
         else (case csf of Some _ \<Rightarrow> filter (\<lambda>r. \<not> marked r) currentRecords
                         | None \<Rightarrow> filter (\<lambda>r. \<not> marked r) records))"

record SubjectTally =
  sp_pass :: nat
  sp_fail :: nat
  sp_total :: nat
  sp_subjectName :: "string option"

definition truthy_str :: "string option \<Rightarrow> bool" where
  "truthy_str s \<longleftrightarrow> s \<noteq> None \<and> s \<noteq> Some []"

definition tally :: "StudentRecord \<Rightarrow> SubjectTally \<Rightarrow> SubjectTally" where
  "tally r t =
     (if GR r \<noteq> ''U'' then t\<lparr>sp_total := Suc (sp_total t), sp_pass := Suc (sp_pass t)\<rparr>
      else t\<lparr>sp_total := Suc (sp_total t), sp_fail := Suc (sp_fail t)\<rparr>)"

text \<open>
  Lines 248-271. A subject code naming an inherited member finds that member (truthy), so
  the code writes its counters onto the shared prototype and no own entry appears.
\<close>

definition subject_step :: "(string \<times> SubjectTally) list \<Rightarrow> StudentRecord \<Rightarrow> (string \<times> SubjectTally) list" where
  "subject_step m r =
     (if \<not> grade_recognised (GR r) then m
      else case obj_get m (SCODE r) of
        Some t \<Rightarrow> obj_put (SCODE r)
                   (tally r (if truthy_str (subjectName r) \<and> \<not> truthy_str (sp_subjectName t)
                             then t\<lparr>sp_subjectName := subjectName r\<rparr> else t)) m
      | None \<Rightarrow> (if SCODE r \<in> set object_prototype_keys then m
                 else obj_put (SCODE r)
                        (tally r \<lparr>sp_pass = 0, sp_fail = 0, sp_total = 0,
                                  sp_subjectName = subjectName r\<rparr>) m))"

definition percent :: "nat \<Rightarrow> nat \<Rightarrow> rat" where
  "percent k n = (if 0 < n then to_fixed2 (of_nat k / of_nat n * 100) else 0)"

definition subject_performance ::
  "StudentRecord list \<Rightarrow> (string \<times> rat \<times> rat \<times> string option) list" where
  "subject_performance rows =
     map (\<lambda>e. (fst e, percent (sp_pass (snd e)) (sp_total (snd e)),
               percent (sp_fail (snd e)) (sp_total (snd e)), sp_subjectName (snd e)))
       (js_entries (foldl subject_step [] rows))"

subsection \<open>Rankings\<close>

text \<open>Line 282: the in-place sort of \<open>studentSgpaDetails\<close> by SGPA, descending.\<close>

definition sort_by_sgpa :: "SgpaDetail list \<Rightarrow> SgpaDetail list" where
  "sort_by_sgpa details = js_sort (\<lambda>a b. js_sub (sd_sgpa b) (sd_sgpa a)) details"

definition best_grade :: "StudentRecord list \<Rightarrow> string \<Rightarrow> string" where
  "best_grade records i =
     (let studentRecords = filter (\<lambda>r. REGNO r = i \<and> grade_recognised (GR r)) records
      in case js_sort (\<lambda>a b. js_sub (grade_value (GR b)) (grade_value (GR a))) studentRecords of
           r # _ \<Rightarrow> GR r
         | [] \<Rightarrow> ''A'')"

definition top_performers :: "StudentRecord list \<Rightarrow> SgpaDetail list \<Rightarrow> (string \<times> jsnum \<times> string) list" where
  "top_performers records ranked =
     map (\<lambda>s. (sd_id s, sd_sgpa s, best_grade records (sd_id s))) (take 6 ranked)"

definition needs_improvement :: "StudentRecord list \<Rightarrow> SgpaDetail list \<Rightarrow> (string \<times> jsnum \<times> string) list" where
  "needs_improvement records ranked =
     map (\<lambda>s. (sd_id s, sd_sgpa s,
               if hasArrears records (sd_id s) then getSubjectsWithArrears records (sd_id s) else []))
       (filter (\<lambda>s. js_lt (sd_sgpa s) (Num (13 / 2)) \<or> sd_hasArrears s) ranked)"

subsection \<open>Pass/fail and per-subject grade distribution\<close>

definition pass_fail :: "StudentRecord list \<Rightarrow> rat \<times> rat" where
  "pass_fail records =
     (let passCount = length (filter (\<lambda>r. grade_recognised (GR r) \<and> GR r \<noteq> ''U'') records);
          failCount = length (filter (\<lambda>r. GR r = ''U'') records)
      in (percent passCount (passCount + failCount), percent failCount (passCount + failCount)))"

text \<open>
  Lines 318-338: one histogram per subject of the analysed rows; an assignment to the key
  \<open>__proto__\<close> replaces the prototype instead of creating an entry.
\<close>

definition subject_grade_distribution ::
  "StudentRecord list \<Rightarrow> (string \<times> (string \<times> hval \<times> string option) list) list" where
  "subject_grade_distribution rows =
     filter (\<lambda>e. fst e \<noteq> ''__proto__'')
       (map (\<lambda>s. (s, histogram_data (grade_histogram (filter (\<lambda>r. SCODE r = s) rows))))
          (js_unique (map SCODE rows)))"

section \<open>Lemmas\<close>

subsection \<open>The current-term SGPA loop\<close>

lemma sgpa_pos_step_own:
  "map_of gradePointMap (GR r) = Some p \<Longrightarrow> 0 < credit_of r \<Longrightarrow>
   sgpa_pos_step (Num w, t) r = (Num (w + p * credit_of r), t + credit_of r)"
  by (simp add: sgpa_pos_step_def grade_recognised_iff gpa_simps)

lemma sgpa_pos_step_skip:
  "\<not> (grade_recognised (GR r) \<and> 0 < credit_of r) \<Longrightarrow> sgpa_pos_step acc r = acc"
  unfolding sgpa_pos_step_def by (simp only: if_False)

lemma foldl_sgpa_pos_step:
  assumes "\<forall>r \<in> set rs. 0 \<le> credit_of r" "\<not> prototype_grade rs"
  shows "foldl sgpa_pos_step (Num w, t) rs = (Num (w + spec_points rs), t + spec_credits rs)"
  using assms
proof (induction rs arbitrary: w t)
  case Nil
  then show ?case by (simp add: spec_points_def spec_credits_def)
next
  case (Cons r rs)
  then have rs: "\<forall>r \<in> set rs. 0 \<le> credit_of r" "\<not> prototype_grade rs"
    and c: "0 \<le> credit_of r" and np: "GR r \<notin> set object_prototype_keys"
    by (simp_all add: prototype_grade_def)
  show ?case
  proof (cases "counted r \<and> 0 < credit_of r")
    case True
    with np obtain p where p: "map_of gradePointMap (GR r) = Some p"
      by (auto simp: counted_def grade_recognised_iff)
    with True have "sgpa_pos_step (Num w, t) r = (Num (w + p * credit_of r), t + credit_of r)"
      by (simp add: sgpa_pos_step_own)
    with Cons.IH [OF rs] True p show ?thesis
      by (simp add: spec_points_def spec_credits_def gpa_simps algebra_simps)
  next
    case False
    then have "sgpa_pos_step (Num w, t) r = (Num w, t)"
      by (simp add: sgpa_pos_step_skip counted_def)
    moreover from False c have "counted r \<Longrightarrow> credit_of r = 0" by simp
    ultimately show ?thesis using Cons.IH [OF rs]
      by (simp add: spec_points_def spec_credits_def)
  qed
qed

lemma foldl_sgpa_pos_step_num:
  "\<not> prototype_grade rs \<Longrightarrow> is_num (fst (foldl sgpa_pos_step (Num w, t) rs))"
proof (induction rs arbitrary: w t)
  case (Cons r rs)
  then have np: "GR r \<notin> set object_prototype_keys" and rs: "\<not> prototype_grade rs"
    by (simp_all add: prototype_grade_def)
  have "\<exists>w' t'. sgpa_pos_step (Num w, t) r = (Num w', t')"
  proof (cases "grade_recognised (GR r) \<and> 0 < credit_of r")
    case True
    with np obtain p where "map_of gradePointMap (GR r) = Some p"
      by (auto simp: grade_recognised_iff)
    with True show ?thesis by (simp add: sgpa_pos_step_own)
  next
    case False
    then show ?thesis by (simp add: sgpa_pos_step_skip)
  qed
  then obtain w' t' where "sgpa_pos_step (Num w, t) r = (Num w', t')" by blast
  with Cons.IH [OF rs, of w' t'] show ?case by simp
qed simp

lemma current_sgpa_num: "\<not> prototype_grade rs \<Longrightarrow> is_num (current_sgpa rs)"
  using foldl_sgpa_pos_step_num [of rs 0 0]
  by (cases "fst (foldl sgpa_pos_step (Num 0, 0) rs)") (simp_all add: current_sgpa_def Let_def)

lemma is_num_iff: "is_num x \<longleftrightarrow> x = Num (num_val x)"
  by (cases x) simp_all

subsection \<open>Ranking\<close>

lemma sort_by_sgpa_sort_key:
  "\<forall>d \<in> set ds. is_num (sd_sgpa d) \<Longrightarrow>
   sort_by_sgpa ds = sort_key (\<lambda>d. - num_val (sd_sgpa d)) ds"
  unfolding sort_by_sgpa_def
  by (rule js_sort_desc [where k = "\<lambda>d. num_val (sd_sgpa d)"]) (simp add: is_num_iff [symmetric])

lemma sorted_neg_key: "sorted (map (\<lambda>x. - k x) ys) \<longleftrightarrow> sorted_wrt (\<lambda>a b. b \<le> a) (map k ys)"
  for k :: "'a \<Rightarrow> rat"
  by (simp add: sorted_wrt_map)

lemma sort_by_sgpa_sorted:
  "\<forall>d \<in> set ds. is_num (sd_sgpa d) \<Longrightarrow>
   sorted_wrt (\<lambda>a b. b \<le> a) (map (\<lambda>d. num_val (sd_sgpa d)) (sort_by_sgpa ds))"
  by (simp add: sort_by_sgpa_sort_key sorted_neg_key [symmetric] sorted_sort_key)

lemma mset_sort_by_sgpa [simp]: "mset (sort_by_sgpa ds) = mset ds"
  by (simp add: sort_by_sgpa_def)

lemma set_sgpa_details: "set (sgpa_details c cur sel) =
  (\<lambda>i. \<lparr>sd_id = i, sd_sgpa = current_sgpa (filter (\<lambda>r. REGNO r = i) cur),
        sd_hasArrears = hasArrears (filter (\<lambda>r. REGNO r = i) cur) i\<rparr>) ` REGNO ` set sel"
  by (auto simp: sgpa_details_def Let_def)

subsection \<open>Statistics\<close>

lemma js_average_Num:
  "js_average (map Num vs) = Num (if vs = [] then 0 else to_fixed2 (sum_list vs / of_nat (length vs)))"
proof -
  have "\<And>w. foldl js_add (Num w) (map Num vs) = Num (w + sum_list vs)"
    by (induction vs) (simp_all add: algebra_simps)
  then show ?thesis by (simp add: js_average_def)
qed

lemma js_max_const: "xs \<noteq> [] \<Longrightarrow> \<forall>x \<in> set xs. x = Num v \<Longrightarrow> js_max xs = Num v"
proof -
  assume "xs \<noteq> []" "\<forall>x \<in> set xs. x = Num v"
  then have "set (map num_val xs) = {v}" by (induction xs) auto
  moreover from \<open>\<forall>x \<in> set xs. x = Num v\<close> have "list_all is_num xs" by (auto simp: list_all_iff)
  ultimately show ?thesis by (simp add: js_max_def)
qed

lemma js_min_const: "xs \<noteq> [] \<Longrightarrow> \<forall>x \<in> set xs. x = Num v \<Longrightarrow> js_min xs = Num v"
proof -
  assume "xs \<noteq> []" "\<forall>x \<in> set xs. x = Num v"
  then have "set (map num_val xs) = {v}" by (induction xs) auto
  moreover from \<open>\<forall>x \<in> set xs. x = Num v\<close> have "list_all is_num xs" by (auto simp: list_all_iff)
  ultimately show ?thesis by (simp add: js_min_def)
qed

lemma js_min_zero:
  assumes "\<forall>x \<in> set xs. \<exists>v. x = Num v \<and> 0 \<le> v" "Num 0 \<in> set xs"
  shows "js_min xs = Num 0"
proof -
  from assms(1) have all: "list_all is_num xs" by (auto simp: list_all_iff)
  from assms have "0 \<in> set (map num_val xs)" by force
  moreover from assms(1) have "\<forall>v \<in> set (map num_val xs). 0 \<le> v" by auto
  ultimately have "Min (set (map num_val xs)) = 0"
    by (intro Min_eqI) auto
  with all show ?thesis by (simp add: js_min_def)
qed

subsection \<open>Histograms\<close>

lemma obj_get_put: "obj_get (obj_put k v h) k' = (if k = k' then Some v else obj_get h k')"
  by (induction h) (auto simp: obj_get_def)

lemma hist_step_other: "GR r \<noteq> g \<Longrightarrow> obj_get (hist_step h r) g = obj_get h g"
  by (simp add: hist_step_def hist_bump_def obj_get_put)

lemma hist_step_own:
  "map_of gradePointMap g = Some p \<Longrightarrow>
   obj_get (hist_step h \<lparr>CNo = c, SEM = s, REGNO = i, SCODE = sc, GR = g, creditValue = cv,
      subjectName = sn, facultyName = fn, fileSource = fs, isArrear = a\<rparr>) g =
   Some (case obj_get h g of Some (HCount n) \<Rightarrow> HCount (Suc n) | Some HJunk \<Rightarrow> HJunk | None \<Rightarrow> HCount 1)"
  using grade_keys_not_prototype [of g p]
  by (auto simp: hist_step_def hist_bump_def obj_get_put grade_recognised_iff
      object_prototype_keys_def)

definition hist_after :: "hval option \<Rightarrow> nat \<Rightarrow> hval option" where
  "hist_after h n =
     (if n = 0 then h
      else case h of None \<Rightarrow> Some (HCount n) | Some (HCount m) \<Rightarrow> Some (HCount (m + n))
                   | Some HJunk \<Rightarrow> Some HJunk)"

lemma foldl_hist_step_own:
  assumes "map_of gradePointMap g = Some p"
  shows "obj_get (foldl hist_step h rs) g =
           hist_after (obj_get h g) (length (filter (\<lambda>r. GR r = g) rs))"
proof (induction rs arbitrary: h)
  case Nil
  then show ?case by (simp add: hist_after_def)
next
  case (Cons r rs)
  show ?case
  proof (cases "GR r = g")
    case True
    then have "obj_get (hist_step h r) g =
      Some (case obj_get h g of Some (HCount n) \<Rightarrow> HCount (Suc n) | Some HJunk \<Rightarrow> HJunk | None \<Rightarrow> HCount 1)"
      using hist_step_own [OF assms, of h "CNo r" "SEM r" "REGNO r" "SCODE r" "creditValue r"
          "subjectName r" "facultyName r" "fileSource r" "isArrear r"]
      by (cases r) simp
    with True Cons.IH [of "hist_step h r"] show ?thesis
      by (auto simp: hist_after_def split: option.split hval.split)
  next
    case False
    with Cons.IH [of "hist_step h r"] show ?thesis by (simp add: hist_step_other)
  qed
qed

lemma map_top_performers_sgpa:
  "map (\<lambda>t. fst (snd t)) (top_performers rs ranked) = take 6 (map sd_sgpa ranked)"
  by (simp add: top_performers_def take_map)

lemma js_gt_zero_ne: "js_gt x (Num 0) \<Longrightarrow> x \<noteq> Num 0"
  by auto

lemma top_performers_sorted: assumes "\<forall>d \<in> set ds. is_num (sd_sgpa d)"
  shows "sorted_wrt (\<lambda>a b. b \<le> a) (map (\<lambda>t. num_val (fst (snd t))) (top_performers rs (sort_by_sgpa ds)))"
proof -
  have "map (\<lambda>t. num_val (fst (snd t))) (top_performers rs (sort_by_sgpa ds)) =
        take 6 (map (\<lambda>d. num_val (sd_sgpa d)) (sort_by_sgpa ds))"
    by (simp add: top_performers_def take_map)
  then show ?thesis
    using sort_by_sgpa_sorted [OF assms] by (simp add: sorted_wrt_take)
qed
lemma sort_by_sgpa_stable: assumes "\<forall>d \<in> set ds. is_num (sd_sgpa d)"
  shows "filter (\<lambda>d. sd_sgpa d = Num v) (sort_by_sgpa ds) = filter (\<lambda>d. sd_sgpa d = Num v) ds"
proof -
  have eq: "\<And>xs. set xs \<subseteq> set ds \<Longrightarrow> filter (\<lambda>d. sd_sgpa d = Num v) xs =
              filter (\<lambda>d. - num_val (sd_sgpa d) = - v) xs"
  proof -
    fix xs assume "set xs \<subseteq> set ds"
    then have "\<forall>d \<in> set xs. (sd_sgpa d = Num v) = (- num_val (sd_sgpa d) = - v)"
      using assms by (force simp: is_num_iff)
    then show "filter (\<lambda>d. sd_sgpa d = Num v) xs = filter (\<lambda>d. - num_val (sd_sgpa d) = - v) xs"
      by (intro filter_cong refl) blast
  qed
  have s: "set (sort_by_sgpa ds) \<subseteq> set ds" by (simp add: sort_by_sgpa_def)
  show ?thesis
    using sort_key_stable [of "\<lambda>d. - num_val (sd_sgpa d)" "- v" ds] eq [OF s] eq [of ds]
    by (simp add: sort_by_sgpa_sort_key [OF assms])
qed
subsection \<open>The CGPA ranking\<close>

lemma js_gt_zero_Num: "js_gt x (Num 0) \<Longrightarrow> x = Num (num_val x)"
  by (cases x) simp_all

text \<open>
  \<open>studentCGPAs\<close> holds numbers only, ranked best first: it is the stable sort of the
  positive CGPAs by their value, descending.
\<close>

lemma studentCGPAs_ranked:
  assumes "cgpa_analysis records groups csf = Some ca"
  shows "\<exists>positive. studentCGPAs ca = sort_key (\<lambda>a. - num_val (snd a)) positive
           \<and> (\<forall>y \<in> set positive. snd y = Num (num_val (snd y)))"
proof -
  define positive where "positive = filter (\<lambda>s. js_gt (snd s) (Num 0))
    (map (\<lambda>i. (i, calculateCGPA records i groups)) (js_unique (map REGNO records)))"
  have num: "\<forall>y \<in> set positive. snd y = Num (num_val (snd y))"
    by (auto simp: positive_def intro: js_gt_zero_Num)
  have "studentCGPAs ca = js_sort (\<lambda>a b. js_sub (snd b) (snd a)) positive"
    using assms by (auto simp: cgpa_analysis_def Let_def positive_def split: if_splits)
  then have "studentCGPAs ca = sort_key (\<lambda>a. - num_val (snd a)) positive"
    using js_sort_desc [OF num] by simp
  with num show ?thesis by blast
qed

lemma studentCGPAs_sorted:
  assumes "cgpa_analysis records groups csf = Some ca"
  shows "sorted (map (\<lambda>a. - num_val (snd a)) (studentCGPAs ca))
         \<and> (\<forall>y \<in> set (studentCGPAs ca). snd y = Num (num_val (snd y)))"
  using studentCGPAs_ranked [OF assms] by auto

subsection \<open>Properties of the cohort statistics\<close>

text \<open>
  C16. The inline SGPA loop of \<open>analyzeResults\<close> (which skips rows whose credit is not
  positive) agrees with \<open>calculateSGPA\<close> on a student's rows whenever credits are
  non-negative and no grade is a prototype name.
\<close>

theorem current_sgpa_eq_calculateSGPA:
  assumes "\<forall>r \<in> set rs. 0 \<le> credit_of r"
    and "\<not> prototype_grade (filter (\<lambda>r. REGNO r = sid) rs)"
  shows "current_sgpa (filter (\<lambda>r. REGNO r = sid) rs) = calculateSGPA rs sid"
proof -
  let ?s = "filter (\<lambda>r. REGNO r = sid) rs"
  from assms(1) have c: "\<forall>r \<in> set ?s. 0 \<le> credit_of r" by simp
  from foldl_sgpa_pos_step [OF c assms(2), of 0 0]
  have f: "foldl sgpa_pos_step (Num 0, 0) ?s = (Num (spec_points ?s), spec_credits ?s)" by simp
  from spec_credits_nonneg [OF c] have "0 < spec_credits ?s \<longleftrightarrow> spec_credits ?s \<noteq> 0" by auto
  with f show ?thesis
    by (simp add: current_sgpa_def calculateSGPA_refines_spec [OF assms(2)] spec_gpa_def)
qed

theorem current_sgpa_eq_calculateSGPA_witness:
  "current_sgpa (filter (\<lambda>r. REGNO r = ''S'')
      [row ''S'' ''A'' ''B'' 4 ''f'' ''1'' True, row ''S'' ''B'' ''U'' 3 ''f'' ''1'' False])
   = calculateSGPA [row ''S'' ''A'' ''B'' 4 ''f'' ''1'' True, row ''S'' ''B'' ''U'' 3 ''f'' ''1'' False] ''S''"
proof -
  have h1: "\<forall>r \<in> set [row ''S'' ''A'' ''B'' 4 ''f'' ''1'' True, row ''S'' ''B'' ''U'' 3 ''f'' ''1'' False].
              0 \<le> credit_of r" by (simp add: credit_of_def)
  have h2: "\<not> prototype_grade (filter (\<lambda>r. REGNO r = ''S'')
              [row ''S'' ''A'' ''B'' 4 ''f'' ''1'' True, row ''S'' ''B'' ''U'' 3 ''f'' ''1'' False])"
    by (simp add: prototype_grade_def object_prototype_keys_def)
  show ?thesis by (rule current_sgpa_eq_calculateSGPA [OF h1 h2])
qed

text \<open>
  C17. When every SGPA is a number, the top performers are at most six students in
  descending order of SGPA, and the ranking sort is stable: students with equal SGPA keep
  the order they had before it.
\<close>

theorem top_performers_ranked:
  assumes "\<forall>d \<in> set ds. is_num (sd_sgpa d)"
  shows "sorted_wrt (\<lambda>a b. b \<le> a) (map (\<lambda>t. num_val (fst (snd t))) (top_performers rs (sort_by_sgpa ds)))
         \<and> length (top_performers rs (sort_by_sgpa ds)) \<le> 6
         \<and> (\<forall>v. filter (\<lambda>d. sd_sgpa d = Num v) (sort_by_sgpa ds) = filter (\<lambda>d. sd_sgpa d = Num v) ds)"
  using top_performers_sorted [OF assms] sort_by_sgpa_stable [OF assms]
  by (simp add: top_performers_def)

theorem top_performers_ranked_witness:
  "map (\<lambda>t. fst (snd t)) (top_performers []
      (sort_by_sgpa [\<lparr>sd_id = ''A'', sd_sgpa = Num 7, sd_hasArrears = False\<rparr>,
                     \<lparr>sd_id = ''B'', sd_sgpa = Num 9, sd_hasArrears = False\<rparr>])) = [Num 9, Num 7]
   \<and> length (top_performers []
      (sort_by_sgpa [\<lparr>sd_id = ''A'', sd_sgpa = Num 7, sd_hasArrears = False\<rparr>,
                     \<lparr>sd_id = ''B'', sd_sgpa = Num 9, sd_hasArrears = False\<rparr>])) \<le> 6"
proof -
  have h: "\<forall>d \<in> set [\<lparr>sd_id = ''A'', sd_sgpa = Num 7, sd_hasArrears = False\<rparr>,
                      \<lparr>sd_id = ''B'', sd_sgpa = Num 9, sd_hasArrears = False\<rparr>]. is_num (sd_sgpa d)"
    by simp
  have "length (top_performers []
      (sort_by_sgpa [\<lparr>sd_id = ''A'', sd_sgpa = Num 7, sd_hasArrears = False\<rparr>,
                     \<lparr>sd_id = ''B'', sd_sgpa = Num 9, sd_hasArrears = False\<rparr>])) \<le> 6"
    using top_performers_ranked [OF h, of "[]"] by (rule conjunct1 [OF conjunct2])
  then show ?thesis
    by (simp add: top_performers_def sort_by_sgpa_def best_grade_def)
qed

text \<open>
  C18. Zero SGPAs and the statistics: removing the students with SGPA 0 does not change the
  average (they are excluded from it), but when such a student exists and all SGPAs are
  non-negative numbers, the lowest SGPA reported is 0 (zeros are not excluded from it,
  though spec section 4.4 excludes them from average, highest and lowest).
\<close>

theorem sgpa_stats_zero_policy:
  assumes "\<forall>d \<in> set ds. \<exists>v. sd_sgpa d = Num v \<and> 0 \<le> v"
    and "Num 0 \<in> sd_sgpa ` set ds"
  shows "st_averageCGPA (sgpa_stats (filter (\<lambda>d. sd_sgpa d \<noteq> Num 0) ds)) = st_averageCGPA (sgpa_stats ds)
         \<and> st_lowestSGPA (sgpa_stats ds) = Num 0"
proof
  have "filter (\<lambda>s. js_gt (sd_sgpa s) (Num 0)) (filter (\<lambda>d. sd_sgpa d \<noteq> Num 0) ds) =
        filter (\<lambda>s. js_gt (sd_sgpa s) (Num 0)) ds"
    by (simp add: filter_filter) (metis js_gt_zero_ne)
  then show "st_averageCGPA (sgpa_stats (filter (\<lambda>d. sd_sgpa d \<noteq> Num 0) ds)) = st_averageCGPA (sgpa_stats ds)"
    by (simp add: sgpa_stats_def)
next
  from assms(2) have ne: "ds \<noteq> []" by auto
  from assms have "js_min (map sd_sgpa ds) = Num 0"
    by (intro js_min_zero) auto
  with ne show "st_lowestSGPA (sgpa_stats ds) = Num 0"
    by (simp add: sgpa_stats_def to_fixed2_def)
qed

theorem sgpa_stats_zero_policy_witness:
  "st_lowestSGPA (sgpa_stats [\<lparr>sd_id = ''A'', sd_sgpa = Num 8, sd_hasArrears = False\<rparr>,
                               \<lparr>sd_id = ''B'', sd_sgpa = Num 0, sd_hasArrears = False\<rparr>]) = Num 0
   \<and> st_averageCGPA (sgpa_stats [\<lparr>sd_id = ''A'', sd_sgpa = Num 8, sd_hasArrears = False\<rparr>,
                               \<lparr>sd_id = ''B'', sd_sgpa = Num 0, sd_hasArrears = False\<rparr>]) = Num 8"
proof -
  let ?ds = "[\<lparr>sd_id = ''A'', sd_sgpa = Num 8, sd_hasArrears = False\<rparr>,
              \<lparr>sd_id = ''B'', sd_sgpa = Num 0, sd_hasArrears = False\<rparr>]"
  have h1: "\<forall>d \<in> set ?ds. \<exists>v. sd_sgpa d = Num v \<and> 0 \<le> v" by simp
  have h2: "Num 0 \<in> sd_sgpa ` set ?ds" by simp
  have l: "st_lowestSGPA (sgpa_stats ?ds) = Num 0"
    using sgpa_stats_zero_policy [OF h1 h2] by (rule conjunct2)
  have "st_averageCGPA (sgpa_stats ?ds) = Num 8"
    by (simp add: sgpa_stats_def js_average_def to_fixed2_def)
  with l show ?thesis by simp
qed

text \<open>
  The scenario of spec section 8: when every student's SGPA is 0 (or there is no
  student), average, highest and lowest are all 0, without a division by zero.
\<close>

theorem sgpa_stats_all_zero:
  assumes "\<forall>d \<in> set ds. sd_sgpa d = Num 0"
  shows "sgpa_stats ds = \<lparr>st_averageCGPA = Num 0, st_highestSGPA = Num 0, st_lowestSGPA = Num 0\<rparr>"
proof -
  have "filter (\<lambda>s. js_gt (sd_sgpa s) (Num 0)) ds = []"
    using assms by (simp add: filter_empty_conv)
  moreover have "ds \<noteq> [] \<Longrightarrow> js_max (map sd_sgpa ds) = Num 0 \<and> js_min (map sd_sgpa ds) = Num 0"
    using assms by (simp add: js_max_const js_min_const)
  ultimately show ?thesis
    by (simp add: sgpa_stats_def js_average_def to_fixed2_def)
qed

theorem sgpa_stats_all_zero_witness:
  "sgpa_stats [\<lparr>sd_id = ''A'', sd_sgpa = Num 0, sd_hasArrears = True\<rparr>,
               \<lparr>sd_id = ''B'', sd_sgpa = Num 0, sd_hasArrears = False\<rparr>]
   = \<lparr>st_averageCGPA = Num 0, st_highestSGPA = Num 0, st_lowestSGPA = Num 0\<rparr>"
proof -
  have h: "\<forall>d \<in> set [\<lparr>sd_id = ''A'', sd_sgpa = Num 0, sd_hasArrears = True\<rparr>,
                      \<lparr>sd_id = ''B'', sd_sgpa = Num 0, sd_hasArrears = False\<rparr>]. sd_sgpa d = Num 0"
    by simp
  show ?thesis by (rule sgpa_stats_all_zero [OF h])
qed

text \<open>
  The grade histogram counts every grade of the scale exactly: the entry of a grade
  key is the number of rows with that grade, and there is no entry when there is none.
\<close>

theorem grade_histogram_counts:
  assumes "map_of gradePointMap g = Some p"
  shows "obj_get (grade_histogram rs) g =
           (if length (filter (\<lambda>r. GR r = g) rs) = 0 then None
            else Some (HCount (length (filter (\<lambda>r. GR r = g) rs))))"
  using foldl_hist_step_own [OF assms, of "[]" rs]
  by (simp add: grade_histogram_def hist_after_def obj_get_def)

theorem grade_histogram_counts_witness:
  "obj_get (grade_histogram [row ''S'' ''A'' ''O'' 3 ''f'' ''1'' True, row ''T'' ''A'' ''O'' 3 ''f'' ''1'' True,
                            row ''T'' ''B'' ''U'' 3 ''f'' ''1'' True]) ''O'' = Some (HCount 2)"
proof -
  have h: "map_of gradePointMap ''O'' = Some 10" by (simp add: gradePointMap_def)
  show ?thesis using grade_histogram_counts [OF h] by simp
qed

end
