(* ===== verification/Analyzer.thy ===== *)
theory Analyzer
  imports CohortStats
begin

text \<open>
  The Report Data Assembler and the entry point: \<open>analyzeResults\<close> of
  \<^verbatim>\<open>src/src/utils/excel/analyzer.ts\<close> composed from the resolver, statistics and
  classification definitions in the order the code runs them, returning the
  \<open>ResultAnalysis\<close> record of types.ts; and \<open>analyzeData\<close> of
  \<^verbatim>\<open>src/src/pages/Dashboard.tsx\<close>, which normalises the rows with the assigned credits and
  calls it. The array \<open>studentSgpaDetails\<close> is sorted by id (line 194) and then sorted
  again in place by SGPA when the top performers are taken (line 282); the record holds
  that second order, which is what the code returns.
\<close>

section \<open>Definitions\<close>

record ResultAnalysis =
  ra_totalStudents :: nat
  ra_averageCGPA :: jsnum
  ra_highestSGPA :: jsnum
  ra_lowestSGPA :: jsnum
  ra_gradeDistribution :: "(string \<times> hval \<times> string option) list"
  ra_totalGrades :: nat
  ra_subjectPerformance :: "(string \<times> rat \<times> rat \<times> string option) list"
  ra_topPerformers :: "(string \<times> jsnum \<times> string) list"
  ra_needsImprovement :: "(string \<times> jsnum \<times> string) list"
  ra_studentSgpaDetails :: "SgpaDetail list"
  ra_passFailData :: "rat \<times> rat"
  ra_subjectGradeDistribution :: "(string \<times> (string \<times> hval \<times> string option) list) list"
  ra_fileCount :: nat
  ra_filesProcessed :: "string list"
  ra_fileWiseAnalysis :: "(string \<times> FileInfo) list"
  ra_cgpaAnalysis :: "CgpaAnalysis option"
  ra_singleFileClassification :: ClassificationData
  ra_multipleFileClassification :: ClassificationData
  ra_currentSemesterFile :: "string option"
  ra_orderedSubjects :: "string list option"

text \<open>Line 342: \<open>fileGroups[currentSemesterFile]\<close>, or all rows without a current file.\<close>

definition classification_records ::
  "StudentRecord list \<Rightarrow> (string \<times> StudentRecord list) list \<Rightarrow> string option \<Rightarrow> StudentRecord list" where
  "classification_records records groups csf =
     (case csf of
        Some f \<Rightarrow> (case map_of groups f of Some g \<Rightarrow> g | None \<Rightarrow> [])
      | None \<Rightarrow> records)"

text \<open>Lines 343-349: a student of the current file without an SGPA entry gets SGPA 0.\<close>

definition classification_details ::
  "StudentRecord list \<Rightarrow> SgpaDetail list \<Rightarrow> SgpaDetail list" where
  "classification_details classRecords details =
     map (\<lambda>i. case find (\<lambda>d. sd_id d = i) details of
                Some d \<Rightarrow> d
              | None \<Rightarrow> \<lparr>sd_id = i, sd_sgpa = Num 0, sd_hasArrears = hasArrears classRecords i\<rparr>)
       (js_unique (map REGNO classRecords))"

definition analyzeResults ::
  "(string \<Rightarrow> string \<Rightarrow> int) \<Rightarrow> StudentRecord list \<Rightarrow> string list option \<Rightarrow> ResultAnalysis" where
  "analyzeResults collate records0 assignedSubjects =
     (let records = filter_assigned records0 assignedSubjects;
          files = filesProcessed records;
          groups = fileGroups records files;
          csf = currentSemesterFile groups;
          cgpa = cgpa_analysis records groups csf;
          currentRecords = currentSemesterRecords records csf;
          byId = sgpa_details collate currentRecords (current_selection currentRecords);
          stats = sgpa_stats byId;
          rows = subject_rows records currentRecords csf;
          ranked = sort_by_sgpa byId;
          classRecords = classification_records records groups csf;
          single = calculateSingleFileClassification classRecords
                     (classification_details classRecords ranked)
      in \<lparr>ra_totalStudents = length (js_unique (map REGNO records)),
          ra_averageCGPA = st_averageCGPA stats,
          ra_highestSGPA = st_highestSGPA stats,
          ra_lowestSGPA = st_lowestSGPA stats,
          ra_gradeDistribution = histogram_data (grade_histogram records),
          ra_totalGrades = totalGrades records,
          ra_subjectPerformance = subject_performance rows,
          ra_topPerformers = top_performers records ranked,
          ra_needsImprovement = needs_improvement records ranked,
          ra_studentSgpaDetails = ranked,
          ra_passFailData = pass_fail records,
          ra_subjectGradeDistribution = subject_grade_distribution rows,
          ra_fileCount = length files,
          ra_filesProcessed = files,
          ra_fileWiseAnalysis = fileWiseAnalysis groups,
          ra_cgpaAnalysis = cgpa,
          ra_singleFileClassification = single,
          ra_multipleFileClassification =
            (if 1 < length files
             then calculateMultipleFileClassification records groups (map_option studentCGPAs cgpa)
             else single),
          ra_currentSemesterFile = csf,
          ra_orderedSubjects = None\<rparr>)"

text \<open>
  \<open>analyzeData\<close> (Dashboard.tsx lines 124-215): with no uploaded rows it reports an error
  and changes nothing; otherwise it attaches the credits, analyses the rows restricted to
  the subjects of the credit list, records the subject order, and stores the normalised
  rows as the new \<open>studentRecords\<close>.
\<close>

datatype dashboard_error = NoDataToAnalyze

definition analyzeData ::
  "(string \<Rightarrow> string \<Rightarrow> int) \<Rightarrow> StudentRecord list \<Rightarrow> SubjectCredit list \<Rightarrow> string list
   \<Rightarrow> dashboard_error + (ResultAnalysis \<times> StudentRecord list)" where
  "analyzeData collate studentRecords credits subjectOrder =
     (if studentRecords = [] then Inl NoDataToAnalyze
      else
        let recordsWithCredits = map (apply_credit credits) studentRecords;
            analysis = analyzeResults collate recordsWithCredits (Some (map subjectCode credits))
        in Inr (analysis\<lparr>ra_orderedSubjects := (if subjectOrder \<noteq> [] then Some subjectOrder else None)\<rparr>,
                recordsWithCredits))"

section \<open>Lemmas\<close>

lemma prototype_grade_subset: "set ys \<subseteq> set xs \<Longrightarrow> \<not> prototype_grade xs \<Longrightarrow> \<not> prototype_grade ys"
  by (auto simp: prototype_grade_def list_ex_iff)

lemma set_filter_assigned: "set (filter_assigned rs a) \<subseteq> set rs"
  by (auto simp: filter_assigned_def split: option.split)

lemma set_currentSemesterRecords: "set (currentSemesterRecords rs csf) \<subseteq> set rs"
  by (auto simp: currentSemesterRecords_def split: option.split)

lemma ra_studentSgpaDetails_eq:
  "ra_studentSgpaDetails (analyzeResults c rs a) =
     (let records = filter_assigned rs a;
          cur = currentSemesterRecords records (currentSemesterFile (fileGroups records (filesProcessed records)))
      in sort_by_sgpa (sgpa_details c cur (current_selection cur)))"
  by (simp add: analyzeResults_def Let_def)

lemma sgpa_details_num:
  "\<not> prototype_grade cur \<Longrightarrow> \<forall>d \<in> set (sgpa_details c cur sel). is_num (sd_sgpa d)"
proof -
  assume np: "\<not> prototype_grade cur"
  have "\<And>i. \<not> prototype_grade (filter (\<lambda>r. REGNO r = i) cur)"
    by (rule prototype_grade_subset [OF _ np]) auto
  then show ?thesis by (auto simp: set_sgpa_details intro: current_sgpa_num)
qed

subsection \<open>Properties of the analysis\<close>

text \<open>
  The scenario of spec section 8, as the code computes it. A student has grade B with
  credit 4 in a subject marked current and grade U with credit 3 in an unmarked subject of
  the same file. The spec expects SGPA 6.00 (the marked subject only) and the bucket
  Second Class with arrears. The code selects the student by the marked row but averages
  all of the student's rows of the file, reporting 3.43, and the student is not counted as
  Second Class with arrears.
\<close>

theorem analyzeResults_marked_subject_scenario:
  "map sd_sgpa (ra_studentSgpaDetails (analyzeResults c
      [row ''S'' ''CS1'' ''B'' 4 ''s.xlsx'' ''4'' True, row ''S'' ''CS2'' ''U'' 3 ''s.xlsx'' ''4'' False] None))
     = [Num (343 / 100)]
   \<and> calculateSGPA (filter marked
      [row ''S'' ''CS1'' ''B'' 4 ''s.xlsx'' ''4'' True, row ''S'' ''CS2'' ''U'' 3 ''s.xlsx'' ''4'' False]) ''S''
     = Num 6
   \<and> secondClassWA (ra_singleFileClassification (analyzeResults c
      [row ''S'' ''CS1'' ''B'' 4 ''s.xlsx'' ''4'' True, row ''S'' ''CS2'' ''U'' 3 ''s.xlsx'' ''4'' False] None))
     = 0"
proof (intro conjI)
  show "map sd_sgpa (ra_studentSgpaDetails (analyzeResults c
      [row ''S'' ''CS1'' ''B'' 4 ''s.xlsx'' ''4'' True, row ''S'' ''CS2'' ''U'' 3 ''s.xlsx'' ''4'' False] None))
     = [Num (343 / 100)]" by code_simp
  show "calculateSGPA (filter marked
      [row ''S'' ''CS1'' ''B'' 4 ''s.xlsx'' ''4'' True, row ''S'' ''CS2'' ''U'' 3 ''s.xlsx'' ''4'' False]) ''S''
     = Num 6" by code_simp
  show "secondClassWA (ra_singleFileClassification (analyzeResults c
      [row ''S'' ''CS1'' ''B'' 4 ''s.xlsx'' ''4'' True, row ''S'' ''CS2'' ''U'' 3 ''s.xlsx'' ''4'' False] None))
     = 0" by code_simp
qed

text \<open>
  C22. The \<open>studentSgpaDetails\<close> that \<open>analyzeResults\<close> returns are in descending order of
  SGPA (whenever no grade is a prototype name), not in the order of registration numbers
  the code sorts them into first: the later in-place sort for the top performers reorders
  the same array.
\<close>

theorem analyzeResults_details_by_sgpa:
  assumes "\<not> prototype_grade rs"
  shows "sorted_wrt (\<lambda>a b. b \<le> a) (map (\<lambda>d. num_val (sd_sgpa d)) (ra_studentSgpaDetails (analyzeResults c rs a)))"
proof -
  let ?records = "filter_assigned rs a"
  let ?cur = "currentSemesterRecords ?records (currentSemesterFile (fileGroups ?records (filesProcessed ?records)))"
  have "set ?cur \<subseteq> set rs"
    using set_currentSemesterRecords set_filter_assigned by (meson order_trans)
  then have "\<not> prototype_grade ?cur" using assms by (rule prototype_grade_subset)
  then have "\<forall>d \<in> set (sgpa_details c ?cur (current_selection ?cur)). is_num (sd_sgpa d)"
    by (rule sgpa_details_num)
  then show ?thesis by (simp add: ra_studentSgpaDetails_eq Let_def sort_by_sgpa_sorted)
qed

theorem analyzeResults_details_by_sgpa_witness:
  "map sd_id (ra_studentSgpaDetails (analyzeResults (\<lambda>x y. if x = y then 0 else if x = ''A'' then -1 else 1)
      [row ''A'' ''CS1'' ''C'' 3 ''s.xlsx'' ''1'' False, row ''B'' ''CS1'' ''O'' 3 ''s.xlsx'' ''1'' False] None))
   = [''B'', ''A'']
   \<and> sorted_wrt (\<lambda>a b. b \<le> a) (map (\<lambda>d. num_val (sd_sgpa d)) (ra_studentSgpaDetails
      (analyzeResults (\<lambda>x y. if x = y then 0 else if x = ''A'' then -1 else 1)
      [row ''A'' ''CS1'' ''C'' 3 ''s.xlsx'' ''1'' False, row ''B'' ''CS1'' ''O'' 3 ''s.xlsx'' ''1'' False] None)))"
proof -
  have h: "\<not> prototype_grade [row ''A'' ''CS1'' ''C'' 3 ''s.xlsx'' ''1'' False,
                              row ''B'' ''CS1'' ''O'' 3 ''s.xlsx'' ''1'' False]"
    by (simp add: prototype_grade_def object_prototype_keys_def)
  have "map sd_id (ra_studentSgpaDetails (analyzeResults (\<lambda>x y. if x = y then 0 else if x = ''A'' then -1 else 1)
      [row ''A'' ''CS1'' ''C'' 3 ''s.xlsx'' ''1'' False, row ''B'' ''CS1'' ''O'' 3 ''s.xlsx'' ''1'' False] None))
   = [''B'', ''A'']" by code_simp
  then show ?thesis using analyzeResults_details_by_sgpa [OF h] by blast
qed

text \<open>
  The needs-improvement list tests arrears only in the current file: a student with a
  U in an earlier semester file and SGPA 10 in the current one is left out, although the
  spec (section 4.4) asks for any failing grade in the student's full record set.
\<close>

theorem analyzeResults_needs_improvement_current_only:
  "ra_needsImprovement (analyzeResults c
      [row ''S'' ''X1'' ''U'' 3 ''s3.xlsx'' ''3'' False, row ''S'' ''Y1'' ''O'' 3 ''s4.xlsx'' ''4'' False] None) = []
   \<and> hasArrears [row ''S'' ''X1'' ''U'' 3 ''s3.xlsx'' ''3'' False, row ''S'' ''Y1'' ''O'' 3 ''s4.xlsx'' ''4'' False] ''S''"
proof
  show "ra_needsImprovement (analyzeResults c
      [row ''S'' ''X1'' ''U'' 3 ''s3.xlsx'' ''3'' False, row ''S'' ''Y1'' ''O'' 3 ''s4.xlsx'' ''4'' False] None) = []"
    by code_simp
  show "hasArrears [row ''S'' ''X1'' ''U'' 3 ''s3.xlsx'' ''3'' False, row ''S'' ''Y1'' ''O'' 3 ''s4.xlsx'' ''4'' False] ''S''"
    by (simp add: hasArrears_def)
qed

text \<open>
  With at most one processed file there is no CGPA block, and the cumulative
  classification is the current-term classification.
\<close>

theorem analyzeResults_single_file:
  assumes "length (filesProcessed (filter_assigned rs a)) \<le> 1"
  shows "ra_cgpaAnalysis (analyzeResults c rs a) = None \<and>
         ra_multipleFileClassification (analyzeResults c rs a) = ra_singleFileClassification (analyzeResults c rs a)"
  using assms by (simp add: analyzeResults_def Let_def cgpa_analysis_def fileGroups_def)

theorem analyzeResults_single_file_witness:
  "ra_cgpaAnalysis (analyzeResults (\<lambda>x y. 0) [row ''S'' ''A'' ''O'' 3 ''s.xlsx'' ''1'' False] None) = None"
proof -
  have h: "length (filesProcessed (filter_assigned [row ''S'' ''A'' ''O'' 3 ''s.xlsx'' ''1'' False] None)) \<le> 1"
    by (simp add: filesProcessed_def filter_assigned_def js_unique_def file_key_def)
  show ?thesis using analyzeResults_single_file [OF h] by (rule conjunct1)
qed


end
