(* ===== verification/CreditDialog.thy ===== *)
theory CreditDialog
  imports Records
begin

text \<open>
  The credit-assignment dialog \<open>SubjectCreditInput\<close> of
  \<^verbatim>\<open>src/src/components/SubjectCreditInput.tsx\<close> as a state machine. Its React state
  (\<open>subjectCredits\<close>, \<open>orderedSubjects\<close>, \<open>isValid\<close>) is the record \<open>DialogState\<close>; each
  handler is one case of \<open>dialog_step\<close>: the \<open>useEffect\<close> on a new upload (whose subject
  list is \<open>[...new Set(records.map(r => r.SCODE))]\<close>, FileUploader.tsx line 101), a credit,
  name or faculty edit, the current-semester toggle, the removal of a subject, and the
  submit button, whose result is \<open>dialog_submit\<close>. Toasts and logging are not modelled.
  The reachable states are an inductive set; the invariant \<open>dialog_inv\<close> (credits in
  1..10, distinct codes, the ordered list exactly the marked subjects, \<open>isValid\<close> up to
  date) holds in all of them, by rule induction.
\<close>

section \<open>Definitions\<close>

record DialogState =
  subjectCredits :: "SubjectCredit list"
  orderedSubjects :: "string list"
  isValid :: bool

datatype dialog_event =
    Upload "StudentRecord list"
  | CreditChange string string
  | SubjectNameChange string string
  | FacultyNameChange string string
  | ToggleArrear string
  | RemoveSubject string
  | SubmitCredits

definition initial_dialog :: DialogState where
  "initial_dialog = \<lparr>subjectCredits = [], orderedSubjects = [], isValid = False\<rparr>"

text \<open>\<open>validateInputs\<close> (lines 154-187) without its logging.\<close>

definition validateInputs :: "SubjectCredit list \<Rightarrow> bool" where
  "validateInputs credits \<longleftrightarrow>
     credits \<noteq> [] \<and> list_all (\<lambda>c. 1 \<le> sc_creditValue c \<and> sc_creditValue c \<le> 10) credits"

definition initial_credit :: "string \<Rightarrow> SubjectCredit" where
  "initial_credit s =
     \<lparr>subjectCode = s, sc_creditValue = 3, sc_subjectName = Some [], sc_facultyName = Some [],
      sc_isArrear = Some False\<rparr>"

text \<open>The \<open>useEffect\<close> of lines 36-55 for a new list of uploaded subjects.\<close>

definition dialog_upload :: "string list \<Rightarrow> DialogState" where
  "dialog_upload uploadedSubjects =
     (if uploadedSubjects \<noteq> []
      then (let initialCredits = map initial_credit uploadedSubjects
            in \<lparr>subjectCredits = initialCredits, orderedSubjects = [],
                isValid = validateInputs initialCredits\<rparr>)
      else \<lparr>subjectCredits = [], orderedSubjects = [], isValid = False\<rparr>)"

definition update_credit :: "string \<Rightarrow> (SubjectCredit \<Rightarrow> SubjectCredit) \<Rightarrow> SubjectCredit list \<Rightarrow> SubjectCredit list" where
  "update_credit code f credits = map (\<lambda>c. if subjectCode c = code then f c else c) credits"

text \<open>\<open>handleCreditChange\<close> (lines 57-73): an unparsable or out-of-range value is ignored.\<close>

definition handleCreditChange :: "DialogState \<Rightarrow> string \<Rightarrow> string \<Rightarrow> DialogState" where
  "handleCreditChange s code value =
     (case js_parseInt value of
        None \<Rightarrow> s
      | Some n \<Rightarrow>
          (if n < 1 \<or> 10 < n then s
           else let updated = update_credit code (\<lambda>c. c\<lparr>sc_creditValue := n\<rparr>) (subjectCredits s)
                in s\<lparr>subjectCredits := updated, isValid := validateInputs updated\<rparr>))"

definition handleSubjectNameChange :: "DialogState \<Rightarrow> string \<Rightarrow> string \<Rightarrow> DialogState" where
  "handleSubjectNameChange s code name =
     (let updated = update_credit code (\<lambda>c. c\<lparr>sc_subjectName := Some name\<rparr>) (subjectCredits s)
      in s\<lparr>subjectCredits := updated, isValid := validateInputs updated\<rparr>)"

definition handleFacultyNameChange :: "DialogState \<Rightarrow> string \<Rightarrow> string \<Rightarrow> DialogState" where
  "handleFacultyNameChange s code name =
     (let updated = update_credit code (\<lambda>c. c\<lparr>sc_facultyName := Some name\<rparr>) (subjectCredits s)
      in s\<lparr>subjectCredits := updated, isValid := validateInputs updated\<rparr>)"

text \<open>
  \<open>handleToggleArrear\<close> (lines 101-135): flips the mark (\<open>!credit.isArrear\<close>), then appends
  the code to \<open>orderedSubjects\<close> when it became marked and is not listed yet, or removes it
  when it became unmarked.
\<close>

definition handleToggleArrear :: "DialogState \<Rightarrow> string \<Rightarrow> DialogState" where
  "handleToggleArrear s code =
     (let updated = update_credit code (\<lambda>c. c\<lparr>sc_isArrear := Some (sc_isArrear c \<noteq> Some True)\<rparr>)
                      (subjectCredits s);
          s1 = s\<lparr>subjectCredits := updated, isValid := validateInputs updated\<rparr>
      in case find (\<lambda>c. subjectCode c = code) updated of
           None \<Rightarrow> s1
         | Some subject \<Rightarrow>
             (if sc_isArrear subject = Some True
              then (if code \<in> set (orderedSubjects s) then s1
                    else s1\<lparr>orderedSubjects := orderedSubjects s @ [code]\<rparr>)
              else s1\<lparr>orderedSubjects := filter (\<lambda>x. x \<noteq> code) (orderedSubjects s)\<rparr>))"

definition handleRemoveSubject :: "DialogState \<Rightarrow> string \<Rightarrow> DialogState" where
  "handleRemoveSubject s code =
     (let updated = filter (\<lambda>c. subjectCode c \<noteq> code) (subjectCredits s)
      in \<lparr>subjectCredits = updated, orderedSubjects = filter (\<lambda>x. x \<noteq> code) (orderedSubjects s),
          isValid = validateInputs updated\<rparr>)"

text \<open>
  \<open>handleSubmit\<close> (lines 189-231): an invalid list is refused; a valid one is handed to
  \<open>onCreditAssigned\<close> with a copy of the subject order.
\<close>

definition dialog_submit :: "DialogState \<Rightarrow> DialogState \<times> (SubjectCredit list \<times> string list) option" where
  "dialog_submit s =
     (if \<not> validateInputs (subjectCredits s) then (s\<lparr>isValid := False\<rparr>, None)
      else (s\<lparr>isValid := True\<rparr>, Some (subjectCredits s, orderedSubjects s)))"

fun dialog_step :: "DialogState \<Rightarrow> dialog_event \<Rightarrow> DialogState" where
  "dialog_step s (Upload records) = dialog_upload (js_unique (map SCODE records))"
| "dialog_step s (CreditChange code v) = handleCreditChange s code v"
| "dialog_step s (SubjectNameChange code n) = handleSubjectNameChange s code n"
| "dialog_step s (FacultyNameChange code n) = handleFacultyNameChange s code n"
| "dialog_step s (ToggleArrear code) = handleToggleArrear s code"
| "dialog_step s (RemoveSubject code) = handleRemoveSubject s code"
| "dialog_step s SubmitCredits = fst (dialog_submit s)"

inductive dialog_reachable :: "DialogState \<Rightarrow> bool" where
  start: "dialog_reachable initial_dialog"
| step: "dialog_reachable s \<Longrightarrow> dialog_reachable (dialog_step s e)"

definition marked_codes :: "SubjectCredit list \<Rightarrow> string set" where
  "marked_codes credits = subjectCode ` {c \<in> set credits. sc_isArrear c = Some True}"

definition dialog_inv :: "DialogState \<Rightarrow> bool" where
  "dialog_inv s \<longleftrightarrow>
     list_all (\<lambda>c. 1 \<le> sc_creditValue c \<and> sc_creditValue c \<le> 10) (subjectCredits s)
     \<and> distinct (map subjectCode (subjectCredits s))
     \<and> distinct (orderedSubjects s)
     \<and> set (orderedSubjects s) = marked_codes (subjectCredits s)
     \<and> isValid s = validateInputs (subjectCredits s)"

text \<open>
  The rows the dialog renders (lines 270-291): \<open>orderIndex = orderedSubjects.indexOf(code)\<close>,
  the credit input showing \<open>String(creditValue)\<close>, and the order badge
  \<open>orderIndex + 1\<close> drawn for a marked subject when \<open>orderIndex > -1\<close>.
\<close>

fun index_of :: "'a list \<Rightarrow> 'a \<Rightarrow> int" where
  "index_of [] x = -1"
| "index_of (y # ys) x = (if y = x then 0 else (let k = index_of ys x in if k = -1 then -1 else k + 1))"

record CreditRow =
  row_code :: string
  row_value :: string
  row_current :: bool
  row_badge :: "int option"

definition credit_row :: "DialogState \<Rightarrow> SubjectCredit \<Rightarrow> CreditRow" where
  "credit_row s subject =
     (let orderIndex = index_of (orderedSubjects s) (subjectCode subject)
      in \<lparr>row_code = subjectCode subject, row_value = int_str (sc_creditValue subject),
          row_current = (sc_isArrear subject = Some True),
          row_badge = (if sc_isArrear subject = Some True \<and> orderIndex > -1
                       then Some (orderIndex + 1) else None)\<rparr>)"

definition credit_rows :: "DialogState \<Rightarrow> CreditRow list" where
  "credit_rows s = map (credit_row s) (subjectCredits s)"

record CreditCardView =
  ccv_title :: string
  ccv_description :: string
  ccv_rows :: "CreditRow list option"
  ccv_submit :: "(bool \<times> string) option"

text \<open>
  Lines 234-360, the card: without uploaded subjects a card that asks for an upload, with no
  table and no button; otherwise the table of rows and the submit button, disabled unless
  \<open>isValid\<close> and not processing, as (disabled, label).
\<close>

definition credit_card_view :: "string list \<Rightarrow> bool \<Rightarrow> DialogState \<Rightarrow> CreditCardView" where
  "credit_card_view uploadedSubjects isProcessing s =
     (if uploadedSubjects = []
      then \<lparr>ccv_title = ''Subject Credits'',
            ccv_description = ''Please upload an Excel file first to assign subject credits.'',
            ccv_rows = None, ccv_submit = None\<rparr>
      else \<lparr>ccv_title = ''Assign Subject Details'',
            ccv_description = ''Specify credit values (1-10), subject names and faculty names for each subject code found in the uploaded file(s). Mark subjects as Current Semester in the order you want them to appear in reports.'',
            ccv_rows = Some (credit_rows s),
            ccv_submit = Some (\<not> isValid s \<or> isProcessing,
                               if isProcessing then ''Processing...'' else ''Assign Details & Process Data'')\<rparr>)"

section \<open>Lemmas\<close>

subsection \<open>Updates by subject code\<close>

lemma marked_codes_Nil [simp]: "marked_codes [] = {}"
  by (simp add: marked_codes_def)

lemma codes_update_credit:
  "(\<And>c. subjectCode (f c) = subjectCode c) \<Longrightarrow>
   map subjectCode (update_credit code f cs) = map subjectCode cs"
  by (induction cs) (simp_all add: update_credit_def)

lemma range_update_credit:
  "list_all (\<lambda>c. 1 \<le> sc_creditValue c \<and> sc_creditValue c \<le> 10) cs \<Longrightarrow>
   (\<And>c. 1 \<le> sc_creditValue c \<and> sc_creditValue c \<le> 10 \<Longrightarrow> 1 \<le> sc_creditValue (f c) \<and> sc_creditValue (f c) \<le> 10) \<Longrightarrow>
   list_all (\<lambda>c. 1 \<le> sc_creditValue c \<and> sc_creditValue c \<le> 10) (update_credit code f cs)"
  by (induction cs) (simp_all add: update_credit_def)

lemma marked_codes_Cons:
  "marked_codes (c # cs) = (if sc_isArrear c = Some True then insert (subjectCode c) else id) (marked_codes cs)"
  by (auto simp: marked_codes_def)

lemma marked_update_credit:
  "(\<And>c. subjectCode (f c) = subjectCode c) \<Longrightarrow>
   marked_codes (update_credit code f cs) =
     (marked_codes cs - {code}) \<union>
     {x. x = code \<and> (\<exists>c \<in> set cs. subjectCode c = code \<and> sc_isArrear (f c) = Some True)}"
  by (induction cs) (auto simp: update_credit_def marked_codes_Cons)

lemma marked_update_credit_keep:
  "(\<And>c. subjectCode (f c) = subjectCode c) \<Longrightarrow> (\<And>c. sc_isArrear (f c) = sc_isArrear c) \<Longrightarrow>
   marked_codes (update_credit code f cs) = marked_codes cs"
  by (simp add: marked_update_credit) (auto simp: marked_codes_def)

lemma marked_update_credit_unique:
  assumes "\<And>c. subjectCode (f c) = subjectCode c" "distinct (map subjectCode cs)"
    "c \<in> set cs" "subjectCode c = code"
  shows "marked_codes (update_credit code f cs) =
     (if sc_isArrear (f c) = Some True then insert code (marked_codes cs) else marked_codes cs - {code})"
proof -
  have "c' = c" if "c' \<in> set cs" "subjectCode c' = code" for c'
    using assms that by (metis distinct_map inj_onD)
  then have "(\<exists>c' \<in> set cs. subjectCode c' = code \<and> sc_isArrear (f c') = Some True)
             \<longleftrightarrow> sc_isArrear (f c) = Some True"
    using assms(3,4) by blast
  then show ?thesis
    by (simp add: marked_update_credit [OF assms(1)])
qed

lemma find_update_credit:
  "distinct (map subjectCode cs) \<Longrightarrow> c \<in> set cs \<Longrightarrow> subjectCode c = code \<Longrightarrow>
   (\<And>c. subjectCode (f c) = subjectCode c) \<Longrightarrow>
   find (\<lambda>c. subjectCode c = code) (update_credit code f cs) = Some (f c)"
  by (induction cs) (auto simp: update_credit_def)

lemma find_update_credit_none:
  "code \<notin> set (map subjectCode cs) \<Longrightarrow>
   find (\<lambda>c. subjectCode c = code) (update_credit code f cs) = None"
  by (induction cs) (auto simp: update_credit_def)

lemma update_credit_absent:
  "code \<notin> set (map subjectCode cs) \<Longrightarrow> update_credit code f cs = cs"
  by (induction cs) (auto simp: update_credit_def)

subsection \<open>Each handler keeps the invariant\<close>

lemma dialog_upload_inv: "distinct xs \<Longrightarrow> dialog_inv (dialog_upload xs)"
  by (auto simp: dialog_upload_def dialog_inv_def Let_def initial_credit_def marked_codes_def
      list_all_iff comp_def validateInputs_def distinct_map inj_on_def)

lemma handleCreditChange_inv: "dialog_inv s \<Longrightarrow> dialog_inv (handleCreditChange s code v)"
  by (auto simp: handleCreditChange_def dialog_inv_def Let_def codes_update_credit
      marked_update_credit_keep intro!: range_update_credit split: option.split)

lemma handleSubjectNameChange_inv: "dialog_inv s \<Longrightarrow> dialog_inv (handleSubjectNameChange s code n)"
  by (auto simp: handleSubjectNameChange_def dialog_inv_def Let_def codes_update_credit
      marked_update_credit_keep intro!: range_update_credit)

lemma handleFacultyNameChange_inv: "dialog_inv s \<Longrightarrow> dialog_inv (handleFacultyNameChange s code n)"
  by (auto simp: handleFacultyNameChange_def dialog_inv_def Let_def codes_update_credit
      marked_update_credit_keep intro!: range_update_credit)

lemma handleRemoveSubject_inv: "dialog_inv s \<Longrightarrow> dialog_inv (handleRemoveSubject s code)"
  by (auto simp: handleRemoveSubject_def dialog_inv_def Let_def marked_codes_def list_all_iff
      distinct_map_filter)

lemma handleToggleArrear_inv:
  assumes "dialog_inv s"
  shows "dialog_inv (handleToggleArrear s code)"
proof -
  let ?f = "\<lambda>c. c\<lparr>sc_isArrear := Some (sc_isArrear c \<noteq> Some True)\<rparr>"
  let ?u = "update_credit code ?f (subjectCredits s)"
  have codes: "map subjectCode ?u = map subjectCode (subjectCredits s)"
    by (simp add: codes_update_credit)
  have range: "list_all (\<lambda>c. 1 \<le> sc_creditValue c \<and> sc_creditValue c \<le> 10) ?u"
    using assms by (intro range_update_credit) (simp_all add: dialog_inv_def)
  show ?thesis
  proof (cases "code \<in> set (map subjectCode (subjectCredits s))")
    case False
    then have "find (\<lambda>c. subjectCode c = code) (subjectCredits s) = None"
      by (auto simp: find_None_iff)
    with False show ?thesis using assms
      by (simp add: handleToggleArrear_def Let_def update_credit_absent dialog_inv_def)
  next
    case True
    then obtain c where c: "c \<in> set (subjectCredits s)" "subjectCode c = code" by auto
    have dist: "distinct (map subjectCode (subjectCredits s))" using assms by (simp add: dialog_inv_def)
    have fnd: "find (\<lambda>c. subjectCode c = code) ?u = Some (?f c)"
      by (rule find_update_credit [OF dist c]) simp
    have mk: "marked_codes ?u =
        (if sc_isArrear c = Some True then marked_codes (subjectCredits s) - {code}
         else insert code (marked_codes (subjectCredits s)))"
      by (simp add: marked_update_credit_unique [OF _ dist c])
    have inv: "list_all (\<lambda>c. 1 \<le> sc_creditValue c \<and> sc_creditValue c \<le> 10) ?u"
      "distinct (map subjectCode ?u)" "distinct (orderedSubjects s)"
      "set (orderedSubjects s) = marked_codes (subjectCredits s)"
      using assms range codes dist by (simp_all add: dialog_inv_def)
    show ?thesis
      using inv mk fnd by (auto simp add: handleToggleArrear_def Let_def dialog_inv_def)
  qed
qed

lemma dialog_submit_inv: "dialog_inv s \<Longrightarrow> dialog_inv (fst (dialog_submit s))"
  by (simp add: dialog_submit_def dialog_inv_def)

lemma dialog_step_inv: "dialog_inv s \<Longrightarrow> dialog_inv (dialog_step s e)"
  by (cases e) (simp_all add: dialog_upload_inv handleCreditChange_inv handleSubjectNameChange_inv
      handleFacultyNameChange_inv handleToggleArrear_inv handleRemoveSubject_inv dialog_submit_inv)

lemma dialog_reachable_inv: "dialog_reachable s \<Longrightarrow> dialog_inv s"
proof (induction rule: dialog_reachable.induct)
  case start
  show ?case by (simp add: initial_dialog_def dialog_inv_def validateInputs_def marked_codes_def)
next
  case (step s e)
  then show ?case by (simp add: dialog_step_inv)
qed

lemma dialog_reachable_valid:
  "dialog_reachable s \<Longrightarrow> validateInputs (subjectCredits s) \<longleftrightarrow> subjectCredits s \<noteq> []"
  using dialog_reachable_inv by (simp add: dialog_inv_def validateInputs_def)

text \<open>
  In a reachable state the submit button is disabled exactly while processing or when every
  subject has been removed: the credits themselves are always valid.
\<close>

lemma credit_card_submit_enabled:
  assumes "dialog_reachable s" "uploadedSubjects \<noteq> []"
  shows "ccv_submit (credit_card_view uploadedSubjects p s)
           = Some (subjectCredits s = [] \<or> p,
                   if p then ''Processing...'' else ''Assign Details & Process Data'')"
  using dialog_reachable_valid [OF assms(1)] dialog_reachable_inv [OF assms(1)] assms(2)
  by (simp add: credit_card_view_def dialog_inv_def)

subsection \<open>Positions in the subject order\<close>

lemma index_of_mem: "x \<in> set xs \<Longrightarrow> 0 \<le> index_of xs x \<and> xs ! nat (index_of xs x) = x"
  by (induction xs) (auto simp: Let_def nat_add_distrib)

lemma index_of_not_mem: "x \<notin> set xs \<Longrightarrow> index_of xs x = -1"
  by (induction xs) auto

lemma update_credit_ident:
  "(\<And>c. c \<in> set cs \<Longrightarrow> subjectCode c = code \<Longrightarrow> f c = c) \<Longrightarrow> update_credit code f cs = cs"
  by (induction cs) (simp_all add: update_credit_def)

lemma update_credit_own_value:
  assumes inv: "dialog_inv s" and c: "c \<in> set (subjectCredits s)"
  shows "update_credit (subjectCode c) (\<lambda>x. x\<lparr>sc_creditValue := sc_creditValue c\<rparr>)
           (subjectCredits s) = subjectCredits s"
proof -
  have d: "distinct (map subjectCode (subjectCredits s))" using inv by (simp add: dialog_inv_def)
  have uniq: "c' = c" if "c' \<in> set (subjectCredits s)" "subjectCode c' = subjectCode c" for c'
    using d c that by (metis distinct_map inj_onD)
  show ?thesis
    by (rule update_credit_ident) (frule (1) uniq, simp)
qed

section \<open>Properties of the dialog\<close>

text \<open>
  C26: in every state the dialog can reach, every subject's credit value lies in 1..10:
  the credit handler ignores values outside the range and the upload starts at 3.
\<close>

theorem dialog_credits_in_range:
  assumes "dialog_reachable s" "c \<in> set (subjectCredits s)"
  shows "1 \<le> sc_creditValue c \<and> sc_creditValue c \<le> 10"
  using dialog_reachable_inv [OF assms(1)] assms(2) by (simp add: dialog_inv_def list_all_iff)

theorem dialog_credits_in_range_witness:
  "sc_creditValue (hd (subjectCredits (dialog_step (dialog_step initial_dialog
      (Upload [row ''S'' ''A'' ''O'' 3 ''f'' ''1'' False])) (CreditChange ''A'' ''12'')))) \<le> 10"
proof -
  let ?s = "dialog_step (dialog_step initial_dialog
      (Upload [row ''S'' ''A'' ''O'' 3 ''f'' ''1'' False])) (CreditChange ''A'' ''12'')"
  have r: "dialog_reachable ?s" by (intro dialog_reachable.step dialog_reachable.start)
  have m: "hd (subjectCredits ?s) \<in> set (subjectCredits ?s)" by code_simp
  show ?thesis using dialog_credits_in_range [OF r m] by simp
qed

text \<open>
  C27: what the dialog hands to \<open>onCreditAssigned\<close> from a reachable state is a non-empty
  credit list with distinct subject codes, and a subject order that lists each subject
  marked as current-semester exactly once and nothing else.
\<close>

theorem dialog_submit_ordered:
  assumes "dialog_reachable s" "snd (dialog_submit s) = Some (cs, ord)"
  shows "cs \<noteq> [] \<and> distinct (map subjectCode cs) \<and> distinct ord \<and> set ord = marked_codes cs"
proof -
  have "dialog_inv s" using assms(1) by (rule dialog_reachable_inv)
  with assms(2) show ?thesis
    by (auto simp: dialog_submit_def dialog_inv_def validateInputs_def split: if_splits)
qed

theorem dialog_submit_ordered_witness:
  "snd (dialog_submit (dialog_step (dialog_step initial_dialog
      (Upload [row ''S'' ''A'' ''O'' 3 ''f'' ''1'' False, row ''S'' ''B'' ''A'' 3 ''f'' ''1'' False]))
      (ToggleArrear ''B''))) = Some ([initial_credit ''A'', (initial_credit ''B'')\<lparr>sc_isArrear := Some True\<rparr>], [''B''])
   \<and> marked_codes [initial_credit ''A'', (initial_credit ''B'')\<lparr>sc_isArrear := Some True\<rparr>] = {''B''}"
proof -
  let ?s = "dialog_step (dialog_step initial_dialog
      (Upload [row ''S'' ''A'' ''O'' 3 ''f'' ''1'' False, row ''S'' ''B'' ''A'' 3 ''f'' ''1'' False]))
      (ToggleArrear ''B'')"
  let ?cs = "[initial_credit ''A'', (initial_credit ''B'')\<lparr>sc_isArrear := Some True\<rparr>]"
  have r: "dialog_reachable ?s" by (intro dialog_reachable.step dialog_reachable.start)
  have e: "snd (dialog_submit ?s) = Some (?cs, [''B''])" by code_simp
  show ?thesis using dialog_submit_ordered [OF r e] e by simp
qed

text \<open>
  From a reachable state the submit button is refused only when no subject is left:
  the range check of \<open>validateInputs\<close> never fails there.
\<close>

theorem dialog_submit_refuses_only_empty:
  assumes "dialog_reachable s"
  shows "snd (dialog_submit s) = None \<longleftrightarrow> subjectCredits s = []"
  using dialog_reachable_valid [OF assms] by (simp add: dialog_submit_def)

theorem dialog_submit_refuses_only_empty_witness:
  "snd (dialog_submit (dialog_step (dialog_step initial_dialog
      (Upload [row ''S'' ''A'' ''O'' 3 ''f'' ''1'' False])) (RemoveSubject ''A''))) = None"
proof -
  let ?s = "dialog_step (dialog_step initial_dialog
      (Upload [row ''S'' ''A'' ''O'' 3 ''f'' ''1'' False])) (RemoveSubject ''A'')"
  have r: "dialog_reachable ?s" by (intro dialog_reachable.step dialog_reachable.start)
  have e: "subjectCredits ?s = []" by code_simp
  show ?thesis using dialog_submit_refuses_only_empty [OF r] e by simp
qed

text \<open>
  In a reachable state every row rendered as current-semester carries an order badge
  \<open>k \<ge> 1\<close>, and the \<open>k\<close>-th entry of the subject order is that row's subject.
\<close>

theorem credit_rows_badge:
  assumes "dialog_reachable s" "r \<in> set (credit_rows s)" "row_current r"
  shows "\<exists>k. row_badge r = Some k \<and> 1 \<le> k \<and> orderedSubjects s ! nat (k - 1) = row_code r"
proof -
  obtain c where c: "c \<in> set (subjectCredits s)" "r = credit_row s c"
    using assms(2) by (auto simp: credit_rows_def)
  have m: "sc_isArrear c = Some True" using assms(3) c(2) by (simp add: credit_row_def Let_def)
  have "subjectCode c \<in> set (orderedSubjects s)"
    using dialog_reachable_inv [OF assms(1)] c(1) m by (auto simp: dialog_inv_def marked_codes_def)
  from index_of_mem [OF this] show ?thesis
    using c(2) m by (simp add: credit_row_def Let_def)
qed

theorem credit_rows_badge_witness:
  "\<exists>k. row_badge (last (credit_rows (dialog_step (dialog_step initial_dialog
      (Upload [row ''S'' ''A'' ''O'' 3 ''f'' ''1'' False, row ''S'' ''B'' ''A'' 3 ''f'' ''1'' False]))
      (ToggleArrear ''B'')))) = Some k \<and> 1 \<le> k"
proof -
  let ?s = "dialog_step (dialog_step initial_dialog
      (Upload [row ''S'' ''A'' ''O'' 3 ''f'' ''1'' False, row ''S'' ''B'' ''A'' 3 ''f'' ''1'' False]))
      (ToggleArrear ''B'')"
  let ?r = "last (credit_rows ?s)"
  have r: "dialog_reachable ?s" by (intro dialog_reachable.step dialog_reachable.start)
  have m: "?r \<in> set (credit_rows ?s)" by code_simp
  have c: "row_current ?r" by code_simp
  from credit_rows_badge [OF r m c] show ?thesis by blast
qed

text \<open>
  Round trip: typing back the value a credit input shows, \<open>String(creditValue)\<close>,
  leaves a reachable dialog state unchanged: \<open>parseInt\<close> reads the printed credit back.
\<close>

theorem handleCreditChange_displayed_value:
  assumes "dialog_reachable s" "r \<in> set (credit_rows s)"
  shows "handleCreditChange s (row_code r) (row_value r) = s"
proof -
  have inv: "dialog_inv s" using assms(1) by (rule dialog_reachable_inv)
  obtain c where c: "c \<in> set (subjectCredits s)" "r = credit_row s c"
    using assms(2) by (auto simp: credit_rows_def)
  have same: "update_credit (subjectCode c) (\<lambda>x. x\<lparr>sc_creditValue := sc_creditValue c\<rparr>)
                (subjectCredits s) = subjectCredits s"
    using inv c(1) by (rule update_credit_own_value)
  show ?thesis
    using c(2) same inv
    by (simp add: handleCreditChange_def credit_row_def Let_def js_parseInt_int_str dialog_inv_def)
qed

theorem handleCreditChange_displayed_value_witness:
  "handleCreditChange (dialog_step initial_dialog (Upload [row ''S'' ''A'' ''O'' 3 ''f'' ''1'' False]))
      ''A'' ''3''
   = dialog_step initial_dialog (Upload [row ''S'' ''A'' ''O'' 3 ''f'' ''1'' False])"
proof -
  let ?s = "dialog_step initial_dialog (Upload [row ''S'' ''A'' ''O'' 3 ''f'' ''1'' False])"
  let ?r = "hd (credit_rows ?s)"
  have r: "dialog_reachable ?s" by (intro dialog_reachable.step dialog_reachable.start)
  have m: "?r \<in> set (credit_rows ?s)" by code_simp
  have v: "row_code ?r = ''A''" "row_value ?r = ''3''" by code_simp+
  show ?thesis using handleCreditChange_displayed_value [OF r m] v by simp
qed

text \<open>
  A concrete session. Two files' subjects are uploaded with a repeated code; the
  credit field accepts \<open>4.5\<close> as 4 (\<open>parseInt\<close> reads the leading digits) and ignores \<open>0\<close>;
  marking B and then A orders them B, A; unmarking B drops it from the order. The submit
  hands exactly that to \<open>onCreditAssigned\<close>.
\<close>

theorem dialog_session_scenario:
  "snd (dialog_submit (foldl dialog_step initial_dialog
     [Upload [row ''S'' ''A'' ''O'' 3 ''f'' ''1'' False, row ''S'' ''B'' ''A'' 3 ''f'' ''1'' False,
              row ''T'' ''A'' ''B'' 3 ''g'' ''1'' False],
      CreditChange ''A'' ''4.5'', CreditChange ''B'' ''0'',
      ToggleArrear ''B'', ToggleArrear ''A'', ToggleArrear ''B'', SubmitCredits]))
   = Some ([(initial_credit ''A'')\<lparr>sc_creditValue := 4, sc_isArrear := Some True\<rparr>,
            initial_credit ''B''], [''A''])"
  by code_simp

end
