(* ===== verification/Uploader.thy ===== *)
theory Uploader
  imports Records
begin

text \<open>
  The upload step: \<open>FileUploader\<close> of \<^verbatim>\<open>src/src/components/dashboard/FileUploader.tsx\<close>
  and the parser of \<^verbatim>\<open>src/src/utils/excel/fileParser.ts\<close>. The component's state is its
  list of selected files; selecting files and removing one are the events of a step
  function, under the calculation mode the dashboard passes in (\<open>None\<close> before a mode is
  chosen). A file is its name and the rows \<open>sheet_to_json\<close> yields for its first sheet,
  or \<open>None\<close> when reading or decoding it fails: the XLSX decoding itself is the library's
  and is not modelled. A cell value is a string or an integer; \<open>String(v)\<close> of a
  fractional number is not needed by the codes and labels the parser reads.
\<close>

section \<open>Definitions\<close>

datatype sheet_val = SStr string | SNum int

record UploadFile =
  file_name :: string
  file_rows :: "(string \<times> sheet_val) list list option"

text \<open>\<open>String(row[key] || '')\<close>: a missing cell, \<open>''\<close> and \<open>0\<close> are falsy and give \<open>''\<close>.\<close>

fun sheet_str :: "sheet_val \<Rightarrow> string" where
  "sheet_str (SStr s) = s"
| "sheet_str (SNum n) = (if n = 0 then [] else int_str n)"

definition row_str :: "(string \<times> sheet_val) list \<Rightarrow> string \<Rightarrow> string" where
  "row_str cells key = (case map_of cells key of Some v \<Rightarrow> sheet_str v | None \<Rightarrow> [])"

text \<open>Lines 19-26 of fileParser.ts: one spreadsheet row as a record tagged with its file.\<close>

definition parse_row :: "string \<Rightarrow> (string \<times> sheet_val) list \<Rightarrow> StudentRecord" where
  "parse_row name cells =
     \<lparr>CNo = row_str cells ''CNo'', SEM = row_str cells ''SEM'', REGNO = row_str cells ''REGNO'',
      SCODE = row_str cells ''SCODE'', GR = row_str cells ''GR'', creditValue = None,
      subjectName = None, facultyName = None, fileSource = Some name, isArrear = None\<rparr>"

text \<open>\<open>parseExcelFile\<close> (lines 6-40) and \<open>parseMultipleExcelFiles\<close> (lines 43-56).\<close>

definition parseExcelFile :: "UploadFile \<Rightarrow> StudentRecord list option" where
  "parseExcelFile f = map_option (map (parse_row (file_name f))) (file_rows f)"

definition parseMultipleExcelFiles :: "UploadFile list \<Rightarrow> StudentRecord list option" where
  "parseMultipleExcelFiles fs = map_option concat (those (map parseExcelFile fs))"

text \<open>\<open>s.endsWith(suffix)\<close>.\<close>

definition js_endsWith :: "string \<Rightarrow> string \<Rightarrow> bool" where
  "js_endsWith s suffix \<longleftrightarrow> length suffix \<le> length s \<and> drop (length s - length suffix) s = suffix"

definition excel_name :: "string \<Rightarrow> bool" where
  "excel_name n \<longleftrightarrow> js_endsWith n ''.xlsx'' \<or> js_endsWith n ''.xls''"

text \<open>
  \<open>handleFileChange\<close> (lines 25-63): an empty selection is ignored; in SGPA mode a second
  file or a multiple selection is refused; in CGPA mode a selection that would exceed ten
  files is refused; otherwise the selected files with an Excel name are appended.
\<close>

definition handleFileChange :: "calc_mode option \<Rightarrow> UploadFile list \<Rightarrow> UploadFile list \<Rightarrow> UploadFile list" where
  "handleFileChange mode files selectedFiles =
     (if selectedFiles = [] then files
      else if mode = Some SGPA_Mode \<and> (files \<noteq> [] \<or> 1 < length selectedFiles) then files
      else if mode = Some CGPA_Mode \<and> 10 < length files + length selectedFiles then files
      else files @ filter (\<lambda>f. excel_name (file_name f)) selectedFiles)"

text \<open>\<open>removeFile\<close> (lines 65-67): drops the file at the index, if there is one.\<close>

definition removeFile :: "UploadFile list \<Rightarrow> nat \<Rightarrow> UploadFile list" where
  "removeFile files index = map fst (filter (\<lambda>(f, i). i \<noteq> index) (zip files [0..<length files]))"

text \<open>
  The events: a selection in the file input, a file's remove button, and the clear-all
  button (lines 165-171, \<open>setFiles([])\<close>); both buttons stop the click from reaching the drop
  zone, which would open the file dialog.
\<close>

datatype upload_event = SelectFiles "UploadFile list" | RemoveFile nat | ClearFiles

fun uploader_step :: "calc_mode option \<Rightarrow> UploadFile list \<Rightarrow> upload_event \<Rightarrow> UploadFile list" where
  "uploader_step mode files (SelectFiles sel) = handleFileChange mode files sel"
| "uploader_step mode files (RemoveFile i) = removeFile files i"
| "uploader_step mode files ClearFiles = []"

inductive uploader_reachable :: "calc_mode option \<Rightarrow> UploadFile list \<Rightarrow> bool" for mode where
  start: "uploader_reachable mode []"
| step: "uploader_reachable mode files \<Longrightarrow> uploader_reachable mode (uploader_step mode files e)"

datatype upload_error = NoFilesSelected | TooManyFiles | ProcessingFailed

text \<open>
  \<open>handleUpload\<close> (lines 69-120): the two refusals, then one file parsed alone or several
  together; a failed parse is the caught error; on success the records and their distinct
  subject codes (line 101) go to \<open>onRecordsUploaded\<close>.
\<close>

definition handleUpload ::
  "calc_mode option \<Rightarrow> UploadFile list \<Rightarrow> upload_error + (StudentRecord list \<times> string list)" where
  "handleUpload mode files =
     (if files = [] then Inl NoFilesSelected
      else if mode = Some SGPA_Mode \<and> 1 < length files then Inl TooManyFiles
      else (case (if length files = 1 then parseExcelFile (hd files) else parseMultipleExcelFiles files) of
              None \<Rightarrow> Inl ProcessingFailed
            | Some records \<Rightarrow> Inr (records, js_unique (map SCODE records))))"

text \<open>\<open>getUploadDescription\<close> (lines 121-128).\<close>

definition getUploadDescription :: "calc_mode option \<Rightarrow> string" where
  "getUploadDescription mode =
     (case mode of
        Some SGPA_Mode \<Rightarrow> ''Upload a single Excel file containing student results data for SGPA analysis.''
      | Some CGPA_Mode \<Rightarrow> ''Upload up to 10 Excel files containing student results data for CGPA analysis.''
      | None \<Rightarrow> ''Upload Excel files containing student results data for analysis.'')"

text \<open>\<open>calculationMode.toUpperCase()\<close>.\<close>

definition mode_upper :: "calc_mode \<Rightarrow> string" where
  "mode_upper m = (case m of SGPA_Mode \<Rightarrow> ''SGPA'' | CGPA_Mode \<Rightarrow> ''CGPA'')"

record UploaderView =
  uv_title :: string
  uv_description :: string
  uv_multiple :: bool
  uv_hint :: string
  uv_count :: "string option"
  uv_rows :: "(string \<times> string) list"
  uv_uploadDisabled :: bool
  uv_uploadLabel :: string

text \<open>
  Lines 129-234, the card: its title with the mode, the description, the file input's
  \<open>multiple\<close> attribute (CGPA mode only), the hint, and, when files are selected, their count
  and one row per file with its name and its size \<open>(file.size / 1024).toFixed(2) KB\<close>; then
  the upload button, disabled without files or while uploading. The size of a browser
  \<open>File\<close> is not part of the model's file and is passed as a function.
\<close>

definition uploader_view ::
  "(UploadFile \<Rightarrow> nat) \<Rightarrow> calc_mode option \<Rightarrow> UploadFile list \<Rightarrow> bool \<Rightarrow> UploaderView" where
  "uploader_view fileSize mode files isUploading =
     \<lparr>uv_title = ''Upload Excel Files''
                 @ (case mode of Some m \<Rightarrow> '' for '' @ mode_upper m @ '' Calculation'' | None \<Rightarrow> ''''),
      uv_description = getUploadDescription mode
        @ '' Each file should contain columns: SEM (Semester), REGNO (Registration Number), SCODE (Subject Code), and GR (Grade).'',
      uv_multiple = (mode = Some CGPA_Mode),
      uv_hint = (if mode = Some SGPA_Mode then ''Supports a single .xlsx or .xls file''
                 else ''Supports multiple .xlsx and .xls files (max 10)''),
      uv_count = (if files = [] then None else Some (nat_str (length files) @ '' file(s) selected'')),
      uv_rows = map (\<lambda>f. (file_name f, js_toFixed 2 (Num (of_nat (fileSize f) / 1024)) @ '' KB'')) files,
      uv_uploadDisabled = (files = [] \<or> isUploading),
      uv_uploadLabel = (if isUploading then ''Uploading...''
                        else ''Upload '' @ (if 1 < length files then ''Files'' else ''File''))\<rparr>"

text \<open>The invariant of the selected files under a fixed mode.\<close>

definition upload_inv :: "calc_mode option \<Rightarrow> UploadFile list \<Rightarrow> bool" where
  "upload_inv mode files \<longleftrightarrow>
     list_all (\<lambda>f. excel_name (file_name f)) files
     \<and> (mode = Some SGPA_Mode \<longrightarrow> length files \<le> 1)
     \<and> (mode = Some CGPA_Mode \<longrightarrow> length files \<le> 10)"

section \<open>Lemmas\<close>

lemma removeFile_subset: "set (removeFile files i) \<subseteq> set files \<and> length (removeFile files i) \<le> length files"
proof -
  have "length (filter (\<lambda>(f, j). j \<noteq> i) (zip files [0..<length files])) \<le> length files"
    by (metis length_filter_le length_zip length_upt min.idem minus_nat.diff_0)
  then show ?thesis by (auto simp: removeFile_def dest: set_zip_leftD)
qed

lemma handleFileChange_inv: "upload_inv mode files \<Longrightarrow> upload_inv mode (handleFileChange mode files sel)"
proof -
  assume inv: "upload_inv mode files"
  have le: "length (filter (\<lambda>f. excel_name (file_name f)) sel) \<le> length sel" by (rule length_filter_le)
  show ?thesis
    using inv le unfolding handleFileChange_def upload_inv_def list_all_iff by (auto; linarith)
qed

lemma removeFile_inv: "upload_inv mode files \<Longrightarrow> upload_inv mode (removeFile files i)"
  using removeFile_subset [of files i] by (auto simp: upload_inv_def list_all_iff)

lemma upload_inv_Nil: "upload_inv mode []"
  by (simp add: upload_inv_def)

lemma uploader_reachable_inv: "uploader_reachable mode files \<Longrightarrow> upload_inv mode files"
proof (induction rule: uploader_reachable.induct)
  case start
  show ?case by (simp add: upload_inv_def)
next
  case (step files e)
  then show ?case by (cases e) (simp_all add: handleFileChange_inv removeFile_inv upload_inv_Nil)
qed

text \<open>
  In SGPA mode the card never offers several files: the input is single-select and the
  button reads \<open>Upload File\<close> in every reachable state; the description's "up to 10" in
  CGPA mode is the limit \<open>handleFileChange\<close> keeps.
\<close>

lemma uploader_view_sgpa:
  assumes "uploader_reachable (Some SGPA_Mode) files"
  shows "\<not> uv_multiple (uploader_view fileSize (Some SGPA_Mode) files False)
         \<and> uv_uploadLabel (uploader_view fileSize (Some SGPA_Mode) files False) = ''Upload File''"
  using uploader_reachable_inv [OF assms] by (simp add: uploader_view_def upload_inv_def)

section \<open>Properties of the uploader\<close>

text \<open>
  C40: in every state the uploader reaches under a chosen mode, every selected file has an
  Excel name, there is at most one file in SGPA mode and at most ten in CGPA mode.
\<close>

theorem uploader_limits:
  assumes "uploader_reachable mode files"
  shows "list_all (\<lambda>f. excel_name (file_name f)) files
         \<and> (mode = Some SGPA_Mode \<longrightarrow> length files \<le> 1)
         \<and> (mode = Some CGPA_Mode \<longrightarrow> length files \<le> 10)"
  using uploader_reachable_inv [OF assms] by (simp add: upload_inv_def)

theorem uploader_limits_witness:
  "list_all (\<lambda>f. excel_name (file_name f))
     (uploader_step (Some CGPA_Mode) [] (SelectFiles [\<lparr>file_name = ''s3.xlsx'', file_rows = None\<rparr>,
                                                      \<lparr>file_name = ''notes.csv'', file_rows = None\<rparr>]))
   \<and> length (uploader_step (Some CGPA_Mode) [] (SelectFiles [\<lparr>file_name = ''s3.xlsx'', file_rows = None\<rparr>,
                                                      \<lparr>file_name = ''notes.csv'', file_rows = None\<rparr>])) \<le> 10"
proof -
  let ?fs = "uploader_step (Some CGPA_Mode) [] (SelectFiles [\<lparr>file_name = ''s3.xlsx'', file_rows = None\<rparr>,
                                                      \<lparr>file_name = ''notes.csv'', file_rows = None\<rparr>])"
  have "uploader_reachable (Some CGPA_Mode) ?fs"
    by (intro uploader_reachable.step uploader_reachable.start)
  from uploader_limits [OF this] show ?thesis by simp
qed

end
