(* ===== verification/Dashboard.thy ===== *)
theory Dashboard
  imports Analyzer CreditDialog Uploader
begin

text \<open>
  The dashboard page of \<^verbatim>\<open>src/src/pages/Dashboard.tsx\<close> with the two components it hosts
  on its upload tab, and the result page of \<^verbatim>\<open>components/dashboard/ResultsDisplay.tsx\<close>.
  The page's React state is a record; the credit dialog's state (\<open>CreditDialog\<close>) is a field
  of it, because the dialog is mounted on the upload tab only and is re-initialised from the
  page's \<open>uniqueSubjects\<close> whenever that tab is shown again. The events are the mode cards,
  the uploader's \<open>handleUpload\<close> (\<open>Uploader\<close>) with the page's mode, the dialog's events
  (its submit calls \<open>handleCreditAssigned\<close>), and the tab triggers. \<open>analyzeData\<close>
  (\<open>Analyzer\<close>) runs to its end inside one event. The flags \<open>isUploading\<close> and
  \<open>isAnalyzing\<close> are \<open>false\<close> again when an event ends and are not kept.
\<close>

section \<open>Definitions\<close>

datatype dash_tab = ModeTab | UploadTab | ResultsTab

record DashboardState =
  db_activeTab :: dash_tab
  db_calculationMode :: "calc_mode option"
  db_resultsAvailable :: bool
  db_studentRecords :: "StudentRecord list"
  db_resultAnalysis :: "ResultAnalysis option"
  db_uniqueSubjects :: "string list"
  db_subjectCredits :: "SubjectCredit list"
  db_orderedSubjects :: "string list"
  db_creditsAssigned :: bool
  db_dialog :: DialogState
  db_profileOpen :: bool

text \<open>Lines 41-52: the initial state.\<close>

definition initial_dashboard :: DashboardState where
  "initial_dashboard =
     \<lparr>db_activeTab = ModeTab, db_calculationMode = None, db_resultsAvailable = False,
      db_studentRecords = [], db_resultAnalysis = None, db_uniqueSubjects = [],
      db_subjectCredits = [], db_orderedSubjects = [], db_creditsAssigned = False,
      db_dialog = initial_dialog, db_profileOpen = False\<rparr>"

text \<open>Lines 64-73: a mode card.\<close>

definition handleSelectMode :: "calc_mode \<Rightarrow> DashboardState \<Rightarrow> DashboardState" where
  "handleSelectMode m s = s\<lparr>db_calculationMode := Some m, db_activeTab := UploadTab\<rparr>"

text \<open>
  Lines 75-84: new rows from the uploader reset everything computed from the old ones; the
  dialog's effect on its \<open>uploadedSubjects\<close> prop (SubjectCreditInput.tsx lines 36-55)
  re-initialises the credits.
\<close>

definition handleRecordsUploaded ::
  "StudentRecord list \<Rightarrow> string list \<Rightarrow> DashboardState \<Rightarrow> DashboardState" where
  "handleRecordsUploaded records subjects s =
     s\<lparr>db_studentRecords := records, db_uniqueSubjects := subjects, db_resultsAvailable := False,
       db_resultAnalysis := None, db_subjectCredits := [], db_orderedSubjects := [],
       db_creditsAssigned := False, db_dialog := dialog_upload subjects\<rparr>"

text \<open>
  Lines 124-215, \<open>analyzeData\<close> as it changes the page: on success the analysis, the rows
  with their credits and the results tab; without rows only a toast.
\<close>

definition dashboard_analyze ::
  "(string \<Rightarrow> string \<Rightarrow> int) \<Rightarrow> SubjectCredit list \<Rightarrow> string list \<Rightarrow> DashboardState \<Rightarrow> DashboardState" where
  "dashboard_analyze collate credits subjectOrder s =
     (case analyzeData collate (db_studentRecords s) credits subjectOrder of
        Inl _ \<Rightarrow> s
      | Inr (a, recordsWithCredits) \<Rightarrow>
          s\<lparr>db_resultAnalysis := Some a, db_studentRecords := recordsWithCredits,
            db_resultsAvailable := True, db_activeTab := ResultsTab\<rparr>)"

text \<open>Lines 86-122: the dialog's submission.\<close>

definition handleCreditAssigned ::
  "(string \<Rightarrow> string \<Rightarrow> int) \<Rightarrow> SubjectCredit list \<Rightarrow> string list \<Rightarrow> DashboardState \<Rightarrow> DashboardState" where
  "handleCreditAssigned collate credits subjectOrder s =
     dashboard_analyze collate credits subjectOrder
       (s\<lparr>db_subjectCredits := credits, db_orderedSubjects := subjectOrder, db_creditsAssigned := True\<rparr>)"

text \<open>Lines 228-238: the \<open>Select Mode\<close> trigger.\<close>

definition handleResetCalculation :: "DashboardState \<Rightarrow> DashboardState" where
  "handleResetCalculation s =
     s\<lparr>db_calculationMode := None, db_activeTab := ModeTab, db_studentRecords := [],
       db_uniqueSubjects := [], db_resultsAvailable := False, db_resultAnalysis := None,
       db_subjectCredits := [], db_orderedSubjects := [], db_creditsAssigned := False\<rparr>"

text \<open>
  FileUploader.tsx lines 69-120 under the page's mode: on success \<open>onRecordsUploaded\<close>,
  on a refusal or a failed parse only a toast.
\<close>

definition dashboard_upload :: "UploadFile list \<Rightarrow> DashboardState \<Rightarrow> DashboardState" where
  "dashboard_upload files s =
     (case handleUpload (db_calculationMode s) files of
        Inr (records, subjects) \<Rightarrow> handleRecordsUploaded records subjects s
      | Inl _ \<Rightarrow> s)"

text \<open>
  The credit dialog's events (SubjectCreditInput.tsx); its submit hands a valid credit list
  and order to \<open>onCreditAssigned\<close> (lines 189-229). The \<open>Upload\<close> event of the dialog is
  its prop effect, raised by the page itself.
\<close>

fun dialog_action ::
  "(string \<Rightarrow> string \<Rightarrow> int) \<Rightarrow> dialog_event \<Rightarrow> DashboardState \<Rightarrow> DashboardState" where
  "dialog_action collate SubmitCredits s =
     (case dialog_submit (db_dialog s) of
        (d, Some (credits, subjectOrder)) \<Rightarrow> handleCreditAssigned collate credits subjectOrder (s\<lparr>db_dialog := d\<rparr>)
      | (d, None) \<Rightarrow> s\<lparr>db_dialog := d\<rparr>)"
| "dialog_action collate (Upload records) s = s"
| "dialog_action collate e s = s\<lparr>db_dialog := dialog_step (db_dialog s) e\<rparr>"

datatype dash_event =
    SelectModeCard calc_mode
  | UploadFiles "UploadFile list"
  | CreditDialogEvent dialog_event
  | ChangeTab dash_tab
  | ProfileInfoOpenChange bool

text \<open>
  Lines 259-362: the tab triggers exist once a mode is chosen, \<open>Results\<close> is disabled
  until results are available, and \<open>Select Mode\<close> resets the calculation. The mode cards
  live on the mode tab, the uploader and the dialog on the upload tab; showing the upload tab
  (from a mode card or its trigger) mounts a fresh dialog for the page's subjects.
\<close>

fun dash_step :: "(string \<Rightarrow> string \<Rightarrow> int) \<Rightarrow> dash_event \<Rightarrow> DashboardState \<Rightarrow> DashboardState" where
  "dash_step collate (SelectModeCard m) s =
     (if db_activeTab s = ModeTab
      then (handleSelectMode m s)\<lparr>db_dialog := dialog_upload (db_uniqueSubjects s)\<rparr> else s)"
| "dash_step collate (UploadFiles files) s =
     (if db_activeTab s = UploadTab then dashboard_upload files s else s)"
| "dash_step collate (CreditDialogEvent e) s =
     (if db_activeTab s = UploadTab then dialog_action collate e s else s)"
| "dash_step collate (ChangeTab t) s =
     (if db_calculationMode s = None then s
      else (case t of
              ModeTab \<Rightarrow> handleResetCalculation s
            | UploadTab \<Rightarrow>
                (if db_activeTab s = UploadTab then s
                 else s\<lparr>db_activeTab := UploadTab, db_dialog := dialog_upload (db_uniqueSubjects s)\<rparr>)
            | ResultsTab \<Rightarrow> (if db_resultsAvailable s then s\<lparr>db_activeTab := ResultsTab\<rparr> else s)))"
| "dash_step collate (ProfileInfoOpenChange b) s =
     (if db_profileOpen s then s\<lparr>db_profileOpen := b\<rparr> else s)"

definition dash_run :: "(string \<Rightarrow> string \<Rightarrow> int) \<Rightarrow> dash_event list \<Rightarrow> DashboardState \<Rightarrow> DashboardState" where
  "dash_run collate es s = foldl (\<lambda>s e. dash_step collate e s) s es"

inductive dash_reachable :: "(string \<Rightarrow> string \<Rightarrow> int) \<Rightarrow> DashboardState \<Rightarrow> bool" for collate where
  start: "dash_reachable collate initial_dashboard"
| step: "dash_reachable collate s \<Longrightarrow> dash_reachable collate (dash_step collate e s)"

text \<open>
  Lines 56-62 and 363-397: the page's own profile dialog, \<open>open={profileOpen}\<close> with the
  hard-coded \<open>profileInfo\<close>. Its \<open>onOpenChange={setProfileOpen}\<close> is called by the dialog
  only while it is open (Escape, the close button, a click outside); the page has no trigger
  for it.
\<close>

definition profileInfo :: "(string \<times> string) list" where
  "profileInfo =
     [(''Name'', ''Dr. S. Rajasekaran''), (''Email'', ''rajasekaran.s@ksrct.ac.in''),
      (''Role'', ''Associate Professor''), (''Department'', ''Computer Science and Engineering''),
      (''College'', ''K. S. Rangasamy College of Technology'')]"

definition dashboard_profile_view :: "DashboardState \<Rightarrow> (string \<times> (string \<times> string) list) option" where
  "dashboard_profile_view s =
     (if db_profileOpen s then Some (''Profile Information'', profileInfo) else None)"

text \<open>Lines 263-266: the subtitle.\<close>

definition dashboard_subtitle :: "DashboardState \<Rightarrow> string" where
  "dashboard_subtitle s =
     (case db_calculationMode s of
        Some SGPA_Mode \<Rightarrow> ''SGPA Calculation and Analysis''
      | Some CGPA_Mode \<Rightarrow> ''CGPA Calculation and Analysis''
      | None \<Rightarrow> ''Select calculation mode to begin'')"

text \<open>Lines 355-361: the rows handed to the results (and so to the report downloader).\<close>

definition results_records :: "DashboardState \<Rightarrow> StudentRecord list" where
  "results_records s =
     filter (\<lambda>r. list_ex (\<lambda>c. subjectCode c = SCODE r) (db_subjectCredits s)) (db_studentRecords s)"

text \<open>
  ResultsDisplay.tsx lines 32-97: nothing without an analysis; otherwise the heading, the
  description with the current semester's label, and whether the subject analysis is shown.
\<close>

definition semester_label :: "calc_mode option \<Rightarrow> ResultAnalysis \<Rightarrow> string" where
  "semester_label mode a =
     (case (mode, ra_currentSemesterFile a) of
        (Some CGPA_Mode, Some f) \<Rightarrow>
          (case map_of (ra_fileWiseAnalysis a) f of
             Some fi \<Rightarrow> (case semesterName fi of
                           Some n \<Rightarrow> (if n \<noteq> [] then ''Semester '' @ n else ''Semester'')
                         | None \<Rightarrow> ''Semester'')
           | None \<Rightarrow> ''Semester'')
      | _ \<Rightarrow> ''Semester'')"

definition results_view :: "calc_mode option \<Rightarrow> ResultAnalysis option \<Rightarrow> (string \<times> string \<times> bool) option" where
  "results_view mode analysis =
     (case analysis of
        None \<Rightarrow> None
      | Some a \<Rightarrow>
          Some (if mode = Some SGPA_Mode then ''SGPA Analysis Results'' else ''CGPA Analysis Results'',
                if mode = Some SGPA_Mode
                then ''Semester Grade Point Average analysis for the uploaded semester data''
                else ''Cumulative Grade Point Average analysis across multiple semesters (Current: ''
                     @ semester_label mode a @ '')'',
                mode = Some SGPA_Mode \<or> (mode = Some CGPA_Mode \<and> ra_currentSemesterFile a \<noteq> None)))"

text \<open>
  The invariant. The mode tab is shown exactly while no mode is chosen; the results tab only
  with results; the dialog's own invariant holds; the page's credits are in 1..10; and when
  results are available the rows held are the rows with the page's credits applied, and the
  analysis held is the analysis of those rows.
\<close>

definition credits_in_range :: "SubjectCredit list \<Rightarrow> bool" where
  "credits_in_range credits = list_all (\<lambda>c. 1 \<le> sc_creditValue c \<and> sc_creditValue c \<le> 10) credits"

definition dash_inv :: "(string \<Rightarrow> string \<Rightarrow> int) \<Rightarrow> DashboardState \<Rightarrow> bool" where
  "dash_inv collate s \<longleftrightarrow>
     (db_activeTab s = ModeTab \<longleftrightarrow> db_calculationMode s = None)
     \<and> (db_activeTab s = ResultsTab \<longrightarrow> db_resultsAvailable s)
     \<and> distinct (db_uniqueSubjects s)
     \<and> dialog_inv (db_dialog s)
     \<and> credits_in_range (db_subjectCredits s)
     \<and> (db_resultsAvailable s \<longrightarrow>
          db_studentRecords s \<noteq> []
          \<and> map (apply_credit (db_subjectCredits s)) (db_studentRecords s) = db_studentRecords s
          \<and> db_resultAnalysis s =
              Some ((analyzeResults collate (db_studentRecords s) (Some (map subjectCode (db_subjectCredits s))))
                      \<lparr>ra_orderedSubjects := (if db_orderedSubjects s \<noteq> [] then Some (db_orderedSubjects s) else None)\<rparr>))"

text \<open>A one-row grade sheet for the examples.\<close>

definition example_sheet :: UploadFile where
  "example_sheet =
     \<lparr>file_name = ''sem1.xlsx'',
      file_rows = Some [[(''REGNO'', SStr ''S1''), (''SCODE'', SStr ''CS1''), (''GR'', SStr ''A''),
                         (''SEM'', SNum 1)]]\<rparr>"

section \<open>Lemmas\<close>

lemma credits_in_range_Nil [simp]: "credits_in_range []"
  by (simp add: credits_in_range_def)

lemma apply_credit_idem: "apply_credit c (apply_credit c r) = apply_credit c r"
  by (simp add: apply_credit_def split: option.split)

lemma map_apply_credit_idem:
  "map (apply_credit c) (map (apply_credit c) rs) = map (apply_credit c) rs"
  by (simp add: apply_credit_idem)

lemma analyzeData_Inr:
  "rs \<noteq> [] \<Longrightarrow> analyzeData collate rs cs ord =
     Inr ((analyzeResults collate (map (apply_credit cs) rs) (Some (map subjectCode cs)))
             \<lparr>ra_orderedSubjects := (if ord \<noteq> [] then Some ord else None)\<rparr>,
          map (apply_credit cs) rs)"
  by (simp add: analyzeData_def Let_def)

lemma apply_credit_in_range:
  assumes "credits_in_range cs"
  shows "case creditValue (apply_credit cs r) of Some k \<Rightarrow> 1 \<le> k \<and> k \<le> 10 | None \<Rightarrow> False"
proof (cases "find (\<lambda>c. subjectCode c = SCODE r) cs")
  case None
  then show ?thesis by (simp add: apply_credit_def)
next
  case (Some c)
  then have "c \<in> set cs" by (auto simp: find_Some_iff nth_mem)
  then have "1 \<le> sc_creditValue c \<and> sc_creditValue c \<le> 10"
    using assms by (simp add: credits_in_range_def list_all_iff)
  then show ?thesis using Some by (simp add: apply_credit_def)
qed

text \<open>The dialog hands over credits in range (its invariant).\<close>

lemma dialog_submit_credits:
  "dialog_inv d \<Longrightarrow> dialog_submit d = (d', Some (cs, ord)) \<Longrightarrow> credits_in_range cs \<and> dialog_inv d'"
  using dialog_submit_inv [of d]
  by (auto simp: dialog_submit_def dialog_inv_def credits_in_range_def split: if_splits)

lemma dashboard_analyze_inv:
  assumes "dash_inv collate s" "db_activeTab s = UploadTab" "credits_in_range cs"
  shows "dash_inv collate (dashboard_analyze collate cs ord
           (s\<lparr>db_subjectCredits := cs, db_orderedSubjects := ord, db_creditsAssigned := True\<rparr>))"
proof (cases "db_studentRecords s = []")
  case True
  then show ?thesis using assms by (simp add: dashboard_analyze_def analyzeData_def dash_inv_def)
next
  case False
  then show ?thesis using assms
    by (simp add: dashboard_analyze_def analyzeData_Inr dash_inv_def apply_credit_idem)
qed

lemma dialog_action_inv:
  assumes "dash_inv collate s" "db_activeTab s = UploadTab"
  shows "dash_inv collate (dialog_action collate e s)"
proof (cases e)
  case SubmitCredits
  obtain d' out where ds: "dialog_submit (db_dialog s) = (d', out)" by fastforce
  have d': "dialog_inv d'"
    using dialog_submit_inv [of "db_dialog s"] assms(1) ds by (simp add: dash_inv_def)
  then have s': "dash_inv collate (s\<lparr>db_dialog := d'\<rparr>)" using assms(1) by (simp add: dash_inv_def)
  show ?thesis
  proof (cases out)
    case None
    then show ?thesis using SubmitCredits ds s' by simp
  next
    case (Some p)
    obtain cs ord where p: "p = (cs, ord)" by fastforce
    have cr: "credits_in_range cs"
      using dialog_submit_credits [of "db_dialog s" d' cs ord] assms(1) ds Some p
      by (simp add: dash_inv_def)
    show ?thesis
      using dashboard_analyze_inv [OF s' _ cr, of ord] assms(2) SubmitCredits ds Some p
      by (simp add: handleCreditAssigned_def)
  qed
qed (use assms dialog_step_inv [of "db_dialog s" e] in \<open>auto simp: dash_inv_def simp del: dialog_step.simps\<close>)

lemma dashboard_upload_inv:
  "dash_inv collate s \<Longrightarrow> db_activeTab s = UploadTab \<Longrightarrow> dash_inv collate (dashboard_upload files s)"
  by (auto simp: dashboard_upload_def handleUpload_def handleRecordsUploaded_def dash_inv_def
           dialog_upload_inv split: sum.split option.split if_splits)

lemma dash_step_inv: "dash_inv collate s \<Longrightarrow> dash_inv collate (dash_step collate e s)"
proof (cases e)
  case (SelectModeCard m)
  moreover assume "dash_inv collate s"
  ultimately show ?thesis by (auto simp: dash_inv_def handleSelectMode_def dialog_upload_inv)
next
  case (UploadFiles files)
  moreover assume "dash_inv collate s"
  ultimately show ?thesis by (simp add: dashboard_upload_inv)
next
  case (CreditDialogEvent d)
  moreover assume "dash_inv collate s"
  ultimately show ?thesis by (simp add: dialog_action_inv)
next
  case (ChangeTab t)
  moreover assume "dash_inv collate s"
  ultimately show ?thesis
    by (cases t) (auto simp: dash_inv_def handleResetCalculation_def credits_in_range_def
                   dialog_upload_inv)
next
  case (ProfileInfoOpenChange b)
  moreover assume "dash_inv collate s"
  ultimately show ?thesis by (simp add: dash_inv_def)
qed

lemma dash_reachable_inv: "dash_reachable collate s \<Longrightarrow> dash_inv collate s"
proof (induction rule: dash_reachable.induct)
  case start
  show ?case
    by (simp add: initial_dashboard_def dash_inv_def initial_dialog_def dialog_inv_def
                  validateInputs_def marked_codes_def credits_in_range_def)
next
  case (step s e)
  then show ?case by (simp add: dash_step_inv)
qed

lemma dash_run_reachable: "dash_reachable collate s \<Longrightarrow> dash_reachable collate (dash_run collate es s)"
  by (induction es arbitrary: s) (auto simp: dash_run_def intro: dash_reachable.step)

lemma dialog_submit_upload:
  "subjects \<noteq> [] \<Longrightarrow> snd (dialog_submit (dialog_upload subjects)) = Some (map initial_credit subjects, [])"
  by (simp add: dialog_submit_def dialog_upload_def Let_def validateInputs_def initial_credit_def
                list_all_iff)

lemma handleUpload_subjects:
  "handleUpload mode files = Inr (records, subjects) \<Longrightarrow> subjects = js_unique (map SCODE records)"
  by (auto simp: handleUpload_def split: if_splits option.splits)

text \<open>
  The page's own profile dialog never opens: nothing sets \<open>profileOpen\<close> to \<open>true\<close>, so its
  hard-coded profile is never shown (the header's \<open>ProfileButton\<close> shows the account).
\<close>

lemma dashboard_profile_never_open:
  "dash_reachable collate s \<Longrightarrow> dashboard_profile_view s = None"
proof (induction rule: dash_reachable.induct)
  case start
  show ?case by (simp add: initial_dashboard_def dashboard_profile_view_def)
next
  case (step s e)
  have u: "\<not> db_profileOpen (dashboard_upload fs s')" if "\<not> db_profileOpen s'" for fs s'
    using that by (simp add: dashboard_upload_def handleRecordsUploaded_def split: sum.split prod.split)
  have d: "\<not> db_profileOpen (dialog_action collate de s')" if "\<not> db_profileOpen s'" for de s'
    using that by (cases de) (simp_all add: handleCreditAssigned_def dashboard_analyze_def
                                 split: prod.split option.split sum.split)
  from step have "\<not> db_profileOpen s" by (simp add: dashboard_profile_view_def split: if_splits)
  then show ?case using u d
    by (cases e) (simp_all add: dashboard_profile_view_def handleSelectMode_def
                               handleResetCalculation_def split: dash_tab.split)
qed

lemma js_unique_Nil_iff: "js_unique xs = [] \<longleftrightarrow> xs = []"
  by (metis set_empty set_js_unique)

section \<open>Properties of the dashboard\<close>

text \<open>
  C24: whenever results are available, the analysis on display is exactly what
  \<open>analyzeData\<close> computes from the rows and credits the page holds: applying the credits
  again to rows that already carry them changes nothing. So re-submitting credits after an
  analysis, or switching tabs, never leaves a stale analysis on the results tab.
\<close>

theorem dashboard_results_consistent:
  assumes "dash_reachable collate s" "db_resultsAvailable s"
  shows "\<exists>a. db_resultAnalysis s = Some a
             \<and> analyzeData collate (db_studentRecords s) (db_subjectCredits s) (db_orderedSubjects s)
               = Inr (a, db_studentRecords s)"
  using dash_reachable_inv [OF assms(1)] assms(2)
  by (simp add: dash_inv_def analyzeData_Inr)

theorem dashboard_results_consistent_witness:
  "\<exists>a. db_resultAnalysis (dash_run (\<lambda>x y. 0)
          [SelectModeCard SGPA_Mode, UploadFiles [example_sheet], CreditDialogEvent SubmitCredits]
          initial_dashboard) = Some a
     \<and> analyzeData (\<lambda>x y. 0)
         (db_studentRecords (dash_run (\<lambda>x y. 0)
            [SelectModeCard SGPA_Mode, UploadFiles [example_sheet], CreditDialogEvent SubmitCredits]
            initial_dashboard))
         (db_subjectCredits (dash_run (\<lambda>x y. 0)
            [SelectModeCard SGPA_Mode, UploadFiles [example_sheet], CreditDialogEvent SubmitCredits]
            initial_dashboard))
         (db_orderedSubjects (dash_run (\<lambda>x y. 0)
            [SelectModeCard SGPA_Mode, UploadFiles [example_sheet], CreditDialogEvent SubmitCredits]
            initial_dashboard))
       = Inr (a, db_studentRecords (dash_run (\<lambda>x y. 0)
            [SelectModeCard SGPA_Mode, UploadFiles [example_sheet], CreditDialogEvent SubmitCredits]
            initial_dashboard))"
proof -
  let ?s = "dash_run (\<lambda>x y. 0) [SelectModeCard SGPA_Mode, UploadFiles [example_sheet],
              CreditDialogEvent SubmitCredits] initial_dashboard"
  have r: "dash_reachable (\<lambda>x y. 0) ?s" by (rule dash_run_reachable [OF dash_reachable.start])
  have a: "db_resultsAvailable ?s" by code_simp
  show ?thesis by (rule dashboard_results_consistent [OF r a])
qed

text \<open>
  C20: every row the results were computed from carries a credit between 1 and 10: the
  credit the dialog accepted for its subject (the dialog refuses other values), or 3 for a
  subject left out of the credit list.
\<close>

theorem dashboard_credits_in_range:
  assumes "dash_reachable collate s" "db_resultsAvailable s"
  shows "list_all (\<lambda>r. case creditValue r of Some k \<Rightarrow> 1 \<le> k \<and> k \<le> 10 | None \<Rightarrow> False)
           (db_studentRecords s)"
proof -
  have i: "dash_inv collate s" by (rule dash_reachable_inv [OF assms(1)])
  then have "db_studentRecords s = map (apply_credit (db_subjectCredits s)) (db_studentRecords s)"
    using assms(2) by (simp add: dash_inv_def)
  moreover have "credits_in_range (db_subjectCredits s)" using i by (simp add: dash_inv_def)
  ultimately show ?thesis
    by (metis (no_types, lifting) apply_credit_in_range list.pred_map list_all_iff comp_def)
qed

theorem dashboard_credits_in_range_witness:
  "list_all (\<lambda>r. case creditValue r of Some k \<Rightarrow> 1 \<le> k \<and> k \<le> 10 | None \<Rightarrow> False)
     (db_studentRecords (dash_run (\<lambda>x y. 0)
        [SelectModeCard CGPA_Mode, UploadFiles [example_sheet], CreditDialogEvent (CreditChange ''CS1'' ''4''),
         CreditDialogEvent SubmitCredits] initial_dashboard))"
proof -
  let ?s = "dash_run (\<lambda>x y. 0) [SelectModeCard CGPA_Mode, UploadFiles [example_sheet],
              CreditDialogEvent (CreditChange ''CS1'' ''4''), CreditDialogEvent SubmitCredits] initial_dashboard"
  have r: "dash_reachable (\<lambda>x y. 0) ?s" by (rule dash_run_reachable [OF dash_reachable.start])
  have a: "db_resultsAvailable ?s" by code_simp
  show ?thesis by (rule dashboard_credits_in_range [OF r a])
qed

text \<open>
  C37: results can always be reached again. From every reachable state, for sheets that parse
  to at least one row, the \<open>Select Mode\<close> trigger, the CGPA card, the upload and the dialog's
  submit (with its default credits) show the results tab with results.
\<close>

theorem dashboard_results_reachable:
  assumes "dash_reachable collate s" "handleUpload (Some CGPA_Mode) files = Inr (records, subjects)"
    "records \<noteq> []"
  shows "\<exists>es. db_resultsAvailable (dash_run collate es s) \<and> db_activeTab (dash_run collate es s) = ResultsTab"
proof -
  have i: "dash_inv collate s" by (rule dash_reachable_inv [OF assms(1)])
  define s1 where "s1 = dash_step collate (ChangeTab ModeTab) s"
  have t1: "db_activeTab s1 = ModeTab"
    using i by (auto simp: s1_def dash_inv_def handleResetCalculation_def)
  define s2 where "s2 = dash_step collate (SelectModeCard CGPA_Mode) s1"
  have t2: "db_activeTab s2 = UploadTab" "db_calculationMode s2 = Some CGPA_Mode"
    using t1 by (simp_all add: s2_def handleSelectMode_def)
  define s3 where "s3 = dash_step collate (UploadFiles files) s2"
  have t3: "db_activeTab s3 = UploadTab" "db_studentRecords s3 = records"
    "db_dialog s3 = dialog_upload subjects"
    using t2 assms(2) by (simp_all add: s3_def dashboard_upload_def handleRecordsUploaded_def)
  have ne: "subjects \<noteq> []"
    using handleUpload_subjects [OF assms(2)] assms(3) by (simp add: js_unique_Nil_iff)
  define s4 where "s4 = dash_step collate (CreditDialogEvent SubmitCredits) s3"
  obtain d' where d: "dialog_submit (db_dialog s3) = (d', Some (map initial_credit subjects, []))"
    using t3(3) dialog_submit_upload [OF ne] by (cases "dialog_submit (db_dialog s3)") simp
  have "db_resultsAvailable s4 \<and> db_activeTab s4 = ResultsTab"
    using t3 assms(3) d
    by (simp add: s4_def handleCreditAssigned_def dashboard_analyze_def analyzeData_Inr)
  moreover have "s4 = dash_run collate [ChangeTab ModeTab, SelectModeCard CGPA_Mode, UploadFiles files,
                    CreditDialogEvent SubmitCredits] s"
    by (simp add: dash_run_def s1_def s2_def s3_def s4_def)
  ultimately show ?thesis by metis
qed

theorem dashboard_results_reachable_witness:
  "\<exists>es. db_resultsAvailable (dash_run (\<lambda>x y. 0) es (dash_run (\<lambda>x y. 0) [SelectModeCard SGPA_Mode] initial_dashboard))
     \<and> db_activeTab (dash_run (\<lambda>x y. 0) es (dash_run (\<lambda>x y. 0) [SelectModeCard SGPA_Mode] initial_dashboard))
       = ResultsTab"
proof -
  have r: "dash_reachable (\<lambda>x y. 0) (dash_run (\<lambda>x y. 0) [SelectModeCard SGPA_Mode] initial_dashboard)"
    by (rule dash_run_reachable [OF dash_reachable.start])
  have u: "handleUpload (Some CGPA_Mode) [example_sheet]
           = Inr (map (parse_row ''sem1.xlsx'') [[(''REGNO'', SStr ''S1''), (''SCODE'', SStr ''CS1''),
                   (''GR'', SStr ''A''), (''SEM'', SNum 1)]], [''CS1''])"
    by code_simp
  have n: "map (parse_row ''sem1.xlsx'') [[(''REGNO'', SStr ''S1''), (''SCODE'', SStr ''CS1''),
             (''GR'', SStr ''A''), (''SEM'', SNum 1)]] \<noteq> []" by simp
  show ?thesis by (rule dashboard_results_reachable [OF r u n])
qed

end
