(* ===== verification/ExcelReport.thy ===== *)
theory ExcelReport
  imports Analyzer
begin

text \<open>
  The Excel report of \<^verbatim>\<open>src/src/utils/excel/reportGenerators/excelReportGenerator.ts\<close>:
  \<open>generateExcelData\<close> turns a \<open>ResultAnalysis\<close> and the rows into a workbook. A workbook is
  modelled as its list of sheets in the order they are appended, each a name, a header and
  the rows of cells passed to \<open>aoa_to_sheet\<close>; column widths and the binary encoding of
  the file are not modelled. A cell holds a number, a string, nothing (\<open>undefined\<close>, which
  \<open>aoa_to_sheet\<close> leaves empty) or the string a prototype-named grade's count turned into
  (the \<open>HJunk\<close> value of the grade histogram).
\<close>

section \<open>Definitions\<close>

datatype xcell = XNum jsnum | XStr string | XEmpty | XJunk

type_synonym sheet = "string \<times> string list \<times> xcell list list"

text \<open>\<open>gradePointMap[g] || 0\<close>: an inherited member is truthy and turns the difference into \<open>NaN\<close>.\<close>

definition grade_rank_key :: "string \<Rightarrow> jsnum" where
  "grade_rank_key g =
     (case map_of gradePointMap g of
        Some p \<Rightarrow> Num p
      | None \<Rightarrow> (if g \<in> set object_prototype_keys then NaN else Num 0))"

definition grade_rank_cmp :: "string \<Rightarrow> string \<Rightarrow> jsnum" where
  "grade_rank_cmp a b = js_sub (grade_rank_key b) (grade_rank_key a)"

text \<open>\<open>passedStudents / totalStudents * 100\<close>: \<open>0 / 0\<close> is \<open>NaN\<close>.\<close>

definition pass_ratio :: "nat \<Rightarrow> nat \<Rightarrow> jsnum" where
  "pass_ratio p t = (if t = 0 then NaN else Num (of_nat p / of_nat t * 100))"

text \<open>Lines 40-46.\<close>

definition collegeInfoData :: "xcell list list" where
  "collegeInfoData =
     [[XStr ''College Name'', XStr ''K. S. Rangasamy College of Technology''],
      [XStr ''Department'', XStr ''Computer Science and Engineering''],
      [XStr ''Batch'', XStr ''2023-2027''],
      [XStr ''Year/Semester'', XStr ''II/III''],
      [XStr ''Section'', XStr ''A&B'']]"

text \<open>Lines 49-77: the summary, with the per-file and CGPA lines of a multi-file analysis.\<close>

definition file_summary_rows :: "string \<times> FileInfo \<Rightarrow> xcell list list" where
  "file_summary_rows e =
     [[XStr (fst e @ '' Average SGPA''), XStr (js_toFixed 2 (averageSGPA (snd e)))],
      [XStr (fst e @ '' Students''), XNum (Num (of_nat (students (snd e))))]]
     @ (if truthy_str (semesterName (snd e))
        then [[XStr (fst e @ '' Semester''), XStr (str_or_empty (semesterName (snd e)))]] else [])"

definition performanceData :: "ResultAnalysis \<Rightarrow> xcell list list" where
  "performanceData a =
     [[XStr ''Total Students'', XNum (Num (of_nat (ra_totalStudents a)))],
      [XStr ''Average SGPA'', XStr (js_toFixed 2 (ra_averageCGPA a))],
      [XStr ''Highest SGPA'', XStr (js_toFixed 2 (ra_highestSGPA a))],
      [XStr ''Lowest SGPA'', XStr (js_toFixed 2 (ra_lowestSGPA a))]]
     @ (if 1 < ra_fileCount a
        then [[XStr ''Number of Files Processed'', XNum (Num (of_nat (ra_fileCount a)))]]
             @ concat (map file_summary_rows (js_entries (ra_fileWiseAnalysis a)))
             @ (case ra_cgpaAnalysis a of
                  Some ca \<Rightarrow>
                    [[XStr ''Average CGPA'', XStr (js_toFixed 2 (ca_averageCGPA ca))],
                     [XStr ''Highest CGPA'', XStr (js_toFixed 2 (ca_highestCGPA ca))],
                     [XStr ''Lowest CGPA'', XStr (js_toFixed 2 (ca_lowestCGPA ca))]]
                | None \<Rightarrow> [])
        else [])"

text \<open>
  Lines 80-97: the marked subjects in their order, then every other subject code of the
  rows in first-occurrence order (the \<open>forEach\<close> that pushes a code not yet listed).
\<close>

definition push_new :: "string list \<Rightarrow> string \<Rightarrow> string list" where
  "push_new us s = (if s \<in> set us then us else us @ [s])"

definition uniqueSubjects :: "ResultAnalysis \<Rightarrow> StudentRecord list \<Rightarrow> string list" where
  "uniqueSubjects a records =
     (case ra_orderedSubjects a of
        Some os \<Rightarrow> (if os \<noteq> [] then foldl push_new os (js_unique (map SCODE records))
                   else js_unique (map SCODE records))
      | None \<Rightarrow> js_unique (map SCODE records))"

text \<open>Lines 103-137: one row of the End Semester Result Analysis sheet.\<close>

definition highest_grade :: "string list \<Rightarrow> string option" where
  "highest_grade grades = (case js_sort grade_rank_cmp grades of g # _ \<Rightarrow> Some g | [] \<Rightarrow> None)"

definition subject_performance_row :: "StudentRecord list \<Rightarrow> nat \<Rightarrow> string \<Rightarrow> xcell list" where
  "subject_performance_row records index subject =
     (let subjectRecords = filter (\<lambda>r. SCODE r = subject) records;
          totalStudents = length subjectRecords;
          passedStudents = length (filter (\<lambda>r. GR r \<noteq> ''U'') subjectRecords);
          failedStudents = totalStudents - passedStudents;
          passPercentage = pass_ratio passedStudents totalStudents;
          subjectName = (case subjectRecords of
                           r # _ \<Rightarrow> (if truthy_str (subjectName r) then str_or_empty (subjectName r)
                                    else ''Subject '' @ nat_str (index + 1))
                         | [] \<Rightarrow> ''Subject '' @ nat_str (index + 1));
          facultyName = (case subjectRecords of
                           r # _ \<Rightarrow> (if truthy_str (facultyName r) then str_or_empty (facultyName r) else [])
                         | [] \<Rightarrow> []);
          highestGrade = highest_grade (map GR subjectRecords);
          studentsWithHighestGrade = length (filter (\<lambda>r. Some (GR r) = highestGrade) subjectRecords)
      in [XNum (Num (of_nat (index + 1))), XStr subject, XStr subjectName, XStr facultyName,
          XStr ''CSE'', XNum (Num (of_nat totalStudents)), XStr ''Nil'',
          (if failedStudents = 0 then XStr ''Nil'' else XNum (Num (of_nat failedStudents))),
          XNum (Num 1), XNum (Num (of_nat passedStudents)), XStr (js_toFixed 1 passPercentage),
          (case highestGrade of Some g \<Rightarrow> XStr g | None \<Rightarrow> XEmpty),
          XNum (Num (of_nat studentsWithHighestGrade))])"

definition subjectPerformanceData :: "ResultAnalysis \<Rightarrow> StudentRecord list \<Rightarrow> xcell list list" where
  "subjectPerformanceData a records =
     map (\<lambda>(i, s). subject_performance_row records i s) (enumerate 0 (uniqueSubjects a records))"

text \<open>Lines 141-145.\<close>

definition grade_count_cell :: "hval \<Rightarrow> xcell" where
  "grade_count_cell v = (case v of HCount n \<Rightarrow> XNum (Num (of_nat n)) | HJunk \<Rightarrow> XJunk)"

definition grade_share :: "hval \<Rightarrow> nat \<Rightarrow> jsnum" where
  "grade_share v t = (case v of HCount n \<Rightarrow> Num (of_nat n / of_nat t * 100) | HJunk \<Rightarrow> NaN)"

definition gradeDistributionData :: "ResultAnalysis \<Rightarrow> xcell list list" where
  "gradeDistributionData a =
     map (\<lambda>(name, count, fill).
            [XStr name, grade_count_cell count,
             XStr (if 0 < ra_totalGrades a then js_toFixed 2 (grade_share count (ra_totalGrades a)) @ ''%''
                   else ''0%'')])
       (ra_gradeDistribution a)"

text \<open>Lines 149-153 and 156-166: the SGPA ranking and the five best CGPAs.\<close>

definition topPerformersData :: "ResultAnalysis \<Rightarrow> xcell list list" where
  "topPerformersData a =
     map (\<lambda>(i, (sid, sgpa, grade)). [XNum (Num (of_nat (i + 1))), XStr sid, XStr (js_toFixed 2 sgpa)])
       (enumerate 0 (ra_topPerformers a))"

text \<open>
  \<open>studentCGPAs.sort(...)\<close> sorts the analysis' own array in place: the details sheet built
  later (lines 205-211) reads the same, now sorted, array.
\<close>

definition sorted_cgpas :: "CgpaAnalysis \<Rightarrow> (string \<times> jsnum) list" where
  "sorted_cgpas ca = js_sort (\<lambda>a b. js_sub (snd b) (snd a)) (studentCGPAs ca)"

definition cgpaTopPerformersData :: "ResultAnalysis \<Rightarrow> xcell list list" where
  "cgpaTopPerformersData a =
     (case ra_cgpaAnalysis a of
        Some ca \<Rightarrow> map (\<lambda>(i, (sid, cgpa)). [XNum (Num (of_nat (i + 1))), XStr sid, XStr (js_toFixed 2 cgpa)])
                    (enumerate 0 (take 5 (sorted_cgpas ca)))
      | None \<Rightarrow> [])"

text \<open>Lines 169-179: the classification and category sheets, fixed literals.\<close>

definition currentSemesterData :: "xcell list list" where
  "currentSemesterData =
     [[XStr ''Distinction'', XNum (Num 40), XStr ''First class'', XStr ''WOA'', XNum (Num 65),
       XStr ''WA'', XNum (Num 3), XStr ''Second class'', XStr ''WOA'', XNum (Num 5), XStr ''WA'',
       XNum (Num 16), XStr ''Fail'', XNum (Num 18), XStr ''% of pass'', XNum (Num (716 / 10))]]"

definition categoryData :: "xcell list list" where
  "categoryData =
     [[XStr ''Category'', XStr ''Grade Point''],
      [XStr ''1. Distinction'', XStr ''>= 8.5 and no history of arrears''],
      [XStr ''2. First class'', XStr ''>= 6.5''],
      [XStr ''3. Second class'', XStr ''< 6.5'']]"

text \<open>Lines 198-211: the per-student SGPA status and the CGPA details.\<close>

definition sgpa_status :: "SgpaDetail \<Rightarrow> string" where
  "sgpa_status d =
     (if sd_hasArrears d then ''Has Arrears''
      else if js_lt (sd_sgpa d) (Num (13 / 2)) then ''SGPA below 6.5'' else ''Good Standing'')"

definition studentSgpaDetailsData :: "ResultAnalysis \<Rightarrow> xcell list list" where
  "studentSgpaDetailsData a =
     map (\<lambda>d. [XStr (sd_id d), XStr (js_toFixed 2 (sd_sgpa d)), XStr (sgpa_status d)])
       (ra_studentSgpaDetails a)"

definition cgpaDetailsData :: "ResultAnalysis \<Rightarrow> xcell list list" where
  "cgpaDetailsData a =
     (case ra_cgpaAnalysis a of
        Some ca \<Rightarrow> map (\<lambda>(sid, cgpa). [XStr sid, XStr (js_toFixed 2 cgpa)]) (sorted_cgpas ca)
      | None \<Rightarrow> [])"

text \<open>Lines 221-229: one line per processed file.\<close>

definition file_detail_row :: "StudentRecord list \<Rightarrow> string \<Rightarrow> xcell list" where
  "file_detail_row records fileName =
     [XStr fileName, XNum (Num (of_nat (length (filter (\<lambda>r. fileSource r = Some fileName) records)))),
      XStr (case find (\<lambda>r. fileSource r = Some fileName) records of
              Some r \<Rightarrow> (if SEM r \<noteq> [] then SEM r else ''Unknown'')
            | None \<Rightarrow> ''Unknown'')]"

text \<open>Lines 24-243: the sheets in the order \<open>addSheet\<close> appends them.\<close>

definition generateExcelData :: "ResultAnalysis \<Rightarrow> StudentRecord list \<Rightarrow> sheet list" where
  "generateExcelData a records =
     [(''College Information'', [''Field'', ''Value''], collegeInfoData),
      (''Performance Summary'', [''Metric'', ''Value''], performanceData a),
      (''End Semester Result Analysis'',
         [''S.No'', ''Subject Code'', ''Subject Name'', ''Faculty Name'', ''Dept'', ''App'', ''Absent'',
          ''Fail'', ''WH'', ''Passed'', ''% of pass'', ''Highest Grade'', ''No. of students''],
         subjectPerformanceData a records),
      (''Grade Distribution'', [''Grade'', ''Count'', ''Percentage''], gradeDistributionData a),
      (''Rank in this semester'', [''S.No'', ''Name of the student'', ''SGPA''], topPerformersData a)]
     @ (if cgpaTopPerformersData a \<noteq> []
        then [(''Rank up to this semester'', [''S.No'', ''Name of the student'', ''CGPA''],
               cgpaTopPerformersData a)] else [])
     @ [(''Classification'', ''Current semester'' # replicate 13 [], currentSemesterData),
        (''Categories'', [''Category'', ''Grade Point''], categoryData),
        (''Student SGPA Details'', [''Registration Number'', ''SGPA'', ''Status''], studentSgpaDetailsData a)]
     @ (if cgpaDetailsData a \<noteq> []
        then [(''Student CGPA Details'', [''Registration Number'', ''CGPA''], cgpaDetailsData a)] else [])
     @ (if 1 < ra_fileCount a
        then [(''File Details'', [''File Name'', ''Record Count'', ''Semester''],
               map (file_detail_row records) (ra_filesProcessed a))] else [])"

section \<open>Lemmas\<close>

lemma foldl_push_new:
  "distinct xs \<Longrightarrow> foldl push_new us xs = us @ filter (\<lambda>x. x \<notin> set us) xs"
proof (induction xs arbitrary: us)
  case Nil
  then show ?case by simp
next
  case (Cons x xs)
  then show ?case by (auto simp: push_new_def intro!: filter_cong)
qed

lemma uniqueSubjects_ordered:
  "ra_orderedSubjects a = Some os \<Longrightarrow>
   uniqueSubjects a records = os @ filter (\<lambda>x. x \<notin> set os) (js_unique (map SCODE records))"
  by (simp add: uniqueSubjects_def foldl_push_new)

lemma pass_ratio_bounds:
  assumes "p \<le> t" "0 < t"
  shows "\<exists>q. pass_ratio p t = Num q \<and> 0 \<le> q \<and> q \<le> 100"
proof -
  have "of_nat p * 100 \<le> (100 :: rat) * of_nat t" using assms(1) by simp
  then show ?thesis using assms by (simp add: pass_ratio_def divide_le_eq)
qed

lemma highest_grade_Some: "grades \<noteq> [] \<Longrightarrow> highest_grade grades \<noteq> None"
proof -
  assume "grades \<noteq> []"
  then have "js_sort grade_rank_cmp grades \<noteq> []" by (metis length_js_sort length_0_conv)
  then show ?thesis by (auto simp: highest_grade_def split: list.split)
qed

lemma sorted_cgpas_ranked:
  assumes "cgpa_analysis records groups csf = Some ca"
  shows "sorted_cgpas ca = studentCGPAs ca"
proof -
  have s: "sorted (map (\<lambda>a. - num_val (snd a)) (studentCGPAs ca))"
    and num: "\<forall>y \<in> set (studentCGPAs ca). snd y = Num (num_val (snd y))"
    using studentCGPAs_sorted [OF assms] by auto
  show ?thesis
    unfolding sorted_cgpas_def js_sort_desc [OF num] by (rule sort_key_id_if_sorted [OF s])
qed

lemma generateExcelData_classification:
  "map_of (map (\<lambda>(n, h, d). (n, d)) (generateExcelData a records)) ''Classification'' =
     Some currentSemesterData"
  by (simp add: generateExcelData_def)

section \<open>Properties of the Excel report\<close>



text \<open>
  C33: with a distinct list of marked subjects the Excel subject table starts with them in
  the marked order and then lists every other subject code of the rows once.
\<close>

theorem uniqueSubjects_order:
  assumes "ra_orderedSubjects a = Some os" "distinct os"
  shows "take (length os) (uniqueSubjects a records) = os \<and> distinct (uniqueSubjects a records)
         \<and> set (uniqueSubjects a records) = set os \<union> SCODE ` set records"
  using assms by (auto simp: uniqueSubjects_ordered)

theorem uniqueSubjects_order_witness:
  "take 1 (uniqueSubjects ((analyzeResults (\<lambda>x y. 0) [row ''S'' ''A'' ''O'' 3 ''f'' ''1'' False] None)
             \<lparr>ra_orderedSubjects := Some [''B'']\<rparr>) [row ''S'' ''A'' ''O'' 3 ''f'' ''1'' False]) = [''B'']
   \<and> set (uniqueSubjects ((analyzeResults (\<lambda>x y. 0) [row ''S'' ''A'' ''O'' 3 ''f'' ''1'' False] None)
             \<lparr>ra_orderedSubjects := Some [''B'']\<rparr>) [row ''S'' ''A'' ''O'' 3 ''f'' ''1'' False]) = {''B'', ''A''}"
proof -
  let ?a = "(analyzeResults (\<lambda>x y. 0) [row ''S'' ''A'' ''O'' 3 ''f'' ''1'' False] None)
             \<lparr>ra_orderedSubjects := Some [''B'']\<rparr>"
  have h: "ra_orderedSubjects ?a = Some [''B'']" "distinct [''B'']" by simp_all
  show ?thesis using uniqueSubjects_order [OF h] by auto
qed

text \<open>
  For a subject that occurs in the rows, its line of the End Semester Result Analysis
  sheet shows a pass percentage \<open>q.toFixed(1)\<close> with \<open>0 \<le> q \<le> 100\<close> and a highest grade.
\<close>

theorem subject_row_pass_bounds:
  assumes "subject \<in> SCODE ` set records"
  shows "\<exists>q. subject_performance_row records i subject ! 10 = XStr (js_toFixed 1 (Num q))
              \<and> 0 \<le> q \<and> q \<le> 100 \<and> subject_performance_row records i subject ! 11 \<noteq> XEmpty"
proof -
  let ?rs = "filter (\<lambda>r. SCODE r = subject) records"
  have ne: "?rs \<noteq> []" using assms by (auto simp: filter_empty_conv)
  then have pos: "0 < length ?rs" by simp
  have le: "length (filter (\<lambda>r. GR r \<noteq> ''U'') ?rs) \<le> length ?rs" by (rule length_filter_le)
  obtain q where q: "pass_ratio (length (filter (\<lambda>r. GR r \<noteq> ''U'') ?rs)) (length ?rs) = Num q"
    "0 \<le> q" "q \<le> 100"
    using pass_ratio_bounds [OF le pos] by blast
  obtain g where g: "highest_grade (map GR ?rs) = Some g"
    using highest_grade_Some [of "map GR ?rs"] ne by auto
  show ?thesis
    using q g by (simp add: subject_performance_row_def Let_def del: js_toFixed.simps) blast
qed

theorem subject_row_pass_bounds_witness:
  "\<exists>q. subject_performance_row [row ''S'' ''A'' ''O'' 3 ''f'' ''1'' False] 0 ''A'' ! 10
         = XStr (js_toFixed 1 (Num q)) \<and> 0 \<le> q \<and> q \<le> 100"
proof -
  have "''A'' \<in> SCODE ` set [row ''S'' ''A'' ''O'' 3 ''f'' ''1'' False]" by simp
  from subject_row_pass_bounds [OF this, of 0] show ?thesis by blast
qed

text \<open>
  C35: a subject listed in the order but absent from the rows gets a line with 0 students,
  the pass percentage \<open>"NaN"\<close> (\<open>0 / 0\<close>) and an empty highest-grade cell.
\<close>

theorem subject_row_missing:
  assumes "subject \<notin> SCODE ` set records"
  shows "subject_performance_row records i subject ! 5 = XNum (Num 0)
         \<and> subject_performance_row records i subject ! 10 = XStr ''NaN''
         \<and> subject_performance_row records i subject ! 11 = XEmpty"
proof -
  have "filter (\<lambda>r. SCODE r = subject) records = []"
    using assms by (auto simp: filter_empty_conv)
  then show ?thesis
    by (simp add: subject_performance_row_def Let_def pass_ratio_def highest_grade_def)
qed

theorem subject_row_missing_witness:
  "subject_performance_row [row ''S'' ''A'' ''O'' 3 ''f'' ''1'' False] 0 ''B'' ! 10 = XStr ''NaN''"
proof -
  have "''B'' \<notin> SCODE ` set [row ''S'' ''A'' ''O'' 3 ''f'' ''1'' False]" by simp
  from subject_row_missing [OF this, of 0] show ?thesis by blast
qed

text \<open>
  The in-place re-sort of \<open>studentCGPAs\<close> before the CGPA ranking sheet does not
  reorder the CGPA details sheet: \<open>analyzeResults\<close> already ranks the list by CGPA,
  descending, and the stable sort leaves a ranked list as it is.
\<close>

theorem cgpaDetails_order:
  assumes "ra_cgpaAnalysis (analyzeResults c rs asg) = Some ca"
  shows "cgpaDetailsData (analyzeResults c rs asg) =
           map (\<lambda>(sid, cgpa). [XStr sid, XStr (js_toFixed 2 cgpa)]) (studentCGPAs ca)"
proof -
  obtain records groups csf where "cgpa_analysis records groups csf = Some ca"
    using assms by (auto simp: analyzeResults_def Let_def)
  then have "sorted_cgpas ca = studentCGPAs ca" by (rule sorted_cgpas_ranked)
  then show ?thesis using assms by (simp add: cgpaDetailsData_def)
qed

theorem cgpaDetails_order_witness:
  "cgpaDetailsData (analyzeResults (\<lambda>x y. 0)
      [row ''S'' ''A'' ''O'' 3 ''s3.xlsx'' ''3'' False, row ''S'' ''B'' ''A'' 3 ''s4.xlsx'' ''4'' False] None)
   = [[XStr ''S'', XStr ''9.00'']]"
proof -
  let ?a = "analyzeResults (\<lambda>x y. 0)
      [row ''S'' ''A'' ''O'' 3 ''s3.xlsx'' ''3'' False, row ''S'' ''B'' ''A'' 3 ''s4.xlsx'' ''4'' False] None"
  have "ra_cgpaAnalysis ?a = Some (the (ra_cgpaAnalysis ?a))" by code_simp
  from cgpaDetails_order [OF this] show ?thesis by code_simp
qed

text \<open>
  The Classification sheet does not come from the analysis. For a cohort of one student
  with grade O the analysis counts one distinction and no failure, but the workbook's
  Classification sheet reports 40 distinctions and 18 failures, the literal of lines 169-171.
\<close>

theorem excel_classification_literal:
  "distinction (ra_singleFileClassification
      (analyzeResults (\<lambda>x y. 0) [row ''S'' ''A'' ''O'' 3 ''f'' ''1'' False] None)) = 1
   \<and> fail (ra_singleFileClassification
      (analyzeResults (\<lambda>x y. 0) [row ''S'' ''A'' ''O'' 3 ''f'' ''1'' False] None)) = 0
   \<and> map_of (map (\<lambda>(n, h, d). (n, d))
        (generateExcelData (analyzeResults (\<lambda>x y. 0) [row ''S'' ''A'' ''O'' 3 ''f'' ''1'' False] None)
           [row ''S'' ''A'' ''O'' 3 ''f'' ''1'' False])) ''Classification''
      = Some [[XStr ''Distinction'', XNum (Num 40), XStr ''First class'', XStr ''WOA'', XNum (Num 65),
               XStr ''WA'', XNum (Num 3), XStr ''Second class'', XStr ''WOA'', XNum (Num 5), XStr ''WA'',
               XNum (Num 16), XStr ''Fail'', XNum (Num 18), XStr ''% of pass'', XNum (Num (716 / 10))]]"
proof -
  let ?a = "analyzeResults (\<lambda>x y. 0) [row ''S'' ''A'' ''O'' 3 ''f'' ''1'' False] None"
  have "distinction (ra_singleFileClassification ?a) = 1" by code_simp
  moreover have "fail (ra_singleFileClassification ?a) = 0" by code_simp
  ultimately show ?thesis
    using generateExcelData_classification [of ?a "[row ''S'' ''A'' ''O'' 3 ''f'' ''1'' False]"]
    by (simp add: currentSemesterData_def)
qed

end
