(* ===== verification/WordReport.thy ===== *)
theory WordReport
  imports ExcelReport
begin

text \<open>
  The Word report of \<^verbatim>\<open>src/src/utils/excel/reportGenerators/wordReportGenerator.ts\<close>:
  \<open>createWordDocument\<close> builds the body of a docx document from a \<open>ResultAnalysis\<close>, the
  rows and the report options. The body is modelled as its sequence of blocks: paragraphs
  (their text, the runs concatenated), empty spacing paragraphs and tables (rows of cells,
  a cell being the list of its paragraphs). Fonts, sizes, colours, borders, widths, margins
  and cell spans are layout and are not modelled; the logo is an image paragraph present
  when its fetch succeeded, which is the parameter \<open>logo\<close>. Packing the document and the
  download link are I/O and are not modelled.
\<close>

section \<open>Definitions\<close>

datatype wpara = WText string | WImage

type_synonym wcell = "wpara list"

datatype wblock = WPara wpara | WSpace | WTable "wcell list list"

text \<open>\<open>createTableCell\<close>, \<open>createHeaderCell\<close> (lines 1251-1316) and \<open>createTableRow\<close> (1319-1352).\<close>

definition createTableCell :: "string \<Rightarrow> wcell" where
  "createTableCell text = [WText text]"

definition createTableRow :: "string list \<Rightarrow> wcell list" where
  "createTableRow cells = map createTableCell cells"

text \<open>The options with their defaults (lines 87-92).\<close>

record WordOptions =
  wo_logo :: bool
  wo_department :: string
  wo_departmentFullName :: string
  wo_calculationMode :: calc_mode

definition default_word_options :: "calc_mode \<Rightarrow> bool \<Rightarrow> WordOptions" where
  "default_word_options m logo =
     \<lparr>wo_logo = logo, wo_department = ''CSE'',
      wo_departmentFullName = ''Computer Science and Engineering'', wo_calculationMode = m\<rparr>"

text \<open>Lines 120-258: the header table, logo, college name and title.\<close>

definition word_header_table :: "bool \<Rightarrow> wblock" where
  "word_header_table logo =
     WTable [[if logo then [WImage] else [WText ''Logo''],
              [WText ''K.S. RANGASAMY COLLEGE OF TECHNOLOGY,'', WText ''TIRUCHENGODE - 637 215'',
               WText ''(An Autonomous Institute Affiliated to Anna University, Chennai)''],
              [WText ''RESULT ANALYSIS'']]]"

text \<open>Lines 288-310: the rows of the current semester file in CGPA mode, else all rows.\<close>

definition word_current_records :: "calc_mode \<Rightarrow> ResultAnalysis \<Rightarrow> StudentRecord list \<Rightarrow> StudentRecord list" where
  "word_current_records m a records =
     (if m = CGPA_Mode \<and> 1 < ra_fileCount a \<and> truthy_str (ra_currentSemesterFile a)
      then filter (\<lambda>r. fileSource r = ra_currentSemesterFile a) records
      else records)"

definition calculationModeDisplay :: "calc_mode \<Rightarrow> string" where
  "calculationModeDisplay m =
     (if m = SGPA_Mode then ''SGPA (Semester Grade Point Average)''
      else ''CGPA (Cumulative Grade Point Average)'')"

text \<open>Lines 312-348.\<close>

definition word_college_info :: "WordOptions \<Rightarrow> ResultAnalysis \<Rightarrow> wblock" where
  "word_college_info opts a =
     WTable ([createTableRow [''College Name'', ''K. S. Rangasamy College of Technology''],
              createTableRow [''Department'', wo_departmentFullName opts],
              createTableRow [''Total Students'', nat_str (ra_totalStudents a)]]
             @ (if wo_calculationMode opts = CGPA_Mode \<and> 0 < ra_fileCount a
                then [createTableRow [''Files Processed'', nat_str (ra_fileCount a)]] else [])
             @ [createTableRow [''Calculation Mode'', calculationModeDisplay (wo_calculationMode opts)]])"

text \<open>Lines 359-440: the summary paragraphs of the chosen mode.\<close>

definition word_performance :: "calc_mode \<Rightarrow> ResultAnalysis \<Rightarrow> wblock list" where
  "word_performance m a =
     WPara (WText ''Performance Summary'') #
     (if m = SGPA_Mode then
        map (WPara \<circ> WText)
          [''Average SGPA: '' @ js_toFixed 2 (ra_averageCGPA a),
           ''Highest SGPA: '' @ js_toFixed 2 (ra_highestSGPA a),
           ''Lowest SGPA: '' @ js_toFixed 2 (ra_lowestSGPA a),
           ''Pass Percentage: '' @ js_toFixed 2 (Num (passPercentage (ra_singleFileClassification a))) @ ''%'']
      else (case ra_cgpaAnalysis a of
              Some ca \<Rightarrow>
                map (WPara \<circ> WText)
                  [''Average CGPA: '' @ js_toFixed 2 (ca_averageCGPA ca),
                   ''Highest CGPA: '' @ js_toFixed 2 (ca_highestCGPA ca),
                   ''Lowest CGPA: '' @ js_toFixed 2 (ca_lowestCGPA ca),
                   ''Pass Percentage: '' @ js_toFixed 2 (Num (passPercentage (ra_multipleFileClassification a))) @ ''%'']
            | None \<Rightarrow> []))"

text \<open>
  Lines 442-514: in CGPA mode, one line per processed file that has an analysis entry. The
  lookup \<open>fileWiseAnalysis[fileName]\<close> is an own-property lookup: file names end in \<open>.xlsx\<close> or
  \<open>.xls\<close> (the uploader's filter), so none names an inherited member.
\<close>

definition word_file_row :: "ResultAnalysis \<Rightarrow> string \<Rightarrow> wcell list list" where
  "word_file_row a fileName =
     (case obj_get (ra_fileWiseAnalysis a) fileName of
        Some fa \<Rightarrow>
          [createTableRow [fileName, nat_str (students fa), js_toFixed 2 (averageSGPA fa),
                           str_or_empty (semesterName fa),
                           if Some fileName = ra_currentSemesterFile a then ''Current Semester''
                           else ''Previous Semester'']]
      | None \<Rightarrow> [])"

definition word_file_analysis :: "calc_mode \<Rightarrow> ResultAnalysis \<Rightarrow> wblock list" where
  "word_file_analysis m a =
     (if m = CGPA_Mode
      then [WPara (WText ''File Analysis''),
            WTable (createTableRow [''File Name'', ''Students'', ''Average SGPA'', ''Semester'', ''Note'']
                    # concat (map (word_file_row a) (ra_filesProcessed a)))]
      else [])"

text \<open>
  Lines 518-528: the rows the End Semester table describes: the rows explicitly marked as
  current-semester, or, when there are none, the unmarked rows.
\<close>

definition marked_true :: "StudentRecord \<Rightarrow> bool" where
  "marked_true r \<longleftrightarrow> isArrear r = Some True"

definition end_sem_records :: "StudentRecord list \<Rightarrow> StudentRecord list" where
  "end_sem_records cur =
     (let explicitlyMarked = filter marked_true cur
      in if explicitlyMarked \<noteq> [] then explicitlyMarked else filter (\<lambda>r. \<not> marked_true r) cur)"

text \<open>Lines 603-661: one subject's line; its rows follow the same marked-or-unmarked rule.\<close>

definition word_subject_records :: "StudentRecord list \<Rightarrow> string \<Rightarrow> StudentRecord list" where
  "word_subject_records cur subject =
     (let explicitlyMarkedRecords = filter (\<lambda>r. SCODE r = subject \<and> marked_true r) cur
      in if explicitlyMarkedRecords \<noteq> [] then explicitlyMarkedRecords
         else filter (\<lambda>r. SCODE r = subject \<and> \<not> marked_true r) cur)"

definition word_pass_percentage :: "nat \<Rightarrow> nat \<Rightarrow> rat" where
  "word_pass_percentage p t = (if 0 < t then of_nat p / of_nat t * 100 else 0)"

definition word_highest_grade :: "string list \<Rightarrow> string" where
  "word_highest_grade grades =
     (let validGrades = filter grade_recognised grades
      in if validGrades \<noteq> [] then hd (js_sort grade_rank_cmp validGrades) else [])"

definition word_subject_row :: "string \<Rightarrow> StudentRecord list \<Rightarrow> nat \<Rightarrow> string \<Rightarrow> wcell list" where
  "word_subject_row department cur index subject =
     (let subjectRecords = word_subject_records cur subject;
          totalStudents = length subjectRecords;
          passedStudents = length (filter (\<lambda>r. GR r \<noteq> ''U'') subjectRecords);
          failedStudents = length (filter (\<lambda>r. GR r = ''U'') subjectRecords);
          passPercentage = word_pass_percentage passedStudents totalStudents;
          highestGrade = word_highest_grade (map GR subjectRecords);
          studentsWithHighestGrade =
            (if highestGrade \<noteq> [] then length (filter (\<lambda>r. GR r = highestGrade) subjectRecords) else 0);
          recordWithInfo = find (\<lambda>r. truthy_str (subjectName r) \<or> truthy_str (facultyName r)) subjectRecords;
          subjectName = (case recordWithInfo of
                           Some r \<Rightarrow> (if truthy_str (subjectName r) then str_or_empty (subjectName r) else [])
                         | None \<Rightarrow> []);
          facultyName = (case recordWithInfo of
                           Some r \<Rightarrow> (if truthy_str (facultyName r) then str_or_empty (facultyName r) else [])
                         | None \<Rightarrow> [])
      in createTableRow
           [nat_str (index + 1), subject, subjectName, facultyName, department, nat_str totalStudents,
            ''0'', nat_str failedStudents, ''0'', nat_str passedStudents,
            js_toFixed 1 (Num passPercentage), highestGrade, nat_str studentsWithHighestGrade])"

text \<open>Lines 516-697: the End Semester Result Analysis heading and table.\<close>

definition word_subject_section :: "WordOptions \<Rightarrow> ResultAnalysis \<Rightarrow> StudentRecord list \<Rightarrow> wblock list" where
  "word_subject_section opts a cur =
     (if wo_calculationMode opts = SGPA_Mode \<or> cur \<noteq> [] then
        (let recordsForEndSemesterAnalysis = end_sem_records cur;
             subjects = uniqueSubjects a recordsForEndSemesterAnalysis
         in [WPara (WText ''End Semester Result Analysis''),
             WTable (createTableRow [''S.No'', ''Subject Code'', ''Subject Name'', ''Faculty Name'', ''Dept'',
                                     ''App'', ''Ab'', ''Fail'', ''WH'', ''Passed'', ''% of pass'',
                                     ''Highest Grade'', ''No. of students'']
                     # map (\<lambda>(i, s). word_subject_row (wo_department opts) cur i s) (enumerate 0 subjects))])
      else [])"

text \<open>Lines 734-852: the three header rows of the classification table.\<close>

definition classification_header_rows :: "wcell list list" where
  "classification_header_rows =
     [createTableRow [''Current semester'', ''Upto this semester''],
      createTableRow [''Distinction'', ''First class'', ''Second class'', ''Fail'', ''% of pass'',
                      ''Distinction'', ''First class'', ''Second class'', ''Fail'', ''% of pass''],
      createTableRow [''WOA'', ''WA'', ''WOA'', ''WA'', ''WOA'', ''WA'', ''WOA'', ''WA'']]"

text \<open>Lines 854-901: the counts of both classifications.\<close>

definition classification_cells :: "ClassificationData \<Rightarrow> string list" where
  "classification_cells c =
     [nat_str (distinction c), nat_str (firstClassWOA c), nat_str (firstClassWA c),
      nat_str (secondClassWOA c), nat_str (secondClassWA c), nat_str (fail c),
      js_toFixed 1 (Num (passPercentage c))]"

definition word_classification :: "ResultAnalysis \<Rightarrow> wblock list" where
  "word_classification a =
     [WPara (WText ''Classification''),
      WTable (classification_header_rows
              @ [createTableRow (classification_cells (ra_singleFileClassification a)
                                 @ classification_cells (ra_multipleFileClassification a))])]"

text \<open>Lines 925-955: the three best SGPAs and, in CGPA mode, the three first CGPA toppers.\<close>

definition top_current :: "ResultAnalysis \<Rightarrow> (string \<times> jsnum) list" where
  "top_current a =
     map (\<lambda>d. (sd_id d, sd_sgpa d))
       (take 3 (js_sort (\<lambda>x y. js_sub (sd_sgpa y) (sd_sgpa x)) (ra_studentSgpaDetails a)))"

definition top_cumulative :: "calc_mode \<Rightarrow> ResultAnalysis \<Rightarrow> (string \<times> jsnum) list" where
  "top_cumulative m a =
     (case ra_cgpaAnalysis a of
        Some ca \<Rightarrow> (if m = CGPA_Mode then take 3 (toppersList ca) else top_current a)
      | None \<Rightarrow> top_current a)"

text \<open>Lines 957-1019: \<open>list[i] || { id: "", value: 0 }\<close> fills a missing rank.\<close>

definition rank_entry :: "(string \<times> jsnum) list \<Rightarrow> nat \<Rightarrow> string \<times> jsnum" where
  "rank_entry xs i = (if i < length xs then xs ! i else ([], Num 0))"

definition word_rank :: "calc_mode \<Rightarrow> ResultAnalysis \<Rightarrow> wblock list" where
  "word_rank m a =
     [WPara (WText ''Rank Analysis''),
      WTable ([createTableRow [''Rank in this semester'', ''Rank up to this semester''],
               createTableRow [''RANK'', ''Name of the student'', ''SGPA'', ''RANK'', ''Name of the student'',
                               if m = CGPA_Mode then ''CGPA'' else ''SGPA'']]
              @ map (\<lambda>i. let s = rank_entry (top_current a) i; c = rank_entry (top_cumulative m a) i
                         in createTableRow [nat_str (i + 1), fst s, js_toFixed 2 (snd s),
                                            nat_str (i + 1), fst c, js_toFixed 2 (snd c)])
                    [0, 1, 2])]"

text \<open>Lines 1083-1104: the status written beside a student's grade point average.\<close>

definition word_status :: "bool \<Rightarrow> jsnum \<Rightarrow> string" where
  "word_status arrears gp =
     (if arrears then
        (if js_ge gp (Num (13 / 2)) then ''First Class With Arrear''
         else if js_ge gp (Num 5) then ''Second Class with Arrears'' else ''Has Arrears'')
      else
        (if js_ge gp (Num (17 / 2)) then ''Distinction''
         else if js_ge gp (Num (13 / 2)) then ''First Class'' else ''Second Class''))"

text \<open>Lines 1039-1067: the students listed, by SGPA or by CGPA, best first.\<close>

definition student_performance_data ::
  "calc_mode \<Rightarrow> ResultAnalysis \<Rightarrow> StudentRecord list \<Rightarrow> (string \<times> jsnum \<times> bool) list" where
  "student_performance_data m a records =
     (if m = SGPA_Mode then
        map (\<lambda>d. (sd_id d, sd_sgpa d, sd_hasArrears d))
          (js_sort (\<lambda>x y. js_sub (sd_sgpa y) (sd_sgpa x)) (ra_studentSgpaDetails a))
      else (case ra_cgpaAnalysis a of
              Some ca \<Rightarrow>
                map (\<lambda>(sid, cgpa). (sid, cgpa, list_ex (\<lambda>r. REGNO r = sid \<and> GR r = ''U'') records))
                  (js_sort (\<lambda>x y. js_sub (snd y) (snd x)) (studentCGPAs ca))
            | None \<Rightarrow> []))"

text \<open>Lines 1021-1135.\<close>

definition word_student_table :: "calc_mode \<Rightarrow> ResultAnalysis \<Rightarrow> StudentRecord list \<Rightarrow> wblock list" where
  "word_student_table m a records =
     [WPara (WText ''Individual Student Performance''),
      WTable (createTableRow [''S.No'', ''Register Number'', if m = SGPA_Mode then ''SGPA'' else ''CGPA'', ''Status'']
              # map (\<lambda>(i, (sid, gp, arrears)).
                       createTableRow [nat_str (i + 1), sid, js_toFixed 2 gp, word_status arrears gp])
                  (enumerate 0 (student_performance_data m a records)))]"

text \<open>Lines 1137-1238: the signature line.\<close>

definition word_signatures :: "wblock list" where
  "word_signatures =
     [WPara (WText []),
      WTable [createTableRow [''CLASS ADVISOR'', ''HOD/CSE'', ''DEAN ACADEMICS'', ''PRINCIPAL'']]]"

text \<open>Lines 81-1248: the body in the order \<open>sections.push\<close> builds it.\<close>

definition createWordDocument :: "ResultAnalysis \<Rightarrow> StudentRecord list \<Rightarrow> WordOptions \<Rightarrow> wblock list" where
  "createWordDocument a records opts =
     (let m = wo_calculationMode opts;
          cur = word_current_records m a records
      in [word_header_table (wo_logo opts), WSpace, WPara (WText ''College Information''),
          word_college_info opts a, WSpace]
         @ word_performance m a
         @ word_file_analysis m a
         @ word_subject_section opts a cur
         @ word_classification a
         @ word_rank m a
         @ word_student_table m a records
         @ word_signatures)"

text \<open>The status each classification bucket of the Classification Engine stands for.\<close>

fun bucket_label :: "bucket \<Rightarrow> string" where
  "bucket_label Distinction = ''Distinction''"
| "bucket_label FirstClassWOA = ''First Class''"
| "bucket_label FirstClassWA = ''First Class With Arrear''"
| "bucket_label SecondClassWOA = ''Second Class''"
| "bucket_label SecondClassWA = ''Second Class with Arrears''"
| "bucket_label Fail = ''Has Arrears''"

section \<open>Lemmas\<close>

lemma word_pass_percentage_bounds:
  "p \<le> t \<Longrightarrow> 0 \<le> word_pass_percentage p t \<and> word_pass_percentage p t \<le> 100"
proof -
  assume "p \<le> t"
  then have "of_nat p * 100 \<le> (100 :: rat) * of_nat t" by simp
  then show ?thesis by (simp add: word_pass_percentage_def divide_le_eq)
qed

section \<open>Properties of the Word report\<close>

text \<open>
  C38: the status the Word report writes beside a student is the name of the bucket the
  Classification Engine counts that student in, for every grade point value, \<open>NaN\<close>
  included: the report and the classification table agree student by student.
\<close>

theorem word_status_classify: "word_status arrears gp = bucket_label (classify arrears gp)"
  by (simp add: word_status_def classify_def)

text \<open>
  Unlike the Excel sheet, every line of the Word End Semester table shows a pass
  percentage \<open>q.toFixed(1)\<close> with \<open>0 \<le> q \<le> 100\<close>, also for a subject without rows (0).
\<close>

theorem word_subject_row_pass_bounds:
  "\<exists>q. word_subject_row dept cur i subject ! 10 = createTableCell (js_toFixed 1 (Num q))
        \<and> 0 \<le> q \<and> q \<le> 100"
proof -
  let ?rs = "word_subject_records cur subject"
  have "length (filter (\<lambda>r. GR r \<noteq> ''U'') ?rs) \<le> length ?rs" by (rule length_filter_le)
  from word_pass_percentage_bounds [OF this] show ?thesis
    by (simp add: word_subject_row_def Let_def createTableRow_def del: js_toFixed.simps) blast
qed

end
