(* ===== verification/PdfReport.thy ===== *)
theory PdfReport
  imports WordReport
begin

text \<open>
  The PDF report of \<^verbatim>\<open>src/src/utils/excel/reportGenerators/pdfReportGenerator.ts\<close>:
  \<open>downloadPdfReport\<close> draws texts, lines and \<open>autoTable\<close> tables on an A4 document. The
  document is modelled as the sequence of what is drawn: a text, a rule, a page break, the
  logo image, and a table given by its head rows and body rows of cell texts. Positions,
  fonts, colours and column styles are layout and are not modelled. The options record
  is the one of the Word report (the two option interfaces have the same fields). The
  generator has its own copy of the grade point map and recomputes the current-semester
  SGPAs with \<open>calculateSGPA\<close>; both are modelled as the code has them.
\<close>

section \<open>Definitions\<close>

datatype pdf_item = PdfText string | PdfLine | PdfPage | PdfImage
  | PdfTable "string list list" "string list list"

text \<open>Lines 762-771: the generator's own grade point map.\<close>

definition pdfGradePointMap :: "(string \<times> rat) list" where
  "pdfGradePointMap =
     [(''O'', 10), (''A+'', 9), (''A'', 8), (''B+'', 7), (''B'', 6), (''C'', 5), (''P'', 4), (''U'', 0)]"

definition pdf_rank_key :: "string \<Rightarrow> jsnum" where
  "pdf_rank_key g =
     (case map_of pdfGradePointMap g of
        Some p \<Rightarrow> Num p
      | None \<Rightarrow> (if g \<in> set object_prototype_keys then NaN else Num 0))"

text \<open>Lines 86-151: the header table with the logo, drawn only when the logo was fetched.\<close>

definition pdf_header :: "bool \<Rightarrow> pdf_item list" where
  "pdf_header logo =
     (if logo
      then [PdfTable [] [[[], ''K.S. RANGASAMY COLLEGE OF TECHNOLOGY, TIRUCHENGODE - 637 215''
                             @ [CHR 0x0A] @ ''(An Autonomous Institute Affiliated to Anna University, Chennai)'',
                          ''RESULT ANALYSIS'']],
            PdfImage]
      else [])"

text \<open>Lines 153-200.\<close>

definition pdf_college_info :: "WordOptions \<Rightarrow> ResultAnalysis \<Rightarrow> pdf_item list" where
  "pdf_college_info opts a =
     [PdfLine, PdfText ''College Information'',
      PdfTable []
        ([[''College Name'', ''K. S. Rangasamy College of Technology''],
          [''Department'', wo_departmentFullName opts],
          [''Total Students'', nat_str (ra_totalStudents a)]]
         @ (if wo_calculationMode opts = CGPA_Mode \<and> 0 < ra_fileCount a
            then [[''Files Processed'', nat_str (ra_fileCount a)]] else [])
         @ [[''Calculation Mode'', calculationModeDisplay (wo_calculationMode opts)]])]"

text \<open>Lines 202-234.\<close>

definition pdf_performance :: "calc_mode \<Rightarrow> ResultAnalysis \<Rightarrow> pdf_item list" where
  "pdf_performance m a =
     PdfText ''Performance Summary'' #
     (if m = SGPA_Mode then
        map PdfText
          [''Average SGPA: '' @ js_toFixed 2 (ra_averageCGPA a),
           ''Highest SGPA: '' @ js_toFixed 2 (ra_highestSGPA a),
           ''Lowest SGPA: '' @ js_toFixed 2 (ra_lowestSGPA a),
           ''Pass Percentage: '' @ js_toFixed 2 (Num (passPercentage (ra_singleFileClassification a))) @ ''%'']
      else (case ra_cgpaAnalysis a of
              Some ca \<Rightarrow>
                map PdfText
                  [''Average CGPA: '' @ js_toFixed 2 (ca_averageCGPA ca),
                   ''Highest CGPA: '' @ js_toFixed 2 (ca_highestCGPA ca),
                   ''Lowest CGPA: '' @ js_toFixed 2 (ca_lowestCGPA ca),
                   ''Pass Percentage: '' @ js_toFixed 2 (Num (passPercentage (ra_multipleFileClassification a))) @ ''%'']
            | None \<Rightarrow> []))"

text \<open>Lines 236-287: the file table of CGPA mode (file names never name inherited members).\<close>

definition pdf_file_row :: "ResultAnalysis \<Rightarrow> string \<Rightarrow> string list list" where
  "pdf_file_row a fileName =
     (case obj_get (ra_fileWiseAnalysis a) fileName of
        Some fa \<Rightarrow>
          [[fileName, nat_str (students fa), js_toFixed 2 (averageSGPA fa), str_or_empty (semesterName fa),
            if Some fileName = ra_currentSemesterFile a then ''Current Semester'' else ''Previous Semester'']]
      | None \<Rightarrow> [])"

definition pdf_file_analysis :: "calc_mode \<Rightarrow> ResultAnalysis \<Rightarrow> pdf_item list" where
  "pdf_file_analysis m a =
     (if m = CGPA_Mode
      then [PdfText ''File Analysis'',
            PdfTable [[''File Name'', ''Students'', ''Average SGPA'', ''Semester'', ''Note'']]
                     (concat (map (pdf_file_row a) (ra_filesProcessed a)))]
      else [])"

text \<open>
  Lines 289-300: with several files, the rows of the current semester file (in either
  mode); the cumulative rows are all rows.
\<close>

definition pdf_current_records :: "ResultAnalysis \<Rightarrow> StudentRecord list \<Rightarrow> StudentRecord list" where
  "pdf_current_records a records =
     (if 1 < ra_fileCount a \<and> truthy_str (ra_currentSemesterFile a)
      then filter (\<lambda>r. fileSource r = ra_currentSemesterFile a) records
      else records)"

text \<open>Lines 319-327: \<open>subjectGroups\<close>, a \<open>Map\<close> in first-occurrence order of the codes.\<close>

definition subject_groups :: "StudentRecord list \<Rightarrow> (string \<times> StudentRecord list) list" where
  "subject_groups cur = map (\<lambda>s. (s, filter (\<lambda>r. SCODE r = s) cur)) (js_unique (map SCODE cur))"

definition has_non_arrear :: "StudentRecord list \<Rightarrow> bool" where
  "has_non_arrear rs \<longleftrightarrow> list_ex (\<lambda>r. \<not> marked_true r) rs"

text \<open>
  Lines 329-354: the ordered subjects, then every subject with an unmarked row not yet
  listed; without an order, the subjects with an unmarked row.
\<close>

definition pdf_valid_subjects :: "ResultAnalysis \<Rightarrow> (string \<times> StudentRecord list) list \<Rightarrow> string list" where
  "pdf_valid_subjects a groups =
     (case ra_orderedSubjects a of
        Some os \<Rightarrow>
          (if os \<noteq> []
           then foldl (\<lambda>vs g. if has_non_arrear (snd g) \<and> fst g \<notin> set vs then vs @ [fst g] else vs) os groups
           else map fst (filter (\<lambda>g. has_non_arrear (snd g)) groups))
      | None \<Rightarrow> map fst (filter (\<lambda>g. has_non_arrear (snd g)) groups))"

text \<open>Lines 357-399: one subject's line, over all of its current-semester rows.\<close>

definition pdf_highest_grade :: "string list \<Rightarrow> string" where
  "pdf_highest_grade grades =
     (let validGrades = filter (js_in pdfGradePointMap) grades
      in if validGrades \<noteq> []
         then hd (js_sort (\<lambda>x y. js_sub (pdf_rank_key y) (pdf_rank_key x)) validGrades) else [])"

definition pdf_subject_row ::
  "string \<Rightarrow> (string \<times> StudentRecord list) list \<Rightarrow> nat \<Rightarrow> string \<Rightarrow> string list" where
  "pdf_subject_row department groups index subject =
     (let subjectRecords = (case map_of groups subject of Some rs \<Rightarrow> rs | None \<Rightarrow> []);
          totalStudents = length subjectRecords;
          passedStudents = length (filter (\<lambda>r. GR r \<noteq> ''U'') subjectRecords);
          failedStudents = length (filter (\<lambda>r. GR r = ''U'') subjectRecords);
          passPercentage = word_pass_percentage passedStudents totalStudents;
          highestGrade = pdf_highest_grade (map GR subjectRecords);
          studentsWithHighestGrade =
            (if highestGrade \<noteq> [] then length (filter (\<lambda>r. GR r = highestGrade) subjectRecords) else 0);
          recordWithSubjectInfo = find (\<lambda>r. truthy_str (subjectName r) \<or> truthy_str (facultyName r)) subjectRecords;
          subjectName = (case recordWithSubjectInfo of
                           Some r \<Rightarrow> (if truthy_str (subjectName r) then str_or_empty (subjectName r) else [])
                         | None \<Rightarrow> []);
          facultyName = (case recordWithSubjectInfo of
                           Some r \<Rightarrow> (if truthy_str (facultyName r) then str_or_empty (facultyName r) else [])
                         | None \<Rightarrow> [])
      in [nat_str (index + 1), subject, subjectName, facultyName, department, nat_str totalStudents,
          ''0'', nat_str failedStudents, ''0'', nat_str passedStudents,
          js_toFixed 1 (Num passPercentage), highestGrade, nat_str studentsWithHighestGrade])"

text \<open>Lines 302-444: the End Semester Result Analysis page.\<close>

definition pdf_subject_section :: "WordOptions \<Rightarrow> ResultAnalysis \<Rightarrow> StudentRecord list \<Rightarrow> pdf_item list" where
  "pdf_subject_section opts a cur =
     (if wo_calculationMode opts = SGPA_Mode \<or> cur \<noteq> [] then
        (let groups = subject_groups cur;
             validSubjectCodes = pdf_valid_subjects a groups
         in [PdfPage, PdfText ''End Semester Result Analysis'',
             PdfTable [[''S.No'', ''Subject Code'', ''Subject Name'', ''Faculty Name'', ''Dept'', ''App'', ''Ab'',
                        ''Fail'', ''WH'', ''Passed'', ''% of pass'', ''Highest Grade'', ''No. of students'']]
                      (map (\<lambda>(i, s). pdf_subject_row (wo_department opts) groups i s)
                         (enumerate 0 validSubjectCodes))])
      else [])"

text \<open>Lines 446-539: the classification page, with the counts of both classifications.\<close>

definition pdf_classification :: "ResultAnalysis \<Rightarrow> pdf_item list" where
  "pdf_classification a =
     [PdfPage, PdfText ''Classification'',
      PdfTable [[''Current semester'', ''Upto this semester''],
                [''Distinction'', ''First class'', ''Second class'', ''Fail'', ''% of pass'',
                 ''Distinction'', ''First class'', ''Second class'', ''Fail'', ''% of pass''],
                [''WOA'', ''WA'', ''WOA'', ''WA'', ''WOA'', ''WA'', ''WOA'', ''WA'']]
               [classification_cells (ra_singleFileClassification a)
                @ classification_cells (ra_multipleFileClassification a)]]"

text \<open>
  Lines 548-572: the current-semester SGPAs recomputed with \<open>calculateSGPA\<close> over the
  current rows, and the cumulative list (the CGPAs in CGPA mode, else the same SGPAs),
  each sorted best first and cut to three.
\<close>

definition pdf_current_sgpas :: "StudentRecord list \<Rightarrow> (string \<times> jsnum) list" where
  "pdf_current_sgpas cur = map (\<lambda>i. (i, calculateSGPA cur i)) (js_unique (map REGNO cur))"

definition pdf_rank_lists ::
  "calc_mode \<Rightarrow> ResultAnalysis \<Rightarrow> StudentRecord list \<Rightarrow> (string \<times> jsnum) list \<times> (string \<times> jsnum) list" where
  "pdf_rank_lists m a cur =
     (let current = pdf_current_sgpas cur;
          cumulative = (case ra_cgpaAnalysis a of
                          Some ca \<Rightarrow> (if m = CGPA_Mode then studentCGPAs ca else current)
                        | None \<Rightarrow> current);
          desc = js_sort (\<lambda>x y. js_sub (snd y) (snd x))
      in (take 3 (desc current), take 3 (desc cumulative)))"

text \<open>Lines 574-632: as many rank lines as the longer list, a missing entry shown as \<open>("", 0)\<close>.\<close>

definition pdf_rank :: "calc_mode \<Rightarrow> ResultAnalysis \<Rightarrow> StudentRecord list \<Rightarrow> pdf_item list" where
  "pdf_rank m a cur =
     (let (tops, topc) = pdf_rank_lists m a cur;
          maxRankRows = max (length tops) (length topc)
      in [PdfText ''Rank Analysis'',
          PdfTable [[''Rank in this semester'', ''Rank up to this semester''],
                    [''S.No'', ''Name of the student'', ''SGPA'', ''S.No'', ''Name of the student'', ''CGPA'']]
                   (map (\<lambda>i. let s = rank_entry tops i; c = rank_entry topc i
                              in [nat_str (i + 1), fst s, js_toFixed 2 (snd s),
                                  nat_str (i + 1), fst c, js_toFixed 2 (snd c)])
                      [0..<maxRankRows])])"

text \<open>Lines 672-691: the status of a student, as in the Word report.\<close>

definition pdf_status :: "bool \<Rightarrow> jsnum \<Rightarrow> string" where
  "pdf_status arrears gp =
     (if arrears then
        (if js_ge gp (Num (13 / 2)) then ''First Class With Arrear''
         else if js_ge gp (Num 5) then ''Second Class with Arrears'' else ''Has Arrears'')
      else
        (if js_ge gp (Num (17 / 2)) then ''Distinction''
         else if js_ge gp (Num (13 / 2)) then ''First Class'' else ''Second Class''))"

text \<open>Lines 634-729: the students by SGPA or by CGPA (the same list as the Word report's).\<close>

definition pdf_student_table :: "calc_mode \<Rightarrow> ResultAnalysis \<Rightarrow> StudentRecord list \<Rightarrow> pdf_item list" where
  "pdf_student_table m a records =
     [PdfText ''Individual Student Performance'',
      PdfTable [[''S.No'', ''Register Number'', if m = SGPA_Mode then ''SGPA'' else ''CGPA'', ''Status'']]
               (map (\<lambda>(i, (sid, gp, arrears)). [nat_str (i + 1), sid, js_toFixed 2 gp, pdf_status arrears gp])
                  (enumerate 0 (student_performance_data m a records)))]"

text \<open>Lines 67-745: everything drawn, in order, ending with the four signature labels.\<close>

definition downloadPdfReport :: "ResultAnalysis \<Rightarrow> StudentRecord list \<Rightarrow> WordOptions \<Rightarrow> pdf_item list" where
  "downloadPdfReport a records opts =
     (let m = wo_calculationMode opts;
          cur = pdf_current_records a records
      in pdf_header (wo_logo opts)
         @ pdf_college_info opts a
         @ pdf_performance m a
         @ pdf_file_analysis m a
         @ pdf_subject_section opts a cur
         @ pdf_classification a
         @ pdf_rank m a cur
         @ pdf_student_table m a records
         @ map PdfText [''CLASS ADVISOR'', ''HOD/CSE'', ''DEAN ACADEMICS'', ''PRINCIPAL''])"

text \<open>\<^verbatim>\<open>csvReportGenerator.ts\<close> lines 5-34: the CSV text of \<open>downloadCSVReport\<close>.\<close>

definition csv_content :: "ResultAnalysis \<Rightarrow> string" where
  "csv_content a =
     ''data:text/csv;charset=utf-8,'' @ ''Registration Number,SGPA,Status'' @ [CHR 0x0A]
     @ concat (map (\<lambda>d. sd_id d @ '','' @ js_toFixed 2 (sd_sgpa d) @ '','' @ sgpa_status d @ [CHR 0x0A])
                 (ra_studentSgpaDetails a))"

section \<open>Lemmas\<close>

lemma pdfGradePointMap_eq: "pdfGradePointMap = gradePointMap"
  by (simp add: pdfGradePointMap_def gradePointMap_def)

lemma pdf_status_eq_word_status: "pdf_status = word_status"
  by (simp add: fun_eq_iff pdf_status_def word_status_def)

lemma pdf_highest_grade_eq: "pdf_highest_grade = word_highest_grade"
proof -
  have k: "pdf_rank_key = grade_rank_key"
    by (simp add: fun_eq_iff pdf_rank_key_def grade_rank_key_def pdfGradePointMap_eq)
  have r: "js_in pdfGradePointMap = grade_recognised"
    by (simp add: fun_eq_iff grade_recognised_def pdfGradePointMap_eq)
  have c: "(\<lambda>x y. js_sub (grade_rank_key y) (grade_rank_key x)) = grade_rank_cmp"
    by (simp add: fun_eq_iff grade_rank_cmp_def)
  show ?thesis
    unfolding fun_eq_iff pdf_highest_grade_def word_highest_grade_def k r c by simp
qed

end
