(* ===== verification/Downloader.thy ===== *)
theory Downloader
  imports PdfReport
begin

text \<open>
  The report download button of \<^verbatim>\<open>src/src/components/dashboard/ReportDownloader.tsx\<close>.
  Its React state is a record; the menu items, the department dialog, the progress timer and
  the two callbacks that \<open>handleConfirmDepartment\<close> schedules with \<open>setTimeout\<close> are the
  events of a step function. A scheduled callback is the field \<open>pending\<close>: the
  generation callback (100 ms) awaits the report generator and then schedules the finishing
  callback (300 ms). The generator either succeeds, and the file it saves is appended to
  \<open>downloads\<close>, or its promise rejects. \<open>Math.random()\<close> is the parameter of a tick, a
  rational in \<open>[0, 1)\<close>. The props are fixed for the component's life: the analysis
  (\<open>None\<close> for \<open>null\<close>), the rows, the mode and whether the logo image loads.
\<close>

section \<open>Definitions\<close>

datatype report_format = WordFormat | PdfFormat

text \<open>wordReportGenerator.ts lines 12-79 and pdfReportGenerator.ts lines 67-745: the saved file.\<close>

datatype report_file = WordFile string "wblock list" | PdfFile string "pdf_item list"

definition downloadWordReport :: "ResultAnalysis \<Rightarrow> StudentRecord list \<Rightarrow> WordOptions \<Rightarrow> report_file" where
  "downloadWordReport a records opts =
     WordFile (if wo_calculationMode opts = SGPA_Mode then ''sgpa-analysis-report.docx''
               else ''cgpa-analysis-report.docx'')
              (createWordDocument a records opts)"

definition savePdfReport :: "ResultAnalysis \<Rightarrow> StudentRecord list \<Rightarrow> WordOptions \<Rightarrow> report_file" where
  "savePdfReport a records opts =
     PdfFile (if wo_calculationMode opts = SGPA_Mode then ''sgpa-analysis-report.pdf''
              else ''cgpa-analysis-report.pdf'')
             (downloadPdfReport a records opts)"

datatype dl_task = NoTask | Generate report_format | Finish

record DownloaderState =
  isDownloading :: bool
  departmentCode :: string
  departmentFullName :: string
  isDepartmentDialogOpen :: bool
  selectedFormat :: "report_format option"
  downloadProgress :: rat
  progress_timer :: bool
  pending :: dl_task
  downloads :: "report_file list"

record DownloaderProps =
  dp_analysis :: "ResultAnalysis option"
  dp_records :: "StudentRecord list"
  dp_mode :: "calc_mode option"
  dp_logo :: bool

text \<open>Lines 25-30: the initial state.\<close>

definition initial_downloader :: DownloaderState where
  "initial_downloader =
     \<lparr>isDownloading = False, departmentCode = ''CSE'',
      departmentFullName = ''Computer Science and Engineering'', isDepartmentDialogOpen = False,
      selectedFormat = None, downloadProgress = 0, progress_timer = False, pending = NoTask,
      downloads = []\<rparr>"

text \<open>Lines 33-48: a menu item; without data only a toast.\<close>

definition handleDownloadReport :: "DownloaderProps \<Rightarrow> report_format \<Rightarrow> DownloaderState \<Rightarrow> DownloaderState" where
  "handleDownloadReport pr f s =
     (if dp_analysis pr = None \<or> dp_records pr = [] then s
      else if \<not> isDownloading s
      then s\<lparr>selectedFormat := Some f, isDepartmentDialogOpen := True, downloadProgress := 0\<rparr>
      else s)"

text \<open>Lines 50-62: one tick of the progress timer, with \<open>Math.random()\<close> = r.\<close>

definition progress_tick :: "rat \<Rightarrow> rat \<Rightarrow> rat" where
  "progress_tick r prev = (if 90 \<le> prev then 90 else prev + r * 10)"

text \<open>
  Lines 64-136, \<open>handleConfirmDepartment\<close>: close the dialog, start downloading and the
  timer, and schedule the generation of the selected format. The options are those of lines
  75-81, the mode defaulting to SGPA.
\<close>

definition download_options :: "DownloaderProps \<Rightarrow> DownloaderState \<Rightarrow> WordOptions" where
  "download_options pr s =
     \<lparr>wo_logo = dp_logo pr, wo_department = departmentCode s,
      wo_departmentFullName = departmentFullName s,
      wo_calculationMode = (case dp_mode pr of Some m \<Rightarrow> m | None \<Rightarrow> SGPA_Mode)\<rparr>"

definition handleConfirmDepartment :: "DownloaderProps \<Rightarrow> DownloaderState \<Rightarrow> DownloaderState" where
  "handleConfirmDepartment pr s =
     (if isDownloading s then s
      else
        let s' = s\<lparr>isDepartmentDialogOpen := False, isDownloading := True, downloadProgress := 0,
                   progress_timer := True\<rparr>
        in (if dp_analysis pr \<noteq> None then
              (case selectedFormat s of
                 Some f \<Rightarrow> s'\<lparr>pending := Generate f\<rparr>
               | None \<Rightarrow> s')
            else s'))"

text \<open>
  Lines 85-101 and 104-120: the generation callback. When the generator resolves, the
  timer is cleared, the bar shows 100 and the finishing callback is scheduled.
\<close>

definition generation_done :: "DownloaderProps \<Rightarrow> report_format \<Rightarrow> DownloaderState \<Rightarrow> DownloaderState" where
  "generation_done pr f s =
     (case dp_analysis pr of
        Some a \<Rightarrow>
          s\<lparr>downloads := downloads s @
                [(case f of WordFormat \<Rightarrow> downloadWordReport a (dp_records pr) (download_options pr s)
                          | PdfFormat \<Rightarrow> savePdfReport a (dp_records pr) (download_options pr s))],
            progress_timer := False, downloadProgress := 100, pending := Finish\<rparr>
      | None \<Rightarrow> s)"

text \<open>Lines 91-100: the finishing callback resets the button.\<close>

definition finish_download :: "DownloaderState \<Rightarrow> DownloaderState" where
  "finish_download s =
     s\<lparr>isDownloading := False, downloadProgress := 0, selectedFormat := None, pending := NoTask\<rparr>"

datatype dl_event =
    RequestReport report_format
  | EditFullName string
  | EditCode string
  | CancelDialog
  | ConfirmDialog
  | Tick rat
  | GenerationSucceeds
  | GenerationFails
  | FinishTimer

text \<open>
  The dialog (lines 181-229) is shown while \<open>isDepartmentDialogOpen && !isDownloading\<close>; its
  inputs, \<open>Cancel\<close> and \<open>Continue\<close> act only then, and the code input holds at most five
  characters (\<open>maxLength={5}\<close>). A rejected generator promise ends its callback before the
  code after \<open>await\<close>: the \<open>catch\<close> of lines 123-135 only guards the scheduling.
\<close>

definition dialog_shown :: "DownloaderState \<Rightarrow> bool" where
  "dialog_shown s \<longleftrightarrow> isDepartmentDialogOpen s \<and> \<not> isDownloading s"

fun dl_step :: "DownloaderProps \<Rightarrow> dl_event \<Rightarrow> DownloaderState \<Rightarrow> DownloaderState" where
  "dl_step pr (RequestReport f) s = handleDownloadReport pr f s"
| "dl_step pr (EditFullName n) s = (if dialog_shown s then s\<lparr>departmentFullName := n\<rparr> else s)"
| "dl_step pr (EditCode c) s =
     (if dialog_shown s \<and> length c \<le> 5 then s\<lparr>departmentCode := c\<rparr> else s)"
| "dl_step pr CancelDialog s = (if dialog_shown s then s\<lparr>isDepartmentDialogOpen := False\<rparr> else s)"
| "dl_step pr ConfirmDialog s = (if dialog_shown s then handleConfirmDepartment pr s else s)"
| "dl_step pr (Tick r) s =
     (if progress_timer s \<and> 0 \<le> r \<and> r < 1
      then s\<lparr>downloadProgress := progress_tick r (downloadProgress s)\<rparr> else s)"
| "dl_step pr GenerationSucceeds s =
     (case pending s of Generate f \<Rightarrow> generation_done pr f s | _ \<Rightarrow> s)"
| "dl_step pr GenerationFails s =
     (case pending s of Generate f \<Rightarrow> s\<lparr>pending := NoTask\<rparr> | _ \<Rightarrow> s)"
| "dl_step pr FinishTimer s = (case pending s of Finish \<Rightarrow> finish_download s | _ \<Rightarrow> s)"

definition dl_run :: "DownloaderProps \<Rightarrow> dl_event list \<Rightarrow> DownloaderState \<Rightarrow> DownloaderState" where
  "dl_run pr es s = foldl (\<lambda>s e. dl_step pr e s) s es"

inductive dl_reachable :: "DownloaderProps \<Rightarrow> DownloaderState \<Rightarrow> bool" for pr where
  start: "dl_reachable pr initial_downloader"
| step: "dl_reachable pr s \<Longrightarrow> dl_reachable pr (dl_step pr e s)"

text \<open>Lines 141-149: the progress line, \<open>Math.round(downloadProgress)\<close> per cent.\<close>

definition progress_label :: "DownloaderState \<Rightarrow> string option" where
  "progress_label s =
     (if isDownloading s then Some (nat_str (nat \<lfloor>downloadProgress s + 1 / 2\<rfloor>) @ ''%'') else None)"

text \<open>
  The invariant: a dialog that is open has a format; a scheduled callback belongs to a
  download in progress of an analysis, and no dialog is open during a download; the bar stays in \<open>[0, 100]\<close> and below 100 while the timer runs;
  the department code has at most five characters.
\<close>

definition dl_inv :: "DownloaderProps \<Rightarrow> DownloaderState \<Rightarrow> bool" where
  "dl_inv pr s \<longleftrightarrow>
     (isDepartmentDialogOpen s \<longrightarrow> selectedFormat s \<noteq> None)
     \<and> (pending s \<noteq> NoTask \<longrightarrow> isDownloading s)
     \<and> (pending s \<noteq> NoTask \<longrightarrow> dp_analysis pr \<noteq> None)
     \<and> (progress_timer s \<longrightarrow> isDownloading s)
     \<and> (isDownloading s \<longrightarrow> \<not> isDepartmentDialogOpen s)
     \<and> (pending s = Finish \<longrightarrow> \<not> progress_timer s)
     \<and> 0 \<le> downloadProgress s \<and> downloadProgress s \<le> 100
     \<and> (progress_timer s \<longrightarrow> downloadProgress s < 100)
     \<and> length (departmentCode s) \<le> 5"

text \<open>Props for the examples: a one-row analysis.\<close>

definition example_props :: DownloaderProps where
  "example_props =
     \<lparr>dp_analysis = Some (analyzeResults (\<lambda>x y. 0) [row ''S'' ''A'' ''O'' 3 ''s.xlsx'' ''1'' False] None),
      dp_records = [row ''S'' ''A'' ''O'' 3 ''s.xlsx'' ''1'' False], dp_mode = Some SGPA_Mode,
      dp_logo = True\<rparr>"

section \<open>Lemmas\<close>

lemma progress_tick_bounds:
  "0 \<le> r \<Longrightarrow> r < 1 \<Longrightarrow> 0 \<le> p \<Longrightarrow> 0 \<le> progress_tick r p \<and> progress_tick r p < 100"
  by (simp add: progress_tick_def)

lemma dl_step_inv: "dl_inv pr s \<Longrightarrow> dl_inv pr (dl_step pr e s)"
proof (cases e)
  case (Tick r)
  moreover assume "dl_inv pr s"
  ultimately show ?thesis using progress_tick_bounds [of r "downloadProgress s"]
    by (auto simp: dl_inv_def)
next
  case GenerationSucceeds
  moreover assume "dl_inv pr s"
  ultimately show ?thesis
    by (auto simp: dl_inv_def generation_done_def split: dl_task.split option.split)
next
  case ConfirmDialog
  moreover assume "dl_inv pr s"
  ultimately show ?thesis
    by (auto simp: dl_inv_def dialog_shown_def handleConfirmDepartment_def Let_def split: option.split)
qed (auto simp: dl_inv_def handleDownloadReport_def dialog_shown_def finish_download_def
          split: dl_task.split)

lemma dl_reachable_inv: "dl_reachable pr s \<Longrightarrow> dl_inv pr s"
proof (induction rule: dl_reachable.induct)
  case start
  show ?case by (simp add: dl_inv_def initial_downloader_def)
next
  case (step s e)
  then show ?case by (simp add: dl_step_inv)
qed

lemma dl_run_append: "dl_run pr (es @ fs) s = dl_run pr fs (dl_run pr es s)"
  by (simp add: dl_run_def)

lemma dl_run_reachable: "dl_reachable pr s \<Longrightarrow> dl_reachable pr (dl_run pr es s)"
  by (induction es arbitrary: s) (auto simp: dl_run_def intro: dl_reachable.step)

text \<open>A download whose callback is gone stays in progress under every event.\<close>

lemma dl_step_stuck:
  "isDownloading s \<Longrightarrow> pending s = NoTask
   \<Longrightarrow> isDownloading (dl_step pr e s) \<and> pending (dl_step pr e s) = NoTask"
  by (cases e) (auto simp: handleDownloadReport_def dialog_shown_def)

lemma dl_run_stuck:
  "isDownloading s \<Longrightarrow> pending s = NoTask
   \<Longrightarrow> isDownloading (dl_run pr es s) \<and> pending (dl_run pr es s) = NoTask"
  by (induction es arbitrary: s) (simp_all add: dl_run_def dl_step_stuck)

section \<open>Properties of the download button\<close>

text \<open>
  C19: when the report generator's promise rejects, the button never recovers. The
  rejection ends the generation callback before \<open>clearInterval\<close> and the reset, and the
  \<open>catch\<close> of \<open>handleConfirmDepartment\<close> has already returned; afterwards no sequence of
  events clears \<open>isDownloading\<close>, so the menu stays disabled and the dialog hidden.
\<close>

theorem downloader_stuck_after_failure:
  assumes "dl_reachable pr s" "pending s = Generate f"
  shows "isDownloading (dl_run pr es (dl_step pr GenerationFails s))"
proof -
  have "isDownloading s" using dl_reachable_inv [OF assms(1)] assms(2) by (simp add: dl_inv_def)
  then show ?thesis using dl_run_stuck assms(2) by simp
qed

theorem downloader_stuck_after_failure_witness:
  "isDownloading (dl_run example_props [RequestReport PdfFormat, ConfirmDialog, FinishTimer]
     (dl_step example_props GenerationFails
        (dl_run example_props [RequestReport WordFormat, ConfirmDialog] initial_downloader)))"
proof -
  have r: "dl_reachable example_props (dl_run example_props [RequestReport WordFormat, ConfirmDialog]
             initial_downloader)"
    by (rule dl_run_reachable [OF dl_reachable.start])
  have p: "pending (dl_run example_props [RequestReport WordFormat, ConfirmDialog] initial_downloader)
           = Generate WordFormat"
    by (simp add: dl_run_def example_props_def initial_downloader_def handleDownloadReport_def
                  dialog_shown_def handleConfirmDepartment_def)
  show ?thesis by (rule downloader_stuck_after_failure [OF r p])
qed

text \<open>
  C28: a download that is not stuck ends: from every reachable state whose generation has
  not failed, at most two events (the generator resolving, then the 300 ms timer) bring
  the button back to idle with no callback pending.
\<close>

theorem downloader_recovers:
  assumes "dl_reachable pr s" "\<not> (isDownloading s \<and> pending s = NoTask)"
  shows "\<exists>es. length es \<le> 2 \<and> \<not> isDownloading (dl_run pr es s) \<and> pending (dl_run pr es s) = NoTask"
proof (cases "pending s")
  case NoTask
  then have "\<not> isDownloading (dl_run pr [] s) \<and> pending (dl_run pr [] s) = NoTask"
    using assms(2) by (simp add: dl_run_def)
  then show ?thesis by (intro exI [of _ "[]"]) simp
next
  case Finish
  then have "\<not> isDownloading (dl_run pr [FinishTimer] s) \<and> pending (dl_run pr [FinishTimer] s) = NoTask"
    by (simp add: dl_run_def finish_download_def)
  then show ?thesis by (intro exI [of _ "[FinishTimer]"]) simp
next
  case (Generate f)
  obtain a where "dp_analysis pr = Some a"
    using dl_reachable_inv [OF assms(1)] Generate by (auto simp: dl_inv_def)
  then have "\<not> isDownloading (dl_run pr [GenerationSucceeds, FinishTimer] s)
             \<and> pending (dl_run pr [GenerationSucceeds, FinishTimer] s) = NoTask"
    using Generate by (simp add: dl_run_def generation_done_def finish_download_def)
  then show ?thesis by (intro exI [of _ "[GenerationSucceeds, FinishTimer]"]) simp
qed

theorem downloader_recovers_witness:
  "\<exists>es. length es \<le> 2
     \<and> \<not> isDownloading (dl_run example_props es
            (dl_run example_props [RequestReport WordFormat, ConfirmDialog] initial_downloader))
     \<and> pending (dl_run example_props es
            (dl_run example_props [RequestReport WordFormat, ConfirmDialog] initial_downloader)) = NoTask"
proof -
  let ?s = "dl_run example_props [RequestReport WordFormat, ConfirmDialog] initial_downloader"
  have r: "dl_reachable example_props ?s" by (rule dl_run_reachable [OF dl_reachable.start])
  have p: "\<not> (isDownloading ?s \<and> pending ?s = NoTask)"
    by (simp add: dl_run_def example_props_def initial_downloader_def handleDownloadReport_def
                  dialog_shown_def handleConfirmDepartment_def)
  show ?thesis by (rule downloader_recovers [OF r p])
qed

text \<open>
  C34: the progress bar stays within \<open>[0, 100]\<close>, and below 100 while the simulated
  progress runs: a tick from below 90 adds less than 10, a tick from 90 or more resets to 90,
  and only a resolved generator shows 100.
\<close>

theorem downloader_progress_bounds:
  "dl_reachable pr s \<Longrightarrow>
   0 \<le> downloadProgress s \<and> downloadProgress s \<le> 100 \<and> (progress_timer s \<longrightarrow> downloadProgress s < 100)"
  using dl_reachable_inv by (simp add: dl_inv_def)

theorem downloader_progress_bounds_witness:
  "0 \<le> downloadProgress (dl_run example_props
          [RequestReport PdfFormat, ConfirmDialog, Tick (9/10), Tick (9/10), Tick (1/2)] initial_downloader)
   \<and> downloadProgress (dl_run example_props
          [RequestReport PdfFormat, ConfirmDialog, Tick (9/10), Tick (9/10), Tick (1/2)] initial_downloader) < 100"
proof -
  let ?s = "dl_run example_props [RequestReport PdfFormat, ConfirmDialog, Tick (9/10), Tick (9/10), Tick (1/2)]
              initial_downloader"
  have t: "progress_timer ?s"
    by (simp add: dl_run_def example_props_def initial_downloader_def handleDownloadReport_def
                  dialog_shown_def handleConfirmDepartment_def)
  show ?thesis
    using downloader_progress_bounds [OF dl_run_reachable [OF dl_reachable.start]] t by blast
qed

end
