(* ===== verification/Views.thy ===== *)
theory Views
  imports Analyzer
begin

text \<open>
  The result views of \<^verbatim>\<open>src/src/components/dashboard/\<close> that select data from the
  analysis before rendering it: the rank table of \<^verbatim>\<open>StudentSGPATable.tsx\<close>, the two cards
  of \<^verbatim>\<open>StudentPerformance.tsx\<close> and the summary of \<^verbatim>\<open>AnalysisOverview.tsx\<close>. A view is
  modelled by the texts it renders; rendering a field of \<open>undefined\<close> throws a
  \<open>TypeError\<close>, which is the error value \<open>UndefinedField\<close>. Markup, styles, icons and the
  charts are not modelled.
\<close>

section \<open>Definitions\<close>

datatype view_error = UndefinedField string

text \<open>
  \<^verbatim>\<open>StudentSGPATable.tsx\<close> lines 14-74: the title, the description and the three first
  entries (rank, id, value, whether it is a CGPA).
\<close>

definition sgpa_top3 :: "ResultAnalysis \<Rightarrow> (nat \<times> string \<times> jsnum \<times> bool) list" where
  "sgpa_top3 a =
     map (\<lambda>(i, d). (i + 1, sd_id d, sd_sgpa d, False))
       (enumerate 0 (take 3 (js_sort (\<lambda>x y. js_sub (sd_sgpa y) (sd_sgpa x)) (ra_studentSgpaDetails a))))"

definition sgpa_rank_view ::
  "calc_mode option \<Rightarrow> bool \<Rightarrow> ResultAnalysis \<Rightarrow> string \<times> string \<times> (nat \<times> string \<times> jsnum \<times> bool) list" where
  "sgpa_rank_view mode useCumulativeData a =
     (if mode = Some CGPA_Mode then
        (case ra_cgpaAnalysis a of
           Some ca \<Rightarrow>
             (if useCumulativeData
              then (''Student CGPA Rank Analysis'', ''Top 3 students by Cumulative Grade Point Average'',
                    map (\<lambda>(i, (sid, cgpa)). (i + 1, sid, cgpa, True)) (enumerate 0 (take 3 (toppersList ca))))
              else (''Student SGPA Rank Analysis'',
                    ''Top 3 students by Semester Grade Point Average (Current Semester)'', sgpa_top3 a))
         | None \<Rightarrow>
             (''Student SGPA Rank Analysis'',
              ''Top 3 students by Semester Grade Point Average (Current Semester)'', sgpa_top3 a))
      else (''Student SGPA Rank Analysis'', ''Top 3 students by Semester Grade Point Average'', sgpa_top3 a))"

text \<open>
  Lines 80-128, the table: the header of the value column (\<open>CGPA\<close> when cumulative data is
  asked for, whatever data the rows hold), and per entry its rank, the badge colour of ranks
  1, 2 and 3, the id and \<open>value.toFixed(2)\<close>.
\<close>

definition rank_badge :: "nat \<Rightarrow> string" where
  "rank_badge rank =
     (if rank = 1 then ''bg-amber-500'' else if rank = 2 then ''bg-slate-400'' else ''bg-amber-700/30'')"

definition sgpa_table_view ::
  "calc_mode option \<Rightarrow> bool \<Rightarrow> ResultAnalysis
   \<Rightarrow> string \<times> string \<times> string \<times> (nat \<times> string \<times> string \<times> string) list" where
  "sgpa_table_view mode useCumulativeData a =
     (case sgpa_rank_view mode useCumulativeData a of
        (tableTitle, tableDescription, topStudentsData) \<Rightarrow>
          (tableTitle, tableDescription, if useCumulativeData then ''CGPA'' else ''SGPA'',
           map (\<lambda>(rank, sid, value, _). (rank, rank_badge rank, sid, js_toFixed 2 value)) topStudentsData))"

text \<open>
  \<^verbatim>\<open>StudentPerformance.tsx\<close> lines 32-60: in CGPA mode (or when asked) the cards use the
  cumulative data; the needs-improvement list is then the first six CGPAs below 6.5 when
  there is a CGPA block, and the analysis' own list otherwise.
\<close>

text \<open>
  The mode prop is the dashboard's, \<open>null\<close> before a mode is chosen (the default
  \<open>'sgpa'\<close> applies to \<open>undefined\<close> only).
\<close>

definition should_use_cumulative :: "calc_mode option \<Rightarrow> bool \<Rightarrow> bool" where
  "should_use_cumulative mode useCumulativeData \<longleftrightarrow> useCumulativeData \<or> mode = Some CGPA_Mode"

text \<open>Lines 37-48 and 77-94: id, value, label and the grade badge of each top student.\<close>

definition top_students_view ::
  "calc_mode option \<Rightarrow> bool \<Rightarrow> ResultAnalysis \<Rightarrow> (string \<times> string \<times> string option) list" where
  "top_students_view mode useCumulativeData a =
     (case ra_cgpaAnalysis a of
        Some ca \<Rightarrow>
          (if should_use_cumulative mode useCumulativeData
           then map (\<lambda>(sid, cgpa). (sid, js_toFixed 2 cgpa, None)) (take 6 (toppersList ca))
           else map (\<lambda>(sid, sgpa, grade). (sid, js_toFixed 2 sgpa, if grade \<noteq> [] then Some grade else None))
                  (ra_topPerformers a))
      | None \<Rightarrow> map (\<lambda>(sid, sgpa, grade). (sid, js_toFixed 2 sgpa, if grade \<noteq> [] then Some grade else None))
                 (ra_topPerformers a))"

definition low_cgpa_students :: "CgpaAnalysis \<Rightarrow> (string \<times> jsnum) list" where
  "low_cgpa_students ca = take 6 (filter (\<lambda>s. js_lt (snd s) (Num (13 / 2))) (studentCGPAs ca))"

text \<open>
  Lines 108-140: the lines of the needs-improvement card. The cumulative branch prints
  \<open>student.value.toFixed(2)\<close>; without a CGPA block its entries are the analysis'
  \<open>needsImprovement\<close> objects, which have no \<open>value\<close>, and the first one throws.
\<close>

definition needs_improvement_view ::
  "calc_mode option \<Rightarrow> bool \<Rightarrow> ResultAnalysis \<Rightarrow> view_error + string list" where
  "needs_improvement_view mode useCumulativeData a =
     (if should_use_cumulative mode useCumulativeData then
        (case ra_cgpaAnalysis a of
           Some ca \<Rightarrow> Inr (map (\<lambda>(sid, cgpa). sid @ '' '' @ js_toFixed 2 cgpa @ '' CGPA'') (low_cgpa_students ca))
         | None \<Rightarrow>
             (if take 6 (ra_needsImprovement a) = [] then Inr []
              else Inl (UndefinedField ''value'')))
      else Inr (map (\<lambda>(sid, sgpa, subjects).
                       sid @ (if subjects \<noteq> [] then '' Arrears: '' @ subjects else [])
                       @ '' '' @ js_toFixed 2 sgpa @ '' SGPA'')
                  (take 6 (ra_needsImprovement a))))"

text \<open>
  \<^verbatim>\<open>AnalysisOverview.tsx\<close> lines 165-177: the grade table, a percentage with one decimal
  of the recognised grades.
\<close>

definition overview_grade_rows :: "ResultAnalysis \<Rightarrow> (string \<times> hval \<times> string) list" where
  "overview_grade_rows a =
     map (\<lambda>(name, count, fill).
            (name, count,
             (if 0 < ra_totalGrades a
              then (case count of HCount n \<Rightarrow> js_toFixed 1 (Num (of_nat n / of_nat (ra_totalGrades a) * 100))
                                 | HJunk \<Rightarrow> ''NaN'')
              else ''0.0'') @ ''%''))
       (ra_gradeDistribution a)"

text \<open>Lines 185-245: the summary metrics, CGPA ones when in CGPA mode with a CGPA block.\<close>

definition overview_summary :: "calc_mode option \<Rightarrow> ResultAnalysis \<Rightarrow> (string \<times> string) list" where
  "overview_summary mode a =
     (case ra_cgpaAnalysis a of
        Some ca \<Rightarrow>
          (if mode = Some CGPA_Mode
           then [(''Average CGPA'', js_toFixed 2 (ca_averageCGPA ca)),
                 (''Highest CGPA'', js_toFixed 2 (ca_highestCGPA ca)),
                 (''Lowest CGPA'', js_toFixed 2 (ca_lowestCGPA ca)),
                 (''Total Students'', nat_str (ra_totalStudents a))]
                @ map (\<lambda>(sid, cgpa). (sid, js_toFixed 2 cgpa)) (take 3 (toppersList ca))
           else [(''Average SGPA'', js_toFixed 2 (ra_averageCGPA a)),
                 (''Highest SGPA'', js_toFixed 2 (ra_highestSGPA a)),
                 (''Lowest SGPA'', js_toFixed 2 (ra_lowestSGPA a)),
                 (''Total Students'', nat_str (ra_totalStudents a))])
      | None \<Rightarrow>
          [(''Average SGPA'', js_toFixed 2 (ra_averageCGPA a)),
           (''Highest SGPA'', js_toFixed 2 (ra_highestSGPA a)),
           (''Lowest SGPA'', js_toFixed 2 (ra_lowestSGPA a)),
           (''Total Students'', nat_str (ra_totalStudents a))])"

text \<open>
  \<^verbatim>\<open>AnalysisOverview.tsx\<close> lines 33-70: the files card, shown with more than one file,
  listing the file names and, in CGPA mode with a CGPA block, the three CGPA figures.
\<close>

definition files_processed_card ::
  "calc_mode option \<Rightarrow> ResultAnalysis \<Rightarrow> (string list \<times> (string \<times> string) list) option" where
  "files_processed_card mode a =
     (if 1 < ra_fileCount a then
        Some (ra_filesProcessed a,
              (case (ra_cgpaAnalysis a, mode) of
                 (Some ca, Some CGPA_Mode) \<Rightarrow>
                   [(''Average CGPA'', js_toFixed 2 (ca_averageCGPA ca)),
                    (''Highest CGPA'', js_toFixed 2 (ca_highestCGPA ca)),
                    (''Lowest CGPA'', js_toFixed 2 (ca_lowestCGPA ca))]
               | _ \<Rightarrow> []))
      else None)"

text \<open>Lines 104-119 with analyzer.ts lines 312-315: the pass-rate table.\<close>

definition pass_rate_rows :: "ResultAnalysis \<Rightarrow> (string \<times> string) list" where
  "pass_rate_rows a =
     [(''Pass'', js_toFixed 1 (Num (fst (ra_passFailData a))) @ ''%''),
      (''Fail'', js_toFixed 1 (Num (snd (ra_passFailData a))) @ ''%'')]"

text \<open>Lines 27-250: the cards in order; the grade distribution is left out in CGPA mode.\<close>

definition analysis_overview ::
  "calc_mode option \<Rightarrow> ResultAnalysis
   \<Rightarrow> (string list \<times> (string \<times> string) list) option \<times> (string \<times> string) list
      \<times> (string \<times> hval \<times> string) list option \<times> (string \<times> string) list" where
  "analysis_overview mode a =
     (files_processed_card mode a, pass_rate_rows a,
      (if mode = Some CGPA_Mode then None else Some (overview_grade_rows a)),
      overview_summary mode a)"

text \<open>
  \<^verbatim>\<open>SubjectAnalysis.tsx\<close> lines 22-106: the title, the pass and fail bars of each subject,
  and one grade chart per entry of \<open>subjectGradeDistribution\<close> in \<open>Object.entries\<close> order.
\<close>

definition subject_analysis_view ::
  "string option \<Rightarrow> ResultAnalysis
   \<Rightarrow> string \<times> (string \<times> rat \<times> rat) list \<times> (string \<times> (string \<times> hval \<times> string option) list) list" where
  "subject_analysis_view title a =
     ((case title of Some t \<Rightarrow> if t \<noteq> [] then t else ''Subject Performance Analysis''
                   | None \<Rightarrow> ''Subject Performance Analysis''),
      map (\<lambda>(s, pass, fail, _). (s, pass, fail)) (ra_subjectPerformance a),
      js_entries (ra_subjectGradeDistribution a))"

section \<open>Lemmas\<close>

text \<open>
  The needs-improvement card of CGPA mode lists the best-ranked CGPAs below 6.5: a student
  below 6.5 left out of it has a CGPA no higher than every listed one.
\<close>

lemma low_cgpa_students_best_first:
  assumes "cgpa_analysis records groups csf = Some ca" "x \<in> set (low_cgpa_students ca)"
    "y \<in> set (studentCGPAs ca)" "js_lt (snd y) (Num (13 / 2))" "y \<notin> set (low_cgpa_students ca)"
  shows "num_val (snd y) \<le> num_val (snd x)"
proof -
  let ?k = "\<lambda>a. - num_val (snd a)"
  let ?low = "filter (\<lambda>s. js_lt (snd s) (Num (13 / 2))) (studentCGPAs ca)"
  have "sorted (map ?k (studentCGPAs ca))" using studentCGPAs_sorted [OF assms(1)] by blast
  then have "sorted (map ?k ?low)" by (simp add: sorted_filter)
  then have "sorted (map ?k (take 6 ?low) @ map ?k (drop 6 ?low))"
    by (metis append_take_drop_id map_append)
  moreover have "x \<in> set (take 6 ?low)" using assms(2) by (simp add: low_cgpa_students_def)
  moreover have "y \<in> set (drop 6 ?low)"
  proof -
    have "y \<in> set ?low" using assms(3,4) by simp
    then have "y \<in> set (take 6 ?low) \<union> set (drop 6 ?low)"
      by (metis append_take_drop_id set_append)
    moreover have "y \<notin> set (take 6 ?low)" using assms(5) by (simp add: low_cgpa_students_def)
    ultimately show ?thesis by blast
  qed
  ultimately show ?thesis by (auto simp: sorted_append)
qed

lemma analyzeResults_one_file_no_cgpa:
  "length (filesProcessed (filter_assigned rs asg)) \<le> 1 \<Longrightarrow> ra_cgpaAnalysis (analyzeResults c rs asg) = None"
  by (simp add: analyzeResults_def Let_def cgpa_analysis_def fileGroups_def)

text \<open>
  ResultsDisplay.tsx (line 119) renders the rank table without
  \<open>useCumulativeData\<close>, so in both modes it is the SGPA table: the CGPA rank branch is dead.
\<close>

lemma results_rank_table_sgpa:
  "fst (sgpa_table_view mode False a) = ''Student SGPA Rank Analysis''
   \<and> fst (snd (snd (sgpa_table_view mode False a))) = ''SGPA''"
  by (simp add: sgpa_table_view_def sgpa_rank_view_def split: option.split prod.split)

text \<open>A cumulative table without a CGPA block shows SGPA values under a \<open>CGPA\<close> header.\<close>

lemma cumulative_table_mislabelled:
  "ra_cgpaAnalysis a = None \<Longrightarrow>
     sgpa_table_view (Some CGPA_Mode) True a
       = (''Student SGPA Rank Analysis'', ''Top 3 students by Semester Grade Point Average (Current Semester)'',
          ''CGPA'', map (\<lambda>(rank, sid, value, _). (rank, rank_badge rank, sid, js_toFixed 2 value)) (sgpa_top3 a))"
  by (simp add: sgpa_table_view_def sgpa_rank_view_def)

section \<open>Properties of the views\<close>

text \<open>
  C8: in CGPA mode with a single processed file there is no CGPA block, so the
  needs-improvement card of \<open>StudentPerformance\<close> renders the analysis' own
  \<open>needsImprovement\<close> entries through the cumulative branch and reads \<open>student.value\<close>,
  which they do not have: as soon as one student needs improvement, rendering throws.
\<close>

theorem needs_improvement_view_crash:
  assumes "length (filesProcessed (filter_assigned rs asg)) \<le> 1"
    "ra_needsImprovement (analyzeResults c rs asg) \<noteq> []"
  shows "needs_improvement_view (Some CGPA_Mode) False (analyzeResults c rs asg) = Inl (UndefinedField ''value'')"
  using analyzeResults_one_file_no_cgpa [OF assms(1)] assms(2)
  by (simp add: needs_improvement_view_def should_use_cumulative_def)

theorem needs_improvement_view_crash_witness:
  "needs_improvement_view (Some CGPA_Mode) False
     (analyzeResults (\<lambda>x y. 0) [row ''S'' ''A'' ''U'' 3 ''s.xlsx'' ''1'' False] None)
   = Inl (UndefinedField ''value'')"
proof -
  have h1: "length (filesProcessed (filter_assigned [row ''S'' ''A'' ''U'' 3 ''s.xlsx'' ''1'' False] None)) \<le> 1"
    by (simp add: filesProcessed_def filter_assigned_def js_unique_def file_key_def)
  have h2: "ra_needsImprovement (analyzeResults (\<lambda>x y. 0) [row ''S'' ''A'' ''U'' 3 ''s.xlsx'' ''1'' False] None) \<noteq> []"
    by code_simp
  show ?thesis by (rule needs_improvement_view_crash [OF h1 h2])
qed

end
