(* ===== verification/Auth.thy ===== *)
theory Auth
  imports Prelude
begin

text \<open>
  The account pages: \<^verbatim>\<open>src/src/pages/Signup.tsx\<close>, \<^verbatim>\<open>src/src/pages/Login.tsx\<close> and the
  profile dialog of \<^verbatim>\<open>src/src/components/ui/ProfileDialog.tsx\<close> (opened by
  \<^verbatim>\<open>ProfileButton.tsx\<close>). The accounts live in the browser's \<open>localStorage\<close>: the key
  \<open>registeredUsers\<close> holds the JSON list of accounts (\<open>None\<close> while the key is absent) and
  \<open>currentUser\<close> the email of the logged-in account. A signup page reads the list once,
  when it mounts, into its state \<open>existingUsers\<close>, checks a submission against that
  snapshot and writes back the snapshot extended by the new account.

  The zod schemas are modelled by their conditions. \<open>z.string().email()\<close> is the library's
  regular expression and is a parameter \<open>valid_email\<close> of the model; string lengths are
  counted in characters (JavaScript counts UTF-16 code units, which agree on the
  characters of a form field that matter here). The browser is a set of signup pages
  (tabs), the login page and the dashboard's profile dialog sharing one store; each event is
  one handler run to its end (the submit button is disabled while \<open>isLoading\<close>, so a page
  never runs two submissions at once). Toasts, timers, navigation and the password
  visibility toggles change no modelled state.
\<close>

section \<open>Definitions\<close>

subsection \<open>Accounts and the signup schema\<close>

text \<open>Signup.tsx lines 170-178: the account object stored for a successful signup.\<close>

record StoredUser =
  su_name :: string
  su_email :: string
  su_staffId :: string
  su_phoneNumber :: string
  su_department :: string
  su_designation :: string
  su_password :: string

text \<open>Lines 29-57 and 97-111: the values of the signup form.\<close>

record SignupFormValues =
  sv_name :: string
  sv_email :: string
  sv_staffId :: string
  sv_phoneNumber :: string
  sv_department :: string
  sv_designation :: string
  sv_password :: string
  sv_confirmPassword :: string
  sv_robotCheck :: bool

text \<open>The character classes of the regular expressions \<open>[A-Z]\<close>, \<open>[a-z]\<close> and \<open>[0-9]\<close>.\<close>

definition is_upper :: "char \<Rightarrow> bool" where
  "is_upper c \<longleftrightarrow> (65::nat) \<le> of_char c \<and> of_char c \<le> (90::nat)"

definition is_lower :: "char \<Rightarrow> bool" where
  "is_lower c \<longleftrightarrow> (97::nat) \<le> of_char c \<and> of_char c \<le> (122::nat)"

definition is_digit :: "char \<Rightarrow> bool" where
  "is_digit c \<longleftrightarrow> (48::nat) \<le> of_char c \<and> of_char c \<le> (57::nat)"

text \<open>Lines 80-84: the live password checks of the page.\<close>

definition hasMinLength :: "string \<Rightarrow> bool" where
  "hasMinLength pw \<longleftrightarrow> 8 \<le> length pw"

definition hasUpperCase :: "string \<Rightarrow> bool" where
  "hasUpperCase pw = list_ex is_upper pw"

definition hasLowerCase :: "string \<Rightarrow> bool" where
  "hasLowerCase pw = list_ex is_lower pw"

definition hasNumber :: "string \<Rightarrow> bool" where
  "hasNumber pw = list_ex is_digit pw"

definition hasSpecialChar :: "string \<Rightarrow> bool" where
  "hasSpecialChar pw = list_ex (\<lambda>c. \<not> is_upper c \<and> \<not> is_lower c \<and> \<not> is_digit c) pw"

text \<open>Lines 36-48: the schema's password field, \<open>min(8)\<close> and four \<open>refine\<close> tests.\<close>

definition password_ok :: "string \<Rightarrow> bool" where
  "password_ok pw \<longleftrightarrow>
     8 \<le> length pw \<and> list_ex is_upper pw \<and> list_ex is_lower pw \<and> list_ex is_digit pw
     \<and> list_ex (\<lambda>c. \<not> is_upper c \<and> \<not> is_lower c \<and> \<not> is_digit c) pw"

text \<open>Lines 29-57: \<open>signupSchema\<close> accepts the form values.\<close>

definition signup_schema_ok :: "(string \<Rightarrow> bool) \<Rightarrow> SignupFormValues \<Rightarrow> bool" where
  "signup_schema_ok valid_email v \<longleftrightarrow>
     2 \<le> length (sv_name v) \<and> valid_email (sv_email v) \<and> sv_staffId v \<noteq> []
     \<and> 10 \<le> length (sv_phoneNumber v) \<and> sv_department v \<noteq> [] \<and> sv_designation v \<noteq> []
     \<and> password_ok (sv_password v) \<and> sv_robotCheck v \<and> sv_confirmPassword v = sv_password v"

text \<open>The account fields the schema constrains, as a property of a stored account.\<close>

definition user_wf :: "(string \<Rightarrow> bool) \<Rightarrow> StoredUser \<Rightarrow> bool" where
  "user_wf valid_email u \<longleftrightarrow>
     2 \<le> length (su_name u) \<and> valid_email (su_email u) \<and> su_staffId u \<noteq> []
     \<and> 10 \<le> length (su_phoneNumber u) \<and> su_department u \<noteq> [] \<and> su_designation u \<noteq> []
     \<and> password_ok (su_password u)"

text \<open>Lines 375-424: the strength indicators under the password field, label and tick.\<close>

definition password_checklist :: "string \<Rightarrow> (string \<times> bool) list" where
  "password_checklist pw =
     [(''At least 8 characters'', hasMinLength pw),
      (''At least one uppercase letter'', hasUpperCase pw),
      (''At least one lowercase letter'', hasLowerCase pw),
      (''At least one number'', hasNumber pw),
      (''At least one special character'', hasSpecialChar pw)]"

subsection \<open>The store and the signup page\<close>

record AuthStore =
  registeredUsers :: "StoredUser list option"
  currentUser :: "string option"

record SignupPage =
  existingUsers :: "StoredUser list"
  sp_password :: string
  showRobotCheck :: bool

text \<open>
  Lines 60-67 and 87-95: the page's initial state and its mount effect, which loads the
  stored list or, when the key is absent, stores an empty one.
\<close>

definition signup_mount :: "AuthStore \<Rightarrow> AuthStore \<times> SignupPage" where
  "signup_mount st =
     (case registeredUsers st of
        Some us \<Rightarrow> (st, \<lparr>existingUsers = us, sp_password = [], showRobotCheck = False\<rparr>)
      | None \<Rightarrow> (st\<lparr>registeredUsers := Some []\<rparr>,
                 \<lparr>existingUsers = [], sp_password = [], showRobotCheck = False\<rparr>))"

text \<open>Lines 113-117: typing a password updates the state the indicators read.\<close>

definition handlePasswordChange :: "SignupPage \<Rightarrow> string \<Rightarrow> SignupPage" where
  "handlePasswordChange p pw = p\<lparr>sp_password := pw\<rparr>"

datatype signup_outcome =
  FormRejected | EmailInUse | StaffIdInUse | PhoneInUse | RobotCheckRequired | AccountCreated

definition new_user :: "SignupFormValues \<Rightarrow> StoredUser" where
  "new_user v =
     \<lparr>su_name = sv_name v, su_email = sv_email v, su_staffId = sv_staffId v,
      su_phoneNumber = sv_phoneNumber v, su_department = sv_department v,
      su_designation = sv_designation v, su_password = sv_password v\<rparr>"

text \<open>
  Lines 119-203, \<open>onSubmit\<close>: the three uniqueness checks against the snapshot, the robot
  check, and the write of \<open>[...existingUsers, newUser]\<close>. The snapshot itself is not
  refreshed.
\<close>

definition onSubmit ::
  "SignupPage \<Rightarrow> SignupFormValues \<Rightarrow> AuthStore \<Rightarrow> signup_outcome \<times> SignupPage \<times> AuthStore" where
  "onSubmit p v st =
     (if list_ex (\<lambda>u. su_email u = sv_email v) (existingUsers p) then (EmailInUse, p, st)
      else if list_ex (\<lambda>u. su_staffId u = sv_staffId v) (existingUsers p) then (StaffIdInUse, p, st)
      else if list_ex (\<lambda>u. su_phoneNumber u = sv_phoneNumber v) (existingUsers p) then (PhoneInUse, p, st)
      else if \<not> sv_robotCheck v then (RobotCheckRequired, p\<lparr>showRobotCheck := True\<rparr>, st)
      else (AccountCreated, p, st\<lparr>registeredUsers := Some (existingUsers p @ [new_user v])\<rparr>))"

text \<open>\<open>form.handleSubmit(onSubmit)\<close>: the resolver runs the schema first.\<close>

definition signup_submit ::
  "(string \<Rightarrow> bool) \<Rightarrow> SignupPage \<Rightarrow> SignupFormValues \<Rightarrow> AuthStore \<Rightarrow> signup_outcome \<times> SignupPage \<times> AuthStore" where
  "signup_submit valid_email p v st =
     (if signup_schema_ok valid_email v then onSubmit p v st else (FormRejected, p, st))"

text \<open>Lines 498-520: the robot dialog's button ticks the box, closes the dialog and submits.\<close>

definition robot_confirm ::
  "(string \<Rightarrow> bool) \<Rightarrow> SignupPage \<Rightarrow> SignupFormValues \<Rightarrow> AuthStore \<Rightarrow> signup_outcome \<times> SignupPage \<times> AuthStore" where
  "robot_confirm valid_email p v st =
     signup_submit valid_email (p\<lparr>showRobotCheck := False\<rparr>) (v\<lparr>sv_robotCheck := True\<rparr>) st"

subsection \<open>Login, profile and logout\<close>

record LoginFormValues =
  lv_email :: string
  lv_password :: string

text \<open>Login.tsx lines 21-24: \<open>loginSchema\<close>.\<close>

definition login_schema_ok :: "(string \<Rightarrow> bool) \<Rightarrow> LoginFormValues \<Rightarrow> bool" where
  "login_schema_ok valid_email v \<longleftrightarrow> valid_email (lv_email v) \<and> 8 \<le> length (lv_password v)"

definition stored_users :: "AuthStore \<Rightarrow> StoredUser list" where
  "stored_users st = (case registeredUsers st of Some us \<Rightarrow> us | None \<Rightarrow> [])"

datatype login_outcome = LoginRejected | LoggedIn string | LoginFailed

text \<open>
  Lines 49-88, \<open>handleLogin\<close>: the first account with both the email and the password;
  on success the email becomes \<open>currentUser\<close> and the toast greets the account's name.
\<close>

definition handleLogin :: "AuthStore \<Rightarrow> LoginFormValues \<Rightarrow> login_outcome \<times> AuthStore" where
  "handleLogin st v =
     (case find (\<lambda>u. su_email u = lv_email v \<and> su_password u = lv_password v) (stored_users st) of
        Some u \<Rightarrow> (LoggedIn (su_name u), st\<lparr>currentUser := Some (lv_email v)\<rparr>)
      | None \<Rightarrow> (LoginFailed, st))"

definition login_submit :: "(string \<Rightarrow> bool) \<Rightarrow> AuthStore \<Rightarrow> LoginFormValues \<Rightarrow> login_outcome \<times> AuthStore" where
  "login_submit valid_email st v =
     (if login_schema_ok valid_email v then handleLogin st v else (LoginRejected, st))"

text \<open>
  ProfileDialog.tsx lines 33-48: when the dialog opens, the account of \<open>currentUser\<close>
  (the first one with that email); when there is none, \<open>userData\<close> keeps its old value.
\<close>

definition profile_lookup :: "AuthStore \<Rightarrow> StoredUser option" where
  "profile_lookup st =
     (case currentUser st of
        Some e \<Rightarrow> (if e = [] then None else find (\<lambda>u. su_email u = e) (stored_users st))
      | None \<Rightarrow> None)"

definition profile_effect :: "AuthStore \<Rightarrow> StoredUser option \<Rightarrow> StoredUser option" where
  "profile_effect st userData = (case profile_lookup st of Some u \<Rightarrow> Some u | None \<Rightarrow> userData)"

text \<open>Lines 56-116: nothing without \<open>userData\<close>, else the labelled fields.\<close>

definition profile_view :: "StoredUser option \<Rightarrow> (string \<times> string) list option" where
  "profile_view userData =
     (case userData of
        None \<Rightarrow> None
      | Some u \<Rightarrow> Some [(''Name:'', su_name u), (''Email:'', su_email u), (''Staff ID:'', su_staffId u),
                       (''Department:'', su_department u), (''Designation:'', su_designation u),
                       (''College:'', ''K. S. Rangasamy College of Technology'')])"

text \<open>Lines 50-54: logging out removes \<open>currentUser\<close>.\<close>

definition handleLogout :: "AuthStore \<Rightarrow> AuthStore" where
  "handleLogout st = st\<lparr>currentUser := None\<rparr>"

subsection \<open>The browser as a state machine\<close>

record AuthSystem =
  auth_store :: AuthStore
  auth_pages :: "SignupPage list"
  auth_profile :: "StoredUser option"

datatype auth_event =
    OpenSignup
  | PasswordInput nat string
  | SubmitSignup nat SignupFormValues
  | ConfirmRobot nat SignupFormValues
  | SubmitLogin LoginFormValues
  | OpenProfile
  | Logout

definition initial_auth :: AuthSystem where
  "initial_auth = \<lparr>auth_store = \<lparr>registeredUsers = None, currentUser = None\<rparr>, auth_pages = [],
                   auth_profile = None\<rparr>"

definition page_submit ::
  "(SignupPage \<Rightarrow> SignupFormValues \<Rightarrow> AuthStore \<Rightarrow> signup_outcome \<times> SignupPage \<times> AuthStore)
   \<Rightarrow> nat \<Rightarrow> SignupFormValues \<Rightarrow> AuthSystem \<Rightarrow> AuthSystem" where
  "page_submit f i v s =
     (if i < length (auth_pages s) then
        (case f (auth_pages s ! i) v (auth_store s) of
           (_, p', st') \<Rightarrow> s\<lparr>auth_store := st', auth_pages := (auth_pages s)[i := p']\<rparr>)
      else s)"

fun auth_step :: "(string \<Rightarrow> bool) \<Rightarrow> auth_event \<Rightarrow> AuthSystem \<Rightarrow> AuthSystem" where
  "auth_step ve OpenSignup s =
     (case signup_mount (auth_store s) of
        (st', p) \<Rightarrow> s\<lparr>auth_store := st', auth_pages := auth_pages s @ [p]\<rparr>)"
| "auth_step ve (PasswordInput i pw) s =
     (if i < length (auth_pages s)
      then s\<lparr>auth_pages := (auth_pages s)[i := handlePasswordChange (auth_pages s ! i) pw]\<rparr> else s)"
| "auth_step ve (SubmitSignup i v) s = page_submit (signup_submit ve) i v s"
| "auth_step ve (ConfirmRobot i v) s =
     (if i < length (auth_pages s) \<and> showRobotCheck (auth_pages s ! i)
      then page_submit (robot_confirm ve) i v s else s)"
| "auth_step ve (SubmitLogin v) s = s\<lparr>auth_store := snd (login_submit ve (auth_store s) v)\<rparr>"
| "auth_step ve OpenProfile s = s\<lparr>auth_profile := profile_effect (auth_store s) (auth_profile s)\<rparr>"
| "auth_step ve Logout s = s\<lparr>auth_store := handleLogout (auth_store s), auth_profile := None\<rparr>"

inductive auth_reachable :: "(string \<Rightarrow> bool) \<Rightarrow> AuthSystem \<Rightarrow> bool" for ve where
  start: "auth_reachable ve initial_auth"
| step: "auth_reachable ve s \<Longrightarrow> auth_reachable ve (auth_step ve e s)"

definition auth_run :: "(string \<Rightarrow> bool) \<Rightarrow> auth_event list \<Rightarrow> AuthSystem \<Rightarrow> AuthSystem" where
  "auth_run ve es s = foldl (\<lambda>s e. auth_step ve e s) s es"

text \<open>
  The invariant: every account list the system holds (the store and each page's
  snapshot) has pairwise distinct emails, staff ids and phone numbers and accounts that
  satisfy the schema, and no robot dialog is open.
\<close>

definition users_wf :: "(string \<Rightarrow> bool) \<Rightarrow> StoredUser list \<Rightarrow> bool" where
  "users_wf ve us \<longleftrightarrow>
     distinct (map su_email us) \<and> distinct (map su_staffId us) \<and> distinct (map su_phoneNumber us)
     \<and> list_all (user_wf ve) us"

definition auth_inv :: "(string \<Rightarrow> bool) \<Rightarrow> AuthSystem \<Rightarrow> bool" where
  "auth_inv ve s \<longleftrightarrow>
     users_wf ve (stored_users (auth_store s))
     \<and> list_all (\<lambda>p. users_wf ve (existingUsers p) \<and> \<not> showRobotCheck p) (auth_pages s)"

subsection \<open>Two sign-up forms\<close>

text \<open>Concrete form values used by the examples below.\<close>

definition alice_form :: SignupFormValues where
  "alice_form = \<lparr>sv_name = ''Alice'', sv_email = ''alice@ksrct.ac.in'', sv_staffId = ''ST101'',
     sv_phoneNumber = ''9876543210'', sv_department = ''CSE'', sv_designation = ''AP'',
     sv_password = ''Secret#1x'', sv_confirmPassword = ''Secret#1x'', sv_robotCheck = True\<rparr>"

definition bob_form :: SignupFormValues where
  "bob_form = \<lparr>sv_name = ''Bob'', sv_email = ''bob@ksrct.ac.in'', sv_staffId = ''ST102'',
     sv_phoneNumber = ''9876543211'', sv_department = ''ECE'', sv_designation = ''AP'',
     sv_password = ''Secret#2y'', sv_confirmPassword = ''Secret#2y'', sv_robotCheck = True\<rparr>"

section \<open>Lemmas\<close>

lemma new_user_wf: "signup_schema_ok ve v \<Longrightarrow> user_wf ve (new_user v)"
  by (simp add: signup_schema_ok_def user_wf_def new_user_def)

lemma users_wf_snoc:
  assumes "users_wf ve us" "user_wf ve u"
    "\<not> list_ex (\<lambda>x. su_email x = su_email u) us" "\<not> list_ex (\<lambda>x. su_staffId x = su_staffId u) us"
    "\<not> list_ex (\<lambda>x. su_phoneNumber x = su_phoneNumber u) us"
  shows "users_wf ve (us @ [u])"
  using assms by (auto simp: users_wf_def list_ex_iff)

text \<open>What a submission from a page does to the store and to the page.\<close>

lemma signup_submit_cases:
  assumes "signup_submit ve p v st = (r, p', st')"
  shows "(r = AccountCreated \<and> p' = p \<and> signup_schema_ok ve v
          \<and> \<not> list_ex (\<lambda>u. su_email u = sv_email v) (existingUsers p)
          \<and> \<not> list_ex (\<lambda>u. su_staffId u = sv_staffId v) (existingUsers p)
          \<and> \<not> list_ex (\<lambda>u. su_phoneNumber u = sv_phoneNumber v) (existingUsers p)
          \<and> st' = st\<lparr>registeredUsers := Some (existingUsers p @ [new_user v])\<rparr>)
       \<or> (r \<noteq> AccountCreated \<and> p' = p \<and> st' = st)"
  using assms
  by (auto simp: signup_submit_def onSubmit_def signup_schema_ok_def split: if_splits)

lemma signup_submit_inv:
  assumes "signup_submit ve p v st = (r, p', st')" "users_wf ve (stored_users st)"
    "users_wf ve (existingUsers p)"
  shows "users_wf ve (stored_users st') \<and> p' = p"
  using signup_submit_cases [OF assms(1)] users_wf_snoc [OF assms(3) new_user_wf, of v] assms(2)
  by (auto simp: stored_users_def new_user_def)

lemma page_submit_signup_inv:
  "auth_inv ve s \<Longrightarrow> auth_inv ve (page_submit (signup_submit ve) i v s)"
  by (auto simp: page_submit_def auth_inv_def list_all_length nth_list_update
           dest!: signup_submit_inv split: prod.splits)

lemma signup_mount_inv:
  "users_wf ve (stored_users st) \<Longrightarrow> signup_mount st = (st', p)
   \<Longrightarrow> users_wf ve (stored_users st') \<and> users_wf ve (existingUsers p) \<and> \<not> showRobotCheck p"
  by (auto simp: signup_mount_def stored_users_def users_wf_def split: option.splits)

lemma login_submit_store:
  "stored_users (snd (login_submit ve st v)) = stored_users st"
  by (simp add: login_submit_def handleLogin_def stored_users_def split: option.split)

lemma auth_step_inv: "auth_inv ve s \<Longrightarrow> auth_inv ve (auth_step ve e s)"
proof (cases e)
  case OpenSignup
  moreover assume "auth_inv ve s"
  ultimately show ?thesis
    by (auto simp: auth_inv_def dest: signup_mount_inv split: prod.split)
next
  case (PasswordInput i pw)
  moreover assume "auth_inv ve s"
  ultimately show ?thesis
    by (auto simp: auth_inv_def list_all_length nth_list_update handlePasswordChange_def)
next
  case (ConfirmRobot i v)
  moreover assume "auth_inv ve s"
  ultimately show ?thesis by (auto simp: auth_inv_def list_all_length)
next
  case (SubmitSignup i v)
  moreover assume "auth_inv ve s"
  ultimately show ?thesis by (simp add: page_submit_signup_inv)
next
  case (SubmitLogin v)
  moreover assume "auth_inv ve s"
  ultimately show ?thesis by (simp add: auth_inv_def login_submit_store)
qed (simp_all add: auth_inv_def handleLogout_def stored_users_def)

lemma auth_reachable_inv: "auth_reachable ve s \<Longrightarrow> auth_inv ve s"
proof (induction rule: auth_reachable.induct)
  case start
  show ?case by (simp add: initial_auth_def auth_inv_def users_wf_def stored_users_def)
next
  case (step s e)
  then show ?case by (simp add: auth_step_inv)
qed

lemma find_unique_key:
  "distinct (map f xs) \<Longrightarrow> x \<in> set xs \<Longrightarrow> find (\<lambda>u. f u = f x) xs = Some x"
  by (induction xs) (auto simp: image_iff)

lemma auth_run_reachable: "auth_reachable ve s \<Longrightarrow> auth_reachable ve (auth_run ve es s)"
  by (induction es arbitrary: s) (auto simp: auth_run_def intro: auth_reachable.step)

section \<open>Properties of the account pages\<close>

text \<open>
  C9: however the signup tabs, logins and logouts interleave, the stored accounts have
  pairwise distinct emails, staff ids and phone numbers. A snapshot is always an earlier
  value of the store, and a write is a snapshot extended by an account that the checks
  found new in it.
\<close>

theorem accounts_unique:
  assumes "auth_reachable ve s" "registeredUsers (auth_store s) = Some us"
  shows "distinct (map su_email us) \<and> distinct (map su_staffId us) \<and> distinct (map su_phoneNumber us)"
  using auth_reachable_inv [OF assms(1)] assms(2)
  by (simp add: auth_inv_def users_wf_def stored_users_def)

theorem accounts_unique_witness:
  "distinct (map su_email [new_user alice_form, new_user bob_form])
   \<and> distinct (map su_staffId [new_user alice_form, new_user bob_form])
   \<and> distinct (map su_phoneNumber [new_user alice_form, new_user bob_form])"
proof -
  let ?ve = "\<lambda>e. CHR ''@'' \<in> set e"
  have r: "auth_reachable ?ve (auth_run ?ve [OpenSignup, SubmitSignup 0 alice_form, OpenSignup,
                                              SubmitSignup 1 bob_form] initial_auth)"
    by (rule auth_run_reachable [OF auth_reachable.start])
  have u: "registeredUsers (auth_store (auth_run ?ve [OpenSignup, SubmitSignup 0 alice_form, OpenSignup,
             SubmitSignup 1 bob_form] initial_auth)) = Some [new_user alice_form, new_user bob_form]"
    by code_simp
  show ?thesis by (rule accounts_unique [OF r u])
qed

text \<open>
  C29: every stored account has the shape the signup schema demands: a name of at least
  two characters, a valid email, a staff id, a phone number of at least ten characters, a
  department, a designation and a password with eight characters, an upper-case and a
  lower-case letter, a digit and a special character.
\<close>

theorem accounts_schema_typed:
  "auth_reachable ve s \<Longrightarrow> list_all (user_wf ve) (stored_users (auth_store s))"
  using auth_reachable_inv by (simp add: auth_inv_def users_wf_def)

theorem accounts_schema_typed_witness:
  "list_all (user_wf (\<lambda>e. CHR ''@'' \<in> set e))
     (stored_users (auth_store (auth_run (\<lambda>e. CHR ''@'' \<in> set e) [OpenSignup, SubmitSignup 0 alice_form]
                                  initial_auth)))"
  by (rule accounts_schema_typed [OF auth_run_reachable [OF auth_reachable.start]])

text \<open>
  C36: after a successful login from any reachable state, the profile dialog shows the
  account whose email and password were entered, with the name the welcome toast used.
  The dialog looks the account up by email alone, so this rests on the uniqueness of C9.
  The regular expression of \<open>z.string().email()\<close> rejects the empty string.
\<close>

theorem login_profile_consistent:
  assumes "auth_reachable ve s" "\<not> ve []"
    "login_submit ve (auth_store s) v = (LoggedIn n, st')"
  shows "\<exists>u. profile_lookup st' = Some u \<and> su_email u = lv_email v \<and> su_password u = lv_password v
             \<and> su_name u = n"
proof -
  have ok: "login_schema_ok ve v" and
    h: "handleLogin (auth_store s) v = (LoggedIn n, st')"
    using assms(3) by (auto simp: login_submit_def split: if_splits)
  obtain u where f: "find (\<lambda>u. su_email u = lv_email v \<and> su_password u = lv_password v)
                        (stored_users (auth_store s)) = Some u"
    using h by (auto simp: handleLogin_def split: option.splits)
  then have u: "u \<in> set (stored_users (auth_store s))" "su_email u = lv_email v"
    "su_password u = lv_password v"
    by (auto simp: find_Some_iff nth_mem)
  have n: "n = su_name u" and st': "st' = (auth_store s)\<lparr>currentUser := Some (lv_email v)\<rparr>"
    using h f by (auto simp: handleLogin_def)
  have "distinct (map su_email (stored_users (auth_store s)))"
    using auth_reachable_inv [OF assms(1)] by (simp add: auth_inv_def users_wf_def)
  then have "find (\<lambda>x. su_email x = su_email u) (stored_users (auth_store s)) = Some u"
    using u(1) by (rule find_unique_key)
  moreover have "lv_email v \<noteq> []" using ok assms(2) by (auto simp: login_schema_ok_def)
  ultimately have "profile_lookup st' = Some u"
    using u(2) st' by (simp add: profile_lookup_def stored_users_def)
  with u n show ?thesis by blast
qed

theorem login_profile_consistent_witness:
  "\<exists>u. profile_lookup (snd (login_submit (\<lambda>e. CHR ''@'' \<in> set e)
          (auth_store (auth_run (\<lambda>e. CHR ''@'' \<in> set e) [OpenSignup, SubmitSignup 0 alice_form, OpenSignup,
                       SubmitSignup 1 bob_form] initial_auth))
          \<lparr>lv_email = ''bob@ksrct.ac.in'', lv_password = ''Secret#2y''\<rparr>)) = Some u
       \<and> su_email u = ''bob@ksrct.ac.in'' \<and> su_password u = ''Secret#2y'' \<and> su_name u = ''Bob''"
proof -
  let ?ve = "\<lambda>e. CHR ''@'' \<in> set e"
  let ?s = "auth_run ?ve [OpenSignup, SubmitSignup 0 alice_form, OpenSignup, SubmitSignup 1 bob_form]
              initial_auth"
  let ?v = "\<lparr>lv_email = ''bob@ksrct.ac.in'', lv_password = ''Secret#2y''\<rparr>"
  have r: "auth_reachable ?ve ?s" by (rule auth_run_reachable [OF auth_reachable.start])
  have e: "\<not> ?ve []" by simp
  have l: "login_submit ?ve (auth_store ?s) ?v = (LoggedIn ''Bob'', snd (login_submit ?ve (auth_store ?s) ?v))"
    by code_simp
  show ?thesis using login_profile_consistent [OF r e l] by simp
qed

text \<open>
  C31: a successful signup writes the page's snapshot extended by the new account, so
  every account created since the page mounted (in another tab, or by an earlier submission
  of the same page before it navigates away) is erased from the store. Two tabs opened
  before either signs up lose the first account.
\<close>

theorem signup_drops_newer_accounts:
  assumes "signup_submit ve p v st = (AccountCreated, p', st')"
    "u \<in> set (stored_users st)" "u \<notin> set (existingUsers p)" "u \<noteq> new_user v"
  shows "u \<notin> set (stored_users st')"
  using signup_submit_cases [OF assms(1)] assms(3,4) by (auto simp: stored_users_def)

theorem signup_drops_newer_accounts_witness:
  "new_user alice_form \<notin> set (stored_users (snd (snd (signup_submit (\<lambda>e. CHR ''@'' \<in> set e)
      (auth_pages (auth_run (\<lambda>e. CHR ''@'' \<in> set e) [OpenSignup, OpenSignup, SubmitSignup 0 alice_form]
                    initial_auth) ! 1) bob_form
      (auth_store (auth_run (\<lambda>e. CHR ''@'' \<in> set e) [OpenSignup, OpenSignup, SubmitSignup 0 alice_form]
                    initial_auth))))))"
proof -
  let ?ve = "\<lambda>e. CHR ''@'' \<in> set e"
  let ?s = "auth_run ?ve [OpenSignup, OpenSignup, SubmitSignup 0 alice_form] initial_auth"
  let ?r = "signup_submit ?ve (auth_pages ?s ! 1) bob_form (auth_store ?s)"
  have c: "?r = (AccountCreated, fst (snd ?r), snd (snd ?r))" by code_simp
  have a: "new_user alice_form \<in> set (stored_users (auth_store ?s))" by code_simp
  have b: "new_user alice_form \<notin> set (existingUsers (auth_pages ?s ! 1))" by code_simp
  have d: "new_user alice_form \<noteq> new_user bob_form" by (simp add: new_user_def alice_form_def bob_form_def)
  show ?thesis by (rule signup_drops_newer_accounts [OF c a b d])
qed

text \<open>
  The robot-verification dialog never opens. The schema already refuses a form whose
  box is not ticked, so \<open>onSubmit\<close>'s robot branch (lines 157-161) and the dialog of lines
  498-520 are unreachable.
\<close>

theorem robot_dialog_never_opens:
  "auth_reachable ve s \<Longrightarrow> list_all (\<lambda>p. \<not> showRobotCheck p) (auth_pages s)"
  using auth_reachable_inv by (auto simp: auth_inv_def list_all_iff)

theorem robot_dialog_never_opens_witness:
  "list_all (\<lambda>p. \<not> showRobotCheck p)
     (auth_pages (auth_run (\<lambda>e. CHR ''@'' \<in> set e)
        [OpenSignup, SubmitSignup 0 (alice_form\<lparr>sv_robotCheck := False\<rparr>)] initial_auth))"
  by (rule robot_dialog_never_opens [OF auth_run_reachable [OF auth_reachable.start]])

end
