(* ===== verification/ExportIO.thy ===== *)
theory ExportIO
  imports Prelude "HOL-Library.Word"
begin

text \<open>
  The two loops at the output edge of the report generators. \<open>captureElementAsPdf\<close>
  (\<^verbatim>\<open>src/src/utils/excel/reportGenerators/pdfReportGenerator.ts\<close> lines 21-65) rasterises a
  page element and slices the image over A4 pages with a \<open>while\<close> loop on a JavaScript
  number; \<open>generateExcelData\<close> (\<^verbatim>\<open>excelReportGenerator.ts\<close> lines 231-242) copies the
  binary string of the workbook into a byte array. The DOM lookup and html2canvas are a
  parameter: the canvas size of an element id, \<open>None\<close> when there is no such element.

  The image height is \<open>canvas.height * 210 / canvas.width\<close>, which is \<open>Infinity\<close> for a
  zero-width canvas of positive height and \<open>NaN\<close> for an empty one, so the loop runs on
  \<open>xnum\<close>, a number that is finite, infinite or \<open>NaN\<close>. Because the loop need not end
  it is a \<open>partial_function (option)\<close>: \<open>None\<close> is a run that never returns. A string's
  code units are 16-bit words, the array's cells 8-bit words.
\<close>

unbundle bit_operations_syntax

section \<open>Definitions\<close>

subsection \<open>Paging the captured image\<close>

datatype xnum = Fin rat | PosInf | NegInf | XNaN

text \<open>IEEE subtraction on this subset: an infinity minus a finite number stays infinite, and
  the difference of two equal infinities is \<open>NaN\<close>.\<close>

fun xsub :: "xnum \<Rightarrow> xnum \<Rightarrow> xnum" where
  "xsub (Fin a) (Fin b) = Fin (a - b)"
| "xsub PosInf (Fin b) = PosInf"
| "xsub NegInf (Fin b) = NegInf"
| "xsub (Fin a) PosInf = NegInf"
| "xsub (Fin a) NegInf = PosInf"
| "xsub PosInf NegInf = PosInf"
| "xsub NegInf PosInf = NegInf"
| "xsub _ _ = XNaN"

fun xpos :: "xnum \<Rightarrow> bool" where
  "xpos (Fin a) = (0 < a)"
| "xpos PosInf = True"
| "xpos NegInf = False"
| "xpos XNaN = False"

text \<open>Lines 43-45: the image's height in millimetres at a width of 210.\<close>

definition img_height :: "nat \<Rightarrow> nat \<Rightarrow> xnum" where
  "img_height width height =
     (if width = 0 then (if height = 0 then XNaN else PosInf)
      else Fin (of_nat height * 210 / of_nat width))"

datatype pdf_op = AddImage xnum | AddPage | SavePdf string

datatype capture_error = ElementNotFound string

text \<open>Lines 52-57: one more page while some of the image is left.\<close>

partial_function (option) capture_loop :: "xnum \<Rightarrow> xnum \<Rightarrow> pdf_op list \<Rightarrow> pdf_op list option" where
  "capture_loop imgHeight heightLeft ops =
     (if xpos heightLeft
      then capture_loop imgHeight (xsub heightLeft (Fin 295)) (ops @ [AddPage, AddImage (xsub heightLeft imgHeight)])
      else Some ops)"

text \<open>
  Lines 21-65: a missing element throws; otherwise the first image at position 0, the
  loop, and the save.
\<close>

definition captureElementAsPdf ::
  "(string \<Rightarrow> (nat \<times> nat) option) \<Rightarrow> string \<Rightarrow> (capture_error + pdf_op list) option" where
  "captureElementAsPdf canvas_of elementId =
     (case canvas_of elementId of
        None \<Rightarrow> Some (Inl (ElementNotFound elementId))
      | Some (width, height) \<Rightarrow>
          (let imgHeight = img_height width height
           in map_option (\<lambda>ops. Inr (ops @ [SavePdf ''analysis-report.pdf'']))
                (capture_loop imgHeight (xsub imgHeight (Fin 295)) [AddImage (Fin 0)])))"

text \<open>The number of pages an image of a given height needs.\<close>

definition pages_needed :: "rat \<Rightarrow> nat" where
  "pages_needed h = max 1 (nat \<lceil>h / 295\<rceil>)"

subsection \<open>The workbook's bytes\<close>

text \<open>Lines 235-239: \<open>view[i] = wbout.charCodeAt(i) & 0xFF\<close>, stored into a \<open>Uint8Array\<close>.\<close>

definition code_unit_byte :: "16 word \<Rightarrow> 8 word" where
  "code_unit_byte c = ucast (c AND 0xFF)"


text \<open>A page with one element, the dashboard, of a given canvas size.\<close>

definition one_element :: "nat \<Rightarrow> nat \<Rightarrow> string \<Rightarrow> (nat \<times> nat) option" where
  "one_element w h = (\<lambda>i. if i = ''dashboard-content'' then Some (w, h) else None)"

section \<open>Lemmas\<close>

subsection \<open>Paging\<close>

lemma capture_loop_stop: "\<not> xpos h \<Longrightarrow> capture_loop ih h ops = Some ops"
  by (simp add: capture_loop.simps)

lemma capture_loop_more:
  "xpos h \<Longrightarrow> capture_loop ih h ops =
     capture_loop ih (xsub h (Fin 295)) (ops @ [AddPage, AddImage (xsub h ih)])"
  by (subst capture_loop.simps) simp

lemma ceiling_step: "0 < x \<Longrightarrow> nat \<lceil>(x - 295) / 295\<rceil> = nat \<lceil>x / (295::rat)\<rceil> - 1"
proof -
  have "(x - 295) / 295 = x / 295 - 1" by (simp add: field_simps)
  then have "\<lceil>(x - 295) / 295\<rceil> = \<lceil>x / (295::rat)\<rceil> - 1" by (simp only: ceiling_diff_one)
  moreover assume "0 < x"
  then have "1 \<le> \<lceil>x / (295::rat)\<rceil>" by (simp add: one_le_ceiling)
  ultimately show ?thesis by linarith
qed

lemma pages_needed_step: "0 \<le> x \<Longrightarrow> nat \<lceil>(x - 295) / 295\<rceil> + 1 = pages_needed x"
proof (cases "0 < x")
  case True
  have "0 < x / 295" using True by simp
  then have "1 \<le> \<lceil>x / (295::rat)\<rceil>" by (simp only: one_le_ceiling)
  then have b: "1 \<le> nat \<lceil>x / (295::rat)\<rceil>" by linarith
  have a: "nat \<lceil>(x - 295) / 295\<rceil> = nat \<lceil>x / (295::rat)\<rceil> - 1" by (rule ceiling_step [OF True])
  show ?thesis unfolding pages_needed_def max_absorb2 [OF b] using a b by arith
next
  case False
  moreover assume "0 \<le> x"
  ultimately have "x = 0" by linarith
  then show ?thesis by (simp add: pages_needed_def)
qed

text \<open>On a finite height the loop adds one page per started 295 mm, and returns.\<close>

lemma capture_loop_Fin:
  "nat \<lceil>x / 295\<rceil> = n \<Longrightarrow>
   \<exists>ops'. capture_loop ih (Fin x) ops = Some (ops @ ops') \<and> length (filter (\<lambda>q. q = AddPage) ops') = n"
proof (induction n arbitrary: x ops)
  case 0
  then have "x \<le> 0" by (simp add: ceiling_le_zero)
  then show ?case by (intro exI [of _ "[]"]) (simp add: capture_loop_stop)
next
  case (Suc n)
  then have x: "0 < x" by (cases "0 < x") (auto simp: ceiling_le_zero divide_le_0_iff not_less)
  then have "nat \<lceil>(x - 295) / 295\<rceil> = n" using Suc.prems ceiling_step by simp
  from Suc.IH [OF this, of "ops @ [AddPage, AddImage (xsub (Fin x) ih)]"]
  obtain ops' where
    "capture_loop ih (Fin (x - 295)) (ops @ [AddPage, AddImage (xsub (Fin x) ih)])
       = Some ((ops @ [AddPage, AddImage (xsub (Fin x) ih)]) @ ops')"
    "length (filter (\<lambda>q. q = AddPage) ops') = n" by blast
  then show ?case using x
    by (intro exI [of _ "[AddPage, AddImage (xsub (Fin x) ih)] @ ops'"]) (simp add: capture_loop_more)
qed



subsection \<open>Bytes\<close>

lemma mask8_eq: "(0xFF :: 16 word) = mask 8"
  by (simp add: mask_eq_exp_minus_1)


lemma unat_code_unit_byte: "unat (code_unit_byte c) = unat c mod 256"
proof -
  have "code_unit_byte c = ucast c"
    unfolding code_unit_byte_def mask8_eq by (rule bit_word_eqI) (auto simp: bit_simps)
  then show ?thesis by (simp add: unsigned_ucast_eq take_bit_eq_mod)
qed

section \<open>Properties of the output loops\<close>

text \<open>
  C14: for an element whose canvas has a positive width, \<open>captureElementAsPdf\<close> returns, and
  the PDF it saves has one page per started 295 mm of the scaled image (at least one): the
  \<open>while\<close> loop's remaining height decreases by 295 per round.
\<close>

theorem captureElementAsPdf_terminates:
  assumes "canvas_of elementId = Some (width, height)" "0 < width"
  shows "\<exists>ops. captureElementAsPdf canvas_of elementId = Some (Inr ops)
             \<and> length (filter (\<lambda>q. q = AddPage) ops) + 1 = pages_needed (of_nat height * 210 / of_nat width)"
proof -
  let ?h = "of_nat height * 210 / of_nat width :: rat"
  have h0: "0 \<le> ?h" by simp
  obtain ops' where l: "capture_loop (Fin ?h) (Fin (?h - 295)) [AddImage (Fin 0)] = Some ([AddImage (Fin 0)] @ ops')"
    and c: "length (filter (\<lambda>q. q = AddPage) ops') = nat \<lceil>(?h - 295) / 295\<rceil>"
    using capture_loop_Fin [OF refl] by blast
  have "nat \<lceil>(?h - 295) / 295\<rceil> + 1 = pages_needed ?h" using h0 by (rule pages_needed_step)
  then show ?thesis using assms l c
    by (simp add: captureElementAsPdf_def img_height_def)
qed

theorem captureElementAsPdf_terminates_witness:
  "\<exists>ops. captureElementAsPdf (one_element 1000 3000) ''dashboard-content'' = Some (Inr ops)
     \<and> length (filter (\<lambda>q. q = AddPage) ops) + 1 = pages_needed (of_nat 3000 * 210 / of_nat 1000)"
  by (rule captureElementAsPdf_terminates) (simp_all add: one_element_def)





end
