(* ===== verification/Responsive.thy ===== *)
theory Responsive
  imports Main
begin

text \<open>
  The viewport hooks of \<^verbatim>\<open>src/src/hooks/use-mobile.tsx\<close>, as functions of the window's
  inner width in CSS pixels: \<open>useIsMobile\<close>, \<open>useResponsiveValue\<close> and
  \<open>useBreakpointValue\<close>, which the signup and login pages use for the width of their
  form. A hook's state after its resize handler has run is the value of the function at
  the current width; the event listeners themselves are not modelled.
\<close>

section \<open>Definitions\<close>

text \<open>Lines 5-11: \<open>BREAKPOINTS\<close>.\<close>

definition bp_sm :: nat where "bp_sm = 640"
definition bp_md :: nat where "bp_md = 768"
definition bp_lg :: nat where "bp_lg = 1024"
definition bp_xl :: nat where "bp_xl = 1280"
definition bp_2xl :: nat where "bp_2xl = 1536"

text \<open>Lines 18-38 and 47-54.\<close>

definition useIsMobile :: "nat \<Rightarrow> nat \<Rightarrow> bool" where
  "useIsMobile breakpoint innerWidth \<longleftrightarrow> innerWidth < breakpoint"

definition useResponsiveValue :: "'a \<Rightarrow> 'a \<Rightarrow> nat \<Rightarrow> nat \<Rightarrow> 'a" where
  "useResponsiveValue desktopValue mobileValue breakpoint innerWidth =
     (if useIsMobile breakpoint innerWidth then mobileValue else desktopValue)"

text \<open>Lines 61-68: the values per breakpoint, each optional.\<close>

record 'a BreakpointValues =
  bv_base :: "'a option"
  bv_sm :: "'a option"
  bv_md :: "'a option"
  bv_lg :: "'a option"
  bv_xl :: "'a option"
  bv_2xl :: "'a option"

text \<open>Lines 73-90: the resize handler's cascade.\<close>

definition useBreakpointValue :: "'a BreakpointValues \<Rightarrow> nat \<Rightarrow> 'a option" where
  "useBreakpointValue values width =
     (if bp_2xl \<le> width \<and> bv_2xl values \<noteq> None then bv_2xl values
      else if bp_xl \<le> width \<and> bv_xl values \<noteq> None then bv_xl values
      else if bp_lg \<le> width \<and> bv_lg values \<noteq> None then bv_lg values
      else if bp_md \<le> width \<and> bv_md values \<noteq> None then bv_md values
      else if bp_sm \<le> width \<and> bv_sm values \<noteq> None then bv_sm values
      else bv_base values)"

text \<open>
  What the hook promises: the value of the largest breakpoint, among those given a value,
  that the width reaches, and the base value when there is none.
\<close>

definition breakpoint_spec :: "'a BreakpointValues \<Rightarrow> nat \<Rightarrow> 'a option" where
  "breakpoint_spec values width =
     (case find (\<lambda>(b, x). b \<le> width \<and> x \<noteq> None)
             [(bp_2xl, bv_2xl values), (bp_xl, bv_xl values), (bp_lg, bv_lg values),
              (bp_md, bv_md values), (bp_sm, bv_sm values)] of
        None \<Rightarrow> bv_base values
      | Some (_, x) \<Rightarrow> x)"

text \<open>Signup.tsx lines 72-76 and Login.tsx lines 35-39: the form width classes.\<close>

definition form_width_values :: "string BreakpointValues" where
  "form_width_values =
     \<lparr>bv_base = Some ''w-full'', bv_sm = Some ''max-w-md'', bv_md = Some ''max-w-lg'',
      bv_lg = None, bv_xl = None, bv_2xl = None\<rparr>"

section \<open>Lemmas\<close>

text \<open>The cascade implements its specification.\<close>

lemma useBreakpointValue_refines: "useBreakpointValue values width = breakpoint_spec values width"
  unfolding useBreakpointValue_def breakpoint_spec_def by (auto split: option.split)

text \<open>The breakpoints are increasing, so the cascade never skips a reachable larger one.\<close>

lemma breakpoints_increasing: "bp_sm < bp_md \<and> bp_md < bp_lg \<and> bp_lg < bp_xl \<and> bp_xl < bp_2xl"
  by (simp add: bp_sm_def bp_md_def bp_lg_def bp_xl_def bp_2xl_def)

text \<open>The form is full width below 640 pixels, \<open>max-w-md\<close> up to 767 and \<open>max-w-lg\<close> above.\<close>

lemma form_width_classes:
  "useBreakpointValue form_width_values w =
     Some (if w < 640 then ''w-full'' else if w < 768 then ''max-w-md'' else ''max-w-lg'')"
  by (simp add: useBreakpointValue_def form_width_values_def bp_sm_def bp_md_def bp_lg_def
                bp_xl_def bp_2xl_def)

lemma useResponsiveValue_md:
  "useResponsiveValue d m bp_md w = (if w < 768 then m else d)"
  by (simp add: useResponsiveValue_def useIsMobile_def bp_md_def)

end
