(* ===== verification/Navigation.thy ===== *)
theory Navigation
  imports Auth Dashboard Responsive
begin

text \<open>
  The application as one browser tab: the router's location, the page navigator of
  \<^verbatim>\<open>src/src/components/ui/PageNavigator.tsx\<close> that \<^verbatim>\<open>components/AppWrapper.tsx\<close> keeps
  mounted above every route, and the routed page with its own React state: the landing page
  (\<^verbatim>\<open>pages/Index.tsx\<close>), the login and signup pages (their store effects are \<open>Auth\<close>), the
  dashboard (\<open>Dashboard\<close>) with its profile button, and the not-found page
  (\<^verbatim>\<open>pages/NotFound.tsx\<close>). Each page renders to a view record; an event is one handler of
  the code: a link or menu click, the navigator's \<open>mousedown\<close> listener, a form submit, a
  visibility toggle, a page reload, or a \<open>setTimeout\<close> redirect firing. Navigating to a
  different route unmounts the page and mounts a fresh one; \<open>localStorage\<close> survives
  everything, the React state of the tab survives nothing but navigation.
\<close>

section \<open>Definitions\<close>

subsection \<open>Routes and the page navigator\<close>

datatype route_page = PIndex | PLogin | PSignup | PDashboard | PNotFound

text \<open>PageNavigator.tsx lines 12-17: the pages the navigator lists, as (name, path).\<close>

definition nav_pages :: "(string \<times> string) list" where
  "nav_pages = [(''Index'', ''/''), (''Login'', ''/login''), (''Signup'', ''/signup''),
                (''Dashboard'', ''/dashboard'')]"

text \<open>
  The route table of \<open>App.tsx\<close> is not part of the repository; the routes are the paths the
  navigator lists, every other path rendering the not-found page.
\<close>

definition route :: "string \<Rightarrow> route_page" where
  "route p = (if p = ''/'' then PIndex else if p = ''/login'' then PLogin
              else if p = ''/signup'' then PSignup else if p = ''/dashboard'' then PDashboard
              else PNotFound)"

text \<open>Line 10: the label of the navigator's button.\<close>

definition displayPath :: "string \<Rightarrow> string" where
  "displayPath currentPath = ''preview--result-analyzer-pro.lovable.app'' @ currentPath"

text \<open>
  Lines 37-71: the button label, the chevron (up when open), and, when open, one entry per
  page with its name, its path and the tick of the entry whose path is \<open>currentPath\<close>.
\<close>

definition navigator_view :: "string \<Rightarrow> bool \<Rightarrow> string \<times> bool \<times> (string \<times> string \<times> bool) list" where
  "navigator_view currentPath isOpen =
     (displayPath currentPath, isOpen,
      if isOpen then map (\<lambda>(name, path). (name, path, currentPath = path)) nav_pages else [])"

subsection \<open>The landing page\<close>

text \<open>Index.tsx lines 13-23: the responsive text sizes of the hero.\<close>

definition heroTitleSize_values :: "string BreakpointValues" where
  "heroTitleSize_values =
     \<lparr>bv_base = Some ''text-4xl'', bv_sm = Some ''text-6xl'', bv_md = Some ''text-7xl'',
      bv_lg = Some ''text-8xl'', bv_xl = None, bv_2xl = None\<rparr>"

definition heroParagraphSize_values :: "string BreakpointValues" where
  "heroParagraphSize_values =
     \<lparr>bv_base = Some ''text-lg'', bv_sm = None, bv_md = Some ''text-xl'',
      bv_lg = None, bv_xl = None, bv_2xl = None\<rparr>"

text \<open>Lines 47-68: the feature cards, title and description.\<close>

definition index_features :: "(string \<times> string) list" where
  "index_features =
     [(''Comprehensive Analytics'',
       ''Get detailed insights with grade distributions, pass percentages, and performance metrics.''),
      (''Excel Integration'',
       ''Seamlessly upload and analyze Excel spreadsheets with automatic data processing.''),
      (''Performance Tracking'',
       ''Identify top performers and students who need additional support.''),
      (''Personalized Reports'',
       ''Generate and download custom reports for individual students and classes.'')]"

record IndexView =
  iv_links :: "(string \<times> string) list"
  iv_heroTitleClass :: string
  iv_arrowClass :: string
  iv_features :: "(string \<times> string \<times> rat) list"

text \<open>
  Lines 70-199: the links (header, \<open>Get Started\<close>, \<open>Create Your Account\<close>) as (label,
  target), the hero title's size class \<open>heroTitleSize || 'text-6xl'\<close>, the arrow that moves
  while the button is hovered, and the cards with their animation delay \<open>index * 0.1\<close>.
  \<open>heroParagraphSize\<close> is computed and never used.
\<close>

definition index_view :: "nat \<Rightarrow> bool \<Rightarrow> IndexView" where
  "index_view width isHovered =
     \<lparr>iv_links = [(''Log in'', ''/login''), (''Sign up'', ''/signup''), (''Get Started'', ''/signup''),
                  (''Create Your Account'', ''/signup'')],
      iv_heroTitleClass =
        (case useBreakpointValue heroTitleSize_values width of Some c \<Rightarrow> c | None \<Rightarrow> ''text-6xl'')
        @ '' font-extrabold tracking-tight mb-4 sm:mb-6 text-white bg-clip-text text-transparent bg-gradient-to-r from-white to-blue-200'',
      iv_arrowClass = ''ml-2 h-5 w-5 transition-transform duration-300 ''
        @ (if isHovered then ''transform translate-x-1'' else ''''),
      iv_features = map (\<lambda>(i, t, d). (t, d, of_nat i / 10)) (enumerate 0 index_features)\<rparr>"

subsection \<open>The login and signup pages\<close>

datatype eye_icon = Eye | EyeOff

record AuthPageView =
  apv_formClass :: string
  apv_links :: "(string \<times> string) list"
  apv_title :: string
  apv_passwordInputs :: "(string \<times> eye_icon) list"
  apv_submitLabel :: string

text \<open>
  Login.tsx lines 90-203: the form width \<open>formWidth || 'w-full max-w-md'\<close>, the links back
  home and to the signup page, the password input whose \<open>type\<close> is
  \<open>showPassword ? "password" : "text"\<close> with its toggle icon, and the submit label.
\<close>

definition login_view :: "nat \<Rightarrow> bool \<Rightarrow> bool \<Rightarrow> AuthPageView" where
  "login_view width showPassword isLoading =
     \<lparr>apv_formClass = (case useBreakpointValue form_width_values width of
                         Some c \<Rightarrow> c | None \<Rightarrow> ''w-full max-w-md''),
      apv_links = [(''Back to home'', ''/''), (''Sign up'', ''/signup'')],
      apv_title = ''Login to your account'',
      apv_passwordInputs = [(if showPassword then ''password'' else ''text'',
                             if showPassword then EyeOff else Eye)],
      apv_submitLabel = (if isLoading then ''Logging in...'' else ''Log in'')\<rparr>"

text \<open>
  Signup.tsx lines 205-497: the same frame, two password inputs whose \<open>type\<close> is
  \<open>show ? "text" : "password"\<close>, and the link to the login page.
\<close>

definition signup_view :: "nat \<Rightarrow> bool \<Rightarrow> bool \<Rightarrow> bool \<Rightarrow> AuthPageView" where
  "signup_view width showPassword showConfirmPassword isLoading =
     \<lparr>apv_formClass = (case useBreakpointValue form_width_values width of
                         Some c \<Rightarrow> c | None \<Rightarrow> ''w-full max-w-md''),
      apv_links = [(''Back to home'', ''/''), (''Log in'', ''/login'')],
      apv_title = ''Create your account'',
      apv_passwordInputs = [(if showPassword then ''text'' else ''password'',
                             if showPassword then EyeOff else Eye),
                            (if showConfirmPassword then ''text'' else ''password'',
                             if showConfirmPassword then EyeOff else Eye)],
      apv_submitLabel = (if isLoading then ''Creating account...'' else ''Create account'')\<rparr>"

text \<open>
  Login.tsx lines 66-70 and Signup.tsx lines 188-191: the redirect each outcome schedules
  with \<open>setTimeout(() => navigate(...), 1500)\<close>.
\<close>

definition login_redirect :: "login_outcome \<Rightarrow> string list" where
  "login_redirect r = (case r of LoggedIn _ \<Rightarrow> [''/dashboard''] | _ \<Rightarrow> [])"

definition signup_redirect :: "signup_outcome \<Rightarrow> string list" where
  "signup_redirect r = (if r = AccountCreated then [''/login''] else [])"

subsection \<open>The not-found page\<close>

text \<open>NotFound.tsx lines 17-57: the heading, the message and the link home.\<close>

definition notfound_view :: "string \<times> string \<times> (string \<times> string) list" where
  "notfound_view = (''404'', ''Page not found'', [(''Return to Home'', ''/'')])"

subsection \<open>The tab as a state machine\<close>

text \<open>
  The state of the tab: the location and window width, the navigator's \<open>isOpen\<close> and the
  \<open>currentPath\<close> it read when it last rendered, the state of the mounted page (the landing
  page's \<open>isHovered\<close>, the visibility flags of the login and signup pages, the profile
  button's \<open>showProfile\<close>, the dashboard), the pending redirect timers, the paths the
  not-found page has logged, and the accounts part (\<open>Auth\<close>): \<open>localStorage\<close>, the signup page
  snapshots and the profile dialog's \<open>userData\<close>.
\<close>

record AppState =
  app_path :: string
  app_width :: nat
  nav_isOpen :: bool
  nav_shownPath :: string
  idx_hovered :: bool
  lg_showPassword :: bool
  su_showPassword :: bool
  su_showConfirmPassword :: bool
  app_profileOpen :: bool
  app_dash :: DashboardState
  app_timers :: "string list"
  app_log :: "string list"
  app_auth :: AuthSystem

text \<open>
  Mounting a page: fresh \<open>useState\<close> values, the signup page's mount effect (Signup.tsx lines
  87-95), the dashboard's fresh state with the profile dialog's effect (ProfileDialog.tsx
  lines 33-48, which runs on mount as well), and the not-found page's \<open>console.error\<close>
  (NotFound.tsx lines 11-16).
\<close>

fun mount :: "(string \<Rightarrow> bool) \<Rightarrow> route_page \<Rightarrow> AppState \<Rightarrow> AppState" where
  "mount ve PIndex s = s\<lparr>idx_hovered := False\<rparr>"
| "mount ve PLogin s = s\<lparr>lg_showPassword := False\<rparr>"
| "mount ve PSignup s =
     s\<lparr>su_showPassword := False, su_showConfirmPassword := False,
       app_auth := auth_step ve OpenSignup (app_auth s)\<rparr>"
| "mount ve PDashboard s =
     s\<lparr>app_dash := initial_dashboard, app_profileOpen := False,
       app_auth := auth_step ve OpenProfile ((app_auth s)\<lparr>auth_profile := None\<rparr>)\<rparr>"
| "mount ve PNotFound s = s\<lparr>app_log := app_log s @ [app_path s]\<rparr>"

text \<open>
  \<open>navigate(p)\<close> and \<open>Link to={p}\<close>: the location changes; a different route unmounts the page
  and mounts the new one; on the same route the page stays, and the not-found page's effect
  runs again when its \<open>pathname\<close> changed. Nothing re-renders the navigator: it reads
  \<open>window.location\<close> during its own render only.
\<close>

definition app_navigate :: "(string \<Rightarrow> bool) \<Rightarrow> string \<Rightarrow> AppState \<Rightarrow> AppState" where
  "app_navigate ve p s =
     (if route p \<noteq> route (app_path s) then mount ve (route p) (s\<lparr>app_path := p\<rparr>)
      else if route p = PNotFound \<and> p \<noteq> app_path s
      then s\<lparr>app_path := p, app_log := app_log s @ [p]\<rparr>
      else s\<lparr>app_path := p\<rparr>)"

text \<open>
  Loading a URL (a reload or a typed address): the React state of the tab starts afresh and
  its timers are gone; \<open>localStorage\<close> stays.
\<close>

definition app_load :: "(string \<Rightarrow> bool) \<Rightarrow> string \<Rightarrow> nat \<Rightarrow> AuthSystem \<Rightarrow> AppState" where
  "app_load ve p w a =
     mount ve (route p)
       \<lparr>app_path = p, app_width = w, nav_isOpen = False, nav_shownPath = p, idx_hovered = False,
        lg_showPassword = False, su_showPassword = False, su_showConfirmPassword = False,
        app_profileOpen = False, app_dash = initial_dashboard, app_timers = [], app_log = [],
        app_auth = a\<lparr>auth_profile := None\<rparr>\<rparr>"

text \<open>The \<open><Link>\<close> targets of the mounted page (AppWrapper.tsx line 34, \<open>{children}\<close>).\<close>

definition rendered_links :: "AppState \<Rightarrow> string list" where
  "rendered_links s =
     (case route (app_path s) of
        PIndex \<Rightarrow> map snd (iv_links (index_view (app_width s) (idx_hovered s)))
      | PLogin \<Rightarrow> map snd (apv_links (login_view (app_width s) (lg_showPassword s) False))
      | PSignup \<Rightarrow> map snd (apv_links (signup_view (app_width s) (su_showPassword s)
                                        (su_showConfirmPassword s) False))
      | PDashboard \<Rightarrow> []
      | PNotFound \<Rightarrow> map snd (snd (snd notfound_view)))"

text \<open>PageNavigator.tsx lines 25-29: a \<open>mousedown\<close> outside the dropdown closes it.\<close>

definition handleClickOutside :: "AppState \<Rightarrow> AppState" where
  "handleClickOutside s =
     (if nav_isOpen s then s\<lparr>nav_isOpen := False, nav_shownPath := app_path s\<rparr> else s)"

text \<open>
  The events. A mouse click on the page is \<open>ClickOutside\<close> (the navigator's document
  listener) followed by the handler of what was clicked; a control activated from the
  keyboard is its handler alone. The submit handlers run to their end in one event, so the
  pages' \<open>isLoading\<close> flags are set and cleared within one batched update and are \<open>false\<close>
  whenever the page renders.
\<close>

datatype app_event =
    Resize nat
  | LoadUrl string
  | ToggleNavigator
  | ClickOutside
  | MenuLink string
  | PageLink string
  | HoverGetStarted bool
  | TogglePassword
  | ToggleConfirmPassword
  | SubmitLoginForm LoginFormValues
  | TypeSignupPassword string
  | SubmitSignupForm SignupFormValues
  | ConfirmRobotDialog SignupFormValues
  | OpenProfileDialog
  | CloseProfileDialog
  | LogoutFromProfile
  | DashboardEvent dash_event
  | TimerFires nat

text \<open>
  One event. The navigator's button toggles \<open>isOpen\<close> (lines 19-21) and its menu links close
  it while navigating (line 58), both re-rendering it; the signup events address the mounted
  signup page, the last one mounted; the profile button opens and closes the dialog
  (ProfileButton.tsx lines 10-16), each change re-running the dialog's effect; the dialog's
  logout (ProfileDialog.tsx lines 50-54), shown only with \<open>userData\<close>, navigates at once; a
  timer navigates to its target whatever page is mounted by then.
\<close>

fun app_step ::
  "(string \<Rightarrow> bool) \<Rightarrow> (string \<Rightarrow> string \<Rightarrow> int) \<Rightarrow> app_event \<Rightarrow> AppState \<Rightarrow> AppState" where
  "app_step ve collate (Resize w) s = s\<lparr>app_width := w\<rparr>"
| "app_step ve collate (LoadUrl p) s = app_load ve p (app_width s) (app_auth s)"
| "app_step ve collate ToggleNavigator s =
     s\<lparr>nav_isOpen := \<not> nav_isOpen s, nav_shownPath := app_path s\<rparr>"
| "app_step ve collate ClickOutside s = handleClickOutside s"
| "app_step ve collate (MenuLink p) s =
     (if nav_isOpen s \<and> p \<in> set (map snd nav_pages)
      then (app_navigate ve p s)\<lparr>nav_isOpen := False, nav_shownPath := p\<rparr> else s)"
| "app_step ve collate (PageLink p) s =
     (if p \<in> set (rendered_links s) then app_navigate ve p s else s)"
| "app_step ve collate (HoverGetStarted b) s =
     (if route (app_path s) = PIndex then s\<lparr>idx_hovered := b\<rparr> else s)"
| "app_step ve collate TogglePassword s =
     (case route (app_path s) of
        PLogin \<Rightarrow> s\<lparr>lg_showPassword := \<not> lg_showPassword s\<rparr>
      | PSignup \<Rightarrow> s\<lparr>su_showPassword := \<not> su_showPassword s\<rparr>
      | _ \<Rightarrow> s)"
| "app_step ve collate ToggleConfirmPassword s =
     (if route (app_path s) = PSignup
      then s\<lparr>su_showConfirmPassword := \<not> su_showConfirmPassword s\<rparr> else s)"
| "app_step ve collate (SubmitLoginForm v) s =
     (if route (app_path s) = PLogin
      then s\<lparr>app_auth := auth_step ve (SubmitLogin v) (app_auth s),
             app_timers := app_timers s @ login_redirect (fst (login_submit ve (auth_store (app_auth s)) v))\<rparr>
      else s)"
| "app_step ve collate (TypeSignupPassword pw) s =
     (if route (app_path s) = PSignup \<and> auth_pages (app_auth s) \<noteq> []
      then s\<lparr>app_auth := auth_step ve (PasswordInput (length (auth_pages (app_auth s)) - 1) pw) (app_auth s)\<rparr>
      else s)"
| "app_step ve collate (SubmitSignupForm v) s =
     (if route (app_path s) = PSignup \<and> auth_pages (app_auth s) \<noteq> []
      then s\<lparr>app_auth := auth_step ve (SubmitSignup (length (auth_pages (app_auth s)) - 1) v) (app_auth s),
             app_timers := app_timers s @ signup_redirect
               (fst (signup_submit ve (last (auth_pages (app_auth s))) v (auth_store (app_auth s))))\<rparr>
      else s)"
| "app_step ve collate (ConfirmRobotDialog v) s =
     (if route (app_path s) = PSignup \<and> auth_pages (app_auth s) \<noteq> []
         \<and> showRobotCheck (last (auth_pages (app_auth s)))
      then s\<lparr>app_auth := auth_step ve (ConfirmRobot (length (auth_pages (app_auth s)) - 1) v) (app_auth s),
             app_timers := app_timers s @ signup_redirect
               (fst (robot_confirm ve (last (auth_pages (app_auth s))) v (auth_store (app_auth s))))\<rparr>
      else s)"
| "app_step ve collate OpenProfileDialog s =
     (if route (app_path s) = PDashboard \<and> \<not> app_profileOpen s
      then s\<lparr>app_profileOpen := True, app_auth := auth_step ve OpenProfile (app_auth s)\<rparr> else s)"
| "app_step ve collate CloseProfileDialog s =
     (if route (app_path s) = PDashboard \<and> app_profileOpen s
      then s\<lparr>app_profileOpen := False, app_auth := auth_step ve OpenProfile (app_auth s)\<rparr> else s)"
| "app_step ve collate LogoutFromProfile s =
     (if route (app_path s) = PDashboard \<and> app_profileOpen s \<and> auth_profile (app_auth s) \<noteq> None
      then app_navigate ve ''/login''
             (s\<lparr>app_auth := auth_step ve Logout (app_auth s), app_profileOpen := False\<rparr>)
      else s)"
| "app_step ve collate (DashboardEvent e) s =
     (if route (app_path s) = PDashboard then s\<lparr>app_dash := dash_step collate e (app_dash s)\<rparr> else s)"
| "app_step ve collate (TimerFires i) s =
     (if i < length (app_timers s)
      then app_navigate ve (app_timers s ! i)
             (s\<lparr>app_timers := take i (app_timers s) @ drop (Suc i) (app_timers s)\<rparr>)
      else s)"

definition app_run ::
  "(string \<Rightarrow> bool) \<Rightarrow> (string \<Rightarrow> string \<Rightarrow> int) \<Rightarrow> app_event list \<Rightarrow> AppState \<Rightarrow> AppState" where
  "app_run ve collate es s = foldl (\<lambda>s e. app_step ve collate e s) s es"


text \<open>
  The accounts state as the \<open>Auth\<close> model sees it: storage and the signup page snapshots; the
  profile dialog's \<open>userData\<close> belongs to the mounted dashboard.
\<close>

definition auth_core :: "AuthSystem \<Rightarrow> AuthStore \<times> SignupPage list" where
  "auth_core a = (auth_store a, auth_pages a)"

text \<open>The events a user causes in the tab, as opposed to a reload or a timer.\<close>

fun user_event :: "app_event \<Rightarrow> bool" where
  "user_event (LoadUrl _) = False"
| "user_event (TimerFires _) = False"
| "user_event _ = True"


text \<open>Storage holding Alice's account, and her login form.\<close>

definition alice_store :: AuthSystem where
  "alice_store = initial_auth\<lparr>auth_store := \<lparr>registeredUsers = Some [new_user alice_form],
                                              currentUser = None\<rparr>\<rparr>"

definition alice_login :: LoginFormValues where
  "alice_login = \<lparr>lv_email = ''alice@ksrct.ac.in'', lv_password = ''Secret#1x''\<rparr>"

section \<open>Lemmas\<close>

subsection \<open>Views\<close>

text \<open>The hero's title size always comes from the breakpoint values: the fallback is dead.\<close>

lemma heroTitleSize_total:
  "useBreakpointValue heroTitleSize_values w =
     Some (if w < 640 then ''text-4xl'' else if w < 768 then ''text-6xl''
           else if w < 1024 then ''text-7xl'' else ''text-8xl'')"
  by (simp add: useBreakpointValue_def heroTitleSize_values_def bp_sm_def bp_md_def bp_lg_def
                bp_xl_def bp_2xl_def)

text \<open>An open navigator ticks exactly one entry on a listed route and none elsewhere.\<close>

lemma navigator_ticks:
  "length (filter (\<lambda>(n, p, t). t) (snd (snd (navigator_view c True))))
     = (if c \<in> set (map snd nav_pages) then 1 else 0)"
  by (auto simp: navigator_view_def nav_pages_def)

lemma route_listed: "route p \<noteq> PNotFound \<longleftrightarrow> p \<in> set (map snd nav_pages)"
  by (simp add: route_def nav_pages_def)

subsection \<open>Mounting and navigating\<close>

lemma mount_fields [simp]:
  "app_path (mount ve pg s) = app_path s" "app_width (mount ve pg s) = app_width s"
  "app_timers (mount ve pg s) = app_timers s" "nav_isOpen (mount ve pg s) = nav_isOpen s"
  "nav_shownPath (mount ve pg s) = nav_shownPath s"
  by (cases pg; simp)+

lemma app_navigate_fields [simp]:
  "app_path (app_navigate ve p s) = p" "app_timers (app_navigate ve p s) = app_timers s"
  "nav_isOpen (app_navigate ve p s) = nav_isOpen s"
  "nav_shownPath (app_navigate ve p s) = nav_shownPath s"
  by (simp_all add: app_navigate_def)

lemma auth_step_core:
  assumes "auth_core a = auth_core b"
  shows "auth_core (auth_step ve e a) = auth_core (auth_step ve e b)"
proof -
  have s: "auth_store a = auth_store b" and p: "auth_pages a = auth_pages b"
    using assms by (simp_all add: auth_core_def)
  show ?thesis
  proof (cases e)
    case OpenSignup
    then show ?thesis using s p by (simp add: auth_core_def split: prod.split)
  next
    case (SubmitSignup i v)
    then show ?thesis using s p by (simp add: auth_core_def page_submit_def split: prod.split)
  next
    case (ConfirmRobot i v)
    then show ?thesis using s p by (simp add: auth_core_def page_submit_def split: prod.split)
  qed (insert s p, simp_all add: auth_core_def)
qed

lemma auth_run_core:
  "auth_core a = auth_core b \<Longrightarrow> auth_core (auth_run ve es a) = auth_core (auth_run ve es b)"
proof (induction es arbitrary: a b)
  case (Cons e es)
  have "auth_core (auth_step ve e a) = auth_core (auth_step ve e b)"
    by (rule auth_step_core [OF Cons.prems])
  from Cons.IH [OF this] show ?case by (simp add: auth_run_def)
qed (simp add: auth_run_def)

lemma auth_core_profile [simp]: "auth_core (a\<lparr>auth_profile := x\<rparr>) = auth_core a"
  by (simp add: auth_core_def)

lemma auth_core_OpenProfile [simp]: "auth_core (auth_step ve OpenProfile a) = auth_core a"
  by (simp add: auth_core_def)

lemma auth_run_simps [simp]:
  "auth_run ve [] a = a" "auth_run ve (e # es) a = auth_run ve es (auth_step ve e a)"
  by (simp_all add: auth_run_def)

lemma auth_run_profile [simp]:
  "auth_core (auth_run ve es (a\<lparr>auth_profile := x\<rparr>)) = auth_core (auth_run ve es a)"
  by (rule auth_run_core) simp






lemma ex_run_cons:
  "auth_core b = auth_core (auth_run ve es (auth_step ve e a))
   \<Longrightarrow> \<exists>es. auth_core b = auth_core (auth_run ve es a)"
  by (rule exI [of _ "e # es"]) simp


lemma mount_dash [simp]:
  "app_dash (mount ve pg s) = (if pg = PDashboard then initial_dashboard else app_dash s)"
  by (cases pg) simp_all




lemma app_run_simps [simp]:
  "app_run ve collate [] s = s"
  "app_run ve collate (e # es) s = app_run ve collate es (app_step ve collate e s)"
  by (simp_all add: app_run_def)

subsection \<open>Timers and the navigator\<close>

text \<open>Nothing a user does cancels a pending redirect: only a reload or the timer itself does.\<close>

lemma app_step_timers:
  "user_event e \<Longrightarrow> \<exists>ts. app_timers (app_step ve collate e s) = app_timers s @ ts"
  by (cases e) (simp_all del: auth_step.simps add: handleClickOutside_def split: route_page.split)

lemma app_run_timers:
  "list_all user_event es \<Longrightarrow> \<exists>ts. app_timers (app_run ve collate es s) = app_timers s @ ts"
proof (induction es arbitrary: s)
  case (Cons e es)
  have "user_event e" using Cons.prems by simp
  then obtain ts where "app_timers (app_step ve collate e s) = app_timers s @ ts"
    using app_step_timers by blast
  moreover obtain ts' where "app_timers (app_run ve collate es (app_step ve collate e s))
                               = app_timers (app_step ve collate e s) @ ts'"
    using Cons by auto
  ultimately show ?case by auto
qed simp

text \<open>
  The navigator's label follows the menu's own links, but not the page's links or the
  redirects: only a change of \<open>isOpen\<close> re-renders it.
\<close>

lemma menu_link_label:
  "nav_isOpen s \<Longrightarrow> p \<in> set (map snd nav_pages)
   \<Longrightarrow> app_path (app_step ve collate (MenuLink p) s) = p
       \<and> nav_shownPath (app_step ve collate (MenuLink p) s) = p"
  by simp

lemma page_link_label:
  "nav_shownPath (app_step ve collate (PageLink p) s) = nav_shownPath s"
  by simp

lemma timer_label:
  "nav_shownPath (app_step ve collate (TimerFires i) s) = nav_shownPath s"
  by simp


text \<open>
  The not-found page logs every unknown path the tab visits, also when it stays mounted
  from one unknown path to the next (its effect depends on \<open>location.pathname\<close>).
\<close>

lemma notfound_logs_path:
  assumes "route p = PNotFound" "p \<noteq> app_path s"
  shows "app_log (app_navigate ve p s) = app_log s @ [p]"
  using assms by (cases "route (app_path s)") (simp_all add: app_navigate_def)

text \<open>The landing page forgets its hover flag when it is left and mounted again.\<close>

lemma index_remount_unhovered:
  assumes "route (app_path s) \<noteq> PIndex"
  shows "iv_arrowClass (index_view w (idx_hovered (app_navigate ve ''/'' s)))
           = ''ml-2 h-5 w-5 transition-transform duration-300 ''"
  using assms by (simp add: app_navigate_def route_def index_view_def)

section \<open>Properties\<close>



text \<open>
  C3: a successful login schedules the redirect to the dashboard, and nothing the user does
  afterwards short of a reload cancels it: after any sequence of clicks, typing, visits to
  other pages or even a logout, the timer still fires and moves the tab to the dashboard.
\<close>

theorem login_redirect_survives:
  assumes "route (app_path s) = PLogin"
    and "fst (login_submit ve (auth_store (app_auth s)) v) = LoggedIn n"
    and "list_all user_event es"
  shows "app_path (app_step ve collate (TimerFires (length (app_timers s)))
                     (app_run ve collate (SubmitLoginForm v # es) s)) = ''/dashboard''"
proof -
  let ?s1 = "app_step ve collate (SubmitLoginForm v) s"
  have t1: "app_timers ?s1 = app_timers s @ [''/dashboard'']"
    using assms(1,2) by (simp del: auth_step.simps add: login_redirect_def)
  obtain ts where "app_timers (app_run ve collate es ?s1) = app_timers ?s1 @ ts"
    using app_run_timers [OF assms(3)] by blast
  then have "app_timers (app_run ve collate es ?s1) = app_timers s @ ''/dashboard'' # ts"
    using t1 by simp
  then show ?thesis by (simp del: app_step.simps add: nth_append) (simp add: nth_append)
qed

theorem login_redirect_survives_witness:
  "app_path (app_step (\<lambda>_. True) (\<lambda>x y. 0)
      (TimerFires (length (app_timers (app_load (\<lambda>_. True) ''/login'' 1024 alice_store))))
      (app_run (\<lambda>_. True) (\<lambda>x y. 0) [SubmitLoginForm alice_login, PageLink ''/signup'', ClickOutside]
         (app_load (\<lambda>_. True) ''/login'' 1024 alice_store))) = ''/dashboard''"
proof -
  have r: "route (app_path (app_load (\<lambda>_. True) ''/login'' 1024 alice_store)) = PLogin"
    by (simp add: app_load_def route_def)
  have l: "fst (login_submit (\<lambda>_. True) (auth_store (app_auth (app_load (\<lambda>_. True) ''/login'' 1024 alice_store)))
             alice_login) = LoggedIn ''Alice''"
    by code_simp
  have u: "list_all user_event [PageLink ''/signup'', ClickOutside]" by simp
  show ?thesis by (rule login_redirect_survives [OF r l u])
qed


text \<open>
  C39: the login page shows the password in clear text. Whenever the tab navigates to the
  login page from another page, the password input's type is \<open>text\<close> and its toggle shows the
  \<open>Eye\<close> icon that offers to reveal it, while the signup page's password inputs start as
  \<open>password\<close>: the login page's ternary is the wrong way round.
\<close>

theorem login_password_in_clear:
  assumes "route (app_path s) \<noteq> PLogin"
  shows "apv_passwordInputs (login_view (app_width (app_navigate ve ''/login'' s))
                              (lg_showPassword (app_navigate ve ''/login'' s)) False)
           = [(''text'', Eye)]"
  using assms by (simp add: app_navigate_def route_def login_view_def)

theorem login_password_in_clear_witness:
  "apv_passwordInputs (login_view (app_width (app_navigate (\<lambda>_. True) ''/login''
                                                (app_load (\<lambda>_. True) ''/'' 1024 initial_auth)))
                        (lg_showPassword (app_navigate (\<lambda>_. True) ''/login''
                                                (app_load (\<lambda>_. True) ''/'' 1024 initial_auth))) False)
     = [(''text'', Eye)]"
proof -
  have r: "route (app_path (app_load (\<lambda>_. True) ''/'' 1024 initial_auth)) \<noteq> PLogin"
    by (simp add: app_load_def route_def)
  show ?thesis by (rule login_password_in_clear [OF r])
qed

lemma signup_password_hidden:
  assumes "route (app_path s) \<noteq> PSignup"
  shows "apv_passwordInputs (signup_view (app_width (app_navigate ve ''/signup'' s))
            (su_showPassword (app_navigate ve ''/signup'' s))
            (su_showConfirmPassword (app_navigate ve ''/signup'' s)) False)
           = [(''password'', Eye), (''password'', Eye)]"
  using assms by (simp add: app_navigate_def route_def signup_view_def)

end
