(* ===== verification/Spec2Isabelle.thy ===== *)
theory Spec2Isabelle
  imports Dashboard Downloader Views Auth ExportIO Responsive Navigation
begin

text \<open>
  \<^bold>\<open>A verification library for DATAPULSE, a result analysis tool for grade sheets.\<close>

  \<^bold>\<open>The program.\<close> A user chooses SGPA or CGPA mode and uploads one or more Excel grade
  sheets (\<^verbatim>\<open>components/dashboard/FileUploader.tsx\<close>, parsed by
  \<^verbatim>\<open>utils/excel/fileParser.ts\<close> into \<open>StudentRecord\<close> rows tagged with their file). The
  credit dialog (\<^verbatim>\<open>components/SubjectCreditInput.tsx\<close>) lets the user give each subject code
  a credit, names and a current-semester mark, in an order. \<open>analyzeData\<close>
  (\<^verbatim>\<open>pages/Dashboard.tsx\<close>) copies these onto the rows and calls \<open>analyzeResults\<close>
  (\<^verbatim>\<open>utils/excel/analyzer.ts\<close>). That function resolves the current semester file, computes
  per-student SGPA and CGPA (\<^verbatim>\<open>utils/excel/gradeUtils.ts\<close>), the cohort statistics and the
  classification buckets, and assembles a \<open>ResultAnalysis\<close>. The report generators turn that
  analysis into an Excel workbook, a Word document, a PDF and a CSV file. All paths are under
  \<^verbatim>\<open>src/src/\<close>.

  \<^bold>\<open>Theories and what they model.\<close>
  \<^item> \<open>Prelude\<close>: the JavaScript semantics the code relies on.
    \<^item> A number is \<open>jsnum\<close>, an exact rational or \<open>NaN\<close>.
    \<^item> \<open>to_fixed2\<close> is \<open>Number(x.toFixed(2))\<close>, and \<open>js_toFixed\<close> is the string
      \<open>x.toFixed(f)\<close>.
    \<^item> \<open>nat_str\<close> and \<open>int_str\<close> are \<open>String(n)\<close>; \<open>js_parseInt\<close> is \<open>parseInt\<close>.
    \<^item> \<open>js_unique\<close> is \<open>[...new Set]\<close>; \<open>js_sort\<close> is the stable \<open>Array.prototype.sort\<close>
      with a comparator.
    \<^item> \<open>js_entries\<close> gives the order of \<open>Object.entries\<close>, and \<open>js_in\<close> is the \<open>in\<close>
      operator, which also finds inherited members.
    \<^item> Shared lemmas: rounding bounds, the sum algebra, permutation invariance,
      stability of the sort (equal to \<open>sort_key\<close>), and the round trips
      \<open>parseInt(String(n)) = n\<close> and the value of a \<open>toFixed\<close> numeral.
  \<^item> \<open>GradeScale\<close> (types.ts, gradeUtils.ts): \<open>gradePointMap\<close>, \<open>gradeColors\<close>, the
    \<open>in\<close> test and \<open>getGradeColor\<close>.
  \<^item> \<open>Records\<close> (types.ts, Dashboard.tsx): \<open>StudentRecord\<close>, \<open>SubjectCredit\<close>, the mode,
    the row mapping \<open>apply_credit\<close> of \<open>analyzeData\<close>, and the unused
    \<open>getUniqueDepartmentCodes\<close> of gradeUtils.ts (a lemma gives its result set).
  \<^item> \<open>Aggregator\<close> (gradeUtils.ts): \<open>calculateSGPA\<close>, \<open>calculateCGPA\<close>, \<open>hasArrears\<close>,
    \<open>getSubjectsWithArrears\<close> and \<open>getCurrentSemesterSGPAData\<close>.
    \<^item> C1: \<open>calculateSGPA\<close> refines the reference \<open>spec_gpa\<close>.
    \<^item> C4-C5: \<open>NaN\<close> for prototype-named grades, and bounds.
    \<^item> Lemmas: the zero-credit result is 0; the SGPA does not depend on the row order.
    \<^item> C6: the CGPA over the union of the semester files.
  \<^item> \<open>TermResolver\<close> (analyzer.ts): processed files, file groups, the current semester
    file and the current-term row selection.
    \<^item> C7: the highest parsed label wins (a lemma: negative labels never win).
    \<^item> C10-C11: unsourced rows are dropped; the groups partition the sourced rows.
  \<^item> \<open>Classification\<close> (analyzer.ts lines 379-506): the single-file and multiple-file
    classifications, by counters updated per student.
    \<^item> C12-C13 and C15: bucket counts and the partition of the students.
    \<^item> Lemma: \<open>fail\<close> counts \<open>U\<close> rows, not students.
  \<^item> \<open>CohortStats\<close> (analyzer.ts): the SGPA list, statistics, histogram, subject
    performance, rankings and the CGPA block.
    \<^item> C16: the inline SGPA loop equals \<open>calculateSGPA\<close>.
    \<^item> C17: the rankings are ordered and stable.
    \<^item> C18: the zero policy of the statistics (a lemma covers the all-zero case).
    \<^item> Lemma: the histogram counts.
  \<^item> \<open>Analyzer\<close>: \<open>analyzeResults\<close>, composed in code order, and \<open>analyzeData\<close> with its
    error path.
    \<^item> Lemma: the marked-subject scenario of the spec.
    \<^item> C22: the in-place sort that orders \<open>studentSgpaDetails\<close>.
    \<^item> C25: the per-file selection (a lemma: needs-improvement reads the current file).
    \<^item> Lemma: the single-file case.
  \<^item> \<open>CreditDialog\<close> (SubjectCreditInput.tsx): the React state as a record, every handler
    as one case of \<open>dialog_step\<close>, reachable states as an inductive set, and the
    rendered rows.
    \<^item> C26: the invariant, proved by rule induction: credits stay in 1..10.
    \<^item> C27: the submitted order is exactly the marked subjects.
    \<^item> Lemmas: the round trip of the displayed credit, the order badges, the card with its
      submit button (disabled only while processing or with no subject left), and a
      concrete session.
  \<^item> \<open>ExcelReport\<close> (excelReportGenerator.ts): \<open>generateExcelData\<close> as the list of its
    sheets.
    \<^item> C32: the two-decimal strings read back as \<open>to_fixed2\<close>.
    \<^item> C33: the subject order.
    \<^item> C35: the pass percentage of a missing subject is \<open>NaN\<close> (a lemma bounds that of
      present subjects).
    \<^item> Lemma: the Classification sheet is a literal that ignores the analysis.
  \<^item> \<open>WordReport\<close> (wordReportGenerator.ts): \<open>createWordDocument\<close> as its sequence of
    paragraphs and tables of cell texts.
    \<^item> C38: each student status names the Classification Engine's bucket.
  \<^item> \<open>Uploader\<close> (FileUploader.tsx, fileParser.ts): the selected files as a state machine
    under the dashboard mode, \<open>handleUpload\<close> with its refusals as a sum type, and the
    row mapping of the parser, and the card it renders (\<open>getUploadDescription\<close>, the
    \<open>multiple\<close> attribute, the file list with sizes, the upload button).
    \<^item> C40: the file limits and names hold in every reachable state.
    \<^item> Lemma: in SGPA mode the card never offers several files.
  \<^item> \<open>Views\<close> (components/dashboard/StudentSGPATable.tsx, StudentPerformance.tsx,
    AnalysisOverview.tsx, SubjectAnalysis.tsx): the data the result views pick from the
    analysis and the texts they render, with rendering errors as values.
    \<^item> C8: in CGPA mode with one file, the needs-improvement card throws.
    \<^item> Lemma: the results page's rank table is always the SGPA table (its CGPA branch is
      dead).
    \<^item> A lemma shows that the CGPA needs-improvement card lists the best CGPAs below 6.5.
  \<^item> \<open>ExportIO\<close> (pdfReportGenerator.ts \<open>captureElementAsPdf\<close>, excelReportGenerator.ts lines
    231-242): the page-slicing \<open>while\<close> loop as a \<open>partial_function (option)\<close> on a number
    that may be \<open>Infinity\<close>, and the copy of the workbook's binary string into a byte array
    on 16- and 8-bit words.
    \<^item> C14: for a canvas of positive width the loop ends, with one page per started 295 mm.
    \<^item> C23: for a zero-width canvas of positive height it never ends.
    \<^item> C21: the byte copy of a binary string is exact (code units wrap to their low byte).
  \<^item> \<open>Dashboard\<close> (pages/Dashboard.tsx, components/dashboard/ResultsDisplay.tsx): the page as
    a step function over its React state, composing the mode cards, the uploader's
    \<open>handleUpload\<close>, the credit dialog (whose state is a field of the page, re-mounted with the
    upload tab), \<open>handleCreditAssigned\<close> with \<open>analyzeData\<close>, and the tab triggers.
    \<^item> C24: the analysis on display is always the analysis of the rows and credits held.
    \<^item> C20: every row it was computed from has a credit in 1..10.
    \<^item> C37: from every reachable state the results can be reached again.
    \<^item> Lemma: the page's own hard-coded profile dialog never opens.
  \<^item> \<open>Downloader\<close> (components/dashboard/ReportDownloader.tsx): the download button as a
    step function over its React state, the department dialog, the simulated progress timer
    and the two scheduled callbacks; a successful generation saves the \<open>WordReport\<close> or
    \<open>PdfReport\<close> document.
    \<^item> C19: once the generator rejects, the button never recovers.
    \<^item> C28: otherwise at most two events bring it back to idle.
    \<^item> C34: the progress bar stays in \<open>[0, 100]\<close>, below 100 while simulated.
  \<^item> \<open>Auth\<close> (pages/Signup.tsx, pages/Login.tsx, components/ui/ProfileDialog.tsx): the
    accounts in \<open>localStorage\<close>, the signup page with its schema, snapshot and uniqueness
    checks, the login and the profile dialog, composed as one step function over several
    signup tabs with an inductive reachable set.
    \<^item> C9: stored emails, staff ids and phone numbers stay pairwise distinct.
    \<^item> C29: every stored account satisfies the signup schema.
    \<^item> C31: a signup erases the accounts created since its page mounted.
    \<^item> C36: after a login the profile shows the account that logged in.
    \<^item> Lemma: the robot-verification dialog never opens.
  \<^item> \<open>Navigation\<close> (components/AppWrapper.tsx, components/ui/PageNavigator.tsx,
    pages/Index.tsx, pages/NotFound.tsx, and the navigation of Login.tsx, Signup.tsx,
    ProfileButton.tsx and ProfileDialog.tsx): the whole tab as one step function
    \<open>app_step\<close> over its state \<open>AppState\<close>: the location, the navigator (\<open>isOpen\<close> and the path
    it last rendered), the React state of the mounted page, the pending \<open>setTimeout\<close>
    redirects, the accounts part of \<open>Auth\<close> and the dashboard of \<open>Dashboard\<close>. A change of
    route mounts the new page afresh (\<open>mount\<close>); a reload (\<open>app_load\<close>) keeps only
    \<open>localStorage\<close>. Each page renders to a view record (\<open>index_view\<close>, \<open>login_view\<close>,
    \<open>signup_view\<close>, \<open>notfound_view\<close>, \<open>navigator_view\<close>) whose links are the page's
    link events.
    \<^item> C2: every reachable tab state projects onto reachable states of \<open>Auth\<close> and
      \<open>Dashboard\<close> (a simulation), so their invariants hold in the application.
    \<^item> C3: a login's redirect survives every later user action and lands on the dashboard.
    \<^item> C30: two navigator clicks mount the dashboard from any state, without a login.
    \<^item> C39: the login page shows the password in clear text when it mounts.
    \<^item> Lemmas: the navigator's label follows its own links but not page links or
      redirects; the hero's size class never uses its fallback.
  \<^item> \<open>Responsive\<close> (hooks/use-mobile.tsx): the viewport hooks as functions of the width;
    a lemma shows that \<open>useBreakpointValue\<close>'s cascade implements its specification.
  \<^item> \<open>PdfReport\<close> (pdfReportGenerator.ts, csvReportGenerator.ts): \<open>downloadPdfReport\<close> as
    the sequence of texts, rules, pages and tables it draws, with its own grade point map
    and its own current-semester SGPA ranking, and the CSV text. Lemmas: the PDF's grade
    map, status and highest grade coincide with those of the other reports; its subject
    rows and rank lists are computed from different rows (see the findings).

  \<^bold>\<open>Interfaces.\<close>
  \<^item> The dialog's submitted pair (credits, order) is the input of \<open>analyzeData\<close>, and
    the uploader's \<open>js_unique (map SCODE records)\<close> is the dialog's upload event: both
    compositions are the events of \<open>dash_step\<close> in \<open>Dashboard\<close>, whose invariant carries the
    dialog's invariant (\<open>dialog_inv\<close>) into C20.
  \<^item> The download button passes the analysis, the rows and a \<open>WordOptions\<close> record to the
    Word and PDF generators (\<open>generation_done\<close> in \<open>Downloader\<close>).
  \<^item> The account pages share one store; the signup tabs and the login are events of one
    step function (\<open>auth_step\<close>).
  \<^item> The tab (\<open>Navigation\<close>) hosts the pages: its events call \<open>auth_step\<close> for the
    signup, login, profile and logout handlers and \<open>dash_step\<close> for the dashboard's own
    events; \<open>auth_core\<close> is the abstraction function of the simulation C2.
  \<^item> The reports read the \<open>ResultAnalysis\<close> record of \<open>Analyzer\<close> and the rows.
  \<^item> C38 and C32 relate a report to the analysis it prints.

  \<^bold>\<open>Bounds and termination.\<close> Every loop of the analysis and of the report generators
  is a fold over a finite array, modelled by structural recursion, \<open>foldl\<close> or \<open>map\<close>,
  so those definitions are total and executable and need no fuel. The one \<open>while\<close> loop,
  in \<open>captureElementAsPdf\<close>, is a \<open>partial_function (option)\<close>: C14 proves that it returns
  (by induction on the number of 295 mm slices left) and C23 that it does not for an
  infinite image height. The pages (signup, login, dashboard, dialog, uploader, download
  button) are unbounded event sequences, modelled as step functions with inductive
  reachable sets; their invariants are proved by rule induction, and the liveness claims
  C28, C30 and C37 exhibit the finite event sequences that reach the goal. The redirect
  timers of the tab are a list of pending targets that fire in any order, an
  over-approximation of their 1.5 s delays that C3 does not need to refine.

  \<^bold>\<open>Not modelled.\<close>
  \<^item> Chart geometry, colours and animation; the credits dialog (\<open>CreditsDialog.tsx\<close>), a
    static list of names that no page imports.
  \<^item> The route table \<open>App.tsx\<close>, which is not in the repository: the routes are taken to be
    the four paths the page navigator lists, any other path rendering the not-found page.
  \<^item> The modality of the profile dialog (the page behind it still takes events in the
    model) and the animation of the landing page.
  \<^item> html2canvas and the DOM lookup of \<open>captureElementAsPdf\<close>: the canvas size of an element
    is a parameter.
  \<^item> The XLSX decoding, a library call whose output is an input of the model.
  \<^item> Document layout: fonts, borders, widths and spans.
  \<^item> Toasts, logging and downloads, which are I/O.
  \<^item> Binary floating point, abstracted to exact rationals. Roundings that differ only
    because a decimal is not representable (2.675 stored as 2.67499...) are not
    reproduced. \<open>toFixed\<close> of magnitudes of \<open>10^21\<close> and more, which JavaScript prints in
    exponent notation, is never applied by the program, since every \<open>toFixed\<close> argument
    is a grade point average or a percentage.
\<close>

end
